(* ===== verification/Prelude.thy ===== *)
theory Prelude
  imports Main "HOL-Library.Sublist"
begin

text \<open>
  Shared vocabulary of the development: machine integers of the Go source, the errors
  that its functions return, and the generic lemmas on lists and maps that the
  component theories use.  Nothing in this theory is specific to one component.
\<close>

named_theorems go_str \<open>equations of the Go string and number library\<close>
named_theorems pm_op \<open>definitions of the process manager's critical sections\<close>
named_theorems pm_frame \<open>what the critical sections leave unchanged\<close>

section \<open>Machine integers\<close>

text \<open>Go's conversions to \<open>int32\<close> and \<open>int64\<close> keep the low bits, read as two's complement.\<close>

definition to_int32 :: "int \<Rightarrow> int" where
  "to_int32 x = (x + 2 ^ 31) mod 2 ^ 32 - 2 ^ 31"

definition to_int64 :: "int \<Rightarrow> int" where
  "to_int64 x = (x + 2 ^ 63) mod 2 ^ 64 - 2 ^ 63"

lemma to_int32_id [simp]: "- (2 ^ 31) \<le> x \<Longrightarrow> x < 2 ^ 31 \<Longrightarrow> to_int32 x = x"
  by (simp add: to_int32_def)

lemma to_int64_id [simp]: "- (2 ^ 63) \<le> x \<Longrightarrow> x < 2 ^ 63 \<Longrightarrow> to_int64 x = x"
  by (simp add: to_int64_def)

lemma to_int64_bounds: "- (2 ^ 63) \<le> to_int64 x \<and> to_int64 x < 2 ^ 63"
  by (simp add: to_int64_def)

lemma to_int32_bounds: "- (2 ^ 31) \<le> to_int32 x \<and> to_int32 x < 2 ^ 31"
  by (simp add: to_int32_def)

lemma to_int32_idem [simp]: "to_int32 (to_int32 x) = to_int32 x"
  using to_int32_bounds [of x] by simp

section \<open>Errors\<close>

text \<open>
  The status codes of gRPC that the source returns, and the errors: a status with its
  message, a plain error (\<open>fmt.Errorf\<close>, \<open>errors.New\<close>), an error wrapped by
  \<open>github.com/pkg/errors\<close>, and \<open>NonTermination\<close>, the value of a model function at an
  argument where the Go loop would not end.
\<close>

datatype code = OK | Canceled | Unknown | InvalidArgument | NotFound | AlreadyExists
  | Unimplemented | Internal

datatype error = Status code string | Err string | Wrap string error | NonTermination

type_synonym 'a result = "error + 'a"

fun code_string :: "code \<Rightarrow> string" where
  "code_string OK = ''OK''"
| "code_string Canceled = ''Canceled''"
| "code_string Unknown = ''Unknown''"
| "code_string InvalidArgument = ''InvalidArgument''"
| "code_string NotFound = ''NotFound''"
| "code_string AlreadyExists = ''AlreadyExists''"
| "code_string Unimplemented = ''Unimplemented''"
| "code_string Internal = ''Internal''"

text \<open>The text of an error (Go's \<open>err.Error()\<close>).\<close>

fun error_string :: "error \<Rightarrow> string" where
  "error_string (Status c m) = ''rpc error: code = '' @ code_string c @ '' desc = '' @ m"
| "error_string (Err m) = m"
| "error_string (Wrap m e) = m @ '': '' @ error_string e"
| "error_string NonTermination = ''''"

text \<open>
  \<open>status.Code\<close>: the code of the status an error carries, through the wrappers; an error
  without one is \<open>Unknown\<close>.
\<close>

fun status_code :: "error \<Rightarrow> code" where
  "status_code (Status c m) = c"
| "status_code (Wrap m e) = status_code e"
| "status_code (Err m) = Unknown"
| "status_code NonTermination = Unknown"

text \<open>\<open>errors.Wrap(err, msg)\<close> on an error value that may be nil: wrapping nil gives nil.\<close>

definition wrap_err :: "string \<Rightarrow> error option \<Rightarrow> error option" where
  "wrap_err m e = map_option (Wrap m) e"

definition wrap_result :: "string \<Rightarrow> 'a result \<Rightarrow> 'a result" where
  "wrap_result m r = map_sum (Wrap m) id r"

lemma wrap_result_simps [simp]:
  "wrap_result m (Inl e) = Inl (Wrap m e)"
  "wrap_result m (Inr x) = Inr x"
  by (simp_all add: wrap_result_def)

lemma wrap_err_None_iff [simp]: "wrap_err m e = None \<longleftrightarrow> e = None"
  by (simp add: wrap_err_def)

section \<open>Lists and maps\<close>

lemma ran_delete:
  assumes "m n = Some a" and uniq: "\<And>k. m k = Some a \<Longrightarrow> k = n"
  shows "ran (m(n := None)) = ran m - {a}"
proof (intro set_eqI iffI)
  fix x assume "x \<in> ran (m(n := None))"
  then obtain k where "k \<noteq> n" "m k = Some x" by (auto simp: ran_def split: if_splits)
  with uniq show "x \<in> ran m - {a}" by (auto intro: ranI)
next
  fix x assume "x \<in> ran m - {a}"
  then obtain k where "m k = Some x" "x \<noteq> a" by (auto simp: ran_def)
  moreover from this assms(1) have "k \<noteq> n" by auto
  ultimately show "x \<in> ran (m(n := None))" by (auto simp: ran_def)
qed

lemma ran_update: "ran (m(n \<mapsto> a)) = insert a (ran (m(n := None)))"
  by (auto simp: ran_def)

lemma concat_map_middle:
  "concat (map f (xs @ ys @ zs)) = concat (map f xs) @ concat (map f ys) @ concat (map f zs)"
  by simp

lemma inter_atLeastAtMost_empty:
  "(a :: int) \<le> b \<Longrightarrow> c \<le> d \<Longrightarrow> {a..b} \<inter> {c..d} = {} \<Longrightarrow> b < c \<or> d < a"
proof (rule ccontr)
  assume le: "a \<le> b" "c \<le> d" and disj: "{a..b} \<inter> {c..d} = {}" and neg: "\<not> (b < c \<or> d < a)"
  then have "max a c \<in> {a..b} \<inter> {c..d}" by auto
  with disj show False by blast
qed

end
