(* ===== verification/Port_Allocator.thy ===== *)
theory Port_Allocator
  imports Prelude
begin

text \<open>
  The contract between the process manager and the allocator of port ranges, and the
  ledger that a client of the allocator keeps: which owner holds which ports.  The lemmas
  of the ledger are the only facts about ports that the process manager's proofs use.
\<close>

locale port_allocator =
  fixes allocate :: "'b \<Rightarrow> int \<Rightarrow> (int \<times> int) result \<times> 'b"
    and release :: "'b \<Rightarrow> int \<Rightarrow> int \<Rightarrow> error option \<times> 'b"
    and free :: "'b \<Rightarrow> int set"
    and managed :: "'b \<Rightarrow> int set"
    and invar :: "'b \<Rightarrow> bool"
  assumes managed_range: "invar b \<Longrightarrow> managed b \<subseteq> {0..<2 ^ 31}"
    and free_managed: "invar b \<Longrightarrow> free b \<subseteq> managed b"
    and allocate_ok: "invar b \<Longrightarrow> allocate b n = (Inr (s, e), b') \<Longrightarrow>
      0 < n \<and> e = s + n - 1 \<and> {s..e} \<subseteq> free b \<and> free b' = free b - {s..e} \<and>
      managed b' = managed b \<and> invar b'"
    and allocate_err: "invar b \<Longrightarrow> allocate b n = (Inl x, b') \<Longrightarrow> b' = b"
    and release_effect: "invar b \<Longrightarrow> release b s e = (r, b') \<Longrightarrow> 0 \<le> s \<Longrightarrow> e < 2 ^ 31 \<Longrightarrow>
      invar b' \<and> managed b' = managed b \<and> free b \<subseteq> free b' \<and> free b' \<subseteq> free b \<union> {s..e}"
    and release_ok: "invar b \<Longrightarrow> s \<le> e \<Longrightarrow> {s..e} \<subseteq> managed b \<Longrightarrow> (s, e) \<noteq> (0, 0) \<Longrightarrow>
      \<exists>b'. release b s e = (None, b') \<and> free b' = free b \<union> {s..e}"
    and release_none: "invar b \<Longrightarrow> release b 0 0 = (None, b)"
begin

text \<open>
  A ledger assigns to every owner the set of ports it holds: managed ports that are not
  free, and no port twice.
\<close>

definition ledger :: "'b \<Rightarrow> ('o \<Rightarrow> int set) \<Rightarrow> bool" where
  "ledger b own \<longleftrightarrow> invar b \<and> (\<forall>p. own p \<subseteq> managed b \<and> own p \<inter> free b = {}) \<and>
     (\<forall>p q. p \<noteq> q \<longrightarrow> own p \<inter> own q = {})"

lemma ledger_invar: "ledger b own \<Longrightarrow> invar b"
  by (simp add: ledger_def)

lemma ledger_disjoint: "ledger b own \<Longrightarrow> p \<noteq> q \<Longrightarrow> own p \<inter> own q = {}"
  by (simp add: ledger_def)

lemma ledger_held: "ledger b own \<Longrightarrow> own p \<subseteq> managed b \<and> own p \<inter> free b = {}"
  by (simp add: ledger_def)

lemma ledger_empty: "invar b \<Longrightarrow> ledger b (\<lambda>p. {})"
  by (simp add: ledger_def)

lemma ledger_drop: "ledger b own \<Longrightarrow> ledger b (own(p := {}))"
  by (simp add: ledger_def)

lemma ledger_move: "ledger b own \<Longrightarrow> own q = {} \<Longrightarrow> ledger b (own(p := {}, q := own p))"
  by (auto simp: ledger_def)

lemma ledger_allocate:
  assumes "ledger b own" and "allocate b n = (Inr (s, e), b')" and "own p = {}"
  shows "ledger b' (own(p := {s..e}))"
proof -
  have inv: "invar b" using assms(1) by (rule ledger_invar)
  note alloc = allocate_ok [OF inv assms(2)]
  have sub: "{s..e} \<subseteq> managed b" using alloc free_managed [OF inv] by blast
  have apart: "own q \<inter> {s..e} = {}" for q using alloc ledger_held [OF assms(1), of q] by blast
  show ?thesis
    unfolding ledger_def using alloc sub apart assms(1)
    by (auto simp: ledger_def)
qed

lemma ledger_allocate_err:
  "ledger b own \<Longrightarrow> allocate b n = (Inl x, b') \<Longrightarrow> ledger b' own"
  using allocate_err ledger_invar by metis

text \<open>
  Giving a range back keeps the ledger when the owner's ports are exactly the range; a
  client without ports gives back the range \<open>0-0\<close>, which changes nothing.
\<close>

lemma ledger_release:
  assumes "ledger b own" and "release b s e = (r, b')" and "0 \<le> s" "e < 2 ^ 31"
    and "own p = {s..e}"
  shows "ledger b' (own(p := {}))"
proof -
  have inv: "invar b" using assms(1) by (rule ledger_invar)
  note rel = release_effect [OF inv assms(2,3,4)]
  have "own q \<inter> {s..e} = {}" if "q \<noteq> p" for q
    using ledger_disjoint [OF assms(1) that] assms(5) by simp
  with rel ledger_held [OF assms(1)] have "own q \<inter> free b' = {}" if "q \<noteq> p" for q
    using that by blast
  with rel assms(1) show ?thesis by (auto simp: ledger_def)
qed

lemma ledger_release_none: "ledger b own \<Longrightarrow> release b 0 0 = (r, b') \<Longrightarrow> r = None \<and> b' = b"
  using release_none [OF ledger_invar] by fastforce

lemma ledger_release_free:
  assumes "ledger b own" "own p = {s..e}" "s \<le> e" "(s, e) \<noteq> (0, 0)" "release b s e = (r, b')"
  shows "r = None \<and> free b' = free b \<union> own p"
  using release_ok [OF ledger_invar [OF assms(1)] assms(3)] ledger_held [OF assms(1), of p] assms
  by auto

end

end
