(* ===== verification/Bitmap.thy ===== *)
theory Bitmap
  imports Port_Allocator
begin

text \<open>
  The port bitmap of \<open>go-common-libs/bitmap\<close>, which the process manager uses to hand out
  port ranges, and the interface the manager relies on.  The roaring bitmap inside it is
  a set of \<open>uint32\<close> values that iterates in ascending order: here a strictly ascending list.
  All members are below the size of the range, so that their conversion to \<open>int32\<close> is exact.
\<close>

section \<open>The bitmap\<close>

record bitmap =
  bmBase :: int
  bmSize :: int
  bmStart :: int
  bmData :: "int list"

definition add_range :: "int \<Rightarrow> int \<Rightarrow> int list \<Rightarrow> int list" where
  "add_range lo hi xs = filter (\<lambda>x. x < lo) xs @ [lo..hi - 1] @ filter (\<lambda>x. max lo hi \<le> x) xs"

definition remove_range :: "int \<Rightarrow> int \<Rightarrow> int list \<Rightarrow> int list" where
  "remove_range lo hi xs = filter (\<lambda>x. x < lo \<or> hi \<le> x) xs"

definition NewBitmap :: "int \<Rightarrow> int \<Rightarrow> bitmap result" where
  "NewBitmap start end =
     (if end < start then Inl (Err ''Invalid range, end cannot be less than start'')
      else let sz = to_int32 (end - start + 1)
           in Inr \<lparr>bmBase = start, bmSize = sz, bmStart = 0,
                   bmData = (if sz > 0 then add_range 0 sz [] else [])\<rparr>)"

text \<open>
  The inner loop of \<open>findAt\<close>: it reads the iterator while more positions are wanted, and
  gives up at the first gap, whose right neighbour it has then consumed.  It returns what
  is still wanted, where the run starts, and the rest of the iterator.
\<close>

fun findRun :: "int \<Rightarrow> int \<Rightarrow> int \<Rightarrow> int list \<Rightarrow> int \<times> int \<times> int list" where
  "findRun prev remains bStart [] = (remains, bStart, [])"
| "findRun prev remains bStart (x # xs) =
     (if remains \<le> 0 then (remains, bStart, x # xs)
      else if prev < 0 then findRun x (remains - 1) x xs
      else if to_int32 (x - prev) > 1 then (remains, bStart, xs)
      else findRun x (remains - 1) bStart xs)"

lemma findRun_length: "findRun prev r b it = (r', b', it') \<Longrightarrow> length it' \<le> length it"
  by (induction prev r b it rule: findRun.induct) (auto split: if_splits)

lemma findRun_progress:
  "findRun (- 1) r b it = (r', b', it') \<Longrightarrow> r' \<noteq> 0 \<Longrightarrow> it' \<noteq> [] \<Longrightarrow> 0 \<le> r \<Longrightarrow> length it' < length it"
  by (cases it) (auto split: if_splits dest: findRun_length)

text \<open>
  The outer loop of \<open>findAt\<close>.  For a negative count and a non-empty iterator the Go loop
  would not end; \<open>AllocateRange\<close> never calls it so.
\<close>

function findAt_loop :: "int \<Rightarrow> int \<Rightarrow> int \<Rightarrow> int list \<Rightarrow> (int \<times> int) result" where
  "findAt_loop sz count bStart it =
     (if bStart \<le> sz then
        (case findRun (- 1) count bStart it of (remains, bStart', it') \<Rightarrow>
           if remains = 0 then Inr (bStart', to_int32 (bStart' + count - 1))
           else if it' = [] then Inl (Err ''cannot find an empty port range'')
           else if count < 0 then Inl NonTermination
           else findAt_loop sz count bStart' it')
      else Inr (bStart, to_int32 (bStart + count - 1)))"
  by pat_completeness auto
termination
  by (relation "measure (\<lambda>(sz, count, bStart, it). length it)") (auto dest: findRun_progress [OF sym])

declare findAt_loop.simps [simp del]

definition findAt :: "bitmap \<Rightarrow> int \<Rightarrow> int \<Rightarrow> (int \<times> int) result" where
  "findAt b count iStart =
     findAt_loop (bmSize b) count iStart (dropWhile (\<lambda>x. x < iStart) (bmData b))"

definition AllocateRange :: "bitmap \<Rightarrow> int \<Rightarrow> (int \<times> int) result \<times> bitmap" where
  "AllocateRange b count =
     (if count \<le> 0 then (Inl (Err ''invalid request for non-positive counts''), b)
      else case (case findAt b count (bmStart b) of
                   Inl _ \<Rightarrow> findAt b count 0
                 | Inr r \<Rightarrow> Inr r) of
             Inl _ \<Rightarrow> (Inl (Err ''cannot find an empty port range''), b)
           | Inr (rStart, rEnd) \<Rightarrow>
               (Inr (to_int32 (bmBase b + rStart), to_int32 (bmBase b + rEnd)),
                b\<lparr>bmData := remove_range rStart (rEnd + 1) (bmData b),
                  bmStart := to_int32 (rEnd + 1)\<rparr>))"

definition ReleaseRange :: "bitmap \<Rightarrow> int \<Rightarrow> int \<Rightarrow> error option \<times> bitmap" where
  "ReleaseRange b start end =
     (if end < start then (Some (Err ''invalid range''), b)
      else if start = end \<and> end = 0 then (None, b)
      else let bStart = to_int32 (start - bmBase b); bEnd = to_int32 (end - bmBase b)
           in if bStart < 0 \<or> bEnd \<ge> bmSize b then (Some (Err ''exceed range''), b)
              else (None, b\<lparr>bmData := add_range bStart (bEnd + 1) (bmData b)\<rparr>))"

text \<open>The ports the bitmap manages, those it has free, and its well-formedness.\<close>

definition bm_ports :: "bitmap \<Rightarrow> int set" where
  "bm_ports b = {bmBase b..<bmBase b + bmSize b}"

definition bm_free :: "bitmap \<Rightarrow> int set" where
  "bm_free b = (\<lambda>i. bmBase b + i) ` set (bmData b)"

definition wf_bitmap :: "bitmap \<Rightarrow> bool" where
  "wf_bitmap b \<longleftrightarrow> 0 \<le> bmBase b \<and> 0 < bmSize b \<and> bmSize b < 2 ^ 31 \<and> bmBase b + bmSize b \<le> 2 ^ 31 \<and>
     sorted_wrt (<) (bmData b) \<and> set (bmData b) \<subseteq> {0..<bmSize b} \<and>
     0 \<le> bmStart b \<and> bmStart b \<le> bmSize b"

section \<open>What a search finds\<close>

lemma add_range_set: "lo \<le> hi \<Longrightarrow> set (add_range lo hi xs) = set xs \<union> {lo..<hi}"
  by (auto simp: add_range_def)

lemma remove_range_set: "set (remove_range lo hi xs) = set xs - {lo..<hi}"
  by (auto simp: remove_range_def)

lemma add_range_sorted: "sorted_wrt (<) xs \<Longrightarrow> sorted_wrt (<) (add_range lo hi xs)"
  by (auto simp: add_range_def sorted_wrt_append sorted_wrt_filter)

lemma remove_range_sorted: "sorted_wrt (<) xs \<Longrightarrow> sorted_wrt (<) (remove_range lo hi xs)"
  by (simp add: remove_range_def sorted_wrt_filter)

text \<open>
  Behind a first member \<open>prev\<close>, the inner loop reads a block of consecutive members; it
  stops when it has enough, at the end of the iterator, or behind a gap.
\<close>

lemma findRun_shape:
  assumes "findRun prev r b it = (r', b', it')" and "0 \<le> prev" and "0 \<le> r"
    and "sorted_wrt (<) (prev # it)" and "set it \<subseteq> {0..<2 ^ 31}"
  shows "b' = b \<and> 0 \<le> r' \<and>
    (it = [prev + 1..prev + (r - r')] @ it' \<and> (r' = 0 \<or> it' = []) \<or>
     (\<exists>y. it = [prev + 1..prev + (r - r')] @ y # it' \<and> 0 < r' \<and> prev + (r - r') + 1 < y)) \<and> r' \<le> r"
  using assms
proof (induction prev r b it rule: findRun.induct)
  case (1 prev r b)
  then show ?case by simp
next
  case (2 prev r b x xs)
  then have x: "prev < x" "0 \<le> x" "x < 2 ^ 31" by auto
  show ?case
  proof (cases "r \<le> 0")
    case True
    with 2 show ?thesis by auto
  next
    case False
    show ?thesis
    proof (cases "to_int32 (x - prev) > 1")
      case True
      with False 2 x show ?thesis by auto
    next
      case near: False
      with x 2 have xp: "x = prev + 1" by simp
      have up: "[prev + 1..prev + (r - r')] = x # [x + 1..x + (r - 1 - r')]" if "r' \<le> r - 1"
        using that xp upto_rec1 [of "prev + 1" "prev + (r - r')"] by (simp add: algebra_simps)
      have "findRun x (r - 1) b xs = (r', b', it')" using 2 False near by simp
      then have "b' = b \<and> 0 \<le> r' \<and>
        (xs = [x + 1..x + (r - 1 - r')] @ it' \<and> (r' = 0 \<or> it' = []) \<or>
         (\<exists>y. xs = [x + 1..x + (r - 1 - r')] @ y # it' \<and> 0 < r' \<and> x + (r - 1 - r') + 1 < y)) \<and> r' \<le> r - 1"
        using 2 False near x by (intro "2.IH"(2)) auto
      with up xp show ?thesis by auto
    qed
  qed
qed

lemma findAt_loop_step:
  "findRun (- 1) count b it = (r', b', it') \<Longrightarrow> b \<le> sz \<Longrightarrow> 0 < count \<Longrightarrow>
   findAt_loop sz count b it =
     (if r' = 0 then Inr (b', to_int32 (b' + count - 1))
      else if it' = [] then Inl (Err ''cannot find an empty port range'')
      else findAt_loop sz count b' it')"
  by (subst findAt_loop.simps) simp

lemma findAt_loop_sound:
  assumes "findAt_loop sz count b it = Inr (s, e)" and "0 < count" and "b \<le> sz"
    and "sorted_wrt (<) it" and "set it \<subseteq> {0..<sz}" and "sz < 2 ^ 31"
  shows "e = s + count - 1 \<and> {s..e} \<subseteq> set it"
  using assms
proof (induction sz count b it rule: findAt_loop.induct)
  case (1 sz count b it)
  obtain r' b' it' where run: "findRun (- 1) count b it = (r', b', it')" by (metis prod_cases3)
  note unfold = findAt_loop_step [OF run "1.prems"(3,2)]
  with "1.prems"(1,2) run obtain x xs where it: "it = x # xs" by (cases it) auto
  from "1.prems" it have x: "0 \<le> x" "x < sz" "set xs \<subseteq> {0..<2 ^ 31}" by auto
  have step: "findRun x (count - 1) x xs = (r', b', it')" using run it "1.prems" by simp
  note shape = findRun_shape [OF step x(1) _ _ x(3)]
  show ?case
  proof (cases "r' = 0")
    case True
    with shape "1.prems" it have "b' = x" and xs: "xs = [x + 1..x + (count - 1)] @ it'" by auto
    then have block: "{x..x + count - 1} \<subseteq> set it" using it by auto
    then have "x + count - 1 \<in> set it" using "1.prems" by auto
    then have "x + count - 1 < sz" using "1.prems" by auto
    then have "to_int32 (x + count - 1) = x + count - 1" using x "1.prems" by (intro to_int32_id) auto
    with True unfold \<open>b' = x\<close> "1.prems"(1) have "s = x" "e = x + count - 1" by simp_all
    with block show ?thesis by simp
  next
    case False
    from shape it "1.prems"(2,4) False have
      tail: "xs = [x + 1..x + (count - 1 - r')] @ it' \<or> (\<exists>y. xs = [x + 1..x + (count - 1 - r')] @ y # it')"
      and "b' = x" by auto
    from tail have "suffix it' xs" by (auto simp: suffix_def)
    then have sub: "set it' \<subseteq> set it \<and> sorted_wrt (<) it' \<and> b' = x"
      using it "1.prems"(4) \<open>b' = x\<close> by (auto simp: suffix_def sorted_wrt_append)
    have found: "findAt_loop sz count b' it' = Inr (s, e)" "it' \<noteq> []"
      using unfold "1.prems"(1) False by (simp_all split: if_splits)
    have "\<not> count < 0" "b' \<le> sz" "sorted_wrt (<) it'" "set it' \<subseteq> {0..<sz}"
      using sub x "1.prems"(2,5) by auto
    then have "e = s + count - 1 \<and> {s..e} \<subseteq> set it'"
      using found(1) "1.prems"(2,6)
      by (intro "1.IH" [OF "1.prems"(3) run [symmetric] refl False found(2)]) assumption+
    with sub show ?thesis by blast
  qed
qed

text \<open>
  What the search can find.  After a gap it starts at the second member of the next block,
  so a block of exactly \<open>count\<close> members may be passed over; a block of \<open>count + 1\<close> never is.
\<close>

lemma findAt_loop_complete:
  assumes "0 < count" and "b \<le> sz" and "sorted_wrt (<) it" and "set it \<subseteq> {0..<sz}" and "sz < 2 ^ 31"
    and "{t..t + count} \<subseteq> set it \<or> it \<noteq> [] \<and> {hd it..hd it + count - 1} \<subseteq> set it"
  shows "\<exists>s e. findAt_loop sz count b it = Inr (s, e)"
  using assms
proof (induction sz count b it rule: findAt_loop.induct)
  case (1 sz count b it)
  obtain r' b' it' where run: "findRun (- 1) count b it = (r', b', it')" by (metis prod_cases3)
  note unfold = findAt_loop_step [OF run "1.prems"(2,1)]
  from "1.prems" obtain x xs where it: "it = x # xs" by (cases it) auto
  from "1.prems" it have x: "0 \<le> x" "x < sz" "set xs \<subseteq> {0..<2 ^ 31}" by auto
  have step: "findRun x (count - 1) x xs = (r', b', it')" using run it "1.prems" by simp
  note shape = findRun_shape [OF step x(1) _ _ x(3)]
  show ?case
  proof (cases "r' = 0")
    case True
    with unfold show ?thesis by simp
  next
    case False
    let ?k = "x + (count - 1 - r')"
    have r': "0 < r'" "r' \<le> count - 1" "b' = x" using shape False "1.prems" it by auto
    have tail: "xs = [x + 1..?k] \<or> (\<exists>y. xs = [x + 1..?k] @ y # it' \<and> ?k + 1 < y)"
      using shape False "1.prems" it by auto
    have gap: "?k + 1 \<notin> set it"
    proof
      assume k: "?k + 1 \<in> set it"
      then have "?k + 1 \<in> set xs" using it r' by auto
      with tail obtain y where y: "xs = [x + 1..?k] @ y # it'" "?k + 1 < y" by auto
      with \<open>?k + 1 \<in> set xs\<close> have "?k + 1 \<in> set it'" by auto
      moreover have "\<forall>z \<in> set it'. y < z" using y "1.prems" it by (auto simp: sorted_wrt_append)
      ultimately show False using y by auto
    qed
    have "?k + 1 \<in> {hd it..hd it + count - 1}" using it r' by simp
    with gap have nothead: "\<not> {hd it..hd it + count - 1} \<subseteq> set it" by blast
    with "1.prems" have t: "{t..t + count} \<subseteq> set it" by auto
    have "t \<in> set it" using t "1.prems"(1) by auto
    then have "x \<le> t" using it "1.prems"(3) by auto
    have above: "?k < t"
    proof (rule ccontr)
      assume "\<not> ?k < t"
      then have "?k + 1 \<in> {t..t + count}" using \<open>x \<le> t\<close> r' by auto
      with gap t show False by blast
    qed
    then obtain y where y: "xs = [x + 1..?k] @ y # it'" "?k + 1 < y"
      using tail it \<open>t \<in> set it\<close> r' by auto
    have rest: "z \<in> set it'" if "z \<in> set it" "y < z" for z
      using that y it r' by auto
    have above_y: "z \<in> set it' \<Longrightarrow> y < z" for z using "1.prems"(3) it y by (auto simp: sorted_wrt_append)
    have "y \<le> t" using \<open>t \<in> set it\<close> y it above r' above_y [of t] by auto
    have "t + count \<in> set it" using t "1.prems"(1) by auto
    with rest \<open>y \<le> t\<close> "1.prems"(1) have "t + count \<in> set it'" by auto
    then have "it' \<noteq> []" by auto
    have srt: "sorted_wrt (<) it'" "set it' \<subseteq> {0..<sz}" using "1.prems" it y by (auto simp: sorted_wrt_append)
    have "{t..t + count} \<subseteq> set it' \<or> it' \<noteq> [] \<and> {hd it'..hd it' + count - 1} \<subseteq> set it'"
    proof (cases "t = y")
      case True
      have in_it': "{y + 1..y + count} \<subseteq> set it'"
      proof
        fix z assume "z \<in> {y + 1..y + count}"
        then have "z \<in> {t..t + count}" "y < z" using True by auto
        with t rest show "z \<in> set it'" by blast
      qed
      moreover have "hd it' = y + 1"
      proof -
        have "y + 1 \<in> set it'" using in_it' "1.prems" by auto
        then have "hd it' \<le> y + 1" using srt \<open>it' \<noteq> []\<close>
          by (cases it') auto
        moreover have "y < hd it'" using above_y \<open>it' \<noteq> []\<close> by simp
        ultimately show ?thesis by simp
      qed
      ultimately show ?thesis using \<open>it' \<noteq> []\<close> by (auto simp: algebra_simps)
    next
      case False
      then have "y < t" using \<open>y \<le> t\<close> by simp
      have "{t..t + count} \<subseteq> set it'"
      proof
        fix z assume z: "z \<in> {t..t + count}"
        then have "y < z" using \<open>y < t\<close> by auto
        with z t rest show "z \<in> set it'" by blast
      qed
      then show ?thesis ..
    qed
    moreover have "\<not> count < 0" "b' \<le> sz" using r' x "1.prems"(1) by auto
    ultimately have "\<exists>s e. findAt_loop sz count b' it' = Inr (s, e)"
      using srt "1.prems"(1,5)
      by (intro "1.IH" [OF "1.prems"(2) run [symmetric] refl False \<open>it' \<noteq> []\<close>]) assumption+
    with unfold False \<open>it' \<noteq> []\<close> show ?thesis by simp
  qed
qed

section \<open>Allocation and release\<close>

lemma wf_NewBitmap:
  assumes "0 \<le> s" "s \<le> e" "e < 2 ^ 31" "e - s < 2 ^ 31 - 1"
  shows "\<exists>b. NewBitmap s e = Inr b \<and> wf_bitmap b \<and> bm_ports b = {s..e} \<and> bm_free b = {s..e}"
proof -
  let ?b = "\<lparr>bmBase = s, bmSize = e - s + 1, bmStart = 0, bmData = add_range 0 (e - s + 1) []\<rparr>"
  have "NewBitmap s e = Inr ?b" using assms by (simp add: NewBitmap_def Let_def)
  moreover have "wf_bitmap ?b" using assms
    by (simp add: wf_bitmap_def add_range_sorted add_range_set)
  moreover have "bm_free ?b = {s..e}"
  proof -
    have "x \<in> (+) s ` {0..<e - s + 1}" if "s \<le> x" "x \<le> e" for x
      using that by (intro image_eqI [of _ _ "x - s"]) auto
    then show ?thesis using assms by (auto simp: bm_free_def add_range_set)
  qed
  moreover have "bm_ports ?b = {s..e}" by (auto simp: bm_ports_def)
  ultimately show ?thesis by blast
qed

lemma mem_bm_free: "x \<in> bm_free b \<longleftrightarrow> x - bmBase b \<in> set (bmData b)"
  by (auto simp: bm_free_def intro: image_eqI [of _ _ "x - bmBase b"])

lemma wf_free_ports: "wf_bitmap b \<Longrightarrow> bm_free b \<subseteq> bm_ports b"
  by (auto simp: wf_bitmap_def bm_free_def bm_ports_def)

lemma findAt_sound:
  assumes "wf_bitmap b" "0 < count" "i \<le> bmSize b" "findAt b count i = Inr (s, e)"
  shows "e = s + count - 1 \<and> {s..e} \<subseteq> set (bmData b)"
proof -
  let ?it = "dropWhile (\<lambda>x. x < i) (bmData b)"
  have sub: "set ?it \<subseteq> set (bmData b)" by (auto dest: set_dropWhileD)
  have "suffix ?it (bmData b)" by (rule suffix_dropWhile)
  then have "sorted_wrt (<) ?it" using assms(1) by (auto simp: wf_bitmap_def suffix_def sorted_wrt_append)
  then have "e = s + count - 1 \<and> {s..e} \<subseteq> set ?it"
    using assms sub by (intro findAt_loop_sound [of "bmSize b" count i]) (auto simp: wf_bitmap_def findAt_def)
  with sub show ?thesis by blast
qed

lemma findAt_zero_complete:
  assumes "wf_bitmap b" "0 < count" "{t..t + count} \<subseteq> set (bmData b)"
  shows "\<exists>s e. findAt b count 0 = Inr (s, e)"
proof -
  have "dropWhile (\<lambda>x. x < 0) (bmData b) = bmData b"
    using assms(1) by (cases "bmData b") (auto simp: wf_bitmap_def)
  with assms show ?thesis unfolding findAt_def
    by (auto simp: wf_bitmap_def intro!: findAt_loop_complete)
qed

lemma findAt_one_complete:
  assumes "wf_bitmap b" "bmData b \<noteq> []"
  shows "\<exists>s e. findAt b 1 0 = Inr (s, e)"
proof -
  have "dropWhile (\<lambda>x. x < 0) (bmData b) = bmData b"
    using assms(1) by (cases "bmData b") (auto simp: wf_bitmap_def)
  with assms show ?thesis unfolding findAt_def
    by (auto simp: wf_bitmap_def intro!: findAt_loop_complete)
qed

lemma AllocateRange_ok:
  assumes wf: "wf_bitmap b" and alloc: "AllocateRange b n = (Inr (s, e), b')"
  shows "0 < n \<and> e = s + n - 1 \<and> {s..e} \<subseteq> bm_free b \<and> bm_free b' = bm_free b - {s..e} \<and>
    bm_ports b' = bm_ports b \<and> wf_bitmap b'"
proof -
  from alloc have n: "0 < n" by (auto simp: AllocateRange_def split: if_splits)
  with alloc obtain i rs re where at: "findAt b n i = Inr (rs, re)" "i = bmStart b \<or> i = 0"
    and s: "s = to_int32 (bmBase b + rs)" and e: "e = to_int32 (bmBase b + re)"
    and b': "b' = b\<lparr>bmData := remove_range rs (re + 1) (bmData b), bmStart := to_int32 (re + 1)\<rparr>"
    by (auto simp: AllocateRange_def split: sum.splits prod.splits if_splits)
  have "i \<le> bmSize b" using at wf by (auto simp: wf_bitmap_def)
  from findAt_sound [OF wf n this at(1)] have run: "re = rs + n - 1" "{rs..re} \<subseteq> set (bmData b)" by auto
  then have "rs \<in> set (bmData b)" "re \<in> set (bmData b)" using n by auto
  then have bounds: "0 \<le> rs" "rs \<le> re" "re < bmSize b" using wf run n by (auto simp: wf_bitmap_def)
  then have se: "s = bmBase b + rs" "e = bmBase b + re" "to_int32 (re + 1) = re + 1"
    using s e wf by (auto simp: wf_bitmap_def)
  have "{s..e} \<subseteq> bm_free b"
    using run se by (auto simp: mem_bm_free subset_iff)
  moreover have "bm_free b' = bm_free b - {s..e}"
    using se b' by (auto simp: mem_bm_free remove_range_set)
  moreover have "wf_bitmap b'" "bm_ports b' = bm_ports b"
    using wf b' se bounds
    by (auto simp: wf_bitmap_def remove_range_set remove_range_sorted bm_ports_def)
  ultimately show ?thesis using n se run by simp
qed

lemma AllocateRange_err: "AllocateRange b n = (Inl x, b') \<Longrightarrow> b' = b"
  by (auto simp: AllocateRange_def split: sum.splits prod.splits if_splits)

lemma ReleaseRange_effect:
  assumes wf: "wf_bitmap b" and rel: "ReleaseRange b s e = (r, b')" and s: "0 \<le> s" "e < 2 ^ 31"
  shows "wf_bitmap b' \<and> bm_ports b' = bm_ports b \<and> bm_free b \<subseteq> bm_free b' \<and>
    bm_free b' \<subseteq> bm_free b \<union> {s..e}"
proof (cases "b' = b")
  case True
  with wf show ?thesis by simp
next
  case False
  let ?s = "s - bmBase b" and ?e = "e - bmBase b"
  from False rel have le: "s \<le> e"
    by (auto simp: ReleaseRange_def Let_def split: if_splits)
  have conv: "to_int32 ?s = ?s" "to_int32 ?e = ?e" using wf s le by (auto simp: wf_bitmap_def)
  with False rel have b': "b' = b\<lparr>bmData := add_range ?s (?e + 1) (bmData b)\<rparr>"
    and "0 \<le> ?s" "?e < bmSize b"
    by (auto simp: ReleaseRange_def Let_def split: if_splits)
  with le wf have "wf_bitmap b'" "bm_ports b' = bm_ports b"
    by (auto simp: wf_bitmap_def add_range_sorted add_range_set bm_ports_def)
  moreover have "bm_free b' = bm_free b \<union> {s..e}"
    using b' le by (auto simp: mem_bm_free add_range_set)
  ultimately show ?thesis by blast
qed

lemma ReleaseRange_ok:
  assumes wf: "wf_bitmap b" and "s \<le> e" "{s..e} \<subseteq> bm_ports b" "(s, e) \<noteq> (0, 0)"
  shows "\<exists>b'. ReleaseRange b s e = (None, b') \<and> bm_free b' = bm_free b \<union> {s..e}"
proof -
  let ?s = "s - bmBase b" and ?e = "e - bmBase b"
  have se: "s \<in> bm_ports b" "e \<in> bm_ports b" using assms by auto
  then have "to_int32 ?s = ?s" "to_int32 ?e = ?e" "0 \<le> ?s" "?e < bmSize b"
    using wf by (auto simp: wf_bitmap_def bm_ports_def)
  with assms have "ReleaseRange b s e = (None, b\<lparr>bmData := add_range ?s (?e + 1) (bmData b)\<rparr>)"
    by (auto simp: ReleaseRange_def Let_def)
  moreover have "bm_free (b\<lparr>bmData := add_range ?s (?e + 1) (bmData b)\<rparr>) = bm_free b \<union> {s..e}"
    using assms(2) by (auto simp: mem_bm_free add_range_set)
  ultimately show ?thesis by blast
qed


section \<open>The bitmap implements the allocator\<close>

interpretation bm: port_allocator AllocateRange ReleaseRange bm_free bm_ports wf_bitmap
proof unfold_locales
  fix b :: bitmap assume wf: "wf_bitmap b"
  show "bm_ports b \<subseteq> {0..<2 ^ 31}" using wf by (auto simp: wf_bitmap_def bm_ports_def)
  show "bm_free b \<subseteq> bm_ports b" using wf by (rule wf_free_ports)
  show "ReleaseRange b 0 0 = (None, b)" by (simp add: ReleaseRange_def)
qed (rule AllocateRange_ok AllocateRange_err ReleaseRange_effect ReleaseRange_ok; assumption)+


section \<open>Completeness of the search\<close>

lemma AllocateRange_found:
  assumes "0 < n" "\<exists>s e. findAt b n 0 = Inr (s, e)"
  shows "\<exists>s e b'. AllocateRange b n = (Inr (s, e), b')"
  using assms by (cases "findAt b n (bmStart b)") (auto simp: AllocateRange_def)

text \<open>
  A range is found when there is one free port and one is wanted, or when there is a block of
  free ports with one port more than wanted.
\<close>

lemma AllocateRange_complete:
  assumes wf: "wf_bitmap b" and n: "0 < n"
    and free: "n = 1 \<and> bm_free b \<noteq> {} \<or> {t..t + n} \<subseteq> bm_free b"
  shows "\<exists>s e b'. AllocateRange b n = (Inr (s, e), b')"
proof (rule AllocateRange_found [OF n])
  show "\<exists>s e. findAt b n 0 = Inr (s, e)"
  proof (cases "n = 1 \<and> bm_free b \<noteq> {}")
    case True
    then show ?thesis using findAt_one_complete [OF wf] by (auto simp: bm_free_def)
  next
    case False
    with free have sub: "{t..t + n} \<subseteq> bm_free b" by blast
    have "x \<in> set (bmData b)" if "x \<in> {t - bmBase b..t - bmBase b + n}" for x
    proof -
      have "x + bmBase b \<in> bm_free b" using that by (intro subsetD [OF sub]) simp
      then show ?thesis by (simp add: mem_bm_free)
    qed
    then have "{t - bmBase b..t - bmBase b + n} \<subseteq> set (bmData b)" by blast
    then show ?thesis using findAt_zero_complete [OF wf n] by blast
  qed
qed

end
