(* ===== verification/Go_Lib.thy ===== *)
theory Go_Lib
  imports Prelude
begin

text \<open>
  What the source uses of the Go standard library: \<open>strings\<close> (\<open>Split\<close>, \<open>SplitN\<close>,
  \<open>Join\<close>, \<open>TrimSpace\<close>, \<open>TrimPrefix\<close>, \<open>HasSuffix\<close>, \<open>Contains\<close>, \<open>ToLower\<close>,
  \<open>ToUpper\<close>), \<open>strconv\<close> (\<open>Atoi\<close>, \<open>Itoa\<close>) and \<open>net\<close> (\<open>SplitHostPort\<close>,
  \<open>JoinHostPort\<close>).  A Go string is a byte sequence and a HOL \<^typ>\<open>string\<close> is a list of
  8-bit characters, so the two agree position by position.
\<close>

section \<open>Package strings\<close>

text \<open>\<open>strings.Split(s, c)\<close> for a separator of one byte, the only kind the source uses.\<close>

fun split_char :: "char \<Rightarrow> string \<Rightarrow> string list" where
  "split_char c [] = [[]]"
| "split_char c (x # xs) =
     (if x = c then [] # split_char c xs
      else (x # hd (split_char c xs)) # tl (split_char c xs))"

fun join :: "string \<Rightarrow> string list \<Rightarrow> string" where
  "join sep [] = []"
| "join sep [x] = x"
| "join sep (x # y # zs) = x @ sep @ join sep (y # zs)"

text \<open>
  \<open>strings.SplitN(s, sep, 2)\<close>: one cut at the first occurrence of the (non-empty)
  separator, or the whole string.
\<close>

fun cut :: "string \<Rightarrow> string \<Rightarrow> (string \<times> string) option" where
  "cut sep [] = (if sep = [] then Some ([], []) else None)"
| "cut sep (c # cs) =
     (if prefix sep (c # cs) then Some ([], drop (length sep) (c # cs))
      else map_option (\<lambda>(a, b). (c # a, b)) (cut sep cs))"

definition split_n2 :: "string \<Rightarrow> string \<Rightarrow> string list" where
  "split_n2 sep s = (case cut sep s of None \<Rightarrow> [s] | Some (a, b) \<Rightarrow> [a, b])"

definition contains :: "string \<Rightarrow> string \<Rightarrow> bool" where
  "contains s sub \<longleftrightarrow> cut sub s \<noteq> None"

definition trim_prefix :: "string \<Rightarrow> string \<Rightarrow> string" where
  "trim_prefix s p = (if prefix p s then drop (length p) s else s)"

definition has_suffix :: "string \<Rightarrow> string \<Rightarrow> bool" where
  "has_suffix s t \<longleftrightarrow> suffix t s"

text \<open>
  \<open>strings.TrimSpace\<close> removes Unicode white space at both ends.  The UTF-8 encodings of
  the white space characters are listed; U+0085 and U+00A0 take two bytes, U+1680,
  U+2000 to U+200A, U+2028, U+2029, U+202F, U+205F and U+3000 take three.
\<close>

definition byte :: "nat \<Rightarrow> char" where
  "byte n = char_of n"

definition space_encodings :: "string list" where
  "space_encodings =
     map (\<lambda>n. [byte n]) [9, 10, 11, 12, 13, 32]
     @ map (map byte) [[194, 133], [194, 160], [225, 154, 128],
         [226, 128, 128], [226, 128, 129], [226, 128, 130], [226, 128, 131], [226, 128, 132],
         [226, 128, 133], [226, 128, 134], [226, 128, 135], [226, 128, 136], [226, 128, 137],
         [226, 128, 138], [226, 128, 168], [226, 128, 169], [226, 128, 175], [226, 129, 159],
         [227, 128, 128]]"

function trim_left_by :: "string list \<Rightarrow> string \<Rightarrow> string" where
  "trim_left_by encs s =
     (case find (\<lambda>e. e \<noteq> [] \<and> prefix e s) encs of
        None \<Rightarrow> s
      | Some e \<Rightarrow> trim_left_by encs (drop (length e) s))"
  by pat_completeness auto
termination
proof (relation "measure (\<lambda>(encs, s). length s)", simp)
  fix encs s e
  assume "find (\<lambda>e. e \<noteq> [] \<and> prefix e s) encs = Some e"
  then have "e \<noteq> []" "prefix e s" by (auto simp: find_Some_iff)
  then show "((encs, drop (length e) s), encs, s) \<in> measure (\<lambda>(encs, s). length s)"
    by (cases s) auto
qed

declare trim_left_by.simps [simp del]

definition trim_space :: "string \<Rightarrow> string" where
  "trim_space s =
     rev (trim_left_by (map rev space_encodings) (rev (trim_left_by space_encodings s)))"

definition to_lower_char :: "char \<Rightarrow> char" where
  "to_lower_char c =
     (let n = (of_char c :: nat) in if 65 \<le> n \<and> n \<le> 90 then char_of (n + 32) else c)"

definition to_upper_char :: "char \<Rightarrow> char" where
  "to_upper_char c =
     (let n = (of_char c :: nat) in if 97 \<le> n \<and> n \<le> 122 then char_of (n - 32) else c)"

text \<open>\<open>strings.ToLower\<close> and \<open>strings.ToUpper\<close> on ASCII strings.\<close>

definition to_lower :: "string \<Rightarrow> string" where
  "to_lower s = map to_lower_char s"

definition to_upper :: "string \<Rightarrow> string" where
  "to_upper s = map to_upper_char s"

section \<open>Package strconv\<close>

definition digit_char :: "nat \<Rightarrow> char" where
  "digit_char d = char_of (48 + d)"

definition is_digit :: "char \<Rightarrow> bool" where
  "is_digit c \<longleftrightarrow> 48 \<le> (of_char c :: nat) \<and> (of_char c :: nat) \<le> 57"

definition digit_val :: "char \<Rightarrow> int" where
  "digit_val c = int (of_char c) - 48"

fun utoa :: "nat \<Rightarrow> string" where
  "utoa n = (if n < 10 then [digit_char n] else utoa (n div 10) @ [digit_char (n mod 10)])"

declare utoa.simps [simp del]

definition itoa :: "int \<Rightarrow> string" where
  "itoa i = (if i < 0 then ''-'' @ utoa (nat (- i)) else utoa (nat i))"

definition digits_val :: "string \<Rightarrow> int" where
  "digits_val s = foldl (\<lambda>acc c. 10 * acc + digit_val c) 0 s"

datatype num_error = ErrSyntax | ErrRange

text \<open>
  \<open>strconv.Atoi\<close> on a 64-bit platform: an optional sign, then one or more decimal digits,
  and a value that fits \<open>int64\<close>.
\<close>

definition atoi :: "string \<Rightarrow> num_error + int" where
  "atoi s =
     (let (neg, ds) = (case s of
          [] \<Rightarrow> (False, [])
        | c # cs \<Rightarrow> if c = CHR ''-'' then (True, cs) else if c = CHR ''+'' then (False, cs)
                     else (False, s))
      in if ds = [] \<or> \<not> list_all is_digit ds then Inl ErrSyntax
         else let v = (if neg then - digits_val ds else digits_val ds)
              in if - (2 ^ 63) \<le> v \<and> v < 2 ^ 63 then Inr v else Inl ErrRange)"

section \<open>Package net\<close>

fun last_index :: "char \<Rightarrow> string \<Rightarrow> nat option" where
  "last_index c [] = None"
| "last_index c (x # xs) =
     (case last_index c xs of Some i \<Rightarrow> Some (Suc i) | None \<Rightarrow> if x = c then Some 0 else None)"

fun index_of :: "char \<Rightarrow> string \<Rightarrow> nat option" where
  "index_of c [] = None"
| "index_of c (x # xs) = (if x = c then Some 0 else map_option Suc (index_of c xs))"

datatype addr_error = MissingPort | TooManyColons | MissingBracket | UnexpectedOpen | UnexpectedClose

text \<open>\<open>net.SplitHostPort\<close>: \<open>host:port\<close>, or \<open>[host]:port\<close> where the host holds colons.\<close>

definition split_host_port :: "string \<Rightarrow> addr_error + (string \<times> string)" where
  "split_host_port hp =
     (case last_index (CHR '':'') hp of
        None \<Rightarrow> Inl MissingPort
      | Some i \<Rightarrow>
          let port = drop (Suc i) hp;
              finish = (\<lambda>host j k.
                if CHR ''['' \<in> set (drop j hp) then Inl UnexpectedOpen
                else if CHR '']'' \<in> set (drop k hp) then Inl UnexpectedClose
                else Inr (host, port))
          in if hd hp = CHR ''['' then
               (case index_of (CHR '']'') hp of
                  None \<Rightarrow> Inl MissingBracket
                | Some e \<Rightarrow>
                    if Suc e = length hp then Inl MissingPort
                    else if Suc e = i then finish (drop 1 (take e hp)) 1 (Suc e)
                    else if hp ! Suc e = CHR '':'' then Inl TooManyColons
                    else Inl MissingPort)
             else if CHR '':'' \<in> set (take i hp) then Inl TooManyColons
             else finish (take i hp) 0 0)"

definition join_host_port :: "string \<Rightarrow> string \<Rightarrow> string" where
  "join_host_port host port =
     (if CHR '':'' \<in> set host then ''['' @ host @ '']:'' @ port else host @ '':'' @ port)"

text \<open>The visible ASCII characters.\<close>

definition is_graph :: "char \<Rightarrow> bool" where
  "is_graph c \<longleftrightarrow> 32 < (of_char c :: nat) \<and> (of_char c :: nat) < 127"

section \<open>Lemmas\<close>

lemma split_char_nonempty [simp]: "split_char c s \<noteq> []"
  by (induction s) auto

lemma join_Cons: "xs \<noteq> [] \<Longrightarrow> join sep (x # xs) = x @ sep @ join sep xs"
  by (cases xs) auto

lemma join_split_char: "join [c] (split_char c s) = s"
proof (induction s)
  case Nil
  then show ?case by simp
next
  case (Cons x xs)
  obtain p ps where split: "split_char c xs = p # ps"
    by (cases "split_char c xs") auto
  show ?case
  proof (cases "x = c")
    case True
    with Cons.IH show ?thesis by (simp add: join_Cons)
  next
    case False
    with Cons.IH split show ?thesis by (cases ps) auto
  qed
qed

lemma split_char_notin: "c \<notin> set s \<Longrightarrow> split_char c s = [s]"
  by (induction s) auto

lemma split_char_append: "c \<notin> set a \<Longrightarrow> split_char c (a @ c # b) = a # split_char c b"
  by (induction a) auto

lemma split_char_pieces: "p \<in> set (split_char c s) \<Longrightarrow> c \<notin> set p"
proof (induction s arbitrary: p)
  case Nil
  then show ?case by simp
next
  case (Cons x xs)
  have "c \<notin> set (hd (split_char c xs))" by (rule Cons.IH) simp
  moreover have "q \<in> set (tl (split_char c xs)) \<Longrightarrow> c \<notin> set q" for q
    by (rule Cons.IH) (rule list.set_sel(2), simp_all)
  ultimately show ?case using Cons.prems Cons.IH by (auto split: if_splits)
qed

lemma cut_Some: "cut sep s = Some (a, b) \<Longrightarrow> s = a @ sep @ b"
proof (induction s arbitrary: a b)
  case Nil
  then show ?case by (simp split: if_splits)
next
  case (Cons c cs)
  then show ?case
    by (auto split: if_splits simp: prefix_def)
qed

subsection \<open>Trimming\<close>

lemma of_char_byte [simp]: "n < 256 \<Longrightarrow> (of_char (byte n) :: nat) = n"
  by (simp add: byte_def)

lemma space_encodings_ends:
  "list_all (\<lambda>e. e \<noteq> [] \<and> \<not> is_graph (hd e) \<and> \<not> is_graph (last e)) space_encodings"
  by (simp add: space_encodings_def is_graph_def)

lemma trim_left_by_id:
  assumes "list_all (\<lambda>e. e \<noteq> [] \<and> \<not> is_graph (hd e)) encs" and "s = [] \<or> is_graph (hd s)"
  shows "trim_left_by encs s = s"
proof -
  have "find (\<lambda>e. e \<noteq> [] \<and> prefix e s) encs = None"
  proof (unfold find_None_iff, rule notI)
    assume "\<exists>e. e \<in> set encs \<and> e \<noteq> [] \<and> prefix e s"
    then obtain e where e: "e \<in> set encs" "e \<noteq> []" "prefix e s" by blast
    then have "hd e = hd s" "s \<noteq> []" by (auto simp: prefix_def)
    with assms e show False by (auto simp: list_all_iff)
  qed
  then show ?thesis by (simp add: trim_left_by.simps)
qed

lemma trim_space_id [go_str]:
  assumes "s = [] \<or> is_graph (hd s) \<and> is_graph (last s)"
  shows "trim_space s = s"
proof -
  have "trim_left_by space_encodings s = s"
    using space_encodings_ends assms by (intro trim_left_by_id) (auto simp: list_all_iff)
  moreover have "trim_left_by (map rev space_encodings) (rev s) = rev s"
    using space_encodings_ends assms
    by (intro trim_left_by_id) (auto simp: list_all_iff hd_rev)
  ultimately show ?thesis by (simp add: trim_space_def)
qed

subsection \<open>Decimal numbers\<close>

lemma of_char_digit [simp]: "d < 10 \<Longrightarrow> (of_char (digit_char d) :: nat) = 48 + d"
  by (simp add: digit_char_def)

lemma is_digit_digit_char: "d < 10 \<Longrightarrow> is_digit (digit_char d)"
  by (simp add: is_digit_def)

lemma digit_val_digit_char: "d < 10 \<Longrightarrow> digit_val (digit_char d) = int d"
  by (simp add: digit_val_def)

lemma digits_val_snoc [simp]: "digits_val (s @ [c]) = 10 * digits_val s + digit_val c"
  by (simp add: digits_val_def)

lemma utoa_facts: "utoa n \<noteq> [] \<and> list_all is_digit (utoa n) \<and> digits_val (utoa n) = int n"
proof (induction n rule: utoa.induct)
  case (1 n)
  show ?case
  proof (cases "n < 10")
    case True
    then show ?thesis
      by (simp add: utoa.simps [of n] is_digit_digit_char digits_val_def digit_val_digit_char)
  next
    case False
    with 1 have "list_all is_digit (utoa (n div 10))" "digits_val (utoa (n div 10)) = int (n div 10)"
      by auto
    moreover have "10 * int (n div 10) + int (n mod 10) = int n"
      by (simp add: zdiv_int zmod_int)
    ultimately show ?thesis using False
      by (simp add: utoa.simps [of n] is_digit_digit_char digit_val_digit_char)
  qed
qed

lemma is_digit_graph: "is_digit c \<Longrightarrow> is_graph c"
  by (simp add: is_digit_def is_graph_def)

lemma is_digit_not_sign: "is_digit c \<Longrightarrow> c \<noteq> CHR ''-'' \<and> c \<noteq> CHR ''+''"
  by (auto simp: is_digit_def)

lemma atoi_utoa: "int n < 2 ^ 63 \<Longrightarrow> atoi (utoa n) = Inr (int n)"
  using utoa_facts [of n]
  by (cases "utoa n") (auto simp: atoi_def dest: is_digit_not_sign)

lemma atoi_itoa [go_str]: "- (2 ^ 63) \<le> i \<Longrightarrow> i < 2 ^ 63 \<Longrightarrow> atoi (itoa i) = Inr i"
  using utoa_facts [of "nat (- i)"] atoi_utoa [of "nat i"]
  by (auto simp: itoa_def atoi_def)

lemma itoa_ends: "itoa i \<noteq> [] \<and> is_graph (hd (itoa i)) \<and> is_graph (last (itoa i))"
proof -
  have "list_all is_digit (utoa n) \<and> utoa n \<noteq> []" for n using utoa_facts by blast
  then have "is_graph (hd (utoa n)) \<and> is_graph (last (utoa n)) \<and> utoa n \<noteq> []" for n
    by (meson list_all_iff is_digit_graph hd_in_set last_in_set)
  moreover have "is_graph (CHR ''-'')" by (simp add: is_graph_def)
  ultimately show ?thesis by (simp add: itoa_def)
qed

lemma trim_space_itoa [go_str]: "trim_space (itoa i) = itoa i"
  using itoa_ends by (simp add: trim_space_id)

lemma utoa_chars: "c \<in> set (utoa n) \<Longrightarrow> is_digit c"
  using utoa_facts by (auto simp: list_all_iff)

lemma itoa_nonneg_chars: "0 \<le> i \<Longrightarrow> c \<in> set (itoa i) \<Longrightarrow> is_digit c"
  by (auto simp: itoa_def dest: utoa_chars)

lemma atoi_range: "atoi s = Inr v \<Longrightarrow> - (2 ^ 63) \<le> v \<and> v < 2 ^ 63"
  by (auto simp: atoi_def Let_def split: if_splits prod.splits)

subsection \<open>Host and port\<close>

lemma last_index_append_notin: "c \<notin> set b \<Longrightarrow> last_index c (a @ c # b) = Some (length a)"
proof (induction a)
  case Nil
  have "c \<notin> set b \<Longrightarrow> last_index c b = None" by (induction b) auto
  with Nil show ?case by simp
next
  case (Cons x a)
  then show ?case by simp
qed

lemma index_of_append_notin: "c \<notin> set a \<Longrightarrow> index_of c (a @ c # b) = Some (length a)"
  by (induction a) auto

lemma split_host_port_plain:
  assumes "CHR '':'' \<notin> set host" "CHR ''['' \<notin> set host" "CHR '']'' \<notin> set host"
    and "CHR '':'' \<notin> set port" "CHR ''['' \<notin> set port" "CHR '']'' \<notin> set port"
  shows "split_host_port (host @ CHR '':'' # port) = Inr (host, port)"
proof -
  have "hd (host @ CHR '':'' # port) \<noteq> CHR ''[''" using assms(2) by (cases host) auto
  with assms show ?thesis
    by (simp add: split_host_port_def last_index_append_notin)
qed

lemma split_host_port_bracket:
  assumes "CHR ''['' \<notin> set host" "CHR '']'' \<notin> set host"
    and "CHR '':'' \<notin> set port" "CHR ''['' \<notin> set port" "CHR '']'' \<notin> set port"
  shows "split_host_port (CHR ''['' # host @ CHR '']'' # CHR '':'' # port) = Inr (host, port)"
proof -
  let ?hp = "CHR ''['' # host @ CHR '']'' # CHR '':'' # port"
  have "last_index (CHR '':'') ((CHR ''['' # host @ [CHR '']'']) @ CHR '':'' # port)
      = Some (Suc (Suc (length host)))"
    using assms(3) by (subst last_index_append_notin) simp_all
  then have "last_index (CHR '':'') ?hp = Some (Suc (Suc (length host)))" by simp
  moreover have "index_of (CHR '']'') ((CHR ''['' # host) @ CHR '']'' # CHR '':'' # port)
      = Some (Suc (length host))"
    using assms(2) by (subst index_of_append_notin) simp_all
  ultimately show ?thesis using assms
    by (simp add: split_host_port_def Let_def)
qed

lemma split_join_host_port:
  assumes "CHR ''['' \<notin> set host" "CHR '']'' \<notin> set host"
    and "CHR '':'' \<notin> set port" "CHR ''['' \<notin> set port" "CHR '']'' \<notin> set port"
  shows "split_host_port (join_host_port host port) = Inr (host, port)"
  using split_host_port_plain split_host_port_bracket assms by (simp add: join_host_port_def)

end
