(* ===== verification/Process.thy ===== *)
theory Process
  imports Go_Lib
begin

text \<open>
  A managed process (\<open>pkg/process/process.go\<close>) with the command it runs
  (\<open>pkg/process/command.go\<close>) and its health check (\<open>pkg/process/healthchecker.go\<close>).
  Every definition on \<^typ>\<open>unit\<close>-extended process records is what the code does between
  taking and releasing the lock of the process; how these sections interleave is the
  subject of the theory \<open>Manager_Steps\<close>.
\<close>

section \<open>Constants of package types\<close>

text \<open>Durations are counted in milliseconds.\<close>

definition WaitInterval :: int where "WaitInterval = 100"
definition WaitCount :: nat where "WaitCount = 600"

definition EngineConditionFilesystemReadOnly :: string where
  "EngineConditionFilesystemReadOnly = ''FilesystemReadOnly''"

definition InstanceTypeEngine :: string where "InstanceTypeEngine = ''engine''"
definition InstanceTypeReplica :: string where "InstanceTypeReplica = ''replica''"

definition TcpAddressPrefix :: string where "TcpAddressPrefix = ''tcp://''"

definition AddTcpPrefixForAddress :: "string \<Rightarrow> string" where
  "AddTcpPrefixForAddress address = (if address = '''' then '''' else TcpAddressPrefix @ address)"

section \<open>Commands\<close>

datatype signal = SIGINT | SIGHUP | SIGKILL

text \<open>
  A \<open>BinaryCommand\<close> embeds an \<open>exec.Cmd\<close>: \<open>cmdStarted\<close> stands for \<open>Process != nil\<close>,
  \<open>cmdExited\<close> for \<open>ProcessState != nil\<close>, and \<open>cmdSignals\<close> lists the signals delivered.
\<close>

record command =
  cmdPath :: string
  cmdArgs :: "string list"
  cmdOutput :: bool
  cmdStarted :: bool
  cmdExited :: bool
  cmdSignals :: "signal list"

text \<open>\<open>exec.LookPath\<close> and \<open>filepath.Abs\<close> depend on the file system: they are parameters.\<close>

definition NewBinaryCommand ::
  "(string \<Rightarrow> string result) \<Rightarrow> (string \<Rightarrow> string result) \<Rightarrow> string \<Rightarrow> string list \<Rightarrow> command result" where
  "NewBinaryCommand lookPath absPath binary args =
     (case lookPath binary of
        Inl e \<Rightarrow> Inl e
      | Inr path \<Rightarrow>
          (case absPath path of
             Inl e \<Rightarrow> Inl e
           | Inr path' \<Rightarrow> Inr \<lparr>cmdPath = path', cmdArgs = args, cmdOutput = False,
                               cmdStarted = False, cmdExited = False, cmdSignals = []\<rparr>))"

definition SetOutput :: "command \<Rightarrow> command" where
  "SetOutput bc = bc\<lparr>cmdOutput := True\<rparr>"

definition IsRunning :: "command \<Rightarrow> bool" where
  "IsRunning bc \<longleftrightarrow> cmdStarted bc \<and> \<not> cmdExited bc"

text \<open>Signalling a process that has exited fails, and the failure is only logged.\<close>

definition BinaryCommand_StopWithSignal :: "signal \<Rightarrow> command \<Rightarrow> command" where
  "BinaryCommand_StopWithSignal sig bc =
     (if cmdStarted bc \<and> \<not> cmdExited bc then bc\<lparr>cmdSignals := cmdSignals bc @ [sig]\<rparr> else bc)"

definition BinaryCommand_Stop :: "command \<Rightarrow> command" where
  "BinaryCommand_Stop bc =
     (if cmdStarted bc \<and> \<not> cmdExited bc then bc\<lparr>cmdSignals := cmdSignals bc @ [SIGINT]\<rparr> else bc)"

definition BinaryCommand_Kill :: "command \<Rightarrow> command" where
  "BinaryCommand_Kill bc =
     (if cmdStarted bc \<and> \<not> cmdExited bc then bc\<lparr>cmdSignals := cmdSignals bc @ [SIGKILL]\<rparr> else bc)"

section \<open>Health check\<close>

text \<open>
  \<open>WaitForRunning\<close> loops \<open>WaitCount\<close> times over a \<open>select\<close>: either the stop channel is
  closed, or the ticker fires and the service is probed.  The events are a list; \<open>None\<close> is
  a loop that still waits for its next event.
\<close>

datatype wait_event = StopChClosed | Tick bool

fun WaitForRunning_loop :: "nat \<Rightarrow> wait_event list \<Rightarrow> bool option" where
  "WaitForRunning_loop 0 es = Some False"
| "WaitForRunning_loop (Suc n) [] = None"
| "WaitForRunning_loop (Suc n) (StopChClosed # es) = Some False"
| "WaitForRunning_loop (Suc n) (Tick ok # es) = (if ok then Some True else WaitForRunning_loop n es)"

definition WaitForRunning :: "wait_event list \<Rightarrow> bool option" where
  "WaitForRunning es = WaitForRunning_loop WaitCount es"

section \<open>Processes\<close>

datatype pstate = StateStarting | StateRunning | StateStopping | StateStopped | StateError

fun state_string :: "pstate \<Rightarrow> string" where
  "state_string StateStarting = ''starting''"
| "state_string StateRunning = ''running''"
| "state_string StateStopping = ''stopping''"
| "state_string StateStopped = ''stopped''"
| "state_string StateError = ''error''"

text \<open>
  \<open>pLoggerOpen\<close> is whether the log file of the process is open, \<open>pProbeStopped\<close> whether
  the channel \<open>probeStopCh\<close> of \<open>Start\<close> has been closed.  \<open>UpdateCh\<close> is the same channel for
  every process of a manager, and the locks are implicit in the atomic sections.
\<close>

record process =
  pName :: string
  pBinary :: string
  pArgs :: "string list"
  pPortCount :: int
  pPortArgs :: "string list"
  pUUID :: string
  pState :: pstate
  pErrorMsg :: string
  pConditions :: "string \<rightharpoonup> bool"
  pPortStart :: int
  pPortEnd :: int
  pDeletionTimestamp :: "int option"
  pCmd :: "command option"
  pLoggerOpen :: bool
  pProbeStopped :: bool

record process_spec =
  psName :: string
  psBinary :: string
  psArgs :: "string list"
  psPortCount :: int
  psPortArgs :: "string list"

record process_status =
  pstState :: string
  pstErrorMsg :: string
  pstConditions :: "string \<rightharpoonup> bool"
  pstPortStart :: int
  pstPortEnd :: int

record process_response =
  prSpec :: process_spec
  prStatus :: process_status
  prDeleted :: bool

definition RPCResponse :: "process \<Rightarrow> process_response" where
  "RPCResponse p =
     \<lparr>prSpec = \<lparr>psName = pName p, psBinary = pBinary p, psArgs = pArgs p,
                psPortCount = pPortCount p, psPortArgs = pPortArgs p\<rparr>,
      prStatus = \<lparr>pstState = state_string (pState p), pstErrorMsg = pErrorMsg p,
                  pstConditions = pConditions p,
                  pstPortStart = pPortStart p, pstPortEnd = pPortEnd p\<rparr>,
      prDeleted = False\<rparr>"

definition IsStopped :: "process \<Rightarrow> bool" where
  "IsStopped p \<longleftrightarrow> pState p = StateStopped \<or> pState p = StateError"

text \<open>
  \<open>Start\<close> up to the two goroutines it spawns; the argument is the answer of the
  executor's \<open>NewCommand(p.Binary, p.Args...)\<close>.
\<close>

definition Start :: "command result \<Rightarrow> process \<Rightarrow> error option \<times> process" where
  "Start newCommand p =
     (case newCommand of
        Inl e \<Rightarrow> (Some e, p\<lparr>pState := StateError, pErrorMsg := error_string e\<rparr>)
      | Inr cmd \<Rightarrow> (None, p\<lparr>pCmd := Some (SetOutput cmd), pProbeStopped := False\<rparr>))"

text \<open>The first goroutine of \<open>Start\<close>, after \<open>cmd.Run()\<close> has returned.\<close>

definition run_close_probe :: "process \<Rightarrow> process" where
  "run_close_probe p = p\<lparr>pProbeStopped := True\<rparr>"

definition run_finished :: "error option \<Rightarrow> process \<Rightarrow> process" where
  "run_finished err p =
     (case err of
        Some e \<Rightarrow> p\<lparr>pState := StateError, pErrorMsg := error_string e\<rparr>
      | None \<Rightarrow> p\<lparr>pState := StateStopped\<rparr>)"

text \<open>The second goroutine, when the probe succeeds or the process has no port to probe.\<close>

definition set_running :: "process \<Rightarrow> process" where
  "set_running p = p\<lparr>pState := StateRunning\<rparr>"

text \<open>
  \<open>StopWithSignal\<close>: the first locked section decides whether a stop, or a repeated kill of a
  deletion that takes longer than 60 seconds, is needed.
\<close>

definition deleteTimeout :: int where
  "deleteTimeout = WaitInterval * int WaitCount"

definition StopWithSignal_decide :: "int \<Rightarrow> process \<Rightarrow> bool \<times> bool \<times> process" where
  "StopWithSignal_decide now p =
     (let needStop = (pState p \<noteq> StateStopping \<and> pState p \<noteq> StateStopped \<and> pState p \<noteq> StateError);
          p' = (if needStop then p\<lparr>pState := StateStopping, pDeletionTimestamp := Some now\<rparr> else p);
          needTimeoutKill = (case pDeletionTimestamp p' of
               None \<Rightarrow> False
             | Some t \<Rightarrow> \<not> needStop \<and> t + deleteTimeout < now)
      in (needStop, needTimeoutKill, p'))"

text \<open>
  The goroutine of \<open>StopWithSignal\<close>: what it writes when the command is not running any more
  (without the lock, after it has read the state), the signals it sends, and its deferred
  closing of the logger.
\<close>

definition stop_write :: "process \<Rightarrow> process" where
  "stop_write p = p\<lparr>pState := StateStopped\<rparr>"

definition cmd_running :: "process \<Rightarrow> bool" where
  "cmd_running p \<longleftrightarrow> (case pCmd p of None \<Rightarrow> False | Some c \<Rightarrow> IsRunning c)"

definition send_signal :: "signal \<Rightarrow> process \<Rightarrow> process" where
  "send_signal sig p = p\<lparr>pCmd := map_option (BinaryCommand_StopWithSignal sig) (pCmd p)\<rparr>"

definition send_kill :: "process \<Rightarrow> process" where
  "send_kill p = p\<lparr>pCmd := map_option BinaryCommand_Kill (pCmd p)\<rparr>"

definition close_logger :: "process \<Rightarrow> process" where
  "close_logger p = p\<lparr>pLoggerOpen := False\<rparr>"

text \<open>The events of the operating system: the command has been started, and has ended.\<close>

definition cmd_started :: "process \<Rightarrow> process" where
  "cmd_started p = p\<lparr>pCmd := map_option (\<lambda>c. c\<lparr>cmdStarted := True\<rparr>) (pCmd p)\<rparr>"

definition cmd_ended :: "process \<Rightarrow> process" where
  "cmd_ended p = p\<lparr>pCmd := map_option (\<lambda>c. if cmdStarted c then c\<lparr>cmdExited := True\<rparr> else c) (pCmd p)\<rparr>"

lemmas process_op_defs =
  run_close_probe_def run_finished_def set_running_def stop_write_def send_signal_def
  send_kill_def close_logger_def cmd_started_def cmd_ended_def

text \<open>
  What identifies a process and its ports never changes.
\<close>

definition same_identity :: "process \<Rightarrow> process \<Rightarrow> bool" where
  "same_identity p q \<longleftrightarrow> pName q = pName p \<and> pUUID q = pUUID p \<and> pBinary q = pBinary p \<and>
     pPortCount q = pPortCount p \<and> pPortStart q = pPortStart p \<and> pPortEnd q = pPortEnd p"

section \<open>Lemmas\<close>

lemma same_identity_refl [simp, intro]: "same_identity p p"
  by (simp add: same_identity_def)

lemma same_identity_ops [pm_frame, simp]:
  "same_identity p (run_close_probe p)" "same_identity p (run_finished err p)"
  "same_identity p (set_running p)" "same_identity p (stop_write p)"
  "same_identity p (send_signal sig p)" "same_identity p (send_kill p)"
  "same_identity p (close_logger p)" "same_identity p (cmd_started p)" "same_identity p (cmd_ended p)"
  by (auto simp: same_identity_def process_op_defs split: option.splits)

lemma same_identity_Start [pm_frame]: "Start c p = (r, p') \<Longrightarrow> same_identity p p'"
  by (auto simp: Start_def same_identity_def split: sum.splits)

lemma same_identity_decide [pm_frame]:
  "StopWithSignal_decide now p = (b, k, p') \<Longrightarrow> same_identity p p'"
  by (auto simp: StopWithSignal_decide_def same_identity_def Let_def split: if_splits)

lemma same_identity_trans: "same_identity p q \<Longrightarrow> same_identity q r \<Longrightarrow> same_identity p r"
  by (simp add: same_identity_def)

text \<open>The health check ends after at most \<open>WaitCount\<close> events, and says which one decided.\<close>

lemma WaitForRunning_loop_ends:
  "n \<le> length es \<Longrightarrow> WaitForRunning_loop n es \<noteq> None"
proof (induction n arbitrary: es)
  case 0
  then show ?case by simp
next
  case (Suc n)
  then obtain e es' where es: "es = e # es'" "n \<le> length es'" by (cases es) auto
  with Suc.IH show ?case by (cases e) auto
qed

lemma WaitForRunning_loop_True:
  "WaitForRunning_loop n es = Some True \<longleftrightarrow>
     (\<exists>k < n. k < length es \<and> take k es = replicate k (Tick False) \<and> es ! k = Tick True)"
proof (induction n es rule: WaitForRunning_loop.induct)
  case (4 n ok es)
  have ex_Suc: "(\<exists>k<Suc n. Q k) \<longleftrightarrow> Q 0 \<or> (\<exists>k<n. Q (Suc k))" for Q
    by (metis less_Suc_eq_0_disj)
  show ?case using 4 by (simp add: ex_Suc)
next
  case (3 n es)
  have "take k (StopChClosed # es) = replicate k (Tick False) \<Longrightarrow> k = 0" for k
    by (cases k) auto
  then show ?case by fastforce
qed auto

end
