(* ===== verification/Util.thy ===== *)
theory Util
  imports Go_Lib
begin

text \<open>
  Package \<open>pkg/util\<close>: running commands with a timeout, the readiness probe, port ranges,
  mount points, process names, and endpoint URLs.  What comes from the operating system (the
  end of a command, the mount table, a dial attempt) is an argument.
\<close>

section \<open>Commands\<close>

text \<open>
  \<open>ExecuteWithTimeout\<close> waits for the command or for the timeout, whichever comes first; the
  outcome carries what the command has written to its output and error streams by then.
  \<open>Finished\<close> has the error of \<open>cmd.Run\<close>.  \<open>TimedOut\<close> has the value that the shared variable
  \<open>err\<close> has at that moment: nil, unless the goroutine has stored the command's error since; the
  \<open>err\<close> of the kill is a variable of its own.
\<close>

datatype run_outcome =
    Finished "error option" string string
  | TimedOut "error option" string string

definition execute_message :: "string \<Rightarrow> string \<Rightarrow> string list \<Rightarrow> string \<Rightarrow> string \<Rightarrow> string" where
  "execute_message what binary args output stderr =
     what @ '': '' @ binary @ '' ['' @ join '' '' args @ ''], output '' @ output @ '', stderr '' @ stderr"

definition ExecuteWithTimeout :: "run_outcome \<Rightarrow> string \<Rightarrow> string list \<Rightarrow> string \<times> error option" where
  "ExecuteWithTimeout oc binary args =
     (case oc of
        TimedOut err output stderr \<Rightarrow>
          ('''', wrap_err (execute_message ''timeout executing'' binary args output stderr) err)
      | Finished err output stderr \<Rightarrow>
          (if err \<noteq> None
           then ('''', wrap_err (execute_message ''failed to execute'' binary args output stderr) err)
           else (output, None)))"

definition Execute :: "(string \<Rightarrow> string list \<Rightarrow> run_outcome) \<Rightarrow> string \<Rightarrow> string list \<Rightarrow> string \<times> error option" where
  "Execute os binary args = ExecuteWithTimeout (os binary args) binary args"

definition GRPCHealthProbe :: string where
  "GRPCHealthProbe = ''/usr/local/bin/grpc_health_probe''"

definition GRPCServiceReadinessProbe ::
  "(string \<Rightarrow> string list \<Rightarrow> run_outcome) \<Rightarrow> string \<Rightarrow> bool" where
  "GRPCServiceReadinessProbe os address =
     (case Execute os GRPCHealthProbe [''-addr'', address] of
        (_, Some _) \<Rightarrow> False
      | (_, None) \<Rightarrow> True)"

definition RemoveFile ::
  "(string \<Rightarrow> string list \<Rightarrow> run_outcome) \<Rightarrow> (string \<Rightarrow> bool) \<Rightarrow> string \<Rightarrow> error option" where
  "RemoveFile os notExist file =
     (if notExist file then None
      else wrap_err (''failed to remove file '' @ file) (snd (Execute os ''rm'' [file])))"

definition GetURL :: "string \<Rightarrow> int \<Rightarrow> string" where
  "GetURL host port = join_host_port host (itoa port)"

text \<open>\<open>IsSPDKTgtReady\<close> dials once per second of the timeout; the attempts are a list.\<close>

fun IsSPDKTgtReady_loop :: "nat \<Rightarrow> bool list \<Rightarrow> bool" where
  "IsSPDKTgtReady_loop 0 dials = False"
| "IsSPDKTgtReady_loop (Suc n) [] = False"
| "IsSPDKTgtReady_loop (Suc n) (ok # dials) = (ok \<or> IsSPDKTgtReady_loop n dials)"

definition IsSPDKTgtReady :: "nat \<Rightarrow> bool list \<Rightarrow> bool" where
  "IsSPDKTgtReady seconds dials = IsSPDKTgtReady_loop seconds dials"

section \<open>Port ranges\<close>

definition atoi_error :: "string \<Rightarrow> num_error \<Rightarrow> error" where
  "atoi_error s e = Err (''strconv.Atoi: parsing '' @ s @ '': '' @
     (case e of ErrSyntax \<Rightarrow> ''invalid syntax'' | ErrRange \<Rightarrow> ''value out of range''))"

text \<open>\<open>ParsePortRange\<close> of package util, used for the ports of the SPDK service.\<close>

definition SPDK_ParsePortRange :: "string \<Rightarrow> (int \<times> int) result" where
  "SPDK_ParsePortRange portRange =
     (case split_char (CHR ''-'') portRange of
        [a, b] \<Rightarrow>
          (case atoi (trim_space a) of
             Inl e \<Rightarrow> Inl (atoi_error (trim_space a) e)
           | Inr portStart \<Rightarrow>
               (case atoi (trim_space b) of
                  Inl e \<Rightarrow> Inl (atoi_error (trim_space b) e)
                | Inr portEnd \<Rightarrow> Inr (to_int32 portStart, to_int32 portEnd)))
      | _ \<Rightarrow> Inl (Err (''invalid format for SPDK port range '' @ portRange)))"

section \<open>Mount points and names\<close>

record mount_point =
  mpDevice :: string
  mpPath :: string
  mpOpts :: "string list"

fun opts_read_only :: "string list \<Rightarrow> bool" where
  "opts_read_only [] = False"
| "opts_read_only (opt # opts) = (if opt = ''ro'' then True else opts_read_only opts)"

definition IsMountPointReadOnly :: "mount_point \<Rightarrow> bool" where
  "IsMountPointReadOnly mp = opts_read_only (mpOpts mp)"

text \<open>
  Indexing a slice out of range panics; \<open>None\<close> is the panic.
\<close>

definition GetVolumeNameSHAStrFromPath :: "string \<Rightarrow> string option" where
  "GetVolumeNameSHAStrFromPath path =
     (let pathSlices = split_char (CHR ''/'') path; n = length pathSlices
      in if 2 \<le> n then Some (pathSlices ! (n - 2)) else None)"

definition ProcessNameToVolumeName :: "string \<Rightarrow> string option" where
  "ProcessNameToVolumeName processName =
     (let nameSlices = split_char (CHR ''-'') processName; n = length nameSlices
      in if 2 \<le> n then Some (join ''-'' (take (n - 2) nameSlices)) else None)"

text \<open>\<open>regexp.MustCompile(".*/globalmount$")\<close>: the text ends in \<open>/globalmount\<close>.\<close>

definition is_globalmount :: "string \<Rightarrow> bool" where
  "is_globalmount path \<longleftrightarrow> has_suffix path ''/globalmount''"

fun volume_mount_points :: "mount_point list \<Rightarrow> (string \<rightharpoonup> mount_point) \<Rightarrow> (string \<rightharpoonup> mount_point) option" where
  "volume_mount_points [] m = Some m"
| "volume_mount_points (mp # mps) m =
     (if is_globalmount (mpPath mp) then
        (case GetVolumeNameSHAStrFromPath (mpPath mp) of
           None \<Rightarrow> None
         | Some sha \<Rightarrow> volume_mount_points mps (m(sha \<mapsto> mp)))
      else volume_mount_points mps m)"

text \<open>\<open>GetVolumeMountPointMap\<close>: the mount table, or the error of listing it; \<open>None\<close> is a panic.\<close>

definition GetVolumeMountPointMap ::
  "mount_point list result \<Rightarrow> (string \<rightharpoonup> mount_point) result option" where
  "GetVolumeMountPointMap mountPoints =
     (case mountPoints of
        Inl e \<Rightarrow> Some (Inl e)
      | Inr mps \<Rightarrow> map_option Inr (volume_mount_points mps Map.empty))"

text \<open>
  \<open>IsEngineProcess\<close> of \<open>go-common-libs/longhorn\<close>, the regular expression
  \<open>.+?-e-[^-]*$\<close>: the last two dashes enclose an \<open>e\<close>, and a character other than a line
  feed stands before them.
\<close>

definition IsEngineProcess :: "string \<Rightarrow> bool" where
  "IsEngineProcess processName \<longleftrightarrow>
     (let parts = split_char (CHR ''-'') processName; n = length parts;
          vol = join ''-'' (take (n - 2) parts)
      in 3 \<le> n \<and> parts ! (n - 2) = ''e'' \<and> vol \<noteq> '''' \<and> last vol \<noteq> char_of (10 :: nat))"

section \<open>Endpoints and peers\<close>

text \<open>\<open>parseEndpoint\<close> of \<open>grpcutil.go\<close>: protocol and address.\<close>

definition parseEndpoint :: "string \<Rightarrow> (string \<times> string) result" where
  "parseEndpoint ep =
     (case split_n2 ''://'' ep of
        [] \<Rightarrow> Inl (Err (''invalid endpoint: '' @ ep))
      | [s0] \<Rightarrow> Inr (''tcp'', s0)
      | s0 # s1 # _ \<Rightarrow>
          if s1 \<noteq> '''' then
            (if s0 \<noteq> ''unix'' \<and> s0 \<noteq> ''tcp''
             then Inl (Err (''invalid endpoint: '' @ ep @ '' unsupported proto: '' @ s0))
             else Inr (s0, s1))
          else Inr (''tcp'', s0))"

text \<open>
  \<open>VerifyPeerCertificate\<close> of \<open>serverConfig\<close>.  A chain is a list of certificates, of which
  the check uses the DNS names and the common name.
\<close>

record certificate =
  dnsNames :: "string list"
  commonName :: string

text \<open>\<open>%q\<close> of a name of printable characters without quotes and backslashes.\<close>

definition quoted :: "string \<Rightarrow> string" where
  "quoted s = CHR 0x22 # s @ [CHR 0x22]"

definition VerifyPeerCertificate :: "string \<Rightarrow> certificate list list \<Rightarrow> error option" where
  "VerifyPeerCertificate peerName verifiedChains =
     (if peerName = '''' then None
      else case verifiedChains of
          (leaf # _) # _ \<Rightarrow>
            if peerName \<in> set (dnsNames leaf) then None
            else if commonName leaf = peerName then None
            else Some (Err (''certificate is not signed for '' @ quoted peerName @ '' hostname''))
        | _ \<Rightarrow> Some (Err ''no valid certificate''))"

text \<open>
  \<open>Connect\<close> and \<open>NewServer\<close>: \<open>dial\<close> and \<open>listen\<close> are the operating system's, and removing the
  socket file of an earlier server may fail because there is none.
\<close>

datatype remove_outcome = Removed | NotExist | RemoveFailed error

definition Connect :: "(bool \<Rightarrow> bool \<Rightarrow> string \<Rightarrow> 'c result) \<Rightarrow> string \<Rightarrow> bool \<Rightarrow> 'c result" where
  "Connect dial endpoint tls =
     (case parseEndpoint endpoint of
        Inl e \<Rightarrow> Inl e
      | Inr (proto, address) \<Rightarrow> dial tls (proto = ''unix'') address)"

definition NewGRPCServer ::
  "(string \<Rightarrow> remove_outcome) \<Rightarrow> (string \<Rightarrow> string \<Rightarrow> 'l result) \<Rightarrow> string \<Rightarrow> 'l result" where
  "NewGRPCServer remove listen endpoint =
     (case parseEndpoint endpoint of
        Inl e \<Rightarrow> Inl e
      | Inr (proto, addr) \<Rightarrow>
          (case (if proto = ''unix'' then remove addr else Removed) of
             RemoveFailed e \<Rightarrow> Inl e
           | _ \<Rightarrow> listen proto addr))"

text \<open>
  The TLS configuration.  Files, certificates and pools are abstract: \<open>loadKeyPair\<close>, \<open>readFile\<close>
  and \<open>parsePool\<close> are the library's.
\<close>

record ('p, 'c) tls_config =
  tlsServerName :: string
  tlsRootCAs :: "'p option"
  tlsClientCAs :: "'p option"
  tlsCertificates :: "'c list"
  tlsRequireClientCert :: bool

definition loadCertificate ::
  "(string \<Rightarrow> string \<Rightarrow> 'c result) \<Rightarrow> (string \<Rightarrow> string result) \<Rightarrow> (string \<Rightarrow> 'p option) \<Rightarrow>
     string \<Rightarrow> string \<Rightarrow> string \<Rightarrow> ('p option \<times> 'c option) result" where
  "loadCertificate loadKeyPair readFile parsePool caFile certFile keyFile =
     (case (if certFile \<noteq> '''' \<or> keyFile \<noteq> '''' then map_sum id Some (loadKeyPair certFile keyFile)
            else Inr None) of
        Inl e \<Rightarrow> Inl e
      | Inr peerCert \<Rightarrow>
          if caFile \<noteq> '''' then
            (case readFile caFile of
               Inl e \<Rightarrow> Inl e
             | Inr caCert \<Rightarrow>
                 (case parsePool caCert of
                    None \<Rightarrow> Inl (Err (''failed to append certs from '' @ caFile))
                  | Some pool \<Rightarrow> Inr (Some pool, peerCert)))
          else Inr (None, peerCert))"

definition clientConfig :: "'p option \<Rightarrow> 'c option \<Rightarrow> string \<Rightarrow> ('p, 'c) tls_config" where
  "clientConfig certPool peerCert peerName =
     \<lparr>tlsServerName = peerName, tlsRootCAs = certPool, tlsClientCAs = None,
      tlsCertificates = (case peerCert of None \<Rightarrow> [] | Some c \<Rightarrow> [c]),
      tlsRequireClientCert = False\<rparr>"

text \<open>
  \<open>GetConfigForClient\<close> of \<open>serverConfig\<close>: the outer \<open>None\<close> is the panic of dereferencing a nil
  certificate, and \<open>hello\<close> tells whether the client info is not nil.
\<close>

definition serverConfig ::
  "'p option \<Rightarrow> 'c option \<Rightarrow> string \<Rightarrow> bool \<Rightarrow> ('p, 'c) tls_config result option" where
  "serverConfig certPool peerCert peerName hello =
     (if \<not> hello then Some (Inl (Err ''nil client info passed''))
      else case peerCert of
          None \<Rightarrow> None
        | Some c \<Rightarrow>
            Some (Inr \<lparr>tlsServerName = '''', tlsRootCAs = None, tlsClientCAs = certPool, tlsCertificates = [c],
                       tlsRequireClientCert = (peerName \<noteq> '''')\<rparr>))"

definition LoadServerTLS ::
  "(string \<Rightarrow> string \<Rightarrow> 'c result) \<Rightarrow> (string \<Rightarrow> string result) \<Rightarrow> (string \<Rightarrow> 'p option) \<Rightarrow>
     string \<Rightarrow> string \<Rightarrow> string \<Rightarrow> string \<Rightarrow> (bool \<Rightarrow> ('p, 'c) tls_config result option) result" where
  "LoadServerTLS loadKeyPair readFile parsePool caFile certFile keyFile peerName =
     (case loadCertificate loadKeyPair readFile parsePool caFile certFile keyFile of
        Inl e \<Rightarrow> Inl e
      | Inr (certPool, peerCert) \<Rightarrow> Inr (serverConfig certPool peerCert peerName))"

definition LoadClientTLS ::
  "(string \<Rightarrow> string \<Rightarrow> 'c result) \<Rightarrow> (string \<Rightarrow> string result) \<Rightarrow> (string \<Rightarrow> 'p option) \<Rightarrow>
     string \<Rightarrow> string \<Rightarrow> string \<Rightarrow> string \<Rightarrow> ('p, 'c) tls_config result" where
  "LoadClientTLS loadKeyPair readFile parsePool caFile certFile keyFile peerName =
     (case loadCertificate loadKeyPair readFile parsePool caFile certFile keyFile of
        Inl e \<Rightarrow> Inl e
      | Inr (certPool, peerCert) \<Rightarrow> Inr (clientConfig certPool peerCert peerName))"

text \<open>The variants that take the certificates themselves; \<open>keyPair\<close> is \<open>tls.X509KeyPair\<close>.\<close>

definition tls_material ::
  "(string \<Rightarrow> string \<Rightarrow> 'c result) \<Rightarrow> (string \<Rightarrow> 'p option) \<Rightarrow> string \<Rightarrow> string \<Rightarrow> string \<Rightarrow> ('p \<times> 'c) result" where
  "tls_material keyPair parsePool caCert cert key =
     (case parsePool caCert of
        None \<Rightarrow> Inl (Err ''failed to append CA certificate to pool'')
      | Some certPool \<Rightarrow> map_sum id (Pair certPool) (keyPair cert key))"

definition ServerTLS ::
  "(string \<Rightarrow> string \<Rightarrow> 'c result) \<Rightarrow> (string \<Rightarrow> 'p option) \<Rightarrow> string \<Rightarrow> string \<Rightarrow> string \<Rightarrow> string \<Rightarrow>
     (bool \<Rightarrow> ('p, 'c) tls_config result option) result" where
  "ServerTLS keyPair parsePool caCert cert key peerName =
     (case tls_material keyPair parsePool caCert cert key of
        Inl e \<Rightarrow> Inl e
      | Inr (certPool, certificate) \<Rightarrow> Inr (serverConfig (Some certPool) (Some certificate) peerName))"

definition ClientTLS ::
  "(string \<Rightarrow> string \<Rightarrow> 'c result) \<Rightarrow> (string \<Rightarrow> 'p option) \<Rightarrow> string \<Rightarrow> string \<Rightarrow> string \<Rightarrow> string \<Rightarrow>
     ('p, 'c) tls_config result" where
  "ClientTLS keyPair parsePool caCert cert key peerName =
     (case tls_material keyPair parsePool caCert cert key of
        Inl e \<Rightarrow> Inl e
      | Inr (certPool, certificate) \<Rightarrow> Inr (clientConfig (Some certPool) (Some certificate) peerName))"

section \<open>Lemmas\<close>

text \<open>
  Loading from files and from memory agree: the files of a key pair and of the authorities give the
  configuration that their contents give.
\<close>

lemma LoadClientTLS_ClientTLS:
  assumes "certFile \<noteq> '''' \<or> keyFile \<noteq> ''''" "caFile \<noteq> ''''" "readFile caFile = Inr caCert"
    and "loadKeyPair certFile keyFile = keyPair cert key"
  shows "LoadClientTLS loadKeyPair readFile parsePool caFile certFile keyFile peerName = Inr cfg \<longleftrightarrow>
    ClientTLS keyPair parsePool caCert cert key peerName = Inr cfg"
  using assms
  by (cases "keyPair cert key")
    (auto simp: LoadClientTLS_def loadCertificate_def ClientTLS_def tls_material_def split: option.splits)

lemma split_char_length_dash: "1 < length (split_char c s) \<longleftrightarrow> c \<in> set s"
proof (induction s)
  case (Cons x xs)
  have "split_char c xs \<noteq> []" by simp
  with Cons show ?case
    by (cases "split_char c xs") auto
qed simp

lemma join_append:
  "xs \<noteq> [] \<Longrightarrow> ys \<noteq> [] \<Longrightarrow> join sep (xs @ ys) = join sep xs @ sep @ join sep ys"
proof (induction xs)
  case (Cons x xs)
  then show ?case by (cases xs) (auto simp: join_Cons)
qed simp

end
