(* ===== verification/Manager.thy ===== *)
theory Manager
  imports Bitmap Process Util
begin

text \<open>
  The process manager of \<open>pkg/process/process_manager.go\<close>: its state and the sections of
  its handlers that run under the manager's lock.  A process is reached through a pointer
  that the registry, the handlers and the goroutines share, so processes live in a heap of
  numbered objects and the registry maps a name to an object.  Theory \<open>Manager_Steps\<close>
  composes these sections into the handlers and goroutines.
\<close>

section \<open>State\<close>

type_synonym addr = nat

record manager =
  portRangeMin :: int
  portRangeMax :: int
  processes :: "string \<rightharpoonup> addr"
  objects :: "addr \<rightharpoonup> process"
  nextObj :: addr
  availablePorts :: bitmap
  logsOpened :: nat

text \<open>
  \<open>logsOpened\<close> counts the log files that \<open>NewLonghornWriter\<close> has opened for processes.  A process
  keeps the file it was created with (\<open>pLoggerOpen\<close>), so a file that no object stands for cannot be
  closed any more.
\<close>

definition ParsePortRange :: "string \<Rightarrow> (int \<times> int) result" where
  "ParsePortRange portRange =
     (if portRange = '''' then Inl (Err ''empty port range'')
      else case split_char (CHR ''-'') portRange of
        [a, b] \<Rightarrow>
          (case atoi (trim_space a) of
             Inl e \<Rightarrow> Inl (Wrap ''invalid start port for range'' (atoi_error (trim_space a) e))
           | Inr portStart \<Rightarrow>
               (case atoi (trim_space b) of
                  Inl e \<Rightarrow> Inl (Wrap ''invalid end port for range'' (atoi_error (trim_space b) e))
                | Inr portEnd \<Rightarrow> Inr (to_int32 portStart, to_int32 portEnd)))
      | _ \<Rightarrow> Inl (Err (''invalid format for range: '' @ portRange)))"

definition NewManager :: "string \<Rightarrow> manager result" where
  "NewManager portRange =
     (case ParsePortRange portRange of
        Inl e \<Rightarrow> Inl e
      | Inr (start, end) \<Rightarrow>
          (case NewBitmap start end of
             Inl e \<Rightarrow> Inl e
           | Inr b \<Rightarrow> Inr \<lparr>portRangeMin = start, portRangeMax = end, processes = Map.empty,
                           objects = Map.empty, nextObj = 0, availablePorts = b, logsOpened = 0\<rparr>))"

section \<open>Ports\<close>

definition allocatePorts :: "int \<Rightarrow> 'x manager_scheme \<Rightarrow> (int \<times> int) result \<times> 'x manager_scheme" where
  "allocatePorts portCount pm =
     (if portCount < 0 then (Inl (Err (''invalid port count '' @ itoa portCount)), pm)
      else if portCount = 0 then (Inr (0, 0), pm)
      else case AllocateRange (availablePorts pm) portCount of
          (Inl e, b) \<Rightarrow> (Inl (Wrap (''failed to allocate '' @ itoa portCount @ '' ports'') e),
                         pm\<lparr>availablePorts := b\<rparr>)
        | (Inr (start, end), b) \<Rightarrow> (Inr (to_int32 start, to_int32 end), pm\<lparr>availablePorts := b\<rparr>))"

definition releasePorts :: "int \<Rightarrow> int \<Rightarrow> 'x manager_scheme \<Rightarrow> error option \<times> 'x manager_scheme" where
  "releasePorts start end pm =
     (if start < 0 \<or> end < 0
      then (Some (Err (''invalid start/end port '' @ itoa start @ '' '' @ itoa end)), pm)
      else case ReleaseRange (availablePorts pm) start end of
          (r, b) \<Rightarrow> (r, pm\<lparr>availablePorts := b\<rparr>))"

text \<open>
  The loop of \<open>allocateProcessPorts\<close> over the port arguments, from index \<open>i\<close>: each one is
  completed with its port and split at the commas.
\<close>

fun fill_port_args :: "int \<Rightarrow> int \<Rightarrow> int \<Rightarrow> string list \<Rightarrow> string list \<Rightarrow> error option \<times> string list" where
  "fill_port_args portStart portEnd i [] args = (None, args)"
| "fill_port_args portStart portEnd i (arg # portArgs) args =
     (if to_int32 (portStart + to_int32 i) > portEnd
      then (Some (Err (''cannot fit port args '' @ arg)), args)
      else fill_port_args portStart portEnd (i + 1) portArgs
             (args @ split_char (CHR '','') (arg @ itoa (portStart + i))))"

definition allocateProcessPorts ::
  "process \<Rightarrow> 'x manager_scheme \<Rightarrow> process result \<times> 'x manager_scheme" where
  "allocateProcessPorts p pm =
     (if int (length (pPortArgs p)) > pPortCount p
      then (Inl (Err (''too many port args ['' @ join '' '' (pPortArgs p) @ ''] for port count '' @
                  itoa (pPortCount p))), pm)
      else case allocatePorts (pPortCount p) pm of
          (Inl e, pm') \<Rightarrow>
            (Inl (Wrap (''cannot allocate '' @ itoa (pPortCount p) @ '' ports for '' @ pName p) e), pm')
        | (Inr (start, end), pm') \<Rightarrow>
            (case fill_port_args start end 0 (pPortArgs p) (pArgs p) of
               (Some e, args) \<Rightarrow> (Inl e, pm')
             | (None, args) \<Rightarrow>
                 (Inr (p\<lparr>pPortStart := start, pPortEnd := end, pArgs := args\<rparr>), pm')))"

text \<open>A failure to release is only logged.\<close>

definition releaseProcessPorts :: "process \<Rightarrow> 'x manager_scheme \<Rightarrow> 'x manager_scheme" where
  "releaseProcessPorts p pm = snd (releasePorts (pPortStart p) (pPortEnd p) pm)"

section \<open>Registry\<close>

definition new_object :: "process \<Rightarrow> 'x manager_scheme \<Rightarrow> 'x manager_scheme" where
  "new_object p pm = pm\<lparr>objects := (objects pm)(nextObj pm \<mapsto> p), nextObj := Suc (nextObj pm)\<rparr>"

definition upd_obj :: "addr \<Rightarrow> (process \<Rightarrow> process) \<Rightarrow> 'x manager_scheme \<Rightarrow> 'x manager_scheme" where
  "upd_obj a f pm =
     (case objects pm a of None \<Rightarrow> pm | Some p \<Rightarrow> pm\<lparr>objects := (objects pm)(a \<mapsto> f p)\<rparr>)"

definition findProcess :: "string \<Rightarrow> 'x manager_scheme \<Rightarrow> addr option" where
  "findProcess name pm = processes pm name"

text \<open>\<open>registerProcess\<close>; the pointer it stores is the one of the object it adds to the heap.\<close>

definition registerProcess :: "process \<Rightarrow> 'x manager_scheme \<Rightarrow> addr result \<times> 'x manager_scheme" where
  "registerProcess p pm =
     (if processes pm (pName p) \<noteq> None
      then (Inl (Status AlreadyExists (''process '' @ pName p @ '' already exists'')), pm)
      else case allocateProcessPorts p pm of
          (Inl e, pm') \<Rightarrow> (Inl e, pm')
        | (Inr p', pm') \<Rightarrow>
            (Inr (nextObj pm'),
             (new_object p' pm')\<lparr>processes := (processes pm')(pName p \<mapsto> nextObj pm')\<rparr>))"

text \<open>Whether the registry still holds the very process, compared by UUID.\<close>

definition is_current :: "process \<Rightarrow> 'x manager_scheme \<Rightarrow> bool" where
  "is_current p pm \<longleftrightarrow>
     (case processes pm (pName p) of
        None \<Rightarrow> False
      | Some b \<Rightarrow> map_option pUUID (objects pm b) = Some (pUUID p))"

text \<open>The locked section at the end of the goroutine of \<open>unregisterProcess\<close>.\<close>

definition unregister_commit :: "process \<Rightarrow> 'x manager_scheme \<Rightarrow> 'x manager_scheme" where
  "unregister_commit p pm =
     (if is_current p pm
      then releaseProcessPorts p (pm\<lparr>processes := (processes pm)(pName p := None)\<rparr>)
      else pm)"

text \<open>\<open>initProcessReplace\<close>: the new object and the one to be replaced.\<close>

definition initProcessReplace ::
  "process \<Rightarrow> 'x manager_scheme \<Rightarrow> (addr \<times> addr) result \<times> 'x manager_scheme" where
  "initProcessReplace p pm =
     (case processes pm (pName p) of
        None \<Rightarrow> (Inl (Status NotFound (''existing process '' @ pName p @ '' doesn't exists'')), pm)
      | Some old \<Rightarrow>
          (case allocateProcessPorts p pm of
             (Inl e, pm') \<Rightarrow> (Inl e, pm')
           | (Inr p', pm') \<Rightarrow> (Inr (nextObj pm', old), new_object p' pm')))"

text \<open>
  The locked section at the end of \<open>ProcessReplace\<close>: the replacement at \<open>a\<close> takes the place
  of \<open>old\<close>, unless another process is registered by now.
\<close>

definition replace_commit ::
  "addr \<Rightarrow> process \<Rightarrow> process \<Rightarrow> 'x manager_scheme \<Rightarrow> error option \<times> 'x manager_scheme" where
  "replace_commit a p old pm =
     (case processes pm (pName p) of
        None \<Rightarrow> (None, pm\<lparr>processes := (processes pm)(pName p \<mapsto> a)\<rparr>)
      | Some b \<Rightarrow>
          if map_option pUUID (objects pm b) = Some (pUUID old)
          then (let pm' = releaseProcessPorts old pm
                in (None, pm'\<lparr>processes := (processes pm')(pName p \<mapsto> a)\<rparr>))
          else (Some (Status AlreadyExists
                  (''process '' @ pName p @ '' to replace has changed in the meantime'')), pm))"

section \<open>Requests\<close>

text \<open>The process that \<open>ProcessCreate\<close> and \<open>ProcessReplace\<close> build from a specification.\<close>

definition new_process :: "process_spec \<Rightarrow> string \<Rightarrow> process" where
  "new_process spec uuid =
     \<lparr>pName = psName spec, pBinary = psBinary spec, pArgs = psArgs spec,
      pPortCount = psPortCount spec, pPortArgs = psPortArgs spec, pUUID = uuid,
      pState = StateStarting, pErrorMsg = '''', pConditions = Map.empty,
      pPortStart = 0, pPortEnd = 0, pDeletionTimestamp = None, pCmd = None,
      pLoggerOpen = True, pProbeStopped = False\<rparr>"

definition missing_argument :: "process_spec \<Rightarrow> bool" where
  "missing_argument spec \<longleftrightarrow> psName spec = '''' \<or> psBinary spec = ''''"

text \<open>
  \<open>ProcessCreate\<close> up to its first use of the update channel; the writer is the answer of
  \<open>NewLonghornWriter\<close>, which opens the log file.  Nothing closes the file when the registration fails.
\<close>

definition open_log :: "'x manager_scheme \<Rightarrow> 'x manager_scheme" where
  "open_log pm = pm\<lparr>logsOpened := Suc (logsOpened pm)\<rparr>"

definition ProcessCreate_begin ::
  "error option \<Rightarrow> process_spec \<Rightarrow> string \<Rightarrow> 'x manager_scheme \<Rightarrow> addr result \<times> 'x manager_scheme" where
  "ProcessCreate_begin writer spec uuid pm =
     (if missing_argument spec then (Inl (Status InvalidArgument ''missing required argument''), pm)
      else case writer of
          Some e \<Rightarrow> (Inl e, pm)
        | None \<Rightarrow> registerProcess (new_process spec uuid) (open_log pm))"

definition cannot_find :: "string \<Rightarrow> error" where
  "cannot_find name = Status NotFound (''cannot find process '' @ name)"

definition ProcessReplace_begin ::
  "error option \<Rightarrow> process_spec \<Rightarrow> string \<Rightarrow> string \<Rightarrow> 'x manager_scheme \<Rightarrow>
     (addr \<times> addr) result \<times> 'x manager_scheme" where
  "ProcessReplace_begin writer spec terminateSignal uuid pm =
     (if missing_argument spec then (Inl (Status InvalidArgument ''missing required argument''), pm)
      else if terminateSignal \<noteq> ''SIGHUP''
      then (Inl (Status InvalidArgument (''doesn't support terminate signal '' @ terminateSignal)), pm)
      else case writer of
          Some e \<Rightarrow> (Inl e, pm)
        | None \<Rightarrow> initProcessReplace (new_process spec uuid) (open_log pm))"

definition ProcessGet :: "string \<Rightarrow> 'x manager_scheme \<Rightarrow> process_response result" where
  "ProcessGet name pm =
     (case Option.bind (findProcess name pm) (objects pm) of
        None \<Rightarrow> Inl (cannot_find name)
      | Some p \<Rightarrow> Inr (RPCResponse p))"

text \<open>
  \<open>ProcessList\<close> keys the answer by the name in the process, not by the key of the registry;
  the \<open>order\<close> is the order in which Go happens to iterate over the registry.
\<close>

definition ProcessList :: "string list \<Rightarrow> 'x manager_scheme \<Rightarrow> (string \<rightharpoonup> process_response)" where
  "ProcessList order pm =
     fold (\<lambda>name resp. case Option.bind (processes pm name) (objects pm) of
              None \<Rightarrow> resp
            | Some p \<Rightarrow> resp(pName p \<mapsto> RPCResponse p)) order Map.empty"

text \<open>
  \<open>ProcessLog\<close> sends the lines of the stream until a send fails: \<open>srv\<close> tells for each line
  whether the send succeeds.  The answer is the list of lines sent, and the error.
\<close>

fun send_lines :: "(string \<Rightarrow> error option) \<Rightarrow> string list \<Rightarrow> string list \<times> error option" where
  "send_lines srv [] = ([], None)"
| "send_lines srv (l # ls) =
     (case srv l of
        Some e \<Rightarrow> ([], Some e)
      | None \<Rightarrow> (case send_lines srv ls of (sent, e) \<Rightarrow> (l # sent, e)))"

definition ProcessLog ::
  "(process \<Rightarrow> string list result) \<Rightarrow> (string \<Rightarrow> error option) \<Rightarrow> string \<Rightarrow> 'x manager_scheme \<Rightarrow>
     string list \<times> error option" where
  "ProcessLog streamLog srv name pm =
     (case Option.bind (findProcess name pm) (objects pm) of
        None \<Rightarrow> ([], Some (cannot_find name))
      | Some p \<Rightarrow> (case streamLog p of
            Inl e \<Rightarrow> ([], Some e)
          | Inr ls \<Rightarrow> send_lines srv ls))"

text \<open>
  \<open>ProcessWatch\<close> subscribes and sends every response that it takes from its channel, until the channel is
  closed or a send fails.  An item of the channel that is not a response is an error.
\<close>

datatype broadcast_item = Response process_response | OtherItem

fun send_responses ::
  "(process_response \<Rightarrow> error option) \<Rightarrow> broadcast_item list \<Rightarrow> process_response list \<times> error option" where
  "send_responses srv [] = ([], None)"
| "send_responses srv (OtherItem # items) = ([], Some (Err ''BUG: cannot get ProcessResponse from channel''))"
| "send_responses srv (Response r # items) =
     (case srv r of
        Some e \<Rightarrow> ([], Some e)
      | None \<Rightarrow> (case send_responses srv items of (sent, err) \<Rightarrow> (r # sent, err)))"

definition ProcessWatch ::
  "error option \<Rightarrow> (process_response \<Rightarrow> error option) \<Rightarrow> broadcast_item list \<Rightarrow>
     process_response list \<times> error option" where
  "ProcessWatch subscribed srv items =
     (case subscribed of Some e \<Rightarrow> ([], Some e) | None \<Rightarrow> send_responses srv items)"

lemma send_responses_complete:
  "send_responses srv (map Response rs) = (sent, err) \<Longrightarrow>
    (\<exists>rest. rs = sent @ rest \<and> (err = None \<longleftrightarrow> rest = [])) \<and> (\<forall>r \<in> set sent. srv r = None)"
  by (induction rs arbitrary: sent err) (auto split: option.splits prod.splits)

section \<open>Conditions of engine processes\<close>

text \<open>
  \<open>getProcessesToUpdateConditions\<close> visits the registry in some \<open>order\<close>; \<open>sha\<close> is the
  hexadecimal SHA-256 of a volume name.
\<close>

definition condition_update ::
  "(string \<Rightarrow> string) \<Rightarrow> (string \<rightharpoonup> mount_point) \<Rightarrow> process \<Rightarrow> process option" where
  "condition_update sha mps p =
     (if IsEngineProcess (pName p) \<and> pState p = StateRunning then
        (case ProcessNameToVolumeName (pName p) of
           None \<Rightarrow> None
         | Some volumeName \<Rightarrow>
             (case mps (sha volumeName) of
                None \<Rightarrow> None
              | Some mp \<Rightarrow>
                  Some (p\<lparr>pConditions := (pConditions p)
                            (EngineConditionFilesystemReadOnly \<mapsto> IsMountPointReadOnly mp)\<rparr>)))
      else None)"

fun getProcessesToUpdateConditions ::
  "(string \<Rightarrow> string) \<Rightarrow> (string \<rightharpoonup> mount_point) \<Rightarrow> string list \<Rightarrow> 'x manager_scheme \<Rightarrow>
     addr list \<times> 'x manager_scheme" where
  "getProcessesToUpdateConditions sha mps [] pm = ([], pm)"
| "getProcessesToUpdateConditions sha mps (name # order) pm =
     (case processes pm name of
        None \<Rightarrow> getProcessesToUpdateConditions sha mps order pm
      | Some a \<Rightarrow>
          (case Option.bind (objects pm a) (condition_update sha mps) of
             None \<Rightarrow> getProcessesToUpdateConditions sha mps order pm
           | Some p \<Rightarrow>
               (case getProcessesToUpdateConditions sha mps order (upd_obj a (\<lambda>_. p) pm) of
                  (as, pm') \<Rightarrow> (a # as, pm'))))"

section \<open>Lemmas on ports\<close>

text \<open>The ports a process holds, and the shape of its port range.\<close>

definition port_set :: "process \<Rightarrow> int set" where
  "port_set p = (if pPortCount p = 0 then {} else {pPortStart p..pPortEnd p})"

definition port_ok :: "process \<Rightarrow> bool" where
  "port_ok p \<longleftrightarrow> (if pPortCount p = 0 then pPortStart p = 0 \<and> pPortEnd p = 0
     else 0 < pPortCount p \<and> pPortEnd p = pPortStart p + pPortCount p - 1 \<and>
       0 \<le> pPortStart p \<and> pPortEnd p < 2 ^ 31)"

lemma fill_port_args_ok:
  assumes "0 \<le> s" "e < 2 ^ 31" "0 \<le> i" "s + i + int (length portArgs) \<le> e + 1"
  shows "fill_port_args s e i portArgs args =
    (None, args @ concat (map (\<lambda>(k, arg). split_char (CHR '','') (arg @ itoa (s + i + int k)))
                              (zip [0..<length portArgs] portArgs)))"
  using assms
proof (induction portArgs arbitrary: i args)
  case (Cons arg portArgs)
  have bounds: "s + i \<le> e" "i \<le> e" using Cons.prems by auto
  have "to_int32 i = i" "to_int32 (s + i) = s + i"
    using bounds Cons.prems by simp_all
  moreover have "map (\<lambda>(k, a). split_char (CHR '','') (a @ itoa (s + (i + 1) + int k)))
        (zip [0..<length portArgs] portArgs) =
      map (\<lambda>(k, a). split_char (CHR '','') (a @ itoa (s + i + int k)))
        (zip [Suc 0..<Suc (length portArgs)] portArgs)"
    by (simp only: map_Suc_upt [symmetric] zip_map1 map_map) (auto simp: comp_def algebra_simps)
  ultimately show ?case
    using bounds Cons.prems Cons.IH [of "i + 1" "args @ split_char (CHR '','') (arg @ itoa (s + i))"]
    by (simp add: upt_conv_Cons del: upt_Suc)
qed simp

lemma allocatePorts_cases:
  assumes wf: "wf_bitmap (availablePorts pm)" and alloc: "allocatePorts n pm = (r, pm')"
  obtains (err) e where "r = Inl e" "pm' = pm"
  | (zero) "n = 0" "r = Inr (0, 0)" "pm' = pm"
  | (range) s t b where "r = Inr (s, t)" "pm' = pm\<lparr>availablePorts := b\<rparr>" "0 < n"
      "AllocateRange (availablePorts pm) n = (Inr (s, t), b)" "t = s + n - 1" "0 \<le> s" "t < 2 ^ 31"
proof (cases "n \<le> 0")
  case True
  with alloc show ?thesis by (auto simp: allocatePorts_def intro: err zero split: if_splits)
next
  case False
  obtain r' b where ar: "AllocateRange (availablePorts pm) n = (r', b)" by fastforce
  show ?thesis
  proof (cases r')
    case (Inl e)
    with ar have "b = availablePorts pm" using AllocateRange_err by blast
    with Inl ar False alloc show ?thesis by (auto simp: allocatePorts_def intro: err)
  next
    case (Inr q)
    obtain s t where q: "q = (s, t)" by fastforce
    note ok = bm.allocate_ok [OF wf ar [unfolded Inr q]]
    have "s \<in> {s..t}" "t \<in> {s..t}" using ok by auto
    then have "s \<in> {0..<2 ^ 31}" "t \<in> {0..<2 ^ 31}"
      using ok bm.free_managed [OF wf] bm.managed_range [OF wf] by blast+
    with ok ar Inr q False alloc show ?thesis
      by (auto simp: allocatePorts_def intro!: range [of s t b])
  qed
qed

lemma allocateProcessPorts_err:
  assumes wf: "wf_bitmap (availablePorts pm)" and alloc: "allocateProcessPorts p pm = (Inl x, pm')"
  shows "pm' = pm"
proof (cases "pPortCount p < int (length (pPortArgs p))")
  case True
  with alloc show ?thesis by (simp add: allocateProcessPorts_def)
next
  case False
  obtain r pm1 where ap: "allocatePorts (pPortCount p) pm = (r, pm1)" by fastforce
  from wf ap show ?thesis
  proof (cases rule: allocatePorts_cases)
    case (range s t b)
    then have "fst (fill_port_args s t 0 (pPortArgs p) (pArgs p)) = None"
      using False by (simp add: fill_port_args_ok)
    with range ap alloc False show ?thesis
      by (auto simp: allocateProcessPorts_def split: prod.splits option.splits)
  qed (use ap alloc False in \<open>auto simp: allocateProcessPorts_def split: prod.splits option.splits\<close>)
qed

lemma allocateProcessPorts_ok:
  assumes led: "bm.ledger (availablePorts pm) own" and own: "own a = {}"
    and alloc: "allocateProcessPorts p pm = (Inr p', pm')"
  shows "\<exists>b. pm' = pm\<lparr>availablePorts := b\<rparr> \<and> bm.ledger b (own(a := port_set p')) \<and> port_ok p' \<and>
    bm_ports b = bm_ports (availablePorts pm) \<and> port_set p' \<subseteq> bm_free (availablePorts pm) \<and>
    bm_free b = bm_free (availablePorts pm) - port_set p'"
proof -
  have count: "\<not> pPortCount p < int (length (pPortArgs p))"
    using alloc by (auto simp: allocateProcessPorts_def)
  have wf: "wf_bitmap (availablePorts pm)" using led by (rule bm.ledger_invar)
  obtain r pm1 where ap: "allocatePorts (pPortCount p) pm = (r, pm1)" by fastforce
  from wf ap show ?thesis
  proof (cases rule: allocatePorts_cases)
    case (err e)
    with ap alloc count show ?thesis by (simp add: allocateProcessPorts_def)
  next
    case zero
    with ap alloc count have
      p': "p' = p\<lparr>pPortStart := 0, pPortEnd := 0, pArgs := pArgs p\<rparr>" and pm': "pm' = pm"
      by (auto simp: allocateProcessPorts_def split: prod.splits option.splits)
    have "own(a := {}) = own" using own by (rule fun_upd_idem)
    with zero led p' pm' show ?thesis
      by (intro exI [of _ "availablePorts pm"]) (simp add: port_set_def port_ok_def)
  next
    case (range s t b)
    then have "fill_port_args s t 0 (pPortArgs p) (pArgs p) =
        (None, snd (fill_port_args s t 0 (pPortArgs p) (pArgs p)))"
      using count by (simp add: fill_port_args_ok)
    with range ap alloc count obtain args where
      p': "p' = p\<lparr>pPortStart := s, pPortEnd := t, pArgs := args\<rparr>" and pm': "pm' = pm\<lparr>availablePorts := b\<rparr>"
      by (auto simp: allocateProcessPorts_def split: prod.splits option.splits)
    have "bm.ledger b (own(a := {s..t}))" "bm_ports b = bm_ports (availablePorts pm)"
      "{s..t} \<subseteq> bm_free (availablePorts pm)" "bm_free b = bm_free (availablePorts pm) - {s..t}"
      using bm.ledger_allocate [OF led range(4) own] bm.allocate_ok [OF wf range(4)] by auto
    with range p' pm' show ?thesis
      by (intro exI [of _ b]) (simp add: port_set_def port_ok_def)
  qed
qed

lemma allocateProcessPorts_same:
  "allocateProcessPorts p pm = (Inr p', pm') \<Longrightarrow>
    pName p' = pName p \<and> pUUID p' = pUUID p \<and> pBinary p' = pBinary p \<and> pState p' = pState p \<and>
    pPortCount p' = pPortCount p \<and> pPortArgs p' = pPortArgs p \<and> pCmd p' = pCmd p \<and>
    pDeletionTimestamp p' = pDeletionTimestamp p"
  by (auto simp: allocateProcessPorts_def split: sum.splits prod.splits option.splits if_splits)

lemma releaseProcessPorts_frame [pm_frame]:
  "\<exists>b. releaseProcessPorts p pm = pm\<lparr>availablePorts := b\<rparr>"
  by (auto simp: releaseProcessPorts_def releasePorts_def split: prod.splits
      intro: exI [of _ "availablePorts pm"])

lemma releaseProcessPorts_ledger:
  assumes led: "bm.ledger (availablePorts pm) own" and own: "own a = port_set p" and ok: "port_ok p"
  shows "bm.ledger (availablePorts (releaseProcessPorts p pm)) (own(a := {}))"
proof (cases "pPortCount p = 0")
  case True
  then have "availablePorts (releaseProcessPorts p pm) = availablePorts pm"
    using ok bm.ledger_release_none [OF led]
    by (auto simp: port_ok_def releaseProcessPorts_def releasePorts_def split: prod.splits)
  with True own led show ?thesis by (metis fun_upd_triv port_set_def)
next
  case False
  obtain r b where rel: "ReleaseRange (availablePorts pm) (pPortStart p) (pPortEnd p) = (r, b)" by fastforce
  with False ok have "availablePorts (releaseProcessPorts p pm) = b"
    by (simp add: port_ok_def releaseProcessPorts_def releasePorts_def)
  with bm.ledger_release [OF led rel] False own ok show ?thesis
    by (simp add: port_ok_def port_set_def)
qed

lemma releaseProcessPorts_free:
  assumes led: "bm.ledger (availablePorts pm) own" and own: "own a = port_set p" and ok: "port_ok p"
    and nz: "pPortCount p = 0 \<or> pPortEnd p \<noteq> 0"
  shows "bm_free (availablePorts (releaseProcessPorts p pm)) = bm_free (availablePorts pm) \<union> port_set p"
proof (cases "pPortCount p = 0")
  case True
  then show ?thesis using ok bm.ledger_release_none [OF led]
    by (auto simp: port_ok_def port_set_def releaseProcessPorts_def releasePorts_def split: prod.splits)
next
  case False
  obtain r b where rel: "ReleaseRange (availablePorts pm) (pPortStart p) (pPortEnd p) = (r, b)" by fastforce
  with False ok have "availablePorts (releaseProcessPorts p pm) = b"
    by (simp add: port_ok_def releaseProcessPorts_def releasePorts_def)
  with bm.ledger_release_free [OF led _ _ _ rel, of a] False own ok nz show ?thesis
    by (auto simp: port_ok_def port_set_def)
qed

section \<open>Port ranges as text\<close>

lemma ParsePortRange_print:
  assumes "0 \<le> a" "0 \<le> b" "a < 2 ^ 63" "b < 2 ^ 63"
  shows "ParsePortRange (itoa a @ ''-'' @ itoa b) = Inr (to_int32 a, to_int32 b)"
proof -
  have "CHR ''-'' \<notin> set (itoa a)" "CHR ''-'' \<notin> set (itoa b)"
    using itoa_nonneg_chars assms is_digit_not_sign by blast+
  then have "split_char (CHR ''-'') (itoa a @ CHR ''-'' # itoa b) = [itoa a, itoa b]"
    by (simp add: split_char_append split_char_notin)
  then show ?thesis
    using assms by (simp add: ParsePortRange_def trim_space_itoa atoi_itoa)
qed

section \<open>When the allocation succeeds\<close>

text \<open>The port arguments of a process, completed with its ports.\<close>

definition filled_args :: "int \<Rightarrow> string list \<Rightarrow> string list" where
  "filled_args start portArgs =
     concat (map (\<lambda>(k, arg). split_char (CHR '','') (arg @ itoa (start + int k)))
                 (zip [0..<length portArgs] portArgs))"

definition enough_ports :: "bitmap \<Rightarrow> int \<Rightarrow> bool" where
  "enough_ports b n \<longleftrightarrow> n = 0 \<or> n = 1 \<and> bm_free b \<noteq> {} \<or> (\<exists>t. {t..t + n} \<subseteq> bm_free b)"

lemma allocateProcessPorts_succeeds:
  assumes wf: "wf_bitmap (availablePorts pm)" and args: "int (length (pPortArgs p)) \<le> pPortCount p"
    and enough: "enough_ports (availablePorts pm) (pPortCount p)"
  shows "\<exists>p' b. allocateProcessPorts p pm = (Inr p', pm\<lparr>availablePorts := b\<rparr>) \<and>
    pArgs p' = pArgs p @ filled_args (pPortStart p') (pPortArgs p) \<and>
    port_set p' \<subseteq> bm_free (availablePorts pm) \<and> bm_free b = bm_free (availablePorts pm) - port_set p'"
proof (cases "pPortCount p = 0")
  case True
  with args have "allocateProcessPorts p pm = (Inr (p\<lparr>pPortStart := 0, pPortEnd := 0\<rparr>), pm)"
    by (simp add: allocateProcessPorts_def allocatePorts_def)
  with True args show ?thesis
    by (intro exI [of _ "p\<lparr>pPortStart := 0, pPortEnd := 0\<rparr>"] exI [of _ "availablePorts pm"])
      (simp add: filled_args_def port_set_def)
next
  case False
  let ?n = "pPortCount p"
  have n: "0 < ?n" using False args by simp
  obtain s e b where al: "AllocateRange (availablePorts pm) ?n = (Inr (s, e), b)"
    using AllocateRange_complete [OF wf n] enough False unfolding enough_ports_def by blast
  note ok = bm.allocate_ok [OF wf al]
  have "{s..e} \<subseteq> {0..<2 ^ 31}" "s \<le> e"
    using ok bm.free_managed [OF wf] bm.managed_range [OF wf] by auto
  then have bounds: "0 \<le> s" "s < 2 ^ 31" "e < 2 ^ 31" "0 \<le> e" by auto
  have "fill_port_args s e 0 (pPortArgs p) (pArgs p) = (None, pArgs p @ filled_args s (pPortArgs p))"
    using fill_port_args_ok [of s e 0 "pPortArgs p"] bounds ok args by (simp add: filled_args_def)
  then have "allocateProcessPorts p pm = (Inr (p\<lparr>pPortStart := s, pPortEnd := e,
      pArgs := pArgs p @ filled_args s (pPortArgs p)\<rparr>), pm\<lparr>availablePorts := b\<rparr>)"
    using al n args bounds by (simp add: allocateProcessPorts_def allocatePorts_def)
  with ok False show ?thesis
    by (intro exI [of _ "p\<lparr>pPortStart := s, pPortEnd := e, pArgs := pArgs p @ filled_args s (pPortArgs p)\<rparr>"] exI [of _ b])
      (auto simp: port_set_def)
qed

end
