(* ===== verification/Work.thy ===== *)
theory Work
  imports Prelude
begin

text \<open>
  Systems whose state changes by actions, some of which are \<open>internal\<close>: the system performs
  them by itself, without a new request from outside.  When every internal action uses up
  some of the work that is left, every internal run is bounded and leads to a state in which
  nothing internal is left to do.
\<close>

fun run_actions :: "('x \<Rightarrow> 's \<Rightarrow> 's option) \<Rightarrow> 'x list \<Rightarrow> 's \<Rightarrow> 's option" where
  "run_actions act [] s = Some s"
| "run_actions act (x # xs) s = (case act x s of None \<Rightarrow> None | Some s' \<Rightarrow> run_actions act xs s')"

lemma run_actions_append:
  "run_actions act (xs @ ys) s = Option.bind (run_actions act xs s) (run_actions act ys)"
  by (induction xs arbitrary: s) (auto split: option.splits)

locale bounded_work =
  fixes act :: "'x \<Rightarrow> 's \<Rightarrow> 's option"
    and internal :: "'x \<Rightarrow> bool"
    and work :: "'s \<Rightarrow> nat"
  assumes work_decreases: "internal x \<Longrightarrow> act x s = Some t \<Longrightarrow> work t < work s"
begin

lemma internal_run_bounded:
  "list_all internal xs \<Longrightarrow> run_actions act xs s = Some t \<Longrightarrow> length xs + work t \<le> work s"
proof (induction xs arbitrary: s)
  case (Cons x xs)
  then obtain u where "act x s = Some u" "run_actions act xs u = Some t" by (auto split: option.splits)
  with Cons work_decreases [of x s u] show ?case by fastforce
qed simp

lemma settles:
  "\<exists>xs t. list_all internal xs \<and> run_actions act xs s = Some t \<and> length xs \<le> work s \<and>
     (\<forall>x. internal x \<longrightarrow> act x t = None)"
proof (induction "work s" arbitrary: s rule: less_induct)
  case less
  show ?case
  proof (cases "\<exists>x t. internal x \<and> act x s = Some t")
    case True
    then obtain x t where x: "internal x" "act x s = Some t" by blast
    from less [OF work_decreases [OF x]] obtain xs u where
      "list_all internal xs" "run_actions act xs t = Some u" "length xs \<le> work t"
      "\<forall>x. internal x \<longrightarrow> act x u = None" by blast
    with x work_decreases [OF x] show ?thesis by (intro exI [of _ "x # xs"] exI [of _ u]) auto
  next
    case False
    then show ?thesis by (intro exI [of _ "[]"] exI [of _ s]) auto
  qed
qed

end

end
