(* ===== verification/Manager_Steps.thy ===== *)
theory Manager_Steps
  imports Manager Work
begin

text \<open>
  The handlers and goroutines of the process manager as threads that interleave.  A thread
  is a program counter with its local variables; \<open>gstep\<close> executes one atomic section of a
  thread (a critical section, a channel operation, or a read or write outside of the locks).
  \<open>Notify\<close> is the blocking send \<open>p.UpdateCh <- p\<close> on the unbuffered channel that the monitor
  goroutine receives from.
\<close>

section \<open>Threads\<close>

datatype gor =
    Done
  | Notify addr gor
  | CreateStart addr
  | CreateReply addr
  | RunCmd addr
  | RunWait addr
  | RunClose addr "error option"
  | RunSet addr "error option"
  | ProbeBegin addr
  | ProbeLoop addr nat
  | ProbeOk addr
  | ProbeFail addr
  | StopCall addr signal gor
  | StopDecide addr signal int gor
  | StopSpawn addr signal bool gor
  | StopCmd addr bool signal bool
  | StopSend addr signal bool
  | StopRead addr
  | StopWrite addr
  | StopWait addr nat
  | StopKill addr
  | StopClose addr
  | DeleteReply addr
  | UnregBegin addr process_response
  | UnregWait addr nat
  | UnregCheck addr
  | UnregCommit addr
  | ReplaceCompare addr addr
  | ReplaceStart addr addr
  | ReplaceWait addr addr nat
  | ReplaceCommit addr addr
  | ReplaceRelease addr error
  | ReplaceReply addr
  | cond_idle: CondIdle
  | CondSend "addr list"

text \<open>The monitor goroutine of \<open>startMonitoring\<close>.\<close>

datatype monitor = mon_idle: MonIdle | MonGot addr | MonCheck addr process_response
  | MonSend process_response | MonDone

text \<open>
  The state of the running manager: \<open>events\<close> is what the monitor has broadcast, \<open>replies\<close>
  what the handlers have answered, \<open>calls\<close> how many requests have been accepted.
\<close>

record sys = manager +
  threads :: "gor list"
  monitor :: monitor
  clock :: int
  events :: "process_response list"
  replies :: "process_response result list"
  calls :: nat

text \<open>
  What the operating system decides in a step: the answer of \<open>NewCommand\<close>, whether
  \<open>cmd.Run\<close> could start the program, how the program ends, and which channel a \<open>select\<close> picks.
\<close>

record env =
  envCommand :: "command result"
  envRunStart :: "error option"
  envExit :: "error option"
  envSelect :: wait_event

definition reply :: "process_response result \<Rightarrow> sys \<Rightarrow> sys" where
  "reply r s = s\<lparr>replies := replies s @ [r]\<rparr>"

definition cleanupReplacementProcess :: "addr \<Rightarrow> error \<Rightarrow> gor" where
  "cleanupReplacementProcess a e = StopCall a SIGINT (ReplaceRelease a e)"

fun gstep_obj :: "env \<Rightarrow> gor \<Rightarrow> addr \<Rightarrow> process \<Rightarrow> sys \<Rightarrow> (gor list \<times> sys) option" where
  "gstep_obj e (Notify _ k) a p s =
     (if mon_idle (monitor s) then Some ([k], s\<lparr>monitor := MonGot a\<rparr>) else None)"
| "gstep_obj e (CreateStart _) a p s =
     (case Start (envCommand e) p of
        (Some _, p') \<Rightarrow> Some ([Notify a (CreateReply a)], upd_obj a (\<lambda>_. p') s)
      | (None, p') \<Rightarrow> Some ([RunCmd a, ProbeBegin a, CreateReply a], upd_obj a (\<lambda>_. p') s))"
| "gstep_obj e (CreateReply _) a p s = Some ([], reply (Inr (RPCResponse p)) s)"
| "gstep_obj e (RunCmd _) a p s =
     (case envRunStart e of
        Some err \<Rightarrow> Some ([RunClose a (Some err)], s)
      | None \<Rightarrow> Some ([RunWait a], upd_obj a cmd_started s))"
| "gstep_obj e (RunWait _) a p s = Some ([RunClose a (envExit e)], upd_obj a cmd_ended s)"
| "gstep_obj e (RunClose _ r) a p s = Some ([RunSet a r], upd_obj a run_close_probe s)"
| "gstep_obj e (RunSet _ r) a p s = Some ([Notify a Done], upd_obj a (run_finished r) s)"
| "gstep_obj e (ProbeBegin _) a p s =
     Some ([if pPortStart p \<noteq> 0 then ProbeLoop a WaitCount else ProbeOk a], s)"
| "gstep_obj e (ProbeLoop _ 0) a p s = Some ([ProbeFail a], s)"
| "gstep_obj e (ProbeLoop _ (Suc n)) a p s =
     (case envSelect e of
        StopChClosed \<Rightarrow> if pProbeStopped p then Some ([ProbeFail a], s) else None
      | Tick ok \<Rightarrow> Some ([if ok then ProbeOk a else ProbeLoop a n], s))"
| "gstep_obj e (ProbeOk _) a p s = Some ([Notify a Done], upd_obj a set_running s)"
| "gstep_obj e (ProbeFail _) a p s =
     Some ([if IsStopped p then Done else StopCall a SIGINT Done], s)"
| "gstep_obj e (StopCall _ sig k) a p s = Some ([StopDecide a sig (clock s) k], s)"
| "gstep_obj e (StopDecide _ sig now k) a p s =
     (case StopWithSignal_decide now p of (needStop, needTimeoutKill, p') \<Rightarrow>
        Some ([if \<not> needStop \<and> \<not> needTimeoutKill then k else Notify a (StopSpawn a sig needStop k)],
              upd_obj a (\<lambda>_. p') s))"
| "gstep_obj e (StopSpawn _ sig needStop k) a p s =
     Some ([StopCmd a (pCmd p \<noteq> None) sig needStop, k], s)"
| "gstep_obj e (StopCmd _ hasCmd sig needStop) a p s =
     Some ([if \<not> hasCmd \<or> \<not> cmd_running p then StopRead a else StopSend a sig needStop], s)"
| "gstep_obj e (StopSend _ sig needStop) a p s =
     (if needStop then Some ([StopWait a WaitCount], upd_obj a (send_signal sig) s)
      else Some ([StopKill a], s))"
| "gstep_obj e (StopRead _) a p s = Some ([if IsStopped p then StopClose a else StopWrite a], s)"
| "gstep_obj e (StopWrite _) a p s = Some ([StopClose a], upd_obj a stop_write s)"
| "gstep_obj e (StopWait _ 0) a p s = Some ([StopKill a], s)"
| "gstep_obj e (StopWait _ (Suc n)) a p s = Some ([if IsStopped p then StopClose a else StopWait a n], s)"
| "gstep_obj e (StopKill _) a p s = Some ([StopClose a], upd_obj a send_kill s)"
| "gstep_obj e (StopClose _) a p s = Some ([Done], upd_obj a close_logger s)"
| "gstep_obj e (DeleteReply _) a p s = Some ([UnregBegin a ((RPCResponse p)\<lparr>prDeleted := True\<rparr>)], s)"
| "gstep_obj e (UnregBegin _ resp) a p s =
     Some (if is_current p s then [UnregWait a WaitCount] else [], reply (Inr resp) s)"
| "gstep_obj e (UnregWait _ 0) a p s = Some ([UnregCheck a], s)"
| "gstep_obj e (UnregWait _ (Suc n)) a p s =
     Some ([if IsStopped p then UnregCheck a else UnregWait a n], s)"
| "gstep_obj e (UnregCheck _) a p s = Some ([if IsStopped p then UnregCommit a else Done], s)"
| "gstep_obj e (UnregCommit _) a p s = Some ([Notify a Done], unregister_commit p s)"
| "gstep_obj e (ReplaceCompare _ old) a p s =
     (case objects s old of
        None \<Rightarrow> None
      | Some q \<Rightarrow> if pBinary q = pBinary p then Some ([], reply (Inr (RPCResponse q)) s)
                 else Some ([ReplaceStart a old], s))"
| "gstep_obj e (ReplaceStart _ old) a p s =
     (case Start (envCommand e) p of
        (Some _, p') \<Rightarrow>
          Some ([cleanupReplacementProcess a (Err (''failed to init replacement process '' @ pName p))],
                upd_obj a (\<lambda>_. p') s)
      | (None, p') \<Rightarrow> Some ([RunCmd a, ProbeBegin a, ReplaceWait a old 30], upd_obj a (\<lambda>_. p') s))"
| "gstep_obj e (ReplaceWait _ old 0) a p s = Some ([StopCall old SIGHUP (ReplaceCommit a old)], s)"
| "gstep_obj e (ReplaceWait _ old (Suc n)) a p s =
     Some ([if pState p = StateRunning then StopCall old SIGHUP (ReplaceCommit a old)
            else if pState p \<noteq> StateStarting
            then cleanupReplacementProcess a (Err (''failed to start replacement process '' @ pName p))
            else ReplaceWait a old n], s)"
| "gstep_obj e (ReplaceCommit _ old) a p s =
     (case objects s old of
        None \<Rightarrow> None
      | Some q \<Rightarrow>
          (case replace_commit a p q s of
             (None, s') \<Rightarrow> Some ([Notify a (ReplaceReply a)], s')
           | (Some err, s') \<Rightarrow> Some ([cleanupReplacementProcess a err], s')))"
| "gstep_obj e (ReplaceRelease _ err) a p s = Some ([], reply (Inl err) (releaseProcessPorts p s))"
| "gstep_obj e (ReplaceReply _) a p s = Some ([], reply (Inr (RPCResponse p)) s)"
| "gstep_obj e g a p s = None"

text \<open>The process a thread is about to act on; \<open>CondSend\<close> acts on none until it notifies.\<close>

fun target :: "gor \<Rightarrow> addr option" where
  "target (Notify a k) = Some a"
| "target (CreateStart a) = Some a"
| "target (CreateReply a) = Some a"
| "target (RunCmd a) = Some a"
| "target (RunWait a) = Some a"
| "target (RunClose a r) = Some a"
| "target (RunSet a r) = Some a"
| "target (ProbeBegin a) = Some a"
| "target (ProbeLoop a n) = Some a"
| "target (ProbeOk a) = Some a"
| "target (ProbeFail a) = Some a"
| "target (StopCall a sig k) = Some a"
| "target (StopDecide a sig now k) = Some a"
| "target (StopSpawn a sig b k) = Some a"
| "target (StopCmd a h sig b) = Some a"
| "target (StopSend a sig b) = Some a"
| "target (StopRead a) = Some a"
| "target (StopWrite a) = Some a"
| "target (StopWait a n) = Some a"
| "target (StopKill a) = Some a"
| "target (StopClose a) = Some a"
| "target (DeleteReply a) = Some a"
| "target (UnregBegin a r) = Some a"
| "target (UnregWait a n) = Some a"
| "target (UnregCheck a) = Some a"
| "target (UnregCommit a) = Some a"
| "target (ReplaceCompare a old) = Some a"
| "target (ReplaceStart a old) = Some a"
| "target (ReplaceWait a old n) = Some a"
| "target (ReplaceCommit a old) = Some a"
| "target (ReplaceRelease a err) = Some a"
| "target (ReplaceReply a) = Some a"
| "target _ = None"

definition gstep :: "env \<Rightarrow> gor \<Rightarrow> sys \<Rightarrow> (gor list \<times> sys) option" where
  "gstep e g s =
     (case target g of
        Some a \<Rightarrow> (case objects s a of None \<Rightarrow> None | Some p \<Rightarrow> gstep_obj e g a p s)
      | None \<Rightarrow>
          (case g of
             CondSend [] \<Rightarrow> Some ([CondIdle], s)
           | CondSend (a # as) \<Rightarrow> Some ([Notify a (CondSend as)], s)
           | _ \<Rightarrow> None))"

section \<open>The monitor\<close>

definition mstep :: "sys \<Rightarrow> sys option" where
  "mstep s =
     (case monitor s of
        MonGot a \<Rightarrow>
          (case objects s a of
             None \<Rightarrow> None
           | Some p \<Rightarrow> Some (s\<lparr>monitor := MonCheck a (RPCResponse p)\<rparr>))
      | MonCheck a resp \<Rightarrow>
          (case objects s a of
             None \<Rightarrow> None
           | Some p \<Rightarrow> Some (s\<lparr>monitor := MonSend (if processes s (pName p) = None
                                                 then resp\<lparr>prDeleted := True\<rparr> else resp)\<rparr>))
      | MonSend resp \<Rightarrow> Some (s\<lparr>monitor := MonIdle, events := events s @ [resp]\<rparr>)
      | _ \<Rightarrow> None)"

section \<open>Actions of the system\<close>

text \<open>
  \<open>util.UUID\<close> draws a random identifier; the model takes it as an argument of the request
  and only relies on it being new.
\<close>

definition fresh_uuid :: "string \<Rightarrow> 'x manager_scheme \<Rightarrow> bool" where
  "fresh_uuid u pm \<longleftrightarrow> list_all (\<lambda>a. map_option pUUID (objects pm a) \<noteq> Some u) [0..<nextObj pm]"

datatype action =
    CallCreate "error option" process_spec string
  | CallDelete string
  | CallReplace "error option" process_spec string string
  | Thread nat env
  | Monitor
  | ContextDone
  | PassTime nat
  | MountCheck nat "string \<Rightarrow> string" "mount_point list result" "string list"

definition spawn :: "gor \<Rightarrow> sys \<Rightarrow> sys" where
  "spawn g s = s\<lparr>threads := threads s @ [g]\<rparr>"

definition new_call :: "sys \<Rightarrow> sys" where
  "new_call s = s\<lparr>calls := Suc (calls s)\<rparr>"

definition replace_thread :: "nat \<Rightarrow> gor list \<Rightarrow> sys \<Rightarrow> sys" where
  "replace_thread i gs s = s\<lparr>threads := take i (threads s) @ gs @ drop (Suc i) (threads s)\<rparr>"

definition ProcessCreate :: "error option \<Rightarrow> process_spec \<Rightarrow> string \<Rightarrow> sys \<Rightarrow> sys" where
  "ProcessCreate writer spec uuid s =
     (case ProcessCreate_begin writer spec uuid (new_call s) of
        (Inl err, s') \<Rightarrow> reply (Inl err) s'
      | (Inr a, s') \<Rightarrow> spawn (Notify a (CreateStart a)) s')"

definition ProcessDelete :: "string \<Rightarrow> sys \<Rightarrow> sys" where
  "ProcessDelete name s =
     (case findProcess name s of
        None \<Rightarrow> reply (Inl (cannot_find name)) (new_call s)
      | Some a \<Rightarrow> spawn (StopCall a SIGINT (DeleteReply a)) (new_call s))"

definition ProcessReplace :: "error option \<Rightarrow> process_spec \<Rightarrow> string \<Rightarrow> string \<Rightarrow> sys \<Rightarrow> sys" where
  "ProcessReplace writer spec terminateSignal uuid s =
     (case ProcessReplace_begin writer spec terminateSignal uuid (new_call s) of
        (Inl err, s') \<Rightarrow> reply (Inl err) s'
      | (Inr (a, old), s') \<Rightarrow> spawn (ReplaceCompare a old) s')"

text \<open>
  \<open>checkMountPointStatusForEngine\<close>; on an error of the mount table it goes on with a nil map.
\<close>

definition checkMountPointStatusForEngine ::
  "(string \<Rightarrow> string) \<Rightarrow> mount_point list result \<Rightarrow> string list \<Rightarrow> sys \<Rightarrow> (gor list \<times> sys) option" where
  "checkMountPointStatusForEngine sha mounts order s =
     (case GetVolumeMountPointMap mounts of
        None \<Rightarrow> None
      | Some r \<Rightarrow>
          (case getProcessesToUpdateConditions sha
                  (case r of Inl _ \<Rightarrow> Map.empty | Inr m \<Rightarrow> m) order s of
             (as, s') \<Rightarrow> Some ([CondSend as], s')))"

fun act :: "action \<Rightarrow> sys \<Rightarrow> sys option" where
  "act (CallCreate w spec u) s = (if fresh_uuid u s then Some (ProcessCreate w spec u s) else None)"
| "act (CallDelete name) s = Some (ProcessDelete name s)"
| "act (CallReplace w spec sig u) s =
     (if fresh_uuid u s then Some (ProcessReplace w spec sig u s) else None)"
| "act (Thread i e) s =
     (if i < length (threads s) then
        (case gstep e (threads s ! i) s of
           None \<Rightarrow> None
         | Some (gs, s') \<Rightarrow> Some (replace_thread i gs s'))
      else None)"
| "act Monitor s = mstep s"
| "act ContextDone s = (if mon_idle (monitor s) then Some (s\<lparr>monitor := MonDone\<rparr>) else None)"
| "act (PassTime d) s = Some (s\<lparr>clock := clock s + int d\<rparr>)"
| "act (MountCheck i sha mounts order) s =
     (if i < length (threads s) \<and> cond_idle (threads s ! i) then
        (case checkMountPointStatusForEngine sha mounts order s of
           None \<Rightarrow> None
         | Some (gs, s') \<Rightarrow> Some (replace_thread i gs s'))
      else None)"

definition init_sys :: "manager \<Rightarrow> sys" where
  "init_sys pm = manager.extend pm
     \<lparr>threads = [CondIdle], monitor = MonIdle, clock = 0, events = [], replies = [], calls = 0\<rparr>"

text \<open>
  The reachable states, for a manager whose port range lies in the non-negative \<open>int32\<close>
  values and is not the whole of them.
\<close>

definition sane_range :: "manager \<Rightarrow> bool" where
  "sane_range pm \<longleftrightarrow> 0 \<le> portRangeMin pm \<and> portRangeMax pm - portRangeMin pm < 2 ^ 31 - 1"

inductive step :: "sys \<Rightarrow> sys \<Rightarrow> bool" where
  action: "act x s = Some s' \<Longrightarrow> step s s'"

inductive reachable :: "string \<Rightarrow> sys \<Rightarrow> bool" for portRange where
  init: "NewManager portRange = Inr pm \<Longrightarrow> sane_range pm \<Longrightarrow> reachable portRange (init_sys pm)"
| step: "reachable portRange s \<Longrightarrow> step s s' \<Longrightarrow> reachable portRange s'"

inductive_simps step_iff: "step s s'"

text \<open>Executing a list of actions, for concrete runs.\<close>

definition exec :: "action list \<Rightarrow> sys \<Rightarrow> sys option" where
  "exec = run_actions act"

lemma exec_reachable: "reachable r s \<Longrightarrow> exec xs s = Some s' \<Longrightarrow> reachable r s'"
  unfolding exec_def
proof (induction xs arbitrary: s)
  case (Cons x xs)
  then obtain s1 where "act x s = Some s1" "run_actions act xs s1 = Some s'" by (auto split: option.splits)
  with Cons show ?case by (meson reachable.step step.action)
qed simp

end
