(* ===== verification/Manager_Invariant.thy ===== *)
theory Manager_Invariant
  imports Manager_Steps
begin

text \<open>
  The invariant of the running process manager, and that every action keeps it: the registry
  and the heap agree, UUIDs and in-flight replacements are distinct, and the ports of the
  bitmap are booked to exactly the processes that are registered or about to be.
\<close>

section \<open>What the threads hold\<close>

text \<open>The processes a thread refers to, and the replacement it has not registered yet.\<close>

fun addrs :: "gor \<Rightarrow> addr set" where
  "addrs (Notify a k) = insert a (addrs k)"
| "addrs (StopCall a sig k) = insert a (addrs k)"
| "addrs (StopDecide a sig now k) = insert a (addrs k)"
| "addrs (StopSpawn a sig b k) = insert a (addrs k)"
| "addrs (ReplaceCompare a old) = {a, old}"
| "addrs (ReplaceStart a old) = {a, old}"
| "addrs (ReplaceWait a old n) = {a, old}"
| "addrs (ReplaceCommit a old) = {a, old}"
| "addrs (CondSend as) = set as"
| "addrs g = set_option (target g)"

fun repl :: "gor \<Rightarrow> addr list" where
  "repl (Notify a k) = repl k"
| "repl (StopCall a sig k) = repl k"
| "repl (StopDecide a sig now k) = repl k"
| "repl (StopSpawn a sig b k) = repl k"
| "repl (ReplaceCompare a old) = [a]"
| "repl (ReplaceStart a old) = [a]"
| "repl (ReplaceWait a old n) = [a]"
| "repl (ReplaceCommit a old) = [a]"
| "repl (ReplaceRelease a err) = [a]"
| "repl g = []"

definition inflight :: "gor list \<Rightarrow> addr list" where
  "inflight gs = concat (map repl gs)"

fun mon_addrs :: "monitor \<Rightarrow> addr set" where
  "mon_addrs (MonGot a) = {a}"
| "mon_addrs (MonCheck a r) = {a}"
| "mon_addrs _ = {}"

lemma inflight_simps [simp]:
  "inflight [] = []" "inflight (g # gs) = repl g @ inflight gs"
  "inflight (gs @ hs) = inflight gs @ inflight hs"
  by (simp_all add: inflight_def)

section \<open>The invariant\<close>

text \<open>The ports booked to a process: those of its range while it is registered or in flight.\<close>

definition holder :: "sys \<Rightarrow> addr \<Rightarrow> bool" where
  "holder s a \<longleftrightarrow> a \<in> ran (processes s) \<or> a \<in> set (inflight (threads s))"

definition own :: "sys \<Rightarrow> addr \<Rightarrow> int set" where
  "own s a = (if holder s a then case objects s a of None \<Rightarrow> {} | Some p \<Rightarrow> port_set p else {})"

definition heap_ok :: "'x manager_scheme \<Rightarrow> bool" where
  "heap_ok s \<longleftrightarrow> (\<forall>a. objects s a \<noteq> None \<longleftrightarrow> a < nextObj s) \<and>
     (\<forall>a p. objects s a = Some p \<longrightarrow> port_ok p) \<and>
     (\<forall>a b p q. objects s a = Some p \<longrightarrow> objects s b = Some q \<longrightarrow> pUUID p = pUUID q \<longrightarrow> a = b)"

definition registry_ok :: "'x manager_scheme \<Rightarrow> bool" where
  "registry_ok s \<longleftrightarrow> (\<forall>n a. processes s n = Some a \<longrightarrow> (\<exists>p. objects s a = Some p \<and> pName p = n))"

definition threads_ok :: "sys \<Rightarrow> bool" where
  "threads_ok s \<longleftrightarrow> (\<forall>g \<in> set (threads s). \<forall>a \<in> addrs g. a < nextObj s) \<and>
     (\<forall>a \<in> mon_addrs (monitor s). a < nextObj s) \<and>
     distinct (inflight (threads s)) \<and>
     (\<forall>a \<in> set (inflight (threads s)). a \<notin> ran (processes s))"

definition ports_ok :: "sys \<Rightarrow> bool" where
  "ports_ok s \<longleftrightarrow> bm.ledger (availablePorts s) (own s) \<and>
     bm_ports (availablePorts s) = {portRangeMin s..portRangeMax s}"

definition pm_inv :: "sys \<Rightarrow> bool" where
  "pm_inv s \<longleftrightarrow> heap_ok s \<and> registry_ok s \<and> threads_ok s \<and> ports_ok s"

section \<open>Frames\<close>

text \<open>
  Most sections of the threads leave the registry, the ports and what identifies the
  processes as they are.
\<close>

definition same_objects :: "'x manager_scheme \<Rightarrow> 'y manager_scheme \<Rightarrow> bool" where
  "same_objects s t \<longleftrightarrow> (\<forall>a. rel_option same_identity (objects s a) (objects t a)) \<and>
     nextObj t = nextObj s"

definition frame :: "sys \<Rightarrow> sys \<Rightarrow> bool" where
  "frame s t \<longleftrightarrow> same_objects s t \<and> processes t = processes s \<and>
     availablePorts t = availablePorts s \<and> portRangeMin t = portRangeMin s \<and>
     portRangeMax t = portRangeMax s \<and> threads t = threads s"

lemma rel_option_same_refl [simp]: "rel_option same_identity x x"
  by (simp add: option.rel_refl)

lemma same_objects_refl [simp, intro]: "same_objects s s"
  by (simp add: same_objects_def)

lemma same_objects_upd:
  "(\<And>p. objects s a = Some p \<Longrightarrow> same_identity p (f p)) \<Longrightarrow> same_objects s (upd_obj a f s)"
  by (auto simp: same_objects_def upd_obj_def split: option.splits)

lemma upd_obj_simps [simp]:
  "processes (upd_obj a f s) = processes s" "availablePorts (upd_obj a f s) = availablePorts s"
  "nextObj (upd_obj a f s) = nextObj s" "portRangeMin (upd_obj a f s) = portRangeMin s"
  "portRangeMax (upd_obj a f s) = portRangeMax s"
  by (simp_all add: upd_obj_def split: option.splits)

lemma upd_obj_sys [simp]:
  fixes s :: sys
  shows "threads (upd_obj a f s) = threads s" "monitor (upd_obj a f s) = monitor s"
    "clock (upd_obj a f s) = clock s" "events (upd_obj a f s) = events s"
    "replies (upd_obj a f s) = replies s" "calls (upd_obj a f s) = calls s"
  by (simp_all add: upd_obj_def split: option.splits)

lemma reply_simps [simp]:
  "processes (reply r s) = processes s" "availablePorts (reply r s) = availablePorts s"
  "nextObj (reply r s) = nextObj s" "portRangeMin (reply r s) = portRangeMin s"
  "portRangeMax (reply r s) = portRangeMax s" "objects (reply r s) = objects s"
  "threads (reply r s) = threads s" "monitor (reply r s) = monitor s"
  "calls (reply r s) = calls s" "replies (reply r s) = replies s @ [r]"
  by (simp_all add: reply_def)

lemma frame_refl [simp, intro]: "frame s s"
  by (simp add: frame_def)

lemma frame_upd:
  "objects s a = Some p \<Longrightarrow> same_identity p (f p) \<Longrightarrow> frame s (upd_obj a f s)"
  by (auto simp: frame_def intro: same_objects_upd)

lemma frame_reply [simp]: "frame s (reply r s)"
  by (simp add: frame_def same_objects_def)

lemma frame_monitor [simp]: "frame s (s\<lparr>monitor := m\<rparr>)"
  by (simp add: frame_def same_objects_def)

text \<open>The threads whose section is not a frame: they register, unregister or give up ports.\<close>

fun special :: "gor \<Rightarrow> bool" where
  "special (UnregCommit a) = True"
| "special (ReplaceCompare a old) = True"
| "special (ReplaceCommit a old) = True"
| "special (ReplaceRelease a err) = True"
| "special g = False"

lemma gstep_obj_frame:
  assumes "gstep_obj e g a p s = Some (gs, t)" "objects s a = Some p" "\<not> special g"
    "target g = Some a"
  shows "frame s t \<and> inflight gs = repl g \<and> (\<Union>h \<in> set gs. addrs h) \<subseteq> addrs g"
  using assms
  by (cases "(e, g, a, p, s)" rule: gstep_obj.cases)
    (auto simp: cleanupReplacementProcess_def frame_upd same_identity_Start same_identity_decide
      split: option.splits prod.splits if_splits wait_event.splits)

section \<open>Frames keep the invariant\<close>

lemma same_objects_Some:
  "same_objects s t \<Longrightarrow> objects t a = Some q \<Longrightarrow> \<exists>p. objects s a = Some p \<and> same_identity p q"
  by (metis same_objects_def option.rel_cases option.inject option.distinct(1))

lemma same_objects_Some':
  "same_objects s t \<Longrightarrow> objects s a = Some p \<Longrightarrow> \<exists>q. objects t a = Some q \<and> same_identity p q"
  by (metis same_objects_def option.rel_cases option.inject option.distinct(1))

lemma same_objects_None: "same_objects s t \<Longrightarrow> objects t a = None \<longleftrightarrow> objects s a = None"
  by (metis not_None_eq same_objects_Some same_objects_Some')

lemma port_set_same: "same_identity p q \<Longrightarrow> port_set q = port_set p"
  by (simp add: same_identity_def port_set_def)

lemma port_ok_same: "same_identity p q \<Longrightarrow> port_ok q = port_ok p"
  by (simp add: same_identity_def port_ok_def)

lemma heap_ok_same: 
  assumes "same_objects s t" "heap_ok s"
  shows "heap_ok t"
proof -
  have "objects t a \<noteq> None \<longleftrightarrow> a < nextObj t" for a
    using assms same_objects_None [OF assms(1)] by (simp add: heap_ok_def same_objects_def)
  moreover have "port_ok q" if "objects t a = Some q" for a q
    using same_objects_Some [OF assms(1) that] assms(2) port_ok_same by (auto simp: heap_ok_def)
  moreover have "a = b" if "objects t a = Some p" "objects t b = Some q" "pUUID p = pUUID q" for a b p q
    using same_objects_Some [OF assms(1) that(1)] same_objects_Some [OF assms(1) that(2)] that(3) assms(2)
    by (auto simp: heap_ok_def same_identity_def)
  ultimately show ?thesis by (auto simp: heap_ok_def)
qed

lemma registry_ok_same:
  assumes "same_objects s t" "processes t = processes s" "registry_ok s"
  shows "registry_ok t"
  using assms same_objects_Some' [OF assms(1)]
  by (fastforce simp: registry_ok_def same_identity_def)

lemma own_same:
  assumes "same_objects s t" "\<And>a. holder t a \<longleftrightarrow> holder s a"
  shows "own t = own s"
proof
  fix a
  show "own t a = own s a"
  proof (cases "objects s a")
    case None
    then have "objects t a = None" using same_objects_None [OF assms(1)] by blast
    with None assms(2) show ?thesis by (simp add: own_def)
  next
    case (Some p)
    with same_objects_Some' [OF assms(1) Some] assms(2) port_set_same show ?thesis
      by (auto simp: own_def)
  qed
qed

lemma inv_frame:
  assumes inv: "pm_inv s" and fr: "frame s t"
    and thr: "threads u = gs" "\<And>g a. g \<in> set gs \<Longrightarrow> a \<in> addrs g \<Longrightarrow> a < nextObj s"
    and mon: "\<And>a. a \<in> mon_addrs (monitor u) \<Longrightarrow> a < nextObj s"
    and infl: "inflight gs = inflight (threads s)"
    and u: "objects u = objects t" "nextObj u = nextObj t" "processes u = processes t"
      "availablePorts u = availablePorts t" "portRangeMin u = portRangeMin t"
      "portRangeMax u = portRangeMax t"
  shows "pm_inv u"
proof -
  have so: "same_objects s u" using fr u by (simp add: frame_def same_objects_def)
  have pr: "processes u = processes s" "availablePorts u = availablePorts s"
    "portRangeMin u = portRangeMin s" "portRangeMax u = portRangeMax s" "nextObj u = nextObj s"
    using fr u by (simp_all add: frame_def same_objects_def)
  have "own u = own s" using so by (rule own_same) (simp add: holder_def pr thr infl)
  with inv pr have "ports_ok u" by (simp add: pm_inv_def ports_ok_def)
  moreover have "threads_ok u" using inv thr mon infl pr by (auto simp: pm_inv_def threads_ok_def)
  ultimately show ?thesis
    using inv heap_ok_same [OF so] registry_ok_same [OF so pr(1)] by (simp add: pm_inv_def)
qed

text \<open>Replacing one thread: what remains to be shown of the new threads.\<close>

lemma threads_split:
  "i < length gs \<Longrightarrow> gs = take i gs @ gs ! i # drop (Suc i) gs"
  by (rule id_take_nth_drop)

lemma inflight_split:
  "i < length gs \<Longrightarrow> inflight gs = inflight (take i gs) @ repl (gs ! i) @ inflight (drop (Suc i) gs)"
  using threads_split [of i gs] by (metis inflight_simps(2,3) append_assoc)

lemma set_take_drop:
  "g \<in> set (take i gs @ hs @ drop j gs) \<Longrightarrow> g \<in> set gs \<or> g \<in> set hs"
  by (auto dest: in_set_takeD in_set_dropD)

lemma replaced_addrs:
  assumes "pm_inv s" "(\<Union>h \<in> set gs. addrs h) \<subseteq> {a. a < nextObj s}"
    "h \<in> set (take i (threads s) @ gs @ drop j (threads s))" "x \<in> addrs h"
  shows "x < nextObj s"
  using set_take_drop [OF assms(3)] assms(1,2,4) by (auto simp: pm_inv_def threads_ok_def)

lemma inv_step_frame:
  assumes inv: "pm_inv s" and i: "i < length (threads s)" and fr: "frame s t"
    and infl: "inflight gs = repl (threads s ! i)"
    and ad: "(\<Union>h \<in> set gs. addrs h) \<subseteq> {a. a < nextObj s}"
    and mon: "mon_addrs (monitor t) \<subseteq> {a. a < nextObj s}"
  shows "pm_inv (replace_thread i gs t)"
proof (rule inv_frame [OF inv fr])
  have "threads t = threads s" using fr by (simp add: frame_def)
  then show "threads (replace_thread i gs t) = take i (threads s) @ gs @ drop (Suc i) (threads s)"
    by (simp add: replace_thread_def)
  show "a < nextObj s"
    if "g \<in> set (take i (threads s) @ gs @ drop (Suc i) (threads s))" "a \<in> addrs g" for g a
    using replaced_addrs [OF inv ad that] .
  show "inflight (take i (threads s) @ gs @ drop (Suc i) (threads s)) = inflight (threads s)"
    using inflight_split [OF i] infl by simp
qed (use mon in \<open>auto simp: replace_thread_def\<close>)

lemma thread_addrs:
  "pm_inv s \<Longrightarrow> i < length (threads s) \<Longrightarrow> addrs (threads s ! i) \<subseteq> {a. a < nextObj s}"
  by (auto simp: pm_inv_def threads_ok_def)

lemma gstep_obj_monitor:
  assumes "gstep_obj e g a p s = Some (gs, t)" "target g = Some a"
  shows "mon_addrs (monitor t) \<subseteq> insert a (mon_addrs (monitor s))"
proof -
  have [simp]: "monitor (releaseProcessPorts q u) = monitor u" for q and u :: sys
    using releaseProcessPorts_frame [of q u] by auto
  have rc: "replace_commit b q old u = (r, u') \<Longrightarrow> monitor u' = monitor u" for b q old r and u u' :: sys
    by (auto simp: replace_commit_def Let_def split: option.splits if_splits)
  have [simp]: "monitor (unregister_commit q u) = monitor u" for q and u :: sys
    by (simp add: unregister_commit_def)
  show ?thesis using assms
    by (cases "(e, g, a, p, s)" rule: gstep_obj.cases)
      (auto split: option.splits prod.splits if_splits wait_event.splits dest: rc)
qed

lemma target_addrs: "target g = Some a \<Longrightarrow> a \<in> addrs g"
  by (cases g) auto

section \<open>The sections that move ports\<close>

lemma heap_ok_objects: "objects t = objects s \<Longrightarrow> nextObj t = nextObj s \<Longrightarrow> heap_ok t = heap_ok s"
  by (simp add: heap_ok_def)

lemma inv_obj: "pm_inv s \<Longrightarrow> objects s a = Some p \<Longrightarrow> port_ok p \<and> a < nextObj s"
  by (auto simp: pm_inv_def heap_ok_def)

lemma inv_uuid: "pm_inv s \<Longrightarrow> objects s a = Some p \<Longrightarrow> objects s b = Some q \<Longrightarrow> pUUID p = pUUID q \<Longrightarrow> a = b"
  by (auto simp: pm_inv_def heap_ok_def)

lemma inv_registered:
  "pm_inv s \<Longrightarrow> processes s n = Some a \<Longrightarrow> \<exists>p. objects s a = Some p \<and> pName p = n"
  by (auto simp: pm_inv_def registry_ok_def)

lemma inv_ran:
  assumes "pm_inv s" "a \<in> ran (processes s)" "objects s a = Some p"
  shows "processes s (pName p) = Some a"
  using assms inv_registered [OF assms(1)] by (fastforce simp: ran_def)

lemma inv_current:
  assumes inv: "pm_inv s" and p: "objects s a = Some p" and cur: "is_current p s"
  shows "processes s (pName p) = Some a"
proof -
  from cur obtain b q where b: "processes s (pName p) = Some b" "objects s b = Some q" "pUUID q = pUUID p"
    by (auto simp: is_current_def split: option.splits)
  then show ?thesis using inv_uuid [OF inv p b(2)] by simp
qed

lemma inv_ran_delete:
  assumes inv: "pm_inv s" and a: "processes s n = Some a"
  shows "ran ((processes s)(n := None)) = ran (processes s) - {a}"
proof -
  have "k = n" if "processes s k = Some a" for k
    using inv_registered [OF inv that] inv_registered [OF inv a] by auto
  with a show ?thesis by (intro ran_delete)
qed

lemma inv_inflight:
  "pm_inv s \<Longrightarrow> distinct (inflight (threads s)) \<and> (\<forall>a \<in> set (inflight (threads s)). a \<notin> ran (processes s))"
  by (simp add: pm_inv_def threads_ok_def)

lemma own_holder: "holder s a \<Longrightarrow> objects s a = Some p \<Longrightarrow> own s a = port_set p"
  by (simp add: own_def)

lemma own_drop:
  assumes "objects u = objects s" "\<And>c. holder u c \<longleftrightarrow> holder s c \<and> c \<noteq> a"
  shows "own u = (own s)(a := {})"
  by (rule ext) (simp add: own_def assms)

lemma own_unregistered:
  assumes inv: "pm_inv s" and reg: "processes s n = Some a"
    and u: "objects u = objects s" "processes u = (processes s)(n := None)"
      "inflight (threads u) = inflight (threads s)"
  shows "holder s a" "own u = (own s)(a := {})"
proof -
  show "holder s a" using reg by (auto simp: holder_def intro: ranI)
  have "holder u c \<longleftrightarrow> holder s c \<and> c \<noteq> a" for c
    using inv_ran_delete [OF inv reg] inv_inflight [OF inv] reg u by (auto simp: holder_def ranI)
  with u(1) show "own u = (own s)(a := {})" by (rule own_drop)
qed

lemma release_ports_const:
  assumes "port_ok p" "wf_bitmap (availablePorts pm)"
  shows "bm_ports (availablePorts (releaseProcessPorts p pm)) = bm_ports (availablePorts pm)"
proof -
  obtain r b where rel: "ReleaseRange (availablePorts pm) (pPortStart p) (pPortEnd p) = (r, b)" by fastforce
  have "0 \<le> pPortStart p" "pPortEnd p < 2 ^ 31" using assms(1) by (auto simp: port_ok_def split: if_splits)
  with bm.release_effect [OF assms(2) rel] rel show ?thesis
    by (simp add: releaseProcessPorts_def releasePorts_def)
qed

text \<open>
  A state that differs from one with the invariant in its registry, its threads and its
  bitmap has the invariant when its own registry, threads and ledger are right.
\<close>

lemma inv_moveI:
  assumes inv: "pm_inv s"
    and same: "objects u = objects s" "nextObj u = nextObj s" "monitor u = monitor s"
      "portRangeMin u = portRangeMin s" "portRangeMax u = portRangeMax s"
    and thr: "\<And>g a. g \<in> set (threads u) \<Longrightarrow> a \<in> addrs g \<Longrightarrow> a < nextObj s"
    and reg: "registry_ok u"
    and infl: "distinct (inflight (threads u))" "\<And>a. a \<in> set (inflight (threads u)) \<Longrightarrow> a \<notin> ran (processes u)"
    and led: "bm.ledger (availablePorts u) (own u)"
    and ports: "bm_ports (availablePorts u) = bm_ports (availablePorts s)"
  shows "pm_inv u"
  using assms by (auto simp: pm_inv_def ports_ok_def threads_ok_def heap_ok_objects [of u s])

lemma inv_wf: "pm_inv s \<Longrightarrow> wf_bitmap (availablePorts s) \<and> bm.ledger (availablePorts s) (own s)"
  using bm.ledger_invar by (auto simp: pm_inv_def ports_ok_def)

lemma replace_thread_simps [simp]:
  "objects (replace_thread i gs s) = objects s" "processes (replace_thread i gs s) = processes s"
  "availablePorts (replace_thread i gs s) = availablePorts s" "nextObj (replace_thread i gs s) = nextObj s"
  "monitor (replace_thread i gs s) = monitor s" "portRangeMin (replace_thread i gs s) = portRangeMin s"
  "portRangeMax (replace_thread i gs s) = portRangeMax s"
  "threads (replace_thread i gs s) = take i (threads s) @ gs @ drop (Suc i) (threads s)"
  by (simp_all add: replace_thread_def)

lemma own_dropped:
  assumes inv: "pm_inv s" and i: "i < length (threads s)" and g: "repl (threads s ! i) = [a]"
    and u: "objects u = objects s" "processes u = processes s"
      "threads u = take i (threads s) @ drop (Suc i) (threads s)"
  shows "holder s a" "own u = (own s)(a := {})" "set (inflight (threads u)) = set (inflight (threads s)) - {a}"
proof -
  have sp: "inflight (threads s) = inflight (take i (threads s)) @ a # inflight (drop (Suc i) (threads s))"
    using inflight_split [OF i] g by simp
  then show hold: "holder s a" and infl: "set (inflight (threads u)) = set (inflight (threads s)) - {a}"
    using inv_inflight [OF inv] u by (auto simp: holder_def)
  have "holder u c \<longleftrightarrow> holder s c \<and> c \<noteq> a" for c
    using inv_inflight [OF inv] sp infl u by (auto simp: holder_def)
  with u(1) show "own u = (own s)(a := {})" by (rule own_drop)
qed

lemma own_registered:
  assumes inv: "pm_inv s" and i: "i < length (threads s)" and g: "repl (threads s ! i) = [a]"
    and u: "objects u = objects s" "processes u = (processes s)(n \<mapsto> a)"
      "threads u = take i (threads s) @ gs @ drop (Suc i) (threads s)" "inflight gs = []"
  shows "own u = (case processes s n of None \<Rightarrow> own s | Some old \<Rightarrow> (own s)(old := {}))"
    "set (inflight (threads u)) = set (inflight (threads s)) - {a}"
    "ran (processes u) = insert a (ran (processes s) - set_option (processes s n))"
proof -
  have sp: "inflight (threads s) = inflight (take i (threads s)) @ a # inflight (drop (Suc i) (threads s))"
    using inflight_split [OF i] g by simp
  note infl = inv_inflight [OF inv, unfolded sp]
  have "ran ((processes s)(n := None)) = ran (processes s) - set_option (processes s n)"
    using inv_ran_delete [OF inv] by (cases "processes s n") (auto simp: fun_upd_idem)
  then show ran: "ran (processes u) = insert a (ran (processes s) - set_option (processes s n))"
    by (simp add: u ran_update)
  show left: "set (inflight (threads u)) = set (inflight (threads s)) - {a}"
    unfolding u(3) sp using infl u(4) by auto
  have "set_option (processes s n) \<subseteq> ran (processes s)" by (auto intro: ranI)
  then have "holder u c \<longleftrightarrow> holder s c \<and> c \<notin> set_option (processes s n)" for c
    unfolding holder_def ran left using infl sp by auto
  then show "own u = (case processes s n of None \<Rightarrow> own s | Some old \<Rightarrow> (own s)(old := {}))"
    by (auto simp: own_def u(1) fun_eq_iff split: option.splits)
qed

text \<open>An in-flight replacement whose thread ends: its ports are released, or lost.\<close>

lemma inv_drop:
  assumes inv: "pm_inv s" and i: "i < length (threads s)" and g: "repl (threads s ! i) = [a]"
    and p: "objects s a = Some p"
    and t: "t = s \<or> t = releaseProcessPorts p s"
  shows "pm_inv (replace_thread i [] (reply r t))"
proof -
  let ?u = "replace_thread i [] (reply r t)"
  have "s = s\<lparr>availablePorts := availablePorts s\<rparr>" by simp
  with t releaseProcessPorts_frame [of p s] obtain b where tb: "t = s\<lparr>availablePorts := b\<rparr>" by blast
  have sp: "inflight (threads s) = inflight (take i (threads s)) @ a # inflight (drop (Suc i) (threads s))"
    using inflight_split [OF i] g by simp
  have u: "objects ?u = objects s" "nextObj ?u = nextObj s" "monitor ?u = monitor s"
    "portRangeMin ?u = portRangeMin s" "portRangeMax ?u = portRangeMax s" "processes ?u = processes s"
    "availablePorts ?u = availablePorts t"
    "threads ?u = take i (threads s) @ drop (Suc i) (threads s)"
    using tb by simp_all
  note own = own_dropped(2) [OF inv i g u(1,6,8)] and hold = own_dropped(1) [OF inv i g u(1,6,8)]
  have led: "bm.ledger (availablePorts t) ((own s)(a := {}))"
    using t inv_wf [OF inv] own_holder [OF hold p] inv_obj [OF inv p]
    by (auto intro: bm.ledger_drop releaseProcessPorts_ledger)
  have "bm_ports (availablePorts t) = bm_ports (availablePorts s)"
    using t inv_obj [OF inv p] inv_wf [OF inv] release_ports_const by auto
  moreover have "registry_ok ?u" using inv u by (auto simp: pm_inv_def registry_ok_def)
  moreover have "x < nextObj s" if "h \<in> set (threads ?u)" "x \<in> addrs h" for h x
    using replaced_addrs [OF inv, of "[]" h i "Suc i" x] that by (simp add: tb)
  ultimately show ?thesis
    using inv_inflight [OF inv] sp own led u by (intro inv_moveI [OF inv]) (auto simp: tb)
qed

lemma inv_unregister:
  assumes inv: "pm_inv s" and i: "i < length (threads s)" and g: "threads s ! i = UnregCommit a"
    and p: "objects s a = Some p"
  shows "pm_inv (replace_thread i [Notify a Done] (unregister_commit p s))"
proof (cases "is_current p s")
  case False
  with inv i g show ?thesis
    using thread_addrs [OF inv i]
    by (intro inv_step_frame) (auto simp: unregister_commit_def pm_inv_def threads_ok_def)
next
  case True
  let ?t = "releaseProcessPorts p (s\<lparr>processes := (processes s)(pName p := None)\<rparr>)"
  let ?u = "replace_thread i [Notify a Done] ?t"
  have t: "unregister_commit p s = ?t" using True by (simp add: unregister_commit_def)
  obtain b where tb: "?t = s\<lparr>processes := (processes s)(pName p := None), availablePorts := b\<rparr>"
    using releaseProcessPorts_frame [of p "s\<lparr>processes := (processes s)(pName p := None)\<rparr>"] by auto
  have reg: "processes s (pName p) = Some a" using inv_current [OF inv p True] .
  have infl: "inflight (threads ?u) = inflight (threads s)"
    using inflight_split [OF i] g by (simp add: tb)
  have ran: "ran ((processes s)(pName p := None)) = ran (processes s) - {a}"
    using inv_ran_delete [OF inv reg] .
  have hold: "holder s a" and own: "own ?u = (own s)(a := {})"
    using own_unregistered [OF inv reg, of ?u] infl by (simp_all add: tb)
  have "bm.ledger (availablePorts ?t) ((own s)(a := {}))"
    using inv_wf [OF inv] own_holder [OF hold(1) p] inv_obj [OF inv p]
    by (intro releaseProcessPorts_ledger) auto
  moreover have "bm_ports (availablePorts ?t) = bm_ports (availablePorts s)"
    using release_ports_const [of p "s\<lparr>processes := (processes s)(pName p := None)\<rparr>"]
      inv_obj [OF inv p] inv_wf [OF inv] by simp
  moreover have "registry_ok ?u" using inv by (auto simp: tb pm_inv_def registry_ok_def)
  moreover have "x < nextObj s" if "h \<in> set (threads ?u)" "x \<in> addrs h" for h x
    using replaced_addrs [OF inv, of "[Notify a Done]" h i "Suc i" x] thread_addrs [OF inv i] g that
    by (simp add: tb)
  ultimately show ?thesis
    unfolding t using inv_inflight [OF inv] infl own ran by (intro inv_moveI [OF inv]) (auto simp: tb)
qed

text \<open>A replacement that is registered: it keeps its ports, and the replaced process loses its own.\<close>

lemma replace_commit_ok:
  assumes inv: "pm_inv s" and q: "objects s old = Some q" and rc: "replace_commit a p q s = (None, t)"
  shows "processes s (pName p) = None \<and> t = s\<lparr>processes := (processes s)(pName p \<mapsto> a)\<rparr> \<or>
    processes s (pName p) = Some old \<and> t = (releaseProcessPorts q s)\<lparr>processes := (processes s)(pName p \<mapsto> a)\<rparr>"
  using rc inv_uuid [OF inv q] releaseProcessPorts_frame [of q s]
  by (auto simp: replace_commit_def Let_def split: option.splits if_splits)

lemma inv_replace:
  assumes inv: "pm_inv s" and i: "i < length (threads s)" and g: "threads s ! i = ReplaceCommit a old"
    and p: "objects s a = Some p" and q: "objects s old = Some q"
    and rc: "replace_commit a p q s = (None, t)"
  shows "pm_inv (replace_thread i [Notify a (ReplaceReply a)] t)"
proof -
  let ?n = "pName p" and ?gs = "[Notify a (ReplaceReply a)]"
  let ?u = "replace_thread i ?gs t"
  have sp: "inflight (threads s) = inflight (take i (threads s)) @ a # inflight (drop (Suc i) (threads s))"
    using inflight_split [OF i] g by simp
  note infl = inv_inflight [OF inv, unfolded sp]
  from replace_commit_ok [OF inv q rc] have cases: "processes s ?n = None \<and> t = s\<lparr>processes := (processes s)(?n \<mapsto> a)\<rparr> \<or>
      processes s ?n = Some old \<and> t = (releaseProcessPorts q s)\<lparr>processes := (processes s)(?n \<mapsto> a)\<rparr>" .
  have "s\<lparr>processes := m\<rparr> = s\<lparr>availablePorts := availablePorts s, processes := m\<rparr>" for m by simp
  with cases releaseProcessPorts_frame [of q s] obtain b where
    tb: "t = s\<lparr>availablePorts := b, processes := (processes s)(?n \<mapsto> a)\<rparr>" by metis
  have repl: "repl (threads s ! i) = [a]" using g by simp
  note moved = own_registered [OF inv i repl, of ?u ?n ?gs]
  have own: "own ?u = (case processes s ?n of None \<Rightarrow> own s | Some old \<Rightarrow> (own s)(old := {}))"
    and ran: "ran (processes ?u) = insert a (ran (processes s) - set_option (processes s ?n))"
    using moved(1,3) by (simp_all add: tb)
  have led: "bm.ledger (availablePorts t) (own ?u) \<and> bm_ports (availablePorts t) = bm_ports (availablePorts s)"
    using cases
  proof
    assume *: "processes s ?n = Some old \<and> t = (releaseProcessPorts q s)\<lparr>processes := (processes s)(?n \<mapsto> a)\<rparr>"
    then have "own s old = port_set q" using own_holder [OF _ q] by (auto simp: holder_def intro: ranI)
    with * own show ?thesis
      using releaseProcessPorts_ledger [of s "own s" old q] inv_wf [OF inv] inv_obj [OF inv q]
        release_ports_const by auto
  qed (use own inv_wf [OF inv] in auto)
  have "registry_ok ?u" using inv p by (auto simp: tb pm_inv_def registry_ok_def)
  moreover have "x < nextObj s" if "h \<in> set (threads ?u)" "x \<in> addrs h" for h x
    using replaced_addrs [OF inv, of ?gs h i "Suc i" x] thread_addrs [OF inv i] g that
    by (simp add: tb)
  ultimately show ?thesis
    using infl led ran by (intro inv_moveI [OF inv]) (auto simp: tb)
qed

section \<open>Every action keeps the invariant\<close>

lemma inv_gstep:
  assumes inv: "pm_inv s" and i: "i < length (threads s)"
    and gs: "gstep e (threads s ! i) s = Some (gs, t)"
  shows "pm_inv (replace_thread i gs t)"
proof (cases "target (threads s ! i)")
  case None
  have mon: "mon_addrs (monitor s) \<subseteq> {a. a < nextObj s}" using inv by (auto simp: pm_inv_def threads_ok_def)
  from None gs thread_addrs [OF inv i] have "t = s" "inflight gs = repl (threads s ! i)"
      "(\<Union>h \<in> set gs. addrs h) \<subseteq> {a. a < nextObj s}"
    by (auto simp: gstep_def split: gor.splits list.splits)
  with mon inv_step_frame [OF inv i] show ?thesis by simp
next
  case (Some a)
  with gs obtain p where p: "objects s a = Some p" and st: "gstep_obj e (threads s ! i) a p s = Some (gs, t)"
    by (auto simp: gstep_def split: option.splits)
  note ad = thread_addrs [OF inv i]
  have "a \<in> addrs (threads s ! i)" using Some by (rule target_addrs)
  then have mon: "mon_addrs (monitor t) \<subseteq> {a. a < nextObj s}"
    using gstep_obj_monitor [OF st Some] ad inv by (auto simp: pm_inv_def threads_ok_def)
  show ?thesis
  proof (cases "frame s t \<and> inflight gs = repl (threads s ! i) \<and> (\<Union>h \<in> set gs. addrs h) \<subseteq> addrs (threads s ! i)")
    case True
    with ad mon show ?thesis by (intro inv_step_frame [OF inv i]) auto
  next
    case False
    with gstep_obj_frame [OF st p _ Some] have "special (threads s ! i)" by blast
    then show ?thesis
    proof (cases "threads s ! i" rule: special.cases)
      case (1 b)
      with Some st inv_unregister [OF inv i, of a p] p show ?thesis by auto
    next
      case (2 b old)
      with Some st False have "gs = [] \<and> (\<exists>r. t = reply r s)"
        by (auto split: option.splits if_splits)
      with 2 Some inv_drop [OF inv i, of a p s] p show ?thesis by auto
    next
      case (3 b old)
      with Some st False obtain q where "objects s old = Some q" "replace_commit a p q s = (None, t)"
          "gs = [Notify a (ReplaceReply a)]"
        by (auto simp: cleanupReplacementProcess_def replace_commit_def Let_def
            split: option.splits prod.splits if_splits)
      with 3 Some inv_replace [OF inv i, of a old p q t] p show ?thesis by auto
    next
      case (4 b err)
      with Some st inv_drop [OF inv i, of a p "releaseProcessPorts p s"] p show ?thesis by auto
    qed auto
  qed
qed

lemma inv_fresh: "pm_inv s \<Longrightarrow> objects s (nextObj s) = None \<and> \<not> holder s (nextObj s)"
proof -
  assume inv: "pm_inv s"
  then have none: "objects s (nextObj s) = None" by (auto simp: pm_inv_def heap_ok_def)
  with inv_registered [OF inv] have "nextObj s \<notin> ran (processes s)" by (fastforce simp: ran_def)
  moreover have "set (repl g) \<subseteq> addrs g" for g by (induction g) auto
  then have "nextObj s \<notin> set (inflight (threads s))"
    using inv by (fastforce simp: inflight_def pm_inv_def threads_ok_def)
  ultimately show ?thesis using none by (simp add: holder_def)
qed

lemma own_added:
  assumes inv: "pm_inv s" and u: "objects u = (objects s)(nextObj s \<mapsto> p')" "threads u = threads s @ [g]"
    and reg: "processes u = (processes s)(n \<mapsto> nextObj s) \<and> processes s n = None \<and> repl g = [] \<or>
      processes u = processes s \<and> repl g = [nextObj s]"
  shows "own u = (own s)(nextObj s := port_set p')"
proof -
  have ran: "ran ((processes s)(n := None)) = ran (processes s)" if "processes s n = None"
    using that by (simp add: fun_upd_idem)
  have "holder u c \<longleftrightarrow> holder s c \<or> c = nextObj s" for c
    using reg by (auto simp: holder_def u ran_update ran)
  then show ?thesis by (simp add: fun_eq_iff own_def u)
qed

lemma inv_add:
  assumes inv: "pm_inv s" and fresh: "fresh_uuid (pUUID p) s"
    and alloc: "allocateProcessPorts p s = (Inr p', s1)"
    and u: "objects u = (objects s)(nextObj s \<mapsto> p')" "nextObj u = Suc (nextObj s)"
      "availablePorts u = availablePorts s1" "portRangeMin u = portRangeMin s"
      "portRangeMax u = portRangeMax s" "monitor u = monitor s" "threads u = threads s @ [g]"
      "addrs g \<subseteq> {..nextObj s}"
    and reg: "processes u = (processes s)(pName p \<mapsto> nextObj s) \<and> processes s (pName p) = None \<and> repl g = [] \<or>
      processes u = processes s \<and> repl g = [nextObj s]"
  shows "pm_inv u"
proof -
  let ?a = "nextObj s"
  have led0: "bm.ledger (availablePorts s) (own s)" using inv_wf [OF inv] by blast
  have "own s ?a = {}" using inv_fresh [OF inv] by (simp add: own_def)
  then obtain b where b: "s1 = s\<lparr>availablePorts := b\<rparr>" "bm.ledger b ((own s)(?a := port_set p'))"
      "port_ok p'" "bm_ports b = bm_ports (availablePorts s)"
    using allocateProcessPorts_ok [OF led0 _ alloc] by blast
  then have led: "bm.ledger (availablePorts s1) ((own s)(?a := port_set p'))" and ok: "port_ok p'"
    and same: "bm_ports (availablePorts s1) = bm_ports (availablePorts s)"
    by simp_all
  note p' = allocateProcessPorts_same [OF alloc]
  have ran: "ran ((processes s)(pName p := None)) = ran (processes s)" if "processes s (pName p) = None"
    using that by (simp add: fun_upd_idem)
  have "own u = (own s)(?a := port_set p')" using own_added [OF inv u(1) u(7) reg] .
  with led same inv have "ports_ok u" by (simp add: ports_ok_def u pm_inv_def)
  moreover have "heap_ok u"
  proof -
    have "pUUID q \<noteq> pUUID p'" if "objects s c = Some q" for c q
      using fresh that inv_obj [OF inv that] p' by (auto simp: fresh_uuid_def list_all_iff)
    note this [dest] not_sym [OF this, dest]
    show ?thesis using inv ok by (auto simp: pm_inv_def heap_ok_def u less_Suc_eq)
  qed
  moreover have "registry_ok u"
    using reg inv_registered [OF inv] inv_fresh [OF inv] p' by (fastforce simp: registry_ok_def u)
  moreover have "threads_ok u"
    using inv u reg inv_fresh [OF inv]
    by (fastforce simp: pm_inv_def threads_ok_def holder_def ran_update ran less_Suc_eq)
  ultimately show ?thesis by (simp add: pm_inv_def)
qed

text \<open>The requests.\<close>

lemma new_call_simps [simp]:
  "objects (new_call s) = objects s" "processes (new_call s) = processes s"
  "availablePorts (new_call s) = availablePorts s" "nextObj (new_call s) = nextObj s"
  "monitor (new_call s) = monitor s" "portRangeMin (new_call s) = portRangeMin s"
  "portRangeMax (new_call s) = portRangeMax s" "threads (new_call s) = threads s"
  "replies (new_call s) = replies s" "calls (new_call s) = Suc (calls s)"
  by (simp_all add: new_call_def)

lemma logs_new_call [simp]: "logsOpened (new_call s) = logsOpened s"
  by (simp add: new_call_def)

lemma open_log_simps [simp]:
  fixes s :: sys
  shows "objects (open_log s) = objects s" "processes (open_log s) = processes s"
    "availablePorts (open_log s) = availablePorts s" "nextObj (open_log s) = nextObj s"
    "monitor (open_log s) = monitor s" "portRangeMin (open_log s) = portRangeMin s"
    "portRangeMax (open_log s) = portRangeMax s" "threads (open_log s) = threads s"
    "replies (open_log s) = replies s" "calls (open_log s) = calls s"
    "clock (open_log s) = clock s" "events (open_log s) = events s"
    "logsOpened (open_log s) = Suc (logsOpened s)"
  by (simp_all add: open_log_def)

lemma spawn_simps [simp]:
  "objects (spawn g s) = objects s" "processes (spawn g s) = processes s"
  "availablePorts (spawn g s) = availablePorts s" "nextObj (spawn g s) = nextObj s"
  "monitor (spawn g s) = monitor s" "portRangeMin (spawn g s) = portRangeMin s"
  "portRangeMax (spawn g s) = portRangeMax s" "threads (spawn g s) = threads s @ [g]"
  "replies (spawn g s) = replies s" "calls (spawn g s) = calls s"
  by (simp_all add: spawn_def)

lemma new_object_simps [simp]:
  "objects (new_object p s) = (objects s)(nextObj s \<mapsto> p)" "processes (new_object p s) = processes s"
  "availablePorts (new_object p s) = availablePorts s" "nextObj (new_object p s) = Suc (nextObj s)"
  "portRangeMin (new_object p s) = portRangeMin s" "portRangeMax (new_object p s) = portRangeMax s"
  by (simp_all add: new_object_def)

lemma new_object_sys [simp]:
  "monitor (new_object p s) = monitor s" "threads (new_object p s) = threads s"
  "replies (new_object p s) = replies s" "calls (new_object p s) = calls s"
  by (simp_all add: new_object_def)

lemma new_process_simps [simp]:
  "pName (new_process spec u) = psName spec" "pUUID (new_process spec u) = u"
  "pState (new_process spec u) = StateStarting" "pDeletionTimestamp (new_process spec u) = None"
  "pCmd (new_process spec u) = None"
  by (simp_all add: new_process_def)

lemma inv_mon: "pm_inv s \<Longrightarrow> mon_addrs (monitor s) \<subseteq> {a. a < nextObj s}"
  by (auto simp: pm_inv_def threads_ok_def)

lemma inv_same:
  assumes inv: "pm_inv s"
    and u: "objects u = objects s" "nextObj u = nextObj s" "processes u = processes s"
      "availablePorts u = availablePorts s" "portRangeMin u = portRangeMin s"
      "portRangeMax u = portRangeMax s" "threads u = threads s @ gs"
    and gs: "inflight gs = []" "(\<Union>g \<in> set gs. addrs g) \<subseteq> {a. a < nextObj s}"
    and mon: "mon_addrs (monitor u) \<subseteq> {a. a < nextObj s}"
  shows "pm_inv u"
proof (rule inv_frame [OF inv frame_refl u(7)])
  show "a < nextObj s" if "g \<in> set (threads s @ gs)" "a \<in> addrs g" for g a
    using that gs inv by (auto simp: pm_inv_def threads_ok_def)
qed (use u gs mon in auto)

lemma inv_reply: "pm_inv s \<Longrightarrow> pm_inv (reply r s)"
  by (rule inv_same [where gs = "[]"]) (auto dest: inv_mon)

lemma inv_new_call: "pm_inv s \<Longrightarrow> pm_inv (new_call s)"
  by (rule inv_same [where gs = "[]"]) (auto dest: inv_mon)

lemma inv_logs: "pm_inv s \<Longrightarrow> pm_inv (s\<lparr>logsOpened := k\<rparr>)"
  by (rule inv_same [where gs = "[]"]) (auto dest: inv_mon)

lemma inv_open_log: "pm_inv s \<Longrightarrow> pm_inv (open_log s)"
  unfolding open_log_def by (rule inv_logs)

lemmas inv_ext = inv_reply inv_new_call inv_logs inv_open_log

text \<open>A refused request changes nothing but its answer and the number of log files.\<close>

lemma refused_logs:
  assumes "t = reply (Inl e) (new_call s) \<or> t = reply (Inl e) (open_log (new_call s))"
  shows "\<exists>k. t = reply (Inl e) ((new_call s)\<lparr>logsOpened := k\<rparr>)"
proof -
  have "new_call s = (new_call s)\<lparr>logsOpened := logsOpened s\<rparr>" by simp
  with assms show ?thesis unfolding open_log_def by metis
qed

lemma allocate_frame:
  assumes "pm_inv s" "allocateProcessPorts p s = (r, t)"
  obtains (err) e where "r = Inl e" "t = s" | (ok) p' b where "r = Inr p'" "t = s\<lparr>availablePorts := b\<rparr>"
proof (cases r)
  case (Inl e)
  with assms(2) have "t = s"
    using inv_wf [OF assms(1)] allocateProcessPorts_err [of s p e t] by blast
  with Inl show ?thesis by (rule err)
next
  case (Inr p')
  have "own s (nextObj s) = {}" using inv_fresh [OF assms(1)] by (simp add: own_def)
  then obtain b where "t = s\<lparr>availablePorts := b\<rparr>"
    using allocateProcessPorts_ok [of s "own s" "nextObj s" p p' t] inv_wf [OF assms(1)] assms(2) Inr by blast
  with Inr show ?thesis by (rule ok)
qed

lemma allocate_frame_fst:
  "fst (allocateProcessPorts p (open_log (new_call s))) = fst (allocateProcessPorts p s)"
  by (simp add: allocateProcessPorts_def allocatePorts_def split: prod.splits sum.splits option.splits)

lemma ProcessCreate_cases:
  assumes inv: "pm_inv s"
  obtains (fail) e k where "ProcessCreate w spec u s = reply (Inl e) ((new_call s)\<lparr>logsOpened := k\<rparr>)"
    | (reg) p' b where "processes s (psName spec) = None" "\<not> missing_argument spec" "w = None"
        "allocateProcessPorts (new_process spec u) (open_log (new_call s)) =
           (Inr p', (open_log (new_call s))\<lparr>availablePorts := b\<rparr>)"
        "ProcessCreate w spec u s = spawn (Notify (nextObj s) (CreateStart (nextObj s)))
           ((new_object p' ((open_log (new_call s))\<lparr>availablePorts := b\<rparr>))\<lparr>
              processes := (processes s)(psName spec \<mapsto> nextObj s)\<rparr>)"
proof (cases "processes s (psName spec) = None \<and> \<not> missing_argument spec \<and> w = None")
  case False
  then have "\<exists>e. ProcessCreate w spec u s = reply (Inl e) (new_call s) \<or>
      ProcessCreate w spec u s = reply (Inl e) (open_log (new_call s))"
    by (auto simp: ProcessCreate_def ProcessCreate_begin_def registerProcess_def split: option.splits)
  then show ?thesis using refused_logs fail by blast
next
  case True
  let ?s = "open_log (new_call s)" and ?p = "new_process spec u"
  have inv': "pm_inv ?s" using inv by (simp add: inv_ext)
  obtain r t where rt: "allocateProcessPorts ?p ?s = (r, t)" by fastforce
  have step: "ProcessCreate w spec u s = (case r of Inl e \<Rightarrow> reply (Inl e) t
      | Inr p' \<Rightarrow> spawn (Notify (nextObj t) (CreateStart (nextObj t)))
          ((new_object p' t)\<lparr>processes := (processes t)(psName spec \<mapsto> nextObj t)\<rparr>))"
    using True rt by (auto simp: ProcessCreate_def ProcessCreate_begin_def registerProcess_def split: sum.splits)
  from inv' rt show ?thesis
  proof (cases rule: allocate_frame)
    case (err e)
    with step show ?thesis by (auto simp: open_log_def intro: fail)
  next
    case (ok p' b)
    with step rt True show ?thesis by (intro reg [of p' b]) simp_all
  qed
qed

lemma ProcessReplace_cases:
  assumes inv: "pm_inv s"
  obtains (fail) e k where "ProcessReplace w spec sig u s = reply (Inl e) ((new_call s)\<lparr>logsOpened := k\<rparr>)"
    | (reg) p' b old where "processes s (psName spec) = Some old" "\<not> missing_argument spec" "w = None"
        "sig = ''SIGHUP''"
        "allocateProcessPorts (new_process spec u) (open_log (new_call s)) =
           (Inr p', (open_log (new_call s))\<lparr>availablePorts := b\<rparr>)"
        "ProcessReplace w spec sig u s = spawn (ReplaceCompare (nextObj s) old)
           (new_object p' ((open_log (new_call s))\<lparr>availablePorts := b\<rparr>))"
proof (cases "processes s (psName spec) \<noteq> None \<and> \<not> missing_argument spec \<and> sig = ''SIGHUP'' \<and> w = None")
  case False
  then have "\<exists>e. ProcessReplace w spec sig u s = reply (Inl e) (new_call s) \<or>
      ProcessReplace w spec sig u s = reply (Inl e) (open_log (new_call s))"
    by (auto simp: ProcessReplace_def ProcessReplace_begin_def initProcessReplace_def split: option.splits)
  then show ?thesis using refused_logs fail by blast
next
  case True
  let ?s = "open_log (new_call s)" and ?p = "new_process spec u"
  from True obtain old where old: "processes s (psName spec) = Some old" by blast
  have inv': "pm_inv ?s" using inv by (simp add: inv_ext)
  obtain r t where rt: "allocateProcessPorts ?p ?s = (r, t)" by fastforce
  have step: "ProcessReplace w spec sig u s = (case r of Inl e \<Rightarrow> reply (Inl e) t
      | Inr p' \<Rightarrow> spawn (ReplaceCompare (nextObj t) old) (new_object p' t))"
    using True rt old
    by (auto simp: ProcessReplace_def ProcessReplace_begin_def initProcessReplace_def split: sum.splits)
  from inv' rt show ?thesis
  proof (cases rule: allocate_frame)
    case (err e)
    with step show ?thesis by (auto simp: open_log_def intro: fail)
  next
    case (ok p' b)
    with step rt True old show ?thesis by (intro reg [of old p' b]) simp_all
  qed
qed

lemma inv_ProcessCreate:
  assumes inv: "pm_inv s" and fresh: "fresh_uuid u s"
  shows "pm_inv (ProcessCreate w spec u s)"
  using inv
proof (cases rule: ProcessCreate_cases [where w = w and spec = spec and u = u])
  case (fail e k)
  with inv show ?thesis by (simp add: inv_ext)
next
  case (reg p' b)
  have "pm_inv (open_log (new_call s))" "fresh_uuid (pUUID (new_process spec u)) (open_log (new_call s))"
    using inv fresh by (auto simp: inv_ext fresh_uuid_def)
  from inv_add [OF this reg(4), of "ProcessCreate w spec u s" "Notify (nextObj s) (CreateStart (nextObj s))"] reg
  show ?thesis by simp
qed

lemma inv_ProcessReplace:
  assumes inv: "pm_inv s" and fresh: "fresh_uuid u s"
  shows "pm_inv (ProcessReplace w spec sig u s)"
  using inv
proof (cases rule: ProcessReplace_cases [where w = w and spec = spec and sig = sig and u = u])
  case (fail e k)
  with inv show ?thesis by (simp add: inv_ext)
next
  case (reg p' b old)
  have "pm_inv (open_log (new_call s))" "fresh_uuid (pUUID (new_process spec u)) (open_log (new_call s))"
    using inv fresh by (auto simp: inv_ext fresh_uuid_def)
  moreover have "old < nextObj s" using inv_registered [OF inv reg(1)] inv_obj [OF inv] by blast
  ultimately show ?thesis
    using inv_add [OF _ _ reg(5), of "ProcessReplace w spec sig u s" "ReplaceCompare (nextObj s) old"] reg
    by simp
qed

lemma inv_ProcessDelete:
  assumes inv: "pm_inv s"
  shows "pm_inv (ProcessDelete name s)"
proof (cases "processes s name")
  case None
  with inv show ?thesis by (simp add: ProcessDelete_def findProcess_def inv_ext)
next
  case (Some a)
  then have "a < nextObj s" using inv_registered [OF inv Some] inv_obj [OF inv] by blast
  with inv have "pm_inv (spawn (StopCall a SIGINT (DeleteReply a)) (new_call s))"
    by (intro inv_same [OF inv, where gs = "[StopCall a SIGINT (DeleteReply a)]"])
      (use inv_mon [OF inv] in auto)
  with Some show ?thesis by (simp add: ProcessDelete_def findProcess_def)
qed

text \<open>The condition check and the monitor.\<close>

lemma same_objects_trans: "same_objects s t \<Longrightarrow> same_objects t u \<Longrightarrow> same_objects s u"
  unfolding same_objects_def
  by (metis (mono_tags, lifting) option.rel_sel same_identity_trans)

lemma frame_trans: "frame s t \<Longrightarrow> frame t u \<Longrightarrow> frame s u"
  using same_objects_trans by (auto simp: frame_def)

lemma condition_update_same: "condition_update sha mps p = Some q \<Longrightarrow> same_identity p q"
  by (auto simp: condition_update_def same_identity_def split: if_splits option.splits)

lemma conditions_frame:
  fixes s t :: sys
  assumes "pm_inv s" "getProcessesToUpdateConditions sha mps order s = (as, t)"
  shows "frame s t \<and> monitor t = monitor s \<and> set as \<subseteq> {a. a < nextObj s}"
  using assms
proof (induction sha mps order s arbitrary: as t rule: getProcessesToUpdateConditions.induct)
  case (2 sha mps name order s)
  consider (skip) "getProcessesToUpdateConditions sha mps order s = (as, t)"
      "processes s name = None \<or>
       (\<exists>a. processes s name = Some a \<and> Option.bind (objects s a) (condition_update sha mps) = None)"
    | (upd) a p q where "processes s name = Some a" "objects s a = Some p" "condition_update sha mps p = Some q"
    using "2.prems"(2) by (auto split: option.splits simp: bind_eq_Some_conv)
  then show ?case
  proof cases
    case skip
    then show ?thesis using "2.IH"(1,2) "2.prems"(1) by blast
  next
    case ap: (upd a p q)
    let ?s = "upd_obj a (\<lambda>_. q) s"
    have fr: "frame s ?s" using ap(2) condition_update_same [OF ap(3)] by (rule frame_upd)
    have inv': "pm_inv ?s"
      by (rule inv_frame [OF "2.prems"(1) fr]) (use "2.prems"(1) in \<open>auto simp: pm_inv_def threads_ok_def\<close>)
    from "2.prems" ap obtain as' where "getProcessesToUpdateConditions sha mps order ?s = (as', t)"
        "as = a # as'"
      by (auto split: prod.splits)
    with "2.IH"(3) [OF ap(1) _ inv'] ap fr inv_obj [OF "2.prems"(1) ap(2)] show ?thesis
      by (auto intro: frame_trans)
  qed
qed simp

lemma inv_MountCheck:
  assumes inv: "pm_inv s" and i: "i < length (threads s)" "threads s ! i = CondIdle"
    and chk: "checkMountPointStatusForEngine sha mounts order s = Some (gs, t)"
  shows "pm_inv (replace_thread i gs t)"
proof -
  from chk obtain mps as where "getProcessesToUpdateConditions sha mps order s = (as, t)" "gs = [CondSend as]"
    by (auto simp: checkMountPointStatusForEngine_def split: option.splits prod.splits)
  with conditions_frame [OF inv] i inv show ?thesis
    by (intro inv_step_frame [OF inv i(1)]) (auto simp: pm_inv_def threads_ok_def)
qed

lemma inv_mstep:
  assumes "pm_inv s" "mstep s = Some t"
  shows "pm_inv t"
proof (rule inv_same [OF assms(1), where gs = "[]"])
  show "mon_addrs (monitor t) \<subseteq> {a. a < nextObj s}"
    using assms(2) inv_mon [OF assms(1)]
    by (auto simp: mstep_def split: monitor.splits option.splits)
qed (use assms(2) in \<open>auto simp: mstep_def split: monitor.splits option.splits\<close>)

theorem inv_act:
  assumes inv: "pm_inv s" and act: "act x s = Some t"
  shows "pm_inv t"
proof (cases x)
  case (Thread i e)
  with act obtain gs t' where "i < length (threads s)" "gstep e (threads s ! i) s = Some (gs, t')"
      "t = replace_thread i gs t'"
    by (auto split: if_splits option.splits)
  with inv_gstep [OF inv] show ?thesis by blast
next
  case (MountCheck i sha mounts order)
  with act obtain gs t' where "i < length (threads s)" "threads s ! i = CondIdle"
      "checkMountPointStatusForEngine sha mounts order s = Some (gs, t')" "t = replace_thread i gs t'"
    by (auto simp: cond_idle_def split: if_splits option.splits)
  with inv_MountCheck [OF inv] show ?thesis by blast
next
  case ContextDone
  with act have "t = s\<lparr>monitor := MonDone\<rparr>" by (simp split: if_splits)
  then show ?thesis by (intro inv_same [OF inv, where gs = "[]"]) simp_all
next
  case (PassTime d)
  with act have "t = s\<lparr>clock := clock s + int d\<rparr>" by simp
  then show ?thesis using inv_mon [OF inv] by (intro inv_same [OF inv, where gs = "[]"]) simp_all
qed (use inv act in \<open>auto simp: inv_ProcessCreate inv_ProcessReplace inv_ProcessDelete
      split: if_splits intro: inv_mstep\<close>)

section \<open>Reachable states\<close>

lemma ParsePortRange_int32:
  assumes "ParsePortRange r = Inr (s, e)"
  shows "- (2 ^ 31) \<le> s \<and> s < 2 ^ 31 \<and> - (2 ^ 31) \<le> e \<and> e < 2 ^ 31"
  using assms to_int32_bounds
  by (auto simp: ParsePortRange_def split: if_splits list.splits sum.splits)

lemma NewManager_ok:
  assumes "NewManager r = Inr pm" "sane_range pm"
  shows "wf_bitmap (availablePorts pm) \<and>
    bm_ports (availablePorts pm) = {portRangeMin pm..portRangeMax pm} \<and>
    bm_free (availablePorts pm) = {portRangeMin pm..portRangeMax pm} \<and>
    processes pm = Map.empty \<and> objects pm = Map.empty \<and> nextObj pm = 0"
proof -
  obtain s e b where p: "ParsePortRange r = Inr (s, e)" and b: "NewBitmap s e = Inr b"
    and pm: "pm = \<lparr>portRangeMin = s, portRangeMax = e, processes = Map.empty,
                   objects = Map.empty, nextObj = 0, availablePorts = b, logsOpened = 0\<rparr>"
    using assms(1) by (auto simp: NewManager_def split: sum.splits)
  have "s \<le> e" using b by (auto simp: NewBitmap_def split: if_splits)
  with ParsePortRange_int32 [OF p] assms(2) pm wf_NewBitmap [of s e] b show ?thesis
    by (simp add: sane_range_def)
qed

lemma init_sys_simps [simp]:
  "processes (init_sys pm) = processes pm" "objects (init_sys pm) = objects pm"
  "nextObj (init_sys pm) = nextObj pm" "availablePorts (init_sys pm) = availablePorts pm"
  "portRangeMin (init_sys pm) = portRangeMin pm" "portRangeMax (init_sys pm) = portRangeMax pm"
  "threads (init_sys pm) = [CondIdle]" "monitor (init_sys pm) = MonIdle"
  "replies (init_sys pm) = []" "calls (init_sys pm) = 0" "events (init_sys pm) = []"
  by (simp_all add: init_sys_def manager.defs)

lemma pm_inv_init:
  assumes "NewManager r = Inr pm" "sane_range pm"
  shows "pm_inv (init_sys pm)"
proof -
  note ok = NewManager_ok [OF assms]
  have "own (init_sys pm) = (\<lambda>a. {})" using ok by (auto simp: own_def holder_def)
  with ok have "ports_ok (init_sys pm)" by (simp add: ports_ok_def bm.ledger_empty)
  with ok show ?thesis by (simp add: pm_inv_def heap_ok_def registry_ok_def threads_ok_def)
qed

theorem pm_inv_reachable: "reachable r s \<Longrightarrow> pm_inv s"
  by (induction rule: reachable.induct) (auto simp: step_iff pm_inv_init intro: inv_act)

end
