(* ===== verification/Manager_Progress.thy ===== *)
theory Manager_Progress
  imports Manager_Invariant
begin

text \<open>
  Progress of the process manager: every thread ends after a bounded number of its own
  steps, no thread waits forever as long as the monitor runs, and every request is answered
  exactly once.
\<close>

section \<open>Work\<close>

fun weight :: "gor \<Rightarrow> nat" where
  "weight Done = 0"
| "weight CondIdle = 0"
| "weight (Notify a k) = weight k + 4"
| "weight (CreateReply a) = 1"
| "weight (ReplaceReply a) = 1"
| "weight (ReplaceRelease a err) = 1"
| "weight (StopClose a) = 1"
| "weight (StopKill a) = 2"
| "weight (StopWrite a) = 2"
| "weight (StopRead a) = 3"
| "weight (StopWait a n) = n + 3"
| "weight (StopSend a sig b) = WaitCount + 4"
| "weight (StopCmd a h sig b) = WaitCount + 5"
| "weight (StopSpawn a sig b k) = weight k + WaitCount + 6"
| "weight (StopDecide a sig now k) = weight k + WaitCount + 11"
| "weight (StopCall a sig k) = weight k + WaitCount + 12"
| "weight (RunSet a r) = 5"
| "weight (RunClose a r) = 6"
| "weight (RunWait a) = 7"
| "weight (RunCmd a) = 8"
| "weight (ProbeOk a) = 5"
| "weight (ProbeFail a) = WaitCount + 13"
| "weight (ProbeLoop a n) = n + WaitCount + 14"
| "weight (ProbeBegin a) = 2 * WaitCount + 15"
| "weight (CreateStart a) = 2 * WaitCount + 25"
| "weight (UnregCommit a) = 5"
| "weight (UnregCheck a) = 6"
| "weight (UnregWait a n) = n + 7"
| "weight (UnregBegin a r) = WaitCount + 8"
| "weight (DeleteReply a) = WaitCount + 9"
| "weight (ReplaceCommit a old) = WaitCount + 14"
| "weight (ReplaceWait a old n) = n + 2 * WaitCount + 27"
| "weight (ReplaceStart a old) = 4 * WaitCount + 81"
| "weight (ReplaceCompare a old) = 4 * WaitCount + 82"
| "weight (CondSend as) = 5 * length as + 1"

fun mon_weight :: "monitor \<Rightarrow> nat" where
  "mon_weight (MonGot a) = 3"
| "mon_weight (MonCheck a r) = 2"
| "mon_weight (MonSend r) = 1"
| "mon_weight _ = 0"

definition work :: "sys \<Rightarrow> nat" where
  "work s = sum_list (map weight (threads s)) + mon_weight (monitor s)"

fun internal :: "action \<Rightarrow> bool" where
  "internal (Thread i e) = True"
| "internal Monitor = True"
| "internal x = False"

lemma commit_sections [simp]:
  fixes s :: sys
  shows "monitor (releaseProcessPorts p s) = monitor s" "threads (releaseProcessPorts p s) = threads s"
    "objects (releaseProcessPorts p s) = objects s" "replies (releaseProcessPorts p s) = replies s"
    "calls (releaseProcessPorts p s) = calls s"
    "monitor (unregister_commit p s) = monitor s" "threads (unregister_commit p s) = threads s"
    "objects (unregister_commit p s) = objects s" "replies (unregister_commit p s) = replies s"
    "calls (unregister_commit p s) = calls s"
proof -
  obtain b where "releaseProcessPorts p s = s\<lparr>availablePorts := b\<rparr>"
    using releaseProcessPorts_frame by blast
  then show "monitor (releaseProcessPorts p s) = monitor s" "threads (releaseProcessPorts p s) = threads s"
    "objects (releaseProcessPorts p s) = objects s" "replies (releaseProcessPorts p s) = replies s"
    "calls (releaseProcessPorts p s) = calls s" by simp_all
  obtain c where "releaseProcessPorts p (s\<lparr>processes := (processes s)(pName p := None)\<rparr>) =
      s\<lparr>processes := (processes s)(pName p := None), availablePorts := c\<rparr>"
    using releaseProcessPorts_frame [of p "s\<lparr>processes := (processes s)(pName p := None)\<rparr>"] by auto
  then show "monitor (unregister_commit p s) = monitor s" "threads (unregister_commit p s) = threads s"
    "objects (unregister_commit p s) = objects s" "replies (unregister_commit p s) = replies s"
    "calls (unregister_commit p s) = calls s" by (simp_all add: unregister_commit_def)
qed

lemma replace_commit_frame:
  fixes s t :: sys
  assumes "replace_commit a p old s = (r, t)"
  shows "monitor t = monitor s \<and> threads t = threads s \<and> objects t = objects s \<and>
    replies t = replies s \<and> calls t = calls s"
  using assms by (auto simp: replace_commit_def Let_def split: option.splits if_splits)

lemma gstep_obj_weight:
  assumes "gstep_obj e g a p s = Some (gs, t)"
  shows "sum_list (map weight gs) + mon_weight (monitor t) < weight g + mon_weight (monitor s)"
  using assms
  by (cases "(e, g, a, p, s)" rule: gstep_obj.cases)
    (auto simp: cleanupReplacementProcess_def mon_idle_def dest: replace_commit_frame
      split: option.splits prod.splits if_splits wait_event.splits)

lemma gstep_weight:
  assumes "gstep e g s = Some (gs, t)"
  shows "sum_list (map weight gs) + mon_weight (monitor t) < weight g + mon_weight (monitor s)"
  using assms gstep_obj_weight
  by (auto simp: gstep_def split: option.splits gor.splits list.splits)

text \<open>A step of one thread leaves the list of the threads to \<open>replace_thread\<close>.\<close>

lemma gstep_threads:
  assumes "gstep e g s = Some (gs, t)"
  shows "threads t = threads s"
proof -
  have "threads t = threads s" if "gstep_obj e g a p s = Some (gs, t)" for a p
    using that
    by (cases "(e, g, a, p, s)" rule: gstep_obj.cases)
      (auto dest: replace_commit_frame split: option.splits prod.splits if_splits wait_event.splits)
  with assms show ?thesis by (auto simp: gstep_def split: option.splits gor.splits list.splits)
qed

lemma sum_list_split:
  "i < length gs \<Longrightarrow>
    sum_list (map f gs) = sum_list (map f (take i gs)) + f (gs ! i) + sum_list (map f (drop (Suc i) gs))"
  for f :: "gor \<Rightarrow> nat"
  by (subst threads_split [of i gs]) simp_all

interpretation pm: bounded_work act internal work
proof
  fix x s t assume x: "internal x" "act x s = Some t"
  show "work t < work s"
  proof (cases x)
    case (Thread i e)
    with x obtain gs t' where i: "i < length (threads s)" and st: "gstep e (threads s ! i) s = Some (gs, t')"
      and t: "t = replace_thread i gs t'"
      by (auto split: if_splits option.splits)
    from gstep_weight [OF st] gstep_threads [OF st] sum_list_split [OF i, of weight] show ?thesis
      by (simp add: work_def t)
  next
    case Monitor
    with x show ?thesis
      by (auto simp: mstep_def work_def split: monitor.splits option.splits)
  qed (use x in simp_all)
qed

section \<open>No thread is stuck\<close>

definition probing_env :: env where
  "probing_env = \<lparr>envCommand = Inl (Err ''''), envRunStart = None, envExit = None, envSelect = Tick False\<rparr>"

lemma gstep_obj_enabled:
  assumes "target g = Some a" "\<And>b. b \<in> addrs g \<Longrightarrow> objects s b \<noteq> None"
    and "\<And>k. g = Notify a k \<Longrightarrow> mon_idle (monitor s)"
  shows "gstep_obj probing_env g a p s \<noteq> None"
  using assms
  by (cases "(probing_env, g, a, p, s)" rule: gstep_obj.cases)
    (auto simp: probing_env_def split: option.splits prod.splits)

lemma gstep_enabled:
  assumes "\<And>b. b \<in> addrs g \<Longrightarrow> objects s b \<noteq> None" "g \<noteq> Done" "g \<noteq> CondIdle"
    and "\<And>a k. g = Notify a k \<Longrightarrow> mon_idle (monitor s)"
  shows "gstep probing_env g s \<noteq> None"
proof (cases "target g")
  case None
  with assms show ?thesis by (cases g) (auto simp: gstep_def split: list.splits)
next
  case (Some a)
  with assms(1) target_addrs obtain p where "objects s a = Some p" by blast
  with Some gstep_obj_enabled [OF Some assms(1)] assms(4) show ?thesis by (auto simp: gstep_def)
qed

lemma inv_objects: "pm_inv s \<Longrightarrow> a < nextObj s \<Longrightarrow> objects s a \<noteq> None"
  by (auto simp: pm_inv_def heap_ok_def)

lemma mstep_enabled:
  assumes "pm_inv s" "monitor s \<noteq> MonIdle" "monitor s \<noteq> MonDone"
  shows "mstep s \<noteq> None"
  using assms inv_mon [OF assms(1)] inv_objects [OF assms(1)]
  by (cases "monitor s") (fastforce simp: mstep_def split: option.splits)+

lemma quiet_threads:
  assumes inv: "pm_inv s" and run: "monitor s \<noteq> MonDone"
    and quiet: "\<And>x. internal x \<Longrightarrow> act x s = None"
  shows "monitor s = MonIdle \<and> (\<forall>g \<in> set (threads s). g = Done \<or> g = CondIdle)"
proof -
  have idle: "monitor s = MonIdle" using quiet [of Monitor] mstep_enabled [OF inv] run by auto
  have "g = Done \<or> g = CondIdle" if "g \<in> set (threads s)" for g
  proof (rule ccontr)
    assume neg: "\<not> (g = Done \<or> g = CondIdle)"
    obtain i where i: "i < length (threads s)" "g = threads s ! i" using \<open>g \<in> _\<close> by (metis in_set_conv_nth)
    have "gstep probing_env g s \<noteq> None"
      using neg idle thread_addrs [OF inv i(1)] inv_objects [OF inv] i(2)
      by (intro gstep_enabled) (auto simp: mon_idle_def)
    with i quiet [of "Thread i probing_env"] show False by (auto split: option.splits)
  qed
  with idle show ?thesis by blast
qed

section \<open>Every request is answered once\<close>

fun owes :: "gor \<Rightarrow> nat" where
  "owes (Notify a k) = owes k"
| "owes (StopCall a sig k) = owes k"
| "owes (StopDecide a sig now k) = owes k"
| "owes (StopSpawn a sig b k) = owes k"
| "owes (CreateStart a) = 1"
| "owes (CreateReply a) = 1"
| "owes (DeleteReply a) = 1"
| "owes (UnregBegin a r) = 1"
| "owes (ReplaceCompare a old) = 1"
| "owes (ReplaceStart a old) = 1"
| "owes (ReplaceWait a old n) = 1"
| "owes (ReplaceCommit a old) = 1"
| "owes (ReplaceRelease a err) = 1"
| "owes (ReplaceReply a) = 1"
| "owes g = 0"

definition answered :: "sys \<Rightarrow> bool" where
  "answered s \<longleftrightarrow> length (replies s) + sum_list (map owes (threads s)) = calls s"

lemma gstep_owes:
  assumes "gstep e g s = Some (gs, t)"
  shows "length (replies t) + sum_list (map owes gs) = length (replies s) + owes g \<and> calls t = calls s"
proof -
  have "length (replies t) + sum_list (map owes gs) = length (replies s) + owes g \<and> calls t = calls s"
    if "gstep_obj e g a p s = Some (gs, t)" for a p
    using that
    by (cases "(e, g, a, p, s)" rule: gstep_obj.cases)
      (auto simp: cleanupReplacementProcess_def dest: replace_commit_frame
        split: option.splits prod.splits if_splits wait_event.splits)
  with assms show ?thesis by (auto simp: gstep_def split: option.splits gor.splits list.splits)
qed

lemma allocatePorts_sys:
  fixes s t :: sys
  shows "allocatePorts n s = (r, t) \<Longrightarrow> threads t = threads s \<and> replies t = replies s \<and> calls t = calls s"
  by (auto simp: allocatePorts_def split: if_splits prod.splits sum.splits)

lemma allocateProcessPorts_sys:
  fixes s t :: sys
  shows "allocateProcessPorts p s = (r, t) \<Longrightarrow> threads t = threads s \<and> replies t = replies s \<and> calls t = calls s"
  by (auto simp: allocateProcessPorts_def dest: allocatePorts_sys
      split: if_splits prod.splits sum.splits option.splits)

lemma conditions_sys:
  fixes s t :: sys
  shows "getProcessesToUpdateConditions sha mps order s = (as, t) \<Longrightarrow>
    threads t = threads s \<and> replies t = replies s \<and> calls t = calls s"
  by (induction sha mps order s arbitrary: as t rule: getProcessesToUpdateConditions.induct)
    (auto split: option.splits prod.splits)

lemma answered_act:
  assumes ans: "answered s" and act: "act x s = Some t"
  shows "answered t"
proof (cases x)
  case (Thread i e)
  with act obtain gs t' where i: "i < length (threads s)" and st: "gstep e (threads s ! i) s = Some (gs, t')"
    and t: "t = replace_thread i gs t'"
    by (auto split: if_splits option.splits)
  have "replies t = replies t'" "calls t = calls t'" by (simp_all add: t replace_thread_def)
  with gstep_owes [OF st] gstep_threads [OF st] sum_list_split [OF i, of owes] ans show ?thesis
    by (simp add: answered_def t)
next
  case (MountCheck i sha mounts order)
  with act obtain mps as t' where i: "i < length (threads s)" "threads s ! i = CondIdle"
    and c: "getProcessesToUpdateConditions sha mps order s = (as, t')"
    and t: "t = replace_thread i [CondSend as] t'"
    by (auto simp: checkMountPointStatusForEngine_def cond_idle_def
        split: if_splits option.splits prod.splits)
  have "replies t = replies t'" "calls t = calls t'" by (simp_all add: t replace_thread_def)
  with conditions_sys [OF c] sum_list_split [OF i(1), of owes] i ans show ?thesis
    by (simp add: answered_def t)
next
  case (CallCreate w spec u)
  with act ans show ?thesis
    by (auto simp: answered_def ProcessCreate_def ProcessCreate_begin_def registerProcess_def
        dest!: allocateProcessPorts_sys split: if_splits option.splits prod.splits sum.splits)
next
  case (CallReplace w spec sig u)
  with act ans show ?thesis
    by (auto simp: answered_def ProcessReplace_def ProcessReplace_begin_def initProcessReplace_def
        dest!: allocateProcessPorts_sys split: if_splits option.splits prod.splits sum.splits)
qed (use act ans in \<open>auto simp: answered_def ProcessDelete_def mstep_def
      split: if_splits option.splits monitor.splits\<close>)

lemma answered_reachable: "reachable r s \<Longrightarrow> answered s"
  by (induction rule: reachable.induct) (auto simp: step_iff answered_def [of "init_sys _"] intro: answered_act)

lemma quiet_answered:
  assumes "answered s" "\<forall>g \<in> set (threads s). g = Done \<or> g = CondIdle"
  shows "length (replies s) = calls s"
proof -
  have "sum_list (map owes (threads s)) = 0" using assms(2) by (auto simp: sum_list_eq_0_iff)
  with assms(1) show ?thesis by (simp add: answered_def)
qed

end
