(* ===== verification/Manager_Lifecycle.thy ===== *)
theory Manager_Lifecycle
  imports Manager_Progress
begin

text \<open>
  How the processes of the manager change over time: which changes of state exist, that a
  deletion is never forgotten, and when a stopped process stays stopped.
\<close>

section \<open>Evolution of a process\<close>

definition evolves :: "process \<Rightarrow> process \<Rightarrow> bool" where
  "evolves p q \<longleftrightarrow> same_identity p q \<and>
     (pState q = StateStarting \<longrightarrow> pState p = StateStarting) \<and>
     (pState q = StateStopping \<longrightarrow> pState p \<noteq> StateStopping \<longrightarrow> pState p \<in> {StateStarting, StateRunning}) \<and>
     (pState q = StateStopping \<longrightarrow> pState p \<noteq> StateStopping \<longrightarrow> pDeletionTimestamp q \<noteq> None) \<and>
     (pDeletionTimestamp p \<noteq> None \<longrightarrow> pDeletionTimestamp q \<noteq> None)"

lemma evolves_refl [simp]: "evolves p p"
  by (simp add: evolves_def)

lemma evolves_ops [simp]:
  "evolves p (run_close_probe p)" "evolves p (run_finished err p)" "evolves p (set_running p)"
  "evolves p (stop_write p)" "evolves p (send_signal sig p)" "evolves p (send_kill p)"
  "evolves p (close_logger p)" "evolves p (cmd_started p)" "evolves p (cmd_ended p)"
  by (auto simp: evolves_def process_op_defs same_identity_def split: option.splits)

lemma evolves_Start: "Start c p = (r, p') \<Longrightarrow> evolves p p'"
  by (auto simp: Start_def evolves_def same_identity_def split: sum.splits)

lemma evolves_decide: "StopWithSignal_decide now p = (b, k, p') \<Longrightarrow> evolves p p'"
  by (cases "pState p")
    (auto simp: StopWithSignal_decide_def evolves_def same_identity_def Let_def)

text \<open>
  \<open>heap_evolves\<close> relates two heaps with the same processes, each kept or changed by a section
  of the code.
\<close>

definition heap_evolves :: "'x manager_scheme \<Rightarrow> 'y manager_scheme \<Rightarrow> bool" where
  "heap_evolves s t \<longleftrightarrow> (\<forall>a. rel_option evolves (objects s a) (objects t a))"

lemma heap_evolves_same [simp]: "objects t = objects s \<Longrightarrow> heap_evolves s t"
  by (simp add: heap_evolves_def option.rel_refl)

lemma heap_evolves_upd:
  "objects s a = Some p \<Longrightarrow> evolves p (f p) \<Longrightarrow> heap_evolves s (upd_obj a f s)"
  by (auto simp: heap_evolves_def upd_obj_def option.rel_refl)

lemma gstep_evolves:
  assumes "gstep e g s = Some (gs, t)"
  shows "heap_evolves s t"
proof -
  have "heap_evolves s t" if "gstep_obj e g a p s = Some (gs, t)" "objects s a = Some p" for a p
    using that
    by (cases "(e, g, a, p, s)" rule: gstep_obj.cases)
      (auto simp: heap_evolves_upd evolves_Start evolves_decide dest: replace_commit_frame
        split: option.splits prod.splits if_splits wait_event.splits)
  with assms show ?thesis by (auto simp: gstep_def split: option.splits gor.splits list.splits)
qed

text \<open>The condition check changes nothing but the conditions.\<close>

definition only_conditions :: "'x manager_scheme \<Rightarrow> 'x manager_scheme \<Rightarrow> bool" where
  "only_conditions s t \<longleftrightarrow> (\<forall>a. objects t a = objects s a \<or>
     (\<exists>p c. objects s a = Some p \<and> objects t a = Some (p\<lparr>pConditions := c\<rparr>)))"

lemma only_conditions_trans:
  assumes "only_conditions s t" "only_conditions t u"
  shows "only_conditions s u"
  unfolding only_conditions_def
proof
  fix a
  show "objects u a = objects s a \<or>
      (\<exists>p c. objects s a = Some p \<and> objects u a = Some (p\<lparr>pConditions := c\<rparr>))"
    using assms(1) [unfolded only_conditions_def, rule_format, of a]
      assms(2) [unfolded only_conditions_def, rule_format, of a]
    by (cases "objects s a") auto
qed

lemma conditions_only:
  "getProcessesToUpdateConditions sha mps order s = (as, t) \<Longrightarrow> only_conditions s t"
proof (induction sha mps order s arbitrary: as t rule: getProcessesToUpdateConditions.induct)
  case (2 sha mps name order s)
  show ?case
  proof (cases "Option.bind (processes s name) (\<lambda>a. Option.bind (objects s a) (condition_update sha mps))")
    case None
    with 2 show ?thesis by (cases "processes s name") (auto split: option.splits)
  next
    case (Some q)
    then obtain a p where ap: "processes s name = Some a" "objects s a = Some p"
        "condition_update sha mps p = Some q"
      by (auto simp: bind_eq_Some_conv)
    have "only_conditions s (upd_obj a (\<lambda>_. q) s)"
      using ap by (auto simp: only_conditions_def upd_obj_def condition_update_def
          split: if_splits option.splits)
    with "2.prems" "2.IH"(3) [OF ap(1)] ap show ?thesis
      by (auto split: prod.splits intro: only_conditions_trans)
  qed
qed (simp add: only_conditions_def)

lemma only_conditions_evolves: "only_conditions s t \<Longrightarrow> heap_evolves s t"
  unfolding heap_evolves_def
proof
  fix a assume oc: "only_conditions s t"
  have "evolves p (p\<lparr>pConditions := c\<rparr>)" for p c by (simp add: evolves_def same_identity_def)
  with oc [unfolded only_conditions_def, rule_format, of a]
  show "rel_option evolves (objects s a) (objects t a)" by (auto simp: option.rel_refl)
qed

text \<open>A request may add a process to the heap, in its initial state.\<close>

definition adds_process :: "sys \<Rightarrow> sys \<Rightarrow> bool" where
  "adds_process s t \<longleftrightarrow> (\<exists>p. objects t = (objects s)(nextObj s \<mapsto> p) \<and>
     pState p = StateStarting \<and> pDeletionTimestamp p = None)"

lemma ProcessCreate_adds: 
  "pm_inv s \<Longrightarrow> objects (ProcessCreate w spec u s) = objects s \<or> adds_process s (ProcessCreate w spec u s)"
  by (erule ProcessCreate_cases [where w = w and spec = spec and u = u])
    (auto simp: adds_process_def dest!: allocateProcessPorts_same)

lemma ProcessReplace_adds:
  "pm_inv s \<Longrightarrow>
    objects (ProcessReplace w spec sig u s) = objects s \<or> adds_process s (ProcessReplace w spec sig u s)"
  by (erule ProcessReplace_cases [where w = w and spec = spec and sig = sig and u = u])
    (auto simp: adds_process_def dest!: allocateProcessPorts_same)

lemma act_evolves:
  assumes inv: "pm_inv s" and act: "act x s = Some t"
  shows "heap_evolves s t \<or> adds_process s t"
proof (cases x)
  case (Thread i e)
  with act obtain gs t' where "gstep e (threads s ! i) s = Some (gs, t')" "t = replace_thread i gs t'"
    by (auto split: if_splits option.splits)
  with gstep_evolves show ?thesis by (auto simp: heap_evolves_def)
next
  case (MountCheck i sha mounts order)
  with act obtain mps as t' where c: "getProcessesToUpdateConditions sha mps order s = (as, t')"
    and t: "t = replace_thread i [CondSend as] t'"
    by (auto simp: checkMountPointStatusForEngine_def split: if_splits option.splits prod.splits)
  from only_conditions_evolves [OF conditions_only [OF c]] t show ?thesis by (simp add: heap_evolves_def)
next
  case (CallCreate w spec u)
  with act have "t = ProcessCreate w spec u s" by (auto split: if_splits)
  with ProcessCreate_adds [OF inv, of w spec u] show ?thesis by auto
next
  case (CallReplace w spec sig u)
  with act have "t = ProcessReplace w spec sig u s" by (auto split: if_splits)
  with ProcessReplace_adds [OF inv, of w spec sig u] show ?thesis by auto
qed (use act in \<open>auto simp: ProcessDelete_def mstep_def split: if_splits option.splits monitor.splits\<close>)

lemma act_evolves_obj:
  assumes "pm_inv s" "act x s = Some t" "objects s a = Some p"
  shows "\<exists>q. objects t a = Some q \<and> evolves p q"
  using act_evolves [OF assms(1,2)]
proof
  assume "heap_evolves s t"
  then have "rel_option evolves (Some p) (objects t a)" using assms(3) by (metis heap_evolves_def)
  then show ?thesis by (auto elim: option.rel_cases)
next
  assume "adds_process s t"
  with inv_fresh [OF assms(1)] assms(3) show ?thesis by (auto simp: adds_process_def)
qed

text \<open>A process that is being stopped has its deletion time.\<close>

definition deletion_ok :: "sys \<Rightarrow> bool" where
  "deletion_ok s \<longleftrightarrow>
     (\<forall>a p. objects s a = Some p \<longrightarrow> pState p = StateStopping \<longrightarrow> pDeletionTimestamp p \<noteq> None)"

lemma deletion_ok_act:
  assumes inv: "pm_inv s" and act: "act x s = Some t" and ok: "deletion_ok s"
  shows "deletion_ok t"
  unfolding deletion_ok_def
proof (intro allI impI)
  fix a q assume q: "objects t a = Some q" "pState q = StateStopping"
  show "pDeletionTimestamp q \<noteq> None"
  proof (cases "objects s a")
    case None
    with act_evolves [OF inv act] q show ?thesis
      by (auto simp: heap_evolves_def adds_process_def split: if_splits dest!: spec [of _ a])
  next
    case (Some p)
    with act_evolves_obj [OF inv act Some] q ok show ?thesis
      by (auto simp: evolves_def deletion_ok_def)
  qed
qed

lemma deletion_ok_reachable: "reachable r s \<Longrightarrow> deletion_ok s"
proof (induction rule: reachable.induct)
  case (init pm)
  then show ?case using NewManager_ok [OF init] by (simp add: deletion_ok_def)
next
  case (step s s')
  then obtain x where "act x s = Some s'" by (auto simp: step_iff)
  with step pm_inv_reachable deletion_ok_act show ?case by blast
qed

section \<open>Stopped processes\<close>

text \<open>
  The processes a thread may still start or report as running.  The goroutine that probes the
  health of a process writes the running state without looking at the current one.
\<close>

fun starters :: "gor \<Rightarrow> addr set" where
  "starters (Notify a k) = starters k"
| "starters (StopCall a sig k) = starters k"
| "starters (StopDecide a sig now k) = starters k"
| "starters (StopSpawn a sig b k) = starters k"
| "starters (CreateStart a) = {a}"
| "starters (ProbeBegin a) = {a}"
| "starters (ProbeLoop a n) = {a}"
| "starters (ProbeOk a) = {a}"
| "starters (ReplaceCompare a old) = {a}"
| "starters (ReplaceStart a old) = {a}"
| "starters g = {}"

definition starting :: "sys \<Rightarrow> addr set" where
  "starting s = (\<Union>g \<in> set (threads s). starters g)"

definition settled :: "sys \<Rightarrow> addr \<Rightarrow> bool" where
  "settled s a \<longleftrightarrow> a \<notin> starting s \<and> (case objects s a of None \<Rightarrow> False | Some p \<Rightarrow> IsStopped p)"

lemma gstep_obj_settled:
  assumes "gstep_obj e g a p s = Some (gs, t)" "target g = Some a" "objects s a = Some p"
  shows "(\<Union>h \<in> set gs. starters h) \<subseteq> starters g \<and>
    (\<forall>b q. objects s b = Some q \<longrightarrow> IsStopped q \<longrightarrow> b \<notin> starters g \<longrightarrow>
       (\<exists>q'. objects t b = Some q' \<and> IsStopped q'))"
  using assms
  by (cases "(e, g, a, p, s)" rule: gstep_obj.cases)
    (auto simp: cleanupReplacementProcess_def upd_obj_def IsStopped_def process_op_defs
      StopWithSignal_decide_def Let_def
      dest!: replace_commit_frame split: option.splits prod.splits if_splits wait_event.splits)

lemma gstep_settled:
  assumes "gstep e g s = Some (gs, t)"
  shows "(\<Union>h \<in> set gs. starters h) \<subseteq> starters g \<and>
    (\<forall>b q. objects s b = Some q \<longrightarrow> IsStopped q \<longrightarrow> b \<notin> starters g \<longrightarrow>
       (\<exists>q'. objects t b = Some q' \<and> IsStopped q'))"
proof (cases "target g")
  case None
  with assms show ?thesis by (auto simp: gstep_def split: gor.splits list.splits)
next
  case (Some a)
  with assms obtain p where "objects s a = Some p" "gstep_obj e g a p s = Some (gs, t)"
    by (auto simp: gstep_def split: option.splits)
  with gstep_obj_settled Some show ?thesis by blast
qed

lemma settled_intro:
  assumes "settled s a" "starting t \<subseteq> starting s \<union> b" "a \<notin> b"
    and "\<And>p. objects s a = Some p \<Longrightarrow> IsStopped p \<Longrightarrow> \<exists>q. objects t a = Some q \<and> IsStopped q"
  shows "settled t a"
  using assms by (fastforce simp: settled_def split: option.splits)

lemma starting_replace:
  assumes "i < length (threads s)" "threads t = threads s"
    and "(\<Union>h \<in> set gs. starters h) \<subseteq> starters (threads s ! i)"
  shows "starting (replace_thread i gs t) \<subseteq> starting s"
  using assms nth_mem [OF assms(1)]
  by (fastforce simp: starting_def dest: in_set_takeD in_set_dropD)

lemma settled_act:
  assumes inv: "pm_inv s" and act: "act x s = Some t" and st: "settled s a"
  shows "settled t a"
proof (cases x)
  case (Thread i e)
  with act obtain gs t' where i: "i < length (threads s)" and g: "gstep e (threads s ! i) s = Some (gs, t')"
    and t: "t = replace_thread i gs t'"
    by (auto split: if_splits option.splits)
  have "a \<notin> starters (threads s ! i)" using st nth_mem [OF i] by (auto simp: settled_def starting_def)
  with gstep_settled [OF g] starting_replace [OF i gstep_threads [OF g], of gs] show ?thesis
    unfolding t by (intro settled_intro [OF st, of _ "{}"]) auto
next
  case (MountCheck i sha mounts order)
  with act obtain mps as t' where i: "i < length (threads s)" and c: "getProcessesToUpdateConditions sha mps order s = (as, t')"
    and t: "t = replace_thread i [CondSend as] t'"
    by (auto simp: checkMountPointStatusForEngine_def split: if_splits option.splits prod.splits)
  from conditions_only [OF c] conditions_sys [OF c] starting_replace [OF i, of t' "[CondSend as]"]
  show ?thesis unfolding t
    by (intro settled_intro [OF st, of _ "{}"])
      (auto simp: only_conditions_def IsStopped_def dest!: spec [of _ a])
next
  case (CallCreate w spec u)
  with act have t: "t = ProcessCreate w spec u s" by (auto split: if_splits)
  have "a \<noteq> nextObj s" using st inv_fresh [OF inv] by (auto simp: settled_def)
  with inv show ?thesis unfolding t
    by (cases rule: ProcessCreate_cases [where w = w and spec = spec and u = u])
      (auto intro!: settled_intro [OF st, of _ "{nextObj s}"] simp: starting_def)
next
  case (CallReplace w spec sig u)
  with act have t: "t = ProcessReplace w spec sig u s" by (auto split: if_splits)
  have "a \<noteq> nextObj s" using st inv_fresh [OF inv] by (auto simp: settled_def)
  with inv show ?thesis unfolding t
    by (cases rule: ProcessReplace_cases [where w = w and spec = spec and sig = sig and u = u])
      (auto intro!: settled_intro [OF st, of _ "{nextObj s}"] simp: starting_def)
qed (use act in \<open>auto intro!: settled_intro [OF st, of _ "{}"] simp: starting_def ProcessDelete_def mstep_def
      split: if_splits option.splits monitor.splits\<close>)

lemma settled_exec:
  assumes "reachable r s" "exec xs s = Some t" "settled s a"
  shows "settled t a"
  using assms unfolding exec_def
proof (induction xs arbitrary: s)
  case (Cons x xs)
  then obtain u where "act x s = Some u" "run_actions act xs u = Some t" by (auto split: option.splits)
  with Cons show ?case by (meson pm_inv_reachable reachable.step settled_act step.action)
qed simp

end
