(* ===== verification/Manager_Runs.thy ===== *)
theory Manager_Runs
  imports Manager_Lifecycle
begin

text \<open>
  Concrete runs of the process manager: the requests, the answers of the operating system and
  the schedule are given, and the states along the run are computed by simplification.  The
  runs instantiate the properties of the manager and exhibit its races.
\<close>

section \<open>The inputs\<close>

definition demo_range :: string where "demo_range = itoa 20000 @ ''-'' @ itoa 20003"

definition demo_bitmap :: "int \<Rightarrow> int list \<Rightarrow> bitmap" where
  "demo_bitmap start free = \<lparr>bmBase = 20000, bmSize = 4, bmStart = start, bmData = free\<rparr>"

definition demo_pm :: manager where
  "demo_pm = \<lparr>portRangeMin = 20000, portRangeMax = 20003, processes = Map.empty, objects = Map.empty,
              nextObj = 0, availablePorts = demo_bitmap 0 [0, 1, 2, 3], logsOpened = 0\<rparr>"

definition demo_spec :: "string \<Rightarrow> string \<Rightarrow> process_spec" where
  "demo_spec name binary = \<lparr>psName = name, psBinary = binary, psArgs = [], psPortCount = 1, psPortArgs = []\<rparr>"

definition demo_env :: env where
  "demo_env = \<lparr>envCommand = Inr \<lparr>cmdPath = ''/e'', cmdArgs = [], cmdOutput = False, cmdStarted = False,
                                 cmdExited = False, cmdSignals = []\<rparr>,
               envRunStart = None, envExit = Some (Err ''exit status 1''), envSelect = Tick True\<rparr>"

lemma demo_NewManager: "NewManager demo_range = Inr demo_pm"
proof -
  have "ParsePortRange demo_range = Inr (20000, 20003)"
    unfolding demo_range_def by (subst ParsePortRange_print) simp_all
  moreover have "NewBitmap 20000 20003 = Inr (demo_bitmap 0 [0, 1, 2, 3])" by code_simp
  ultimately show ?thesis by (simp add: NewManager_def demo_pm_def)
qed

lemma demo_init_reachable: "reachable demo_range (init_sys demo_pm)"
  by (rule reachable.init [OF demo_NewManager]) (simp add: sane_range_def demo_pm_def)

lemma demo_AllocateRange:
  "AllocateRange (demo_bitmap 0 [0, 1, 2, 3]) 1 = (Inr (20000, 20000), demo_bitmap 1 [1, 2, 3])"
  "AllocateRange (demo_bitmap 1 [1, 2, 3]) 1 = (Inr (20001, 20001), demo_bitmap 2 [2, 3])"
  "ReleaseRange (demo_bitmap 1 [1, 2, 3]) 20000 20000 = (None, demo_bitmap 1 [0, 1, 2, 3])"
  by code_simp+

lemma WaitCount_Suc: "WaitCount = Suc 599"
  by (simp add: WaitCount_def)

text \<open>The simplification rules that execute a run.\<close>

lemmas run_defs = exec_def init_sys_def demo_pm_def manager.defs demo_spec_def demo_env_def
  ProcessCreate_def ProcessCreate_begin_def ProcessReplace_def ProcessReplace_begin_def ProcessDelete_def
  missing_argument_def findProcess_def registerProcess_def initProcessReplace_def allocateProcessPorts_def
  allocatePorts_def releaseProcessPorts_def releasePorts_def unregister_commit_def is_current_def
  demo_AllocateRange new_process_def new_object_def new_call_def spawn_def reply_def
  replace_thread_def fresh_uuid_def gstep_def mstep_def upd_obj_def Start_def SetOutput_def process_op_defs
  StopWithSignal_decide_def Let_def WaitCount_Suc IsStopped_def eval_nat_numeral

section \<open>Two processes\<close>

definition run_two :: "action list" where
  "run_two = [CallCreate None (demo_spec ''vol-r-0'' ''/e'') ''u0'',
              CallCreate None (demo_spec ''vol-e-0'' ''/e'') ''u1'']"

lemma run_two_state:
  "\<exists>s. exec run_two (init_sys demo_pm) = Some s \<and>
     processes s = [''vol-r-0'' \<mapsto> 0, ''vol-e-0'' \<mapsto> Suc 0] \<and>
     map_option port_set (objects s 0) = Some {20000} \<and> map_option port_set (objects s 1) = Some {20001}"
  by (simp add: run_two_def run_defs port_set_def fun_upd_twist)

section \<open>An errored process that is reported as running\<close>

text \<open>
  The command fails after its health check has succeeded and before the second goroutine of
  \<open>Start\<close> writes the running state.
\<close>

definition run_race :: "action list" where
  "run_race = [CallCreate None (demo_spec ''vol-r-0'' ''/e'') ''u0'', Thread 1 demo_env, Monitor, Monitor, Monitor,
     Thread 1 demo_env, Thread 1 demo_env, Thread 2 demo_env, Thread 2 demo_env,
     Thread 1 demo_env, Thread 1 demo_env, Thread 1 demo_env]"

lemma run_race_state:
  "\<exists>s p. exec run_race (init_sys demo_pm) = Some s \<and> objects s 0 = Some p \<and>
     pState p = StateError \<and> \<not> cmd_running p \<and> processes s ''vol-r-0'' = Some 0 \<and>
     (\<exists>t q. act (Thread 2 demo_env) s = Some t \<and> objects t 0 = Some q \<and> pState q = StateRunning)"
  by (simp add: run_race_def run_defs cmd_running_def IsRunning_def)

section \<open>A replacement with the same binary\<close>

text \<open>The request is answered with the old process, and the ports of the new one are not given back.\<close>

definition run_leak :: "action list" where
  "run_leak = [CallCreate None (demo_spec ''vol-r-0'' ''/e'') ''u0'',
     CallReplace None (demo_spec ''vol-r-0'' ''/e'') ''SIGHUP'' ''u1'', Thread 2 demo_env]"

lemma run_leak_state:
  "\<exists>s. exec run_leak (init_sys demo_pm) = Some s \<and> processes s = [''vol-r-0'' \<mapsto> 0] \<and>
     threads s = [CondIdle, Notify 0 (CreateStart 0)] \<and>
     map_option port_set (objects s 0) = Some {20000} \<and>
     availablePorts s = demo_bitmap 2 [2, 3]"
  by (simp add: run_leak_def run_defs port_set_def)

section \<open>A deletion that overtakes the start\<close>

text \<open>
  The process is deleted after it has been registered and before it has been started: there is
  no command yet, so the process counts as stopped and its ports are released; then the
  command is started.
\<close>

definition run_overtake :: "action list" where
  "run_overtake = [CallCreate None (demo_spec ''vol-r-0'' ''/e'') ''u0'', CallDelete ''vol-r-0'',
     Thread 1 demo_env, Monitor, Monitor, Monitor,
     Thread 2 demo_env, Thread 2 demo_env, Thread 2 demo_env, Monitor, Monitor, Monitor,
     Thread 2 demo_env, Thread 2 demo_env, Thread 2 demo_env, Thread 2 demo_env,
     Thread 3 demo_env, Thread 3 demo_env, Thread 3 demo_env, Thread 3 demo_env, Thread 3 demo_env,
     Thread 1 demo_env, Thread 1 demo_env]"

lemma run_overtake_state:
  "\<exists>s p. exec run_overtake (init_sys demo_pm) = Some s \<and> processes s = Map.empty \<and>
     objects s 0 = Some p \<and> cmd_running p \<and> port_set p = {20000} \<and>
     availablePorts s = demo_bitmap 1 [0, 1, 2, 3]"
  by (simp add: run_overtake_def run_defs port_set_def cmd_running_def IsRunning_def)

end
