(* ===== verification/Manager_Properties.thy ===== *)
theory Manager_Properties
  imports Manager_Runs
begin

text \<open>
  The properties of the process manager, over all reachable states and every schedule of its
  threads, with the runs that instantiate them.
\<close>

section \<open>Ports and registry\<close>

lemma registered_holder: "processes s n = Some a \<Longrightarrow> holder s a"
  by (auto simp: holder_def intro: ranI)

lemma two_running: "\<exists>s. reachable demo_range s \<and> processes s = [''vol-r-0'' \<mapsto> 0, ''vol-e-0'' \<mapsto> Suc 0] \<and>
     map_option port_set (objects s 0) = Some {20000} \<and> map_option port_set (objects s 1) = Some {20001}"
  using run_two_state exec_reachable [OF demo_init_reachable] by blast

lemma holder_ports:
  assumes "reachable r s" and "holder s a" "objects s a = Some p" and "holder s b" "objects s b = Some q"
    and "a \<noteq> b"
  shows "port_set p \<inter> port_set q = {} \<and> port_set p \<subseteq> {portRangeMin s..portRangeMax s} \<and>
    port_set p \<inter> bm_free (availablePorts s) = {}"
proof -
  have inv: "pm_inv s" using assms(1) by (rule pm_inv_reachable)
  note led = inv_wf [OF inv, THEN conjunct2]
  have "own s a = port_set p" "own s b = port_set q" using assms own_holder by auto
  with bm.ledger_disjoint [OF led assms(6)] bm.ledger_held [OF led, of a] inv show ?thesis
    by (auto simp: pm_inv_def ports_ok_def)
qed

text \<open>C1. Port ranges are exclusive: in every reachable state, two different processes that are
  registered, or are replacements in flight, hold disjoint sets of ports, all of them inside the
  manager's range and none of them free in the bitmap.\<close>

theorem ports_exclusive:
  assumes "reachable r s" and "holder s a" "objects s a = Some p" and "holder s b" "objects s b = Some q"
    and "a \<noteq> b"
  shows "port_set p \<inter> port_set q = {} \<and> port_set p \<subseteq> {portRangeMin s..portRangeMax s} \<and>
    port_set p \<inter> bm_free (availablePorts s) = {}"
  using holder_ports [OF assms] .

lemma ports_exclusive_witness:
  "\<exists>s p q. reachable demo_range s \<and> objects s 0 = Some p \<and> objects s 1 = Some q \<and>
     port_set p = {20000} \<and> port_set q = {20001} \<and> port_set p \<inter> port_set q = {}"
proof -
  from two_running obtain s p q where s: "reachable demo_range s"
      "processes s = [''vol-r-0'' \<mapsto> 0, ''vol-e-0'' \<mapsto> Suc 0]"
      "objects s 0 = Some p" "port_set p = {20000}" "objects s 1 = Some q" "port_set q = {20001}"
    by auto
  moreover have "holder s 0" "holder s 1"
    using registered_holder [of s "''vol-r-0''" 0] registered_holder [of s "''vol-e-0''" 1] s(2) by simp_all
  ultimately show ?thesis
    using ports_exclusive [of demo_range s 0 p 1 q] by auto
qed

text \<open>C4. The registry is consistent: a name is mapped to a process of that name, with a
  well-formed port range, and no other process has its UUID; so the UUID comparisons of
  \<open>unregisterProcess\<close> and \<open>ProcessReplace\<close> decide whether it is the same process.\<close>

theorem registry_consistent:
  assumes "reachable r s" "processes s n = Some a"
  shows "\<exists>p. objects s a = Some p \<and> pName p = n \<and> port_ok p \<and> is_current p s \<and>
    (\<forall>b q. objects s b = Some q \<and> pUUID q = pUUID p \<longrightarrow> b = a)"
proof -
  have inv: "pm_inv s" using assms(1) by (rule pm_inv_reachable)
  from inv_registered [OF inv assms(2)] obtain p where p: "objects s a = Some p" "pName p = n" by blast
  have "b = a" if "objects s b = Some q" "pUUID q = pUUID p" for b q
    using inv_uuid [OF inv that(1) p(1) that(2)] .
  moreover have "is_current p s" using p assms(2) by (simp add: is_current_def)
  ultimately show ?thesis using p inv_obj [OF inv p(1)] by blast
qed

lemma registry_consistent_witness:
  "\<exists>s p. reachable demo_range s \<and> objects s 0 = Some p \<and> pName p = ''vol-r-0''"
proof -
  from two_running obtain s where "reachable demo_range s" "processes s = [''vol-r-0'' \<mapsto> 0, ''vol-e-0'' \<mapsto> Suc 0]"
    by blast
  with registry_consistent [of demo_range s "''vol-r-0''" 0] show ?thesis by auto
qed

section \<open>Progress\<close>

lemma internal_monitor:
  assumes "internal x" "act x s = Some t" "monitor s \<noteq> MonDone"
  shows "monitor t \<noteq> MonDone"
proof (cases x)
  case (Thread i e)
  have "monitor t' \<noteq> MonDone" if "gstep_obj e g a p s = Some (gs, t')" for g a p gs t'
    using that assms(3)
    by (cases "(e, g, a, p, s)" rule: gstep_obj.cases)
      (auto dest: replace_commit_frame split: option.splits prod.splits if_splits wait_event.splits)
  with Thread assms show ?thesis
    by (auto simp: gstep_def split: if_splits option.splits gor.splits list.splits)
qed (use assms in \<open>auto simp: mstep_def split: monitor.splits option.splits\<close>)

lemma internal_calls: "internal x \<Longrightarrow> act x s = Some t \<Longrightarrow> calls t = calls s"
  by (cases x) (auto simp: mstep_def replace_thread_def dest!: gstep_owes
      split: if_splits monitor.splits option.splits)

lemma internal_exec:
  "list_all internal xs \<Longrightarrow> exec xs s = Some t \<Longrightarrow>
    calls t = calls s \<and> (monitor s \<noteq> MonDone \<longrightarrow> monitor t \<noteq> MonDone)"
  unfolding exec_def
proof (induction xs arbitrary: s)
  case (Cons x xs)
  then obtain u where "act x s = Some u" "run_actions act xs u = Some t" by (auto split: option.splits)
  with Cons internal_monitor [of x s u] internal_calls [of x s u] show ?case by auto
qed simp

text \<open>C3. The manager neither runs forever nor gets stuck: from every reachable state whose
  context is not done, its threads and its monitor can take only a bounded number of steps, and
  whenever none of them can take a step all threads have ended, the monitor is idle, and every
  request that was made has been answered exactly once.\<close>

theorem manager_progress:
  assumes "reachable r s" "monitor s \<noteq> MonDone" "list_all internal xs" "exec xs s = Some t"
  shows "length xs \<le> work s \<and>
    ((\<forall>x. internal x \<longrightarrow> act x t = None) \<longrightarrow>
       monitor t = MonIdle \<and> (\<forall>g \<in> set (threads t). g = Done \<or> g = CondIdle) \<and>
       length (replies t) = calls s)"
proof -
  have t: "reachable r t" "monitor t \<noteq> MonDone" "calls t = calls s"
    using assms exec_reachable internal_exec [OF assms(3,4)] by auto
  have "length xs \<le> work s" using pm.internal_run_bounded [OF assms(3)] assms(4) unfolding exec_def by force
  with quiet_threads [OF pm_inv_reachable [OF t(1)] t(2)] quiet_answered [OF answered_reachable [OF t(1)]] t(3)
  show ?thesis by auto
qed

lemma manager_progress_witness:
  "\<exists>s xs t. reachable demo_range s \<and> calls s = 2 \<and> list_all internal xs \<and> exec xs s = Some t \<and>
     (\<forall>x. internal x \<longrightarrow> act x t = None) \<and> length (replies t) = 2"
proof -
  obtain s where s: "reachable demo_range s" "monitor s \<noteq> MonDone" "calls s = 2"
  proof -
    have "\<exists>s. exec run_two (init_sys demo_pm) = Some s \<and> monitor s \<noteq> MonDone \<and> calls s = 2"
      by (simp add: run_two_def run_defs)
    with that exec_reachable [OF demo_init_reachable] show ?thesis by blast
  qed
  from pm.settles [of s] obtain xs t where "list_all internal xs" "exec xs s = Some t"
      "\<forall>x. internal x \<longrightarrow> act x t = None" unfolding exec_def by blast
  with s manager_progress [OF s(1,2), of xs t] show ?thesis by (intro exI [of _ s] exI [of _ xs] exI [of _ t]) auto
qed

section \<open>States of a process\<close>

text \<open>C5. What a process can become in one action of the system: its name, UUID, binary and ports
  stay, it never goes back to \<open>starting\<close>, it goes to \<open>stopping\<close> only from \<open>starting\<close> or
  \<open>running\<close> and then has a deletion time, which is never cleared.\<close>

theorem process_evolution:
  assumes "reachable r s" "act x s = Some t" "objects s a = Some p"
  shows "\<exists>q. objects t a = Some q \<and> same_identity p q \<and>
    (pState q = StateStarting \<longrightarrow> pState p = StateStarting) \<and>
    (pState q = StateStopping \<longrightarrow> pState p \<in> {StateStarting, StateRunning, StateStopping} \<and>
       pDeletionTimestamp q \<noteq> None) \<and>
    (pDeletionTimestamp p \<noteq> None \<longrightarrow> pDeletionTimestamp q \<noteq> None)"
proof -
  have inv: "pm_inv s" using assms(1) by (rule pm_inv_reachable)
  obtain q where q: "objects t a = Some q" "evolves p q" using act_evolves_obj [OF inv assms(2,3)] by blast
  have "deletion_ok t" using assms deletion_ok_act inv deletion_ok_reachable by blast
  with q show ?thesis by (auto simp: evolves_def deletion_ok_def)
qed

lemma process_evolution_witness:
  "\<exists>s t p q. reachable demo_range s \<and> act (PassTime 5) s = Some t \<and> objects s 0 = Some p \<and>
     objects t 0 = Some q \<and> same_identity p q"
proof -
  from two_running obtain s p where s: "reachable demo_range s" "objects s 0 = Some p" by auto
  have "act (PassTime 5) s = Some (s\<lparr>clock := clock s + int 5\<rparr>)" by simp
  from process_evolution [OF s(1) this s(2)] s show ?thesis by auto
qed

text \<open>C18. A stopped or errored process stays so, whatever happens, once no thread is left that
  may start it or that probes its health.\<close>

theorem stopped_stays_stopped:
  assumes "reachable r s" "settled s a" "exec xs s = Some t"
  shows "\<exists>q. objects t a = Some q \<and> IsStopped q"
  using settled_exec [OF assms(1,3,2)] by (auto simp: settled_def split: option.splits)

definition failing_env :: env where
  "failing_env = demo_env\<lparr>envCommand := Inl (Err ''no such file'')\<rparr>"

lemma run_failing_state:
  "\<exists>s p. exec [CallCreate None (demo_spec ''vol-r-0'' ''/e'') ''u0'', Thread 1 failing_env, Monitor, Monitor, Monitor,
       Thread 1 failing_env] (init_sys demo_pm) = Some s \<and> objects s 0 = Some p \<and> pState p = StateError \<and>
     threads s = [CondIdle, Notify 0 (CreateReply 0)]"
  by (simp add: run_defs failing_env_def)

lemma stopped_stays_stopped_witness:
  "\<exists>s t p q. reachable demo_range s \<and> objects s 0 = Some p \<and> pState p = StateError \<and>
     exec [CallDelete ''vol-r-0'', PassTime 70000] s = Some t \<and> objects t 0 = Some q \<and> IsStopped q"
proof -
  from run_failing_state obtain s p where s: "reachable demo_range s" "objects s 0 = Some p"
      "pState p = StateError" "threads s = [CondIdle, Notify 0 (CreateReply 0)]"
    using exec_reachable [OF demo_init_reachable] by blast
  then have "settled s 0" by (simp add: settled_def starting_def IsStopped_def)
  moreover obtain t where "exec [CallDelete ''vol-r-0'', PassTime 70000] s = Some t" by (simp add: exec_def)
  ultimately show ?thesis using stopped_stays_stopped [OF s(1), of 0 _ t] s(1-3) by blast
qed

section \<open>Requests\<close>











text \<open>C7. \<open>ProcessCreate\<close> of a new name registers the process when its ports can be found (one
  free port for a count of one, or a free block with one port more than wanted): the process is
  \<open>starting\<close>, its ports were free and are free no more, its arguments are those of the request
  followed by the completed port arguments, and the handler goes on to announce and start it.\<close>

theorem create_registers:
  assumes "reachable r s" "\<not> missing_argument spec" "processes s (psName spec) = None"
    and "int (length (psPortArgs spec)) \<le> psPortCount spec"
    and "enough_ports (availablePorts s) (psPortCount spec)"
  shows "\<exists>p t. ProcessCreate None spec u s = t \<and>
    processes t = (processes s)(psName spec \<mapsto> nextObj s) \<and> objects t = (objects s)(nextObj s \<mapsto> p) \<and>
    pName p = psName spec \<and> pUUID p = u \<and> pState p = StateStarting \<and>
    pArgs p = psArgs spec @ filled_args (pPortStart p) (psPortArgs spec) \<and>
    port_set p \<subseteq> bm_free (availablePorts s) \<and>
    bm_free (availablePorts t) = bm_free (availablePorts s) - port_set p \<and>
    threads t = threads s @ [Notify (nextObj s) (CreateStart (nextObj s))]"
proof -
  let ?p = "new_process spec u" and ?s = "open_log (new_call s)"
  have inv: "pm_inv s" using assms(1) by (rule pm_inv_reachable)
  have np: "pPortArgs ?p = psPortArgs spec" "pPortCount ?p = psPortCount spec" "pArgs ?p = psArgs spec"
    by (simp_all add: new_process_def)
  obtain p b where al: "allocateProcessPorts ?p ?s = (Inr p, ?s\<lparr>availablePorts := b\<rparr>)"
      "pArgs p = psArgs spec @ filled_args (pPortStart p) (psPortArgs spec)"
      "port_set p \<subseteq> bm_free (availablePorts s)" "bm_free b = bm_free (availablePorts s) - port_set p"
    using allocateProcessPorts_succeeds [of ?s ?p] inv_wf [OF inv] assms(4,5) by (auto simp: np)
  have "ProcessCreate None spec u s = spawn (Notify (nextObj s) (CreateStart (nextObj s)))
      ((new_object p (?s\<lparr>availablePorts := b\<rparr>))\<lparr>processes := (processes s)(psName spec \<mapsto> nextObj s)\<rparr>)"
    using assms(2,3) al(1) by (simp add: ProcessCreate_def ProcessCreate_begin_def registerProcess_def)
  with al allocateProcessPorts_same [OF al(1)] show ?thesis by (intro exI [of _ p]) simp
qed

lemma create_registers_witness:
  "\<exists>p t. ProcessCreate None (demo_spec ''vol-r-0'' ''/e'') ''u0'' (init_sys demo_pm) = t \<and>
     processes t = [''vol-r-0'' \<mapsto> 0] \<and> pState p = StateStarting \<and> objects t = [0 \<mapsto> p]"
proof -
  have "bm_free (demo_bitmap 0 [0, 1, 2, 3]) \<noteq> {}" by (simp add: bm_free_def demo_bitmap_def)
  then show ?thesis
    using create_registers [OF demo_init_reachable, of "demo_spec ''vol-r-0'' ''/e''" "''u0''"]
    by (auto simp: demo_spec_def missing_argument_def enough_ports_def demo_pm_def)
qed

lemma ProcessList_fold:
  assumes "\<And>n a. processes s n = Some a \<Longrightarrow> \<exists>p. objects s a = Some p \<and> pName p = n"
  shows "fold (\<lambda>name resp. case Option.bind (processes s name) (objects s) of None \<Rightarrow> resp
            | Some p \<Rightarrow> resp(pName p \<mapsto> RPCResponse p)) order m n =
    (if n \<in> set order \<and> processes s n \<noteq> None then map_option RPCResponse (Option.bind (processes s n) (objects s))
     else m n)"
proof (induction order arbitrary: m)
  case (Cons name order)
  show ?case
  proof (cases "processes s name")
    case (Some a)
    with assms obtain p where "objects s a = Some p" "pName p = name" by blast
    with Some Cons show ?thesis by auto
  qed (use Cons in auto)
qed simp

text \<open>C9. What the two reads answer in every reachable state: for a registered name \<open>ProcessGet\<close> answers
  with the response of the very process that the registry maps the name to, which has that name, and
  \<open>ProcessList\<close> has that same response under the name; for any other name \<open>ProcessGet\<close> answers
  \<open>NotFound\<close> and \<open>ProcessList\<close> has nothing.  So the list is the registry, in whatever order the registry
  is iterated.\<close>

theorem list_is_registry:
  assumes "reachable r s" "set order = dom (processes s)"
  shows "(case processes s n of
      None \<Rightarrow> ProcessGet n s = Inl (Status NotFound (''cannot find process '' @ n)) \<and> ProcessList order s n = None
    | Some a \<Rightarrow> \<exists>p. objects s a = Some p \<and> pName p = n \<and> ProcessGet n s = Inr (RPCResponse p) \<and>
        ProcessList order s n = Some (RPCResponse p)) \<and>
    dom (ProcessList order s) = dom (processes s)"
proof -
  note reg = inv_registered [OF pm_inv_reachable [OF assms(1)]]
  have list: "ProcessList order s n = map_option RPCResponse (Option.bind (processes s n) (objects s))" for n
    using ProcessList_fold [OF reg, of order Map.empty n] assms(2)
    by (cases "processes s n") (auto simp: ProcessList_def)
  have "ProcessList order s n = None \<longleftrightarrow> processes s n = None" for n
    unfolding list using reg by (cases "processes s n") fastforce+
  then have "dom (ProcessList order s) = dom (processes s)" unfolding dom_def by simp
  moreover have "\<exists>p. objects s a = Some p \<and> pName p = n" if "processes s n = Some a" for a
    using reg [OF that] by blast
  ultimately show ?thesis
    by (auto simp: list ProcessGet_def findProcess_def cannot_find_def split: option.splits)
qed

lemma list_is_registry_witness:
  "\<exists>s p. reachable demo_range s \<and> objects s 0 = Some p \<and> pName p = ''vol-r-0'' \<and>
     ProcessGet ''vol-r-0'' s = Inr (RPCResponse p) \<and>
     ProcessList [''vol-e-0'', ''vol-r-0''] s ''vol-r-0'' = Some (RPCResponse p) \<and>
     ProcessGet ''vol-x'' s = Inl (Status NotFound (''cannot find process '' @ ''vol-x'')) \<and>
     ProcessList [''vol-e-0'', ''vol-r-0''] s ''vol-x'' = None"
proof -
  from two_running obtain s where s: "reachable demo_range s" "processes s = [''vol-r-0'' \<mapsto> 0, ''vol-e-0'' \<mapsto> Suc 0]"
    by blast
  have order: "set [''vol-e-0'', ''vol-r-0''] = dom (processes s)" by (auto simp: s(2))
  from list_is_registry [OF s(1) order, of "''vol-r-0''"] list_is_registry [OF s(1) order, of "''vol-x''"] s
  show ?thesis by (intro exI [of _ s]) auto
qed

section \<open>Deletion and replacement\<close>

lemma release_frees:
  assumes inv: "pm_inv s" and p: "objects s a = Some p" "holder s a" and pos: "0 < portRangeMin s"
    and b: "availablePorts pm = availablePorts s"
  shows "bm_free (availablePorts (releaseProcessPorts p pm)) = bm_free (availablePorts s) \<union> port_set p"
proof -
  note led = inv_wf [OF inv, THEN conjunct2]
  have own: "own s a = port_set p" using own_holder [OF p(2,1)] .
  have ok: "port_ok p" using inv_obj [OF inv p(1)] by blast
  have "pPortCount p = 0 \<or> pPortEnd p \<noteq> 0"
  proof (rule disjCI)
    assume "\<not> pPortEnd p \<noteq> 0"
    show "pPortCount p = 0"
    proof (rule ccontr)
      assume "pPortCount p \<noteq> 0"
      with ok have "pPortEnd p \<in> port_set p" by (simp add: port_ok_def port_set_def)
      with own bm.ledger_held [OF led, of a] inv have "pPortEnd p \<in> {portRangeMin s..portRangeMax s}"
        by (auto simp: pm_inv_def ports_ok_def)
      with pos \<open>\<not> pPortEnd p \<noteq> 0\<close> show False by simp
    qed
  qed
  with releaseProcessPorts_free [of pm "own s" a p] led own ok b show ?thesis by simp
qed

lemma act_thread:
  assumes "i < length (threads s)" "target (threads s ! i) = Some a" "objects s a = Some p"
    and "gstep_obj e (threads s ! i) a p s = Some (gs, t)"
  shows "act (Thread i e) s = Some (replace_thread i gs t)"
  using assms by (simp add: gstep_def)

text \<open>C10. The last section of a deletion: when the process is still the registered one it is taken
  out of the registry and exactly its ports become free; when it has been replaced or removed in
  the meantime neither the registry nor any port changes.  (For a range of ports that begins above 0.)\<close>

theorem unregister_effect:
  assumes "reachable r s" "0 < portRangeMin s" "i < length (threads s)" "threads s ! i = UnregCommit a"
    and "objects s a = Some p"
  shows "\<exists>t. act (Thread i e) s = Some t \<and> objects t = objects s \<and>
    (if processes s (pName p) = Some a
     then processes t = (processes s)(pName p := None) \<and>
       bm_free (availablePorts t) = bm_free (availablePorts s) \<union> port_set p
     else processes t = processes s \<and> availablePorts t = availablePorts s)"
proof -
  have inv: "pm_inv s" using assms(1) by (rule pm_inv_reachable)
  have cur: "is_current p s \<longleftrightarrow> processes s (pName p) = Some a"
    using inv_current [OF inv assms(5)] assms(5) by (auto simp: is_current_def)
  have step: "act (Thread i e) s = Some (replace_thread i [Notify a Done] (unregister_commit p s))"
    using act_thread [OF assms(3) _ assms(5)] assms(4) by simp
  let ?s = "s\<lparr>processes := (processes s)(pName p := None)\<rparr>"
  obtain b where b: "releaseProcessPorts p ?s = ?s\<lparr>availablePorts := b\<rparr>"
    using releaseProcessPorts_frame by blast
  show ?thesis
  proof (cases "processes s (pName p) = Some a")
    case True
    then have "bm_free b = bm_free (availablePorts s) \<union> port_set p"
      using release_frees [OF inv assms(5) registered_holder [OF True] assms(2), of ?s] b by simp
    with True cur b step show ?thesis by (simp add: unregister_commit_def)
  next
    case False
    with cur step show ?thesis by (simp add: unregister_commit_def)
  qed
qed

definition run_delete :: "action list" where
  "run_delete = take 20 run_overtake"

lemma run_delete_state:
  "\<exists>s p. exec run_delete (init_sys demo_pm) = Some s \<and> portRangeMin s = 20000 \<and>
     threads s = [CondIdle, CreateStart 0, StopClose 0, UnregCommit 0] \<and>
     objects s 0 = Some p \<and> pName p = ''vol-r-0'' \<and> processes s = [''vol-r-0'' \<mapsto> 0]"
  by (simp add: run_delete_def run_overtake_def run_defs)

lemma unregister_effect_witness:
  "\<exists>s t. reachable demo_range s \<and> processes s ''vol-r-0'' = Some 0 \<and>
     act (Thread 3 demo_env) s = Some t \<and> processes t ''vol-r-0'' = None"
proof -
  from run_delete_state obtain s p where s: "reachable demo_range s" "portRangeMin s = 20000"
      "threads s = [CondIdle, CreateStart 0, StopClose 0, UnregCommit 0]"
      "objects s 0 = Some p" "pName p = ''vol-r-0''" "processes s = [''vol-r-0'' \<mapsto> 0]"
    using exec_reachable [OF demo_init_reachable] by blast
  with unregister_effect [OF s(1), of 3 0 p demo_env] obtain t where
      "act (Thread 3 demo_env) s = Some t" "processes t = Map.empty"
    by (auto simp del: act.simps)
  with s show ?thesis by (intro exI [of _ s] exI [of _ t]) simp
qed

text \<open>C11. The last section of a replacement: when the old process is still registered, or none
  is, the new one is registered and the old one's ports become free (none, if it was unregistered
  before); when another process is registered the request is answered with \<open>AlreadyExists\<close> after a
  cleanup, and neither the registry nor any port changes.  (For a range of ports that begins above 0.)\<close>

theorem replace_effect:
  assumes "reachable r s" "0 < portRangeMin s" "i < length (threads s)" "threads s ! i = ReplaceCommit a old"
    and "objects s a = Some p" "objects s old = Some q"
  shows "\<exists>t. act (Thread i e) s = Some t \<and> objects t = objects s \<and>
    (if processes s (pName p) = Some old
     then processes t = (processes s)(pName p \<mapsto> a) \<and>
       bm_free (availablePorts t) = bm_free (availablePorts s) \<union> port_set q \<and>
       threads t ! i = Notify a (ReplaceReply a)
     else if processes s (pName p) = None
     then processes t = (processes s)(pName p \<mapsto> a) \<and> availablePorts t = availablePorts s \<and>
       threads t ! i = Notify a (ReplaceReply a)
     else processes t = processes s \<and> availablePorts t = availablePorts s \<and>
       threads t ! i = cleanupReplacementProcess a
         (Status AlreadyExists (''process '' @ pName p @ '' to replace has changed in the meantime'')))"
proof -
  have inv: "pm_inv s" using assms(1) by (rule pm_inv_reachable)
  have uuid: "map_option pUUID (objects s b) = Some (pUUID q) \<longleftrightarrow> b = old" for b
    using inv_uuid [OF inv _ assms(6), of b] assms(6) by auto
  obtain b where b: "releaseProcessPorts q s = s\<lparr>availablePorts := b\<rparr>"
    using releaseProcessPorts_frame by blast
  have free: "bm_free b = bm_free (availablePorts s) \<union> port_set q" if "processes s (pName p) = Some old"
    using release_frees [OF inv assms(6) registered_holder [OF that] assms(2), of s] b by simp
  have nth: "(take i (threads s) @ g # drop (Suc i) (threads s)) ! i = g" for g
    using assms(3) by (simp add: nth_append)
  consider (same) "processes s (pName p) = Some old" | (none) "processes s (pName p) = None"
    | (other) c where "processes s (pName p) = Some c" "c \<noteq> old"
    by (cases "processes s (pName p)") auto
  then show ?thesis
  proof cases
    case same
    with uuid have "replace_commit a p q s = (None, s\<lparr>availablePorts := b, processes := (processes s)(pName p \<mapsto> a)\<rparr>)"
      by (simp add: replace_commit_def b Let_def)
    with act_thread [OF assms(3) _ assms(5)] assms(4,6) same free [OF same] nth show ?thesis by simp
  next
    case none
    then have "replace_commit a p q s = (None, s\<lparr>processes := (processes s)(pName p \<mapsto> a)\<rparr>)"
      by (simp add: replace_commit_def)
    with act_thread [OF assms(3) _ assms(5)] assms(4,6) none nth show ?thesis by simp
  next
    case other
    then have "replace_commit a p q s = (Some (Status AlreadyExists
        (''process '' @ pName p @ '' to replace has changed in the meantime'')), s)"
      using uuid by (simp add: replace_commit_def)
    with act_thread [OF assms(3) _ assms(5)] assms(4,6) other nth show ?thesis by simp
  qed
qed

definition run_replace :: "action list" where
  "run_replace = [CallCreate None (demo_spec ''vol-r-0'' ''/e'') ''u0'',
     CallReplace None (demo_spec ''vol-r-0'' ''/f'') ''SIGHUP'' ''u1'', Thread 2 demo_env, Thread 2 demo_env,
     Thread 3 demo_env, Thread 3 demo_env, Thread 3 demo_env, Thread 4 demo_env,
     Thread 4 demo_env, Thread 4 demo_env, Thread 1 demo_env, Monitor, Monitor, Monitor,
     Thread 4 demo_env, Thread 4 demo_env]"

lemma run_replace_state:
  "\<exists>s p q. exec run_replace (init_sys demo_pm) = Some s \<and> portRangeMin s = 20000 \<and>
     5 < length (threads s) \<and> threads s ! 5 = ReplaceCommit 1 0 \<and>
     objects s 0 = Some q \<and> objects s 1 = Some p \<and> pName p = ''vol-r-0'' \<and>
     processes s = [''vol-r-0'' \<mapsto> 0]"
  by (simp add: run_replace_def run_defs cleanupReplacementProcess_def)

lemma replace_effect_witness:
  "\<exists>s t. reachable demo_range s \<and> processes s ''vol-r-0'' = Some 0 \<and>
     act (Thread 5 demo_env) s = Some t \<and> processes t ''vol-r-0'' = Some 1"
proof -
  from run_replace_state obtain s p q where s: "reachable demo_range s" "portRangeMin s = 20000"
      "5 < length (threads s)" "threads s ! 5 = ReplaceCommit 1 0" "objects s 1 = Some p"
      "objects s 0 = Some q" "pName p = ''vol-r-0''" "processes s = [''vol-r-0'' \<mapsto> 0]"
    using exec_reachable [OF demo_init_reachable] by blast
  with replace_effect [OF s(1) _ s(3-6), of demo_env] obtain t where
      "act (Thread 5 demo_env) s = Some t" "processes t = [''vol-r-0'' \<mapsto> 1]"
    by (auto simp del: act.simps)
  with s show ?thesis by (intro exI [of _ s] exI [of _ t]) simp
qed

text \<open>The cleanup of a replacement that failed to start, or that came too late, answers with
  the error and gives exactly its own ports back; the registry is left alone.\<close>

theorem replace_cleanup_effect:
  assumes "reachable r s" "0 < portRangeMin s" "i < length (threads s)" "threads s ! i = ReplaceRelease a err"
    and "objects s a = Some p"
  shows "\<exists>t. act (Thread i e) s = Some t \<and> processes t = processes s \<and>
    replies t = replies s @ [Inl err] \<and>
    bm_free (availablePorts t) = bm_free (availablePorts s) \<union> port_set p"
proof -
  have inv: "pm_inv s" using assms(1) by (rule pm_inv_reachable)
  have "a \<in> set (inflight (threads s))"
    using assms(3,4) by (auto simp: inflight_def intro!: bexI [OF _ nth_mem [OF assms(3)]])
  then have "holder s a" by (simp add: holder_def)
  note free = release_frees [OF inv assms(5) this assms(2), of s]
  obtain b where b: "releaseProcessPorts p s = s\<lparr>availablePorts := b\<rparr>"
    using releaseProcessPorts_frame by blast
  have "act (Thread i e) s = Some (replace_thread i [] (reply (Inl err) (s\<lparr>availablePorts := b\<rparr>)))"
    using act_thread [OF assms(3) _ assms(5)] assms(4) b by simp
  with free b show ?thesis by (simp add: replace_thread_def)
qed

definition run_replace_fails :: "action list" where
  "run_replace_fails = [CallCreate None (demo_spec ''vol-r-0'' ''/e'') ''u0'',
     CallReplace None (demo_spec ''vol-r-0'' ''/f'') ''SIGHUP'' ''u1'', Thread 2 demo_env,
     Thread 2 failing_env, Thread 2 demo_env, Thread 2 demo_env]"

lemma run_replace_fails_state:
  "\<exists>s p. exec run_replace_fails (init_sys demo_pm) = Some s \<and> portRangeMin s = 20000 \<and>
     threads s = [CondIdle, Notify 0 (CreateStart 0),
       ReplaceRelease 1 (Err ''failed to init replacement process vol-r-0'')] \<and>
     objects s 1 = Some p \<and> port_set p = {20001} \<and> replies s = []"
  by (simp add: run_replace_fails_def run_defs cleanupReplacementProcess_def failing_env_def port_set_def)

lemma replace_cleanup_effect_witness:
  "\<exists>s t. reachable demo_range s \<and> act (Thread 2 demo_env) s = Some t \<and>
     replies t = [Inl (Err ''failed to init replacement process vol-r-0'')] \<and>
     20001 \<in> bm_free (availablePorts t)"
proof -
  from run_replace_fails_state obtain s p where s: "reachable demo_range s" "portRangeMin s = 20000"
      "threads s = [CondIdle, Notify 0 (CreateStart 0),
         ReplaceRelease 1 (Err ''failed to init replacement process vol-r-0'')]"
      "objects s 1 = Some p" "port_set p = {20001}" "replies s = []"
    using exec_reachable [OF demo_init_reachable] by blast
  with replace_cleanup_effect [OF s(1), of 2 1 "Err ''failed to init replacement process vol-r-0''" p demo_env]
  obtain t where "act (Thread 2 demo_env) s = Some t"
      "replies t = [Inl (Err ''failed to init replacement process vol-r-0'')]"
      "bm_free (availablePorts t) = bm_free (availablePorts s) \<union> port_set p"
    by (auto simp del: act.simps)
  with s show ?thesis by (intro exI [of _ s] exI [of _ t]) simp
qed

section \<open>Races and losses\<close>

text \<open>C19. The health check goroutine of \<open>Start\<close> writes \<open>running\<close> without looking at the state: a
  registered process whose command has failed, in state \<open>error\<close>, can go to \<open>running\<close> although
  nothing runs.\<close>

theorem errored_process_becomes_running:
  "\<exists>s p t q. reachable demo_range s \<and> processes s ''vol-r-0'' = Some 0 \<and>
     objects s 0 = Some p \<and> pState p = StateError \<and> \<not> cmd_running p \<and>
     act (Thread 2 demo_env) s = Some t \<and> objects t 0 = Some q \<and> pState q = StateRunning"
  using run_race_state exec_reachable [OF demo_init_reachable] by blast

text \<open>C20. \<open>ProcessReplace\<close> with the binary the process already has answers with the old process and
  keeps the ports it allocated for the new one: port 20001 is in the range and neither free nor
  held by any process.\<close>

theorem replace_same_binary_loses_ports:
  "\<exists>s. reachable demo_range s \<and> calls s = 2 \<and> 20001 \<in> {portRangeMin s..portRangeMax s} \<and>
     20001 \<notin> bm_free (availablePorts s) \<and> (\<forall>a. 20001 \<notin> own s a)"
proof -
  have "\<exists>s. exec run_leak (init_sys demo_pm) = Some s \<and> processes s = [''vol-r-0'' \<mapsto> 0] \<and>
     threads s = [CondIdle, Notify 0 (CreateStart 0)] \<and> map_option port_set (objects s 0) = Some {20000} \<and>
     availablePorts s = demo_bitmap 2 [2, 3] \<and> calls s = 2 \<and> portRangeMin s = 20000 \<and> portRangeMax s = 20003"
    by (simp add: run_leak_def run_defs port_set_def)
  then obtain s where s: "reachable demo_range s" "processes s = [''vol-r-0'' \<mapsto> 0]"
     "threads s = [CondIdle, Notify 0 (CreateStart 0)]" "map_option port_set (objects s 0) = Some {20000}"
     "availablePorts s = demo_bitmap 2 [2, 3]" "calls s = 2" "portRangeMin s = 20000" "portRangeMax s = 20003"
    using exec_reachable [OF demo_init_reachable] by blast
  have "holder s a \<longleftrightarrow> a = 0" for a using s(2,3) by (auto simp: holder_def ran_def)
  then have "20001 \<notin> own s a" for a using s(4) by (auto simp: own_def split: option.splits)
  moreover have "20001 \<notin> bm_free (availablePorts s)" by (simp add: s(5) mem_bm_free demo_bitmap_def)
  ultimately show ?thesis using s by auto
qed

text \<open>C21. A deletion can overtake the start of a process: it is unregistered and its port is free
  for other processes while its command runs.\<close>

theorem deletion_overtakes_start:
  "\<exists>s p. reachable demo_range s \<and> processes s = Map.empty \<and> objects s 0 = Some p \<and>
     cmd_running p \<and> port_set p = {20000} \<and> port_set p \<subseteq> bm_free (availablePorts s)"
proof -
  from run_overtake_state obtain s p where s: "reachable demo_range s" "processes s = Map.empty"
      "objects s 0 = Some p" "cmd_running p" "port_set p = {20000}"
      "availablePorts s = demo_bitmap 1 [0, 1, 2, 3]"
    using exec_reachable [OF demo_init_reachable] by blast
  moreover have "20000 \<in> bm_free (demo_bitmap 1 [0, 1, 2, 3])" by (simp add: mem_bm_free demo_bitmap_def)
  ultimately show ?thesis by auto
qed

end
