(* ===== verification/Simulation.thy ===== *)
theory Simulation
  imports Work
begin

text \<open>
  Refinement between systems whose state changes by actions: every action of the concrete system
  is, under an abstraction of the state, the operation of the abstract system that a label names.
  Runs then correspond to runs, and what the abstract operations keep holds of the concrete system.
\<close>

text \<open>The labels of the actions of a run, each read off the states before and after it.\<close>

fun labels :: "('x \<Rightarrow> 's \<Rightarrow> 's option) \<Rightarrow> ('s \<Rightarrow> 'x \<Rightarrow> 's \<Rightarrow> 'l) \<Rightarrow> 'x list \<Rightarrow> 's \<Rightarrow> 'l list" where
  "labels act label [] s = []"
| "labels act label (x # xs) s =
     (case act x s of None \<Rightarrow> [] | Some t \<Rightarrow> label s x t # labels act label xs t)"

locale simulation =
  fixes act :: "'x \<Rightarrow> 's \<Rightarrow> 's option"
    and aact :: "'l \<Rightarrow> 'a \<Rightarrow> 'a option"
    and abs :: "'s \<Rightarrow> 'a"
    and invar :: "'s \<Rightarrow> bool"
    and label :: "'s \<Rightarrow> 'x \<Rightarrow> 's \<Rightarrow> 'l"
  assumes invar_act: "invar s \<Longrightarrow> act x s = Some t \<Longrightarrow> invar t"
    and simulates: "invar s \<Longrightarrow> act x s = Some t \<Longrightarrow> aact (label s x t) (abs s) = Some (abs t)"
begin

lemma run_simulates:
  assumes "invar s" "run_actions act xs s = Some t"
  shows "invar t \<and> length (labels act label xs s) = length xs \<and>
    run_actions aact (labels act label xs s) (abs s) = Some (abs t)"
  using assms
proof (induction xs arbitrary: s)
  case (Cons x xs)
  then obtain u where u: "act x s = Some u" "run_actions act xs u = Some t" by (auto split: option.splits)
  with Cons.IH [OF invar_act [OF Cons.prems(1) u(1)] u(2)] simulates [OF Cons.prems(1) u(1)]
  show ?case by simp
qed simp

text \<open>What every operation but the \<open>bad\<close> ones keeps holds after a run without bad operations.\<close>

lemma transfer:
  assumes keeps: "\<And>l A B. I A \<Longrightarrow> \<not> bad l \<Longrightarrow> aact l A = Some B \<Longrightarrow> I B"
    and "invar s" "I (abs s)" "run_actions act xs s = Some t"
    and "list_all (\<lambda>l. \<not> bad l) (labels act label xs s)"
  shows "I (abs t)"
  using assms(2-)
proof (induction xs arbitrary: s)
  case (Cons x xs)
  then obtain u where u: "act x s = Some u" "run_actions act xs u = Some t" by (auto split: option.splits)
  with Cons.prems keeps simulates [OF Cons.prems(1) u(1)] have "I (abs u)" by auto
  with Cons.IH [OF invar_act [OF Cons.prems(1) u(1)]] Cons.prems u show ?case by simp
qed simp

end

end
