(* ===== verification/Manager_Refinement.thy ===== *)
theory Manager_Refinement
  imports Manager_Properties Simulation
begin

text \<open>
  What the process manager promises of names and ports, as an abstract registry: names are mapped
  to owners, replacements are pending, every owner holds a set of ports, and the other ports are
  free.  Every action of the running manager, with all its threads and locks, is one operation of
  this registry or leaves it alone.
\<close>

section \<open>The abstract registry\<close>

record registry =
  entries :: "string \<rightharpoonup> addr"
  pending :: "addr set"
  held :: "addr \<Rightarrow> int set"
  free :: "int set"

datatype roperation =
    Skip
  | Enter string addr "int set"
  | Reserve string addr "int set"
  | Leave string addr
  | Swap string addr addr
  | Adopt string addr
  | Cancel addr
  | Forget addr

definition unused :: "addr \<Rightarrow> registry \<Rightarrow> bool" where
  "unused a R \<longleftrightarrow> a \<notin> ran (entries R) \<and> a \<notin> pending R \<and> held R a = {}"

text \<open>An owner is given ports that are free, or gives up its ports.\<close>

definition take_ports :: "addr \<Rightarrow> int set \<Rightarrow> registry \<Rightarrow> registry" where
  "take_ports a P R = R\<lparr>held := (held R)(a := P), free := free R - P\<rparr>"

definition give_ports :: "addr \<Rightarrow> registry \<Rightarrow> registry" where
  "give_ports a R = R\<lparr>held := (held R)(a := {}), free := free R \<union> held R a\<rparr>"

fun rguard :: "roperation \<Rightarrow> registry \<Rightarrow> bool" where
  "rguard Skip R = True"
| "rguard (Enter n a P) R = (entries R n = None \<and> unused a R \<and> P \<subseteq> free R)"
| "rguard (Reserve n a P) R = (entries R n \<noteq> None \<and> unused a R \<and> P \<subseteq> free R)"
| "rguard (Leave n a) R = (entries R n = Some a)"
| "rguard (Swap n old a) R = (entries R n = Some old \<and> a \<in> pending R)"
| "rguard (Adopt n a) R = (entries R n = None \<and> a \<in> pending R)"
| "rguard (Cancel a) R = (a \<in> pending R)"
| "rguard (Forget a) R = (a \<in> pending R)"

fun reffect :: "roperation \<Rightarrow> registry \<Rightarrow> registry" where
  "reffect Skip R = R"
| "reffect (Enter n a P) R = (take_ports a P R)\<lparr>entries := (entries R)(n \<mapsto> a)\<rparr>"
| "reffect (Reserve n a P) R = (take_ports a P R)\<lparr>pending := insert a (pending R)\<rparr>"
| "reffect (Leave n a) R = (give_ports a R)\<lparr>entries := (entries R)(n := None)\<rparr>"
| "reffect (Swap n old a) R =
     (give_ports old R)\<lparr>entries := (entries R)(n \<mapsto> a), pending := pending R - {a}\<rparr>"
| "reffect (Adopt n a) R = R\<lparr>entries := (entries R)(n \<mapsto> a), pending := pending R - {a}\<rparr>"
| "reffect (Cancel a) R = (give_ports a R)\<lparr>pending := pending R - {a}\<rparr>"
| "reffect (Forget a) R = R\<lparr>pending := pending R - {a}, held := (held R)(a := {})\<rparr>"

definition ract :: "roperation \<Rightarrow> registry \<Rightarrow> registry option" where
  "ract l R = (if rguard l R then Some (reffect l R) else None)"

section \<open>The abstraction\<close>

definition registry_of :: "sys \<Rightarrow> registry" where
  "registry_of s = \<lparr>entries = processes s, pending = set (inflight (threads s)), held = own s,
     free = bm_free (availablePorts s)\<rparr>"

text \<open>
  The operation an action performs: a request that adds an object enters or reserves, and four kinds
  of threads end the life of an entry or of a pending replacement.
\<close>

fun thread_label :: "sys \<Rightarrow> gor \<Rightarrow> roperation" where
  "thread_label s (UnregCommit a) =
     (case objects s a of
        None \<Rightarrow> Skip
      | Some p \<Rightarrow> if processes s (pName p) = Some a then Leave (pName p) a else Skip)"
| "thread_label s (ReplaceCompare a old) =
     (if map_option pBinary (objects s old) = map_option pBinary (objects s a) then Forget a else Skip)"
| "thread_label s (ReplaceCommit a old) =
     (case objects s a of
        None \<Rightarrow> Skip
      | Some p \<Rightarrow>
          (case processes s (pName p) of
             None \<Rightarrow> Adopt (pName p) a
           | Some b \<Rightarrow> if b = old then Swap (pName p) old a else Skip))"
| "thread_label s (ReplaceRelease a err) = Cancel a"
| "thread_label s g = Skip"

fun registry_label :: "sys \<Rightarrow> action \<Rightarrow> sys \<Rightarrow> roperation" where
  "registry_label s (CallCreate w spec u) t =
     (if nextObj t = nextObj s then Skip else Enter (psName spec) (nextObj s) (own t (nextObj s)))"
| "registry_label s (CallReplace w spec sig u) t =
     (if nextObj t = nextObj s then Skip else Reserve (psName spec) (nextObj s) (own t (nextObj s)))"
| "registry_label s (Thread i e) t = thread_label s (threads s ! i)"
| "registry_label s x t = Skip"

text \<open>The invariant of the refinement: port 0, which \<open>ReleaseRange\<close> ignores, is not in the range.\<close>

definition refine_inv :: "sys \<Rightarrow> bool" where
  "refine_inv s \<longleftrightarrow> pm_inv s \<and> 0 < portRangeMin s"

section \<open>Every action is an operation\<close>

lemma registry_of_same:
  assumes "own t = own s" "processes t = processes s" "availablePorts t = availablePorts s"
    "set (inflight (threads t)) = set (inflight (threads s))"
  shows "registry_of t = registry_of s"
  using assms by (simp add: registry_of_def)

lemma registry_of_frame:
  assumes "frame s t" "inflight (threads u) = inflight (threads s)" "objects u = objects t"
    "nextObj u = nextObj t" "processes u = processes t" "availablePorts u = availablePorts t"
  shows "registry_of u = registry_of s"
proof -
  have "same_objects s t" "processes t = processes s" using assms(1) by (simp_all add: frame_def)
  then have "own u = own s" using assms by (intro own_same) (simp_all add: same_objects_def holder_def)
  with assms show ?thesis by (intro registry_of_same) (simp_all add: frame_def)
qed

lemma registry_of_quiet:
  assumes "objects t = objects s" "processes t = processes s" "availablePorts t = availablePorts s"
    "threads t = threads s @ gs" "inflight gs = []"
  shows "registry_of t = registry_of s"
  using assms by (intro registry_of_same ext) (simp_all add: own_def holder_def)

lemma ract_Skip [simp]: "ract Skip R = Some R"
  by (simp add: ract_def)

lemma unused_fresh: "pm_inv s \<Longrightarrow> unused (nextObj s) (registry_of s)"
  using inv_fresh [of s] by (auto simp: unused_def registry_of_def holder_def own_def)

lemma simulates_unregister:
  assumes inv: "refine_inv s" and i: "i < length (threads s)" and g: "threads s ! i = UnregCommit a"
    and p: "objects s a = Some p"
  shows "ract (thread_label s (UnregCommit a)) (registry_of s) =
    Some (registry_of (replace_thread i [Notify a Done] (unregister_commit p s)))"
proof (cases "processes s (pName p) = Some a")
  case True
  let ?s = "s\<lparr>processes := (processes s)(pName p := None)\<rparr>"
  have pi: "pm_inv s" "0 < portRangeMin s" using inv by (auto simp: refine_inv_def)
  obtain b where b: "releaseProcessPorts p ?s = ?s\<lparr>availablePorts := b\<rparr>"
    using releaseProcessPorts_frame by blast
  let ?u = "replace_thread i [Notify a Done] (?s\<lparr>availablePorts := b\<rparr>)"
  have cur: "is_current p s" using p True by (simp add: is_current_def)
  have infl: "inflight (threads ?u) = inflight (threads s)" using inflight_split [OF i] g by simp
  have own: "own ?u = (own s)(a := {})" and hold: "holder s a"
    using own_unregistered [OF pi(1) True, of ?u] infl by simp_all
  have "bm_free b = bm_free (availablePorts s) \<union> own s a"
    using release_frees [OF pi(1) p hold pi(2), of ?s] b own_holder [OF hold p] by simp
  with True p cur b own infl show ?thesis
    by (simp add: ract_def registry_of_def unregister_commit_def give_ports_def)
next
  case False
  then have "\<not> is_current p s" using inv_current p inv by (auto simp: refine_inv_def)
  then show ?thesis
    using False p g inflight_split [OF i]
    by (auto simp: unregister_commit_def intro!: registry_of_frame [of s s, symmetric])
qed

lemma simulates_drop:
  assumes inv: "refine_inv s" and i: "i < length (threads s)" and g: "repl (threads s ! i) = [a]"
    and p: "objects s a = Some p"
  shows "ract (Forget a) (registry_of s) = Some (registry_of (replace_thread i [] (reply r s)))"
    "ract (Cancel a) (registry_of s) =
       Some (registry_of (replace_thread i [] (reply r (releaseProcessPorts p s))))"
proof -
  have pi: "pm_inv s" "0 < portRangeMin s" using inv by (auto simp: refine_inv_def)
  obtain b where b: "releaseProcessPorts p s = s\<lparr>availablePorts := b\<rparr>"
    using releaseProcessPorts_frame by blast
  have here: "a \<in> set (inflight (threads s))" using inflight_split [OF i] g by auto
  have dropped: "holder s a" "own u = (own s)(a := {})" "set (inflight (threads u)) = set (inflight (threads s)) - {a}"
    if "objects u = objects s" "processes u = processes s"
      "threads u = take i (threads s) @ drop (Suc i) (threads s)" for u
    using own_dropped [OF pi(1) i g that] .
  have "holder s a" using here by (simp add: holder_def)
  then have "bm_free b = bm_free (availablePorts s) \<union> own s a"
    using release_frees [OF pi(1) p _ pi(2), of s] b own_holder [OF _ p] by simp
  with here dropped [of "replace_thread i [] (reply r s)"]
    dropped [of "replace_thread i [] (reply r (releaseProcessPorts p s))"]
  show "ract (Forget a) (registry_of s) = Some (registry_of (replace_thread i [] (reply r s)))"
    "ract (Cancel a) (registry_of s) =
       Some (registry_of (replace_thread i [] (reply r (releaseProcessPorts p s))))"
    by (simp_all add: ract_def registry_of_def give_ports_def b)
qed

lemma simulates_replace:
  assumes inv: "refine_inv s" and i: "i < length (threads s)" and g: "threads s ! i = ReplaceCommit a old"
    and p: "objects s a = Some p" and q: "objects s old = Some q"
    and rc: "replace_commit a p q s = (None, t)"
  shows "ract (thread_label s (ReplaceCommit a old)) (registry_of s) =
    Some (registry_of (replace_thread i [Notify a (ReplaceReply a)] t))"
proof -
  have pi: "pm_inv s" "0 < portRangeMin s" using inv by (auto simp: refine_inv_def)
  let ?n = "pName p" and ?gs = "[Notify a (ReplaceReply a)]"
  have repl: "repl (threads s ! i) = [a]" using g by simp
  have here: "a \<in> set (inflight (threads s))" using inflight_split [OF i] repl by auto
  note moved = own_registered [OF pi(1) i repl, of "replace_thread i ?gs t" ?n ?gs]
  obtain b where b: "releaseProcessPorts q s = s\<lparr>availablePorts := b\<rparr>"
    using releaseProcessPorts_frame by blast
  from replace_commit_ok [OF pi(1) q rc] show ?thesis
  proof
    assume *: "processes s ?n = Some old \<and> t = (releaseProcessPorts q s)\<lparr>processes := (processes s)(?n \<mapsto> a)\<rparr>"
    then have hold: "holder s old" by (auto intro: registered_holder)
    then have "bm_free b = bm_free (availablePorts s) \<union> own s old"
      using release_frees [OF pi(1) q _ pi(2), of s] b own_holder [OF _ q] by simp
    with * p here moved show ?thesis
      by (simp add: ract_def registry_of_def give_ports_def b)
  qed (use p here moved in \<open>simp add: ract_def registry_of_def\<close>)
qed

lemma unregister_range:
  "portRangeMin (unregister_commit p s) = portRangeMin s \<and> portRangeMax (unregister_commit p s) = portRangeMax s"
  using releaseProcessPorts_frame [of p "s\<lparr>processes := (processes s)(pName p := None)\<rparr>"]
  by (auto simp: unregister_commit_def)

lemma replace_commit_range:
  "replace_commit a p q s = (r, t) \<Longrightarrow> portRangeMin t = portRangeMin s \<and> portRangeMax t = portRangeMax s"
  using releaseProcessPorts_frame [of q s]
  by (auto simp: replace_commit_def Let_def split: option.splits if_splits)

lemma gstep_obj_range:
  assumes "gstep_obj e g a p s = Some (gs, t)" "objects s a = Some p" "target g = Some a"
  shows "portRangeMin t = portRangeMin s \<and> portRangeMax t = portRangeMax s"
proof (cases "special g")
  case False
  then show ?thesis using gstep_obj_frame [OF assms(1,2) False assms(3)] by (simp add: frame_def)
next
  case True
  then show ?thesis
    using assms releaseProcessPorts_frame [of p s]
    by (cases g rule: special.cases)
      (auto simp: unregister_range dest: replace_commit_range split: option.splits prod.splits if_splits)
qed

lemma act_range:
  assumes inv: "pm_inv s" and act: "act x s = Some t"
  shows "portRangeMin t = portRangeMin s \<and> portRangeMax t = portRangeMax s"
proof (cases x)
  case (CallCreate w spec u)
  with act have "t = ProcessCreate w spec u s" by (simp split: if_splits)
  with inv show ?thesis by (cases rule: ProcessCreate_cases [where w = w and spec = spec and u = u]) auto
next
  case (CallReplace w spec sig u)
  with act have "t = ProcessReplace w spec sig u s" by (simp split: if_splits)
  with inv show ?thesis
    by (cases rule: ProcessReplace_cases [where w = w and spec = spec and sig = sig and u = u]) auto
next
  case (Thread i e)
  with act show ?thesis
    by (auto simp: gstep_def dest: gstep_obj_range split: if_splits option.splits gor.splits list.splits)
next
  case (MountCheck i sha mounts order)
  with act obtain mps as t' gs where "getProcessesToUpdateConditions sha mps order s = (as, t')"
      "t = replace_thread i gs t'"
    by (auto simp: checkMountPointStatusForEngine_def split: if_splits option.splits prod.splits)
  with conditions_frame [OF inv] show ?thesis by (auto simp: frame_def)
qed (use act in \<open>auto simp: ProcessDelete_def mstep_def split: option.splits monitor.splits if_splits\<close>)

lemma refine_inv_act: "refine_inv s \<Longrightarrow> act x s = Some t \<Longrightarrow> refine_inv t"
  using inv_act act_range by (auto simp: refine_inv_def)

lemma simulates_gstep:
  assumes inv: "refine_inv s" and i: "i < length (threads s)"
    and gs: "gstep e (threads s ! i) s = Some (gs, t)"
  shows "ract (thread_label s (threads s ! i)) (registry_of s) = Some (registry_of (replace_thread i gs t))"
proof (cases "special (threads s ! i)")
  case False
  have skip: "thread_label s (threads s ! i) = Skip"
    using False by (cases "threads s ! i" rule: special.cases) simp_all
  have "frame s t \<and> inflight gs = repl (threads s ! i)"
  proof (cases "target (threads s ! i)")
    case None
    with gs show ?thesis by (auto simp: gstep_def split: gor.splits list.splits)
  next
    case (Some a)
    with gs False show ?thesis
      by (auto simp: gstep_def split: option.splits dest!: gstep_obj_frame)
  qed
  then have "registry_of (replace_thread i gs t) = registry_of s"
    using inflight_split [OF i] by (intro registry_of_frame [of s t]) (auto simp: frame_def)
  with skip show ?thesis by simp
next
  case True
  note noop = registry_of_frame [of s s "replace_thread i gs s"]
  obtain a where tg: "target (threads s ! i) = Some a"
    using True by (cases "threads s ! i" rule: special.cases) simp_all
  then obtain p where p: "objects s a = Some p" and st: "gstep_obj e (threads s ! i) a p s = Some (gs, t)"
    using gs by (auto simp: gstep_def split: option.splits)
  from True show ?thesis
  proof (cases "threads s ! i" rule: special.cases)
    case (1 b)
    with tg st p simulates_unregister [OF inv i, of a p] show ?thesis by auto
  next
    case (2 b old)
    with tg st p simulates_drop(1) [OF inv i, of a p] inflight_split [OF i] noop show ?thesis
      by (auto split: option.splits if_splits)
  next
    case (3 b old)
    then obtain q r where q: "objects s old = Some q" "replace_commit a p q s = (r, t)"
        "gs = (case r of None \<Rightarrow> [Notify a (ReplaceReply a)] | Some err \<Rightarrow> [cleanupReplacementProcess a err])"
      using tg st by (auto split: option.splits prod.splits)
    show ?thesis
    proof (cases r)
      case None
      with q 3 tg simulates_replace [OF inv i _ p] show ?thesis by auto
    next
      case (Some err)
      with q(1,2) p have "thread_label s (threads s ! i) = Skip" "t = s"
        using 3 tg by (auto simp: replace_commit_def Let_def split: option.splits if_splits)
      with Some q(3) 3 tg inflight_split [OF i] noop show ?thesis
        by (auto simp: cleanupReplacementProcess_def)
    qed
  next
    case (4 b err)
    with tg st p simulates_drop(2) [OF inv i, of a p] show ?thesis by auto
  qed simp_all
qed

lemma added_ports:
  assumes inv: "pm_inv s" and al: "allocateProcessPorts (new_process spec u) (open_log (new_call s)) = (Inr p, (open_log (new_call s))\<lparr>availablePorts := b\<rparr>)"
  shows "port_set p \<subseteq> bm_free (availablePorts s)" "bm_free b = bm_free (availablePorts s) - port_set p"
proof -
  have "bm.ledger (availablePorts (open_log (new_call s))) (own s)" "own s (nextObj s) = {}"
    using inv_wf [OF inv] inv_fresh [OF inv] by (simp_all add: own_def)
  from allocateProcessPorts_ok [OF this al] obtain c where
      "(open_log (new_call s))\<lparr>availablePorts := b\<rparr> = (open_log (new_call s))\<lparr>availablePorts := c\<rparr>"
      "port_set p \<subseteq> bm_free (availablePorts s)" "bm_free c = bm_free (availablePorts s) - port_set p"
    by auto
  moreover from this(1) have "b = c" by (metis manager.select_convs(6) manager.surjective manager.update_convs(6))
  ultimately show "port_set p \<subseteq> bm_free (availablePorts s)" "bm_free b = bm_free (availablePorts s) - port_set p"
    by simp_all
qed

lemma simulates_create:
  assumes inv: "refine_inv s"
    and t_def: "t = ProcessCreate w spec u s"
  shows "ract (registry_label s (CallCreate w spec u) t) (registry_of s) = Some (registry_of t)"
proof -
  have pi: "pm_inv s" using inv by (simp add: refine_inv_def)
  then show ?thesis
  proof (cases rule: ProcessCreate_cases [where w = w and spec = spec and u = u])
    case (fail e k)
    then show ?thesis unfolding t_def by (auto intro!: registry_of_quiet [symmetric])
  next
    case (reg p b)
    have own: "own t = (own s)(nextObj s := port_set p)"
      using own_added [OF pi, of t p _ "psName spec"] reg by (simp add: t_def)
    with reg unused_fresh [OF pi] added_ports [OF pi reg(4)] show ?thesis
      by (simp add: t_def ract_def registry_of_def take_ports_def)
  qed
qed

lemma simulates_reserve:
  assumes inv: "refine_inv s"
    and t_def: "t = ProcessReplace w spec sig u s"
  shows "ract (registry_label s (CallReplace w spec sig u) t) (registry_of s) = Some (registry_of t)"
proof -
  have pi: "pm_inv s" using inv by (simp add: refine_inv_def)
  then show ?thesis
  proof (cases rule: ProcessReplace_cases [where w = w and spec = spec and sig = sig and u = u])
    case (fail e k)
    then show ?thesis unfolding t_def by (auto intro!: registry_of_quiet [symmetric])
  next
    case (reg p b old)
    have own: "own t = (own s)(nextObj s := port_set p)"
      using own_added [OF pi, of t p] reg by (simp add: t_def)
    with reg unused_fresh [OF pi] added_ports [OF pi reg(5)] show ?thesis
      by (simp add: t_def ract_def registry_of_def take_ports_def)
  qed
qed

theorem simulates_act:
  assumes inv: "refine_inv s" and act: "act x s = Some t"
  shows "ract (registry_label s x t) (registry_of s) = Some (registry_of t)"
proof (cases x)
  case (CallCreate w spec u)
  with act have "t = ProcessCreate w spec u s" by (simp split: if_splits)
  from simulates_create [OF inv this] CallCreate show ?thesis by simp
next
  case (CallReplace w spec sig u)
  with act have "t = ProcessReplace w spec sig u s" by (simp split: if_splits)
  from simulates_reserve [OF inv this] CallReplace show ?thesis by simp
next
  case (Thread i e)
  with act obtain gs t' where "i < length (threads s)" "gstep e (threads s ! i) s = Some (gs, t')"
      "t = replace_thread i gs t'"
    by (auto split: if_splits option.splits)
  with Thread simulates_gstep [OF inv] show ?thesis by simp
next
  case (MountCheck i sha mounts order)
  with act obtain mps as t' where i: "i < length (threads s)" "threads s ! i = CondIdle"
      "getProcessesToUpdateConditions sha mps order s = (as, t')" "t = replace_thread i [CondSend as] t'"
    by (auto simp: cond_idle_def checkMountPointStatusForEngine_def split: if_splits option.splits prod.splits)
  with conditions_frame [of s] inv have "frame s t'" by (auto simp: refine_inv_def)
  then have "registry_of t = registry_of s"
    using i inflight_split [OF i(1)] by (intro registry_of_frame [of s t']) (auto simp: frame_def)
  with MountCheck show ?thesis by simp
qed (use act in \<open>auto simp: ProcessDelete_def mstep_def split: option.splits monitor.splits if_splits
      intro!: registry_of_quiet [symmetric]\<close>)

interpretation reg: simulation act ract registry_of refine_inv registry_label
  by unfold_locales (rule refine_inv_act simulates_act, assumption+)+


section \<open>Properties\<close>

text \<open>C2. The process manager implements the abstract registry: along every run, under every schedule
  of its threads, the registry, the replacements in flight, the ports they hold and the free ports
  change exactly by the operations that the labels of the actions name, each of them allowed by its
  guard when it happens.  The range of ports has to begin above 0, as the default range does: a process
  without ports gives back the range \<open>0-0\<close>.\<close>

theorem manager_refines_registry:
  assumes "reachable r s" "0 < portRangeMin s" "exec xs s = Some t"
  shows "run_actions ract (labels act registry_label xs s) (registry_of s) = Some (registry_of t)"
  using reg.run_simulates [of s xs t] pm_inv_reachable [OF assms(1)] assms(2,3)
  by (simp add: refine_inv_def exec_def)

lemma demo_cancel: "ReleaseRange (demo_bitmap 2 [2, 3]) 20001 20001 = (None, demo_bitmap 2 [1, 2, 3])"
  by code_simp

lemma run_cancel_state:
  "\<exists>t. exec (run_replace_fails @ [Thread 2 demo_env]) (init_sys demo_pm) = Some t \<and>
     processes t = [''vol-r-0'' \<mapsto> 0]"
  by (simp add: run_replace_fails_def run_defs cleanupReplacementProcess_def failing_env_def demo_cancel)

lemma run_cancel_labels:
  "labels act registry_label (run_replace_fails @ [Thread 2 demo_env]) (init_sys demo_pm) =
     [Enter ''vol-r-0'' 0 {20000}, Reserve ''vol-r-0'' 1 {20001}, Skip, Skip, Skip, Skip, Cancel 1]"
  by (simp add: run_replace_fails_def run_defs cleanupReplacementProcess_def failing_env_def demo_cancel
      own_def holder_def port_set_def)

lemma manager_refines_registry_witness:
  "\<exists>t. exec (run_replace_fails @ [Thread 2 demo_env]) (init_sys demo_pm) = Some t \<and>
     run_actions ract [Enter ''vol-r-0'' 0 {20000}, Reserve ''vol-r-0'' 1 {20001}, Skip, Skip, Skip, Skip,
       Cancel 1] (registry_of (init_sys demo_pm)) = Some (registry_of t) \<and>
     entries (registry_of t) = [''vol-r-0'' \<mapsto> 0]"
proof -
  from run_cancel_state obtain t where
    t: "exec (run_replace_fails @ [Thread 2 demo_env]) (init_sys demo_pm) = Some t"
      "processes t = [''vol-r-0'' \<mapsto> 0]" by blast
  have "0 < portRangeMin (init_sys demo_pm)" by (simp add: demo_pm_def)
  from manager_refines_registry [OF demo_init_reachable this t(1), unfolded run_cancel_labels] t
  have "run_actions ract [Enter ''vol-r-0'' 0 {20000}, Reserve ''vol-r-0'' 1 {20001}, Skip, Skip, Skip, Skip,
       Cancel 1] (registry_of (init_sys demo_pm)) = Some (registry_of t)" by simp
  moreover have "entries (registry_of t) = [''vol-r-0'' \<mapsto> 0]" by (simp add: registry_of_def t(2))
  ultimately show ?thesis using t(1) by blast
qed

text \<open>The ports are accounted for when every one of the range is free or held.\<close>

definition accounted :: "int set \<Rightarrow> registry \<Rightarrow> bool" where
  "accounted ports R \<longleftrightarrow> free R \<union> (\<Union>a. held R a) = ports"

lemma Un_held_upd: "(\<Union>x. (h(a := P)) x) = (\<Union>x \<in> - {a}. h x) \<union> P"
  by (auto split: if_splits)

lemma Un_held: "(\<Union>x. h x) = (\<Union>x \<in> - {a}. h x) \<union> h a"
  by auto

lemma accounted_frame [simp]:
  "accounted ports (R\<lparr>entries := m\<rparr>) = accounted ports R" "accounted ports (R\<lparr>pending := A\<rparr>) = accounted ports R"
  by (simp_all add: accounted_def)

lemma accounted_ract:
  assumes "accounted ports R" "\<forall>a. l \<noteq> Forget a" "ract l R = Some R'"
  shows "accounted ports R'"
proof -
  have "accounted ports (give_ports a R)" for a
    using assms(1) Un_held [of "held R" a] by (auto simp: accounted_def give_ports_def Un_held_upd)
  moreover have "accounted ports (take_ports a P R)" if "held R a = {}" "P \<subseteq> free R" for a P
    using assms(1) that Un_held [of "held R" a] by (auto simp: accounted_def take_ports_def Un_held_upd)
  ultimately show ?thesis
    using assms by (cases l) (auto simp: ract_def unused_def split: if_splits)
qed

definition is_forget :: "roperation \<Rightarrow> bool" where
  "is_forget l \<longleftrightarrow> (case l of Forget a \<Rightarrow> True | _ \<Rightarrow> False)"

text \<open>C6. No port is lost except by a replacement with the binary the process already has: after
  every run without one, every port of the range is free or held by a process that is registered or
  in flight, and when none is left all ports are free again.  (For a range of ports that begins above 0.)\<close>

theorem no_other_port_lost:
  assumes "NewManager r = Inr pm" "sane_range pm" "0 < portRangeMin pm" "exec xs (init_sys pm) = Some t"
    and "list_all (\<lambda>l. \<not> is_forget l) (labels act registry_label xs (init_sys pm))"
  shows "bm_free (availablePorts t) \<union> (\<Union>a. own t a) = {portRangeMin pm..portRangeMax pm} \<and>
    (processes t = Map.empty \<and> inflight (threads t) = [] \<longrightarrow>
       bm_free (availablePorts t) = {portRangeMin pm..portRangeMax pm})"
proof -
  let ?ports = "{portRangeMin pm..portRangeMax pm}"
  note ok = NewManager_ok [OF assms(1,2)]
  have inv: "refine_inv (init_sys pm)" using pm_inv_init [OF assms(1,2)] assms(3) by (simp add: refine_inv_def)
  have none: "own s a = {}" if "processes s = Map.empty" "inflight (threads s) = []" for s a
    using that by (simp add: own_def holder_def)
  then have "accounted ?ports (registry_of (init_sys pm))"
    using ok by (simp add: accounted_def registry_of_def)
  moreover have "accounted ?ports B" if "accounted ?ports A" "\<not> is_forget l" "ract l A = Some B" for l A B
    using accounted_ract [OF that(1) _ that(3)] that(2) by (cases l) (auto simp: is_forget_def)
  ultimately have "accounted ?ports (registry_of t)"
    using reg.transfer [where I = "accounted ?ports" and bad = is_forget, OF _ inv] assms(4,5)
    by (metis exec_def)
  with none show ?thesis by (auto simp: accounted_def registry_of_def)
qed

lemma no_other_port_lost_witness:
  "\<exists>t. exec (run_replace_fails @ [Thread 2 demo_env]) (init_sys demo_pm) = Some t \<and>
     bm_free (availablePorts t) \<union> (\<Union>a. own t a) = {20000..20003}"
proof -
  from run_cancel_state obtain t where
    t: "exec (run_replace_fails @ [Thread 2 demo_env]) (init_sys demo_pm) = Some t" by blast
  have "list_all (\<lambda>l. \<not> is_forget l)
      (labels act registry_label (run_replace_fails @ [Thread 2 demo_env]) (init_sys demo_pm))"
    by (simp add: run_cancel_labels is_forget_def)
  from no_other_port_lost [OF demo_NewManager _ _ t this] t show ?thesis
    by (simp add: demo_pm_def sane_range_def)
qed

end
