(* ===== verification/Manager_Types.thy ===== *)
theory Manager_Types
  imports Manager_Properties
begin

text \<open>
  The types of the answers.  A \<open>ProcessResponse\<close> has ports of type \<open>int32\<close> and a state that is one of five
  strings, while the model's fields are integers and strings without bounds; every response that the
  manager ever makes fits.
\<close>

definition response_ok :: "process_response \<Rightarrow> bool" where
  "response_ok r \<longleftrightarrow>
     (let n = psPortCount (prSpec r); s = pstPortStart (prStatus r); e = pstPortEnd (prStatus r) in
        to_int32 s = s \<and> to_int32 e = e \<and>
        (if n = 0 then s = 0 \<and> e = 0 else 0 < n \<and> 0 \<le> s \<and> e = s + n - 1) \<and>
        pstState (prStatus r) \<in> {''starting'', ''running'', ''stopping'', ''stopped'', ''error''})"

text \<open>The responses that a state holds: answered, broadcast, or on their way in a thread or the monitor.\<close>

fun thread_responses :: "gor \<Rightarrow> process_response set" where
  "thread_responses (UnregBegin a r) = {r}"
| "thread_responses (Notify a k) = thread_responses k"
| "thread_responses (StopCall a sig k) = thread_responses k"
| "thread_responses (StopDecide a sig now k) = thread_responses k"
| "thread_responses (StopSpawn a sig b k) = thread_responses k"
| "thread_responses g = {}"

fun monitor_responses :: "monitor \<Rightarrow> process_response set" where
  "monitor_responses (MonCheck a r) = {r}"
| "monitor_responses (MonSend r) = {r}"
| "monitor_responses m = {}"

definition responses :: "sys \<Rightarrow> process_response set" where
  "responses s = {r. Inr r \<in> set (replies s)} \<union> set (events s) \<union> monitor_responses (monitor s) \<union>
     (\<Union>g \<in> set (threads s). thread_responses g)"

definition responses_ok :: "sys \<Rightarrow> bool" where
  "responses_ok s \<longleftrightarrow> (\<forall>r \<in> responses s. response_ok r)"

section \<open>Every response is well-formed\<close>

lemma response_ok_RPCResponse: "port_ok p \<Longrightarrow> response_ok (RPCResponse p)"
  by (cases "pState p")
    (auto simp: response_ok_def RPCResponse_def port_ok_def Let_def split: if_splits)

lemma response_ok_deleted [simp]: "response_ok (r\<lparr>prDeleted := d\<rparr>) = response_ok r"
  by (simp add: response_ok_def)

lemma release_sys [simp]:
  fixes s :: sys
  shows "replies (releaseProcessPorts p s) = replies s" "events (releaseProcessPorts p s) = events s"
    "monitor (releaseProcessPorts p s) = monitor s" "threads (releaseProcessPorts p s) = threads s"
  using releaseProcessPorts_frame [of p s] by auto

lemma commit_sys:
  fixes s t :: sys
  shows "replies (unregister_commit p s) = replies s" "events (unregister_commit p s) = events s"
    "monitor (unregister_commit p s) = monitor s"
    and "replace_commit a p q s = (r, t) \<Longrightarrow> replies t = replies s \<and> events t = events s \<and> monitor t = monitor s"
  by (auto simp: unregister_commit_def replace_commit_def Let_def split: option.splits if_splits)

text \<open>The responses outside of the threads.\<close>

definition public :: "sys \<Rightarrow> process_response set" where
  "public s = {r. Inr r \<in> set (replies s)} \<union> set (events s) \<union> monitor_responses (monitor s)"

lemma responses_public: "responses s = public s \<union> (\<Union>g \<in> set (threads s). thread_responses g)"
  by (simp add: responses_def public_def)

lemma public_same [simp]:
  "public (upd_obj a f s) = public s" "public (releaseProcessPorts p s) = public s"
  "public (unregister_commit p s) = public s" "public (replace_thread i gs s) = public s"
  "public (spawn g s) = public s" "public (new_call s) = public s" "public (new_object p s) = public s"
  "public (s\<lparr>processes := m\<rparr>) = public s" "public (s\<lparr>availablePorts := b\<rparr>) = public s"
  "public (s\<lparr>logsOpened := k\<rparr>) = public s" "public (open_log s) = public s"
  by (simp_all add: public_def commit_sys replace_thread_def spawn_def new_call_def new_object_def)

lemma public_reply [simp]:
  "public (reply (Inr r) s) = insert r (public s)" "public (reply (Inl e) s) = public s"
  by (auto simp: public_def reply_def)

lemma public_monitor:
  "mon_idle (monitor s) \<Longrightarrow> public (s\<lparr>monitor := MonGot a\<rparr>) = public s"
  by (auto simp: public_def mon_idle_def)

lemma gstep_obj_responses:
  assumes "gstep_obj e g a p s = Some (gs, t)" "port_ok p"
    and "\<And>b q. objects s b = Some q \<Longrightarrow> port_ok q" and "\<forall>r \<in> public s \<union> thread_responses g. response_ok r"
  shows "\<forall>r \<in> public t \<union> (\<Union>h \<in> set gs. thread_responses h). response_ok r"
proof -
  note ok = response_ok_RPCResponse
  have rc: "replace_commit b q old s = (r, u) \<Longrightarrow> public u = public s" for b q old r u
    by (auto simp: public_def dest: commit_sys(4))
  show ?thesis using assms ok
    by (cases "(e, g, a, p, s)" rule: gstep_obj.cases)
      (auto simp: cleanupReplacementProcess_def public_monitor dest!: rc
        split: option.splits prod.splits if_splits wait_event.splits)
qed

lemma responses_ok_replace:
  assumes "responses_ok s" "threads t = threads s"
    and "\<forall>r \<in> public t \<union> (\<Union>h \<in> set gs. thread_responses h). response_ok r"
  shows "responses_ok (replace_thread i gs t)"
  using assms set_take_drop [of _ i "threads s" gs "Suc i"]
  by (fastforce simp: responses_ok_def responses_public)

lemma responses_ok_gstep:
  assumes inv: "pm_inv s" and ok: "responses_ok s" and i: "i < length (threads s)"
    and gs: "gstep e (threads s ! i) s = Some (gs, t)"
  shows "responses_ok (replace_thread i gs t)"
proof (rule responses_ok_replace [OF ok gstep_threads [OF gs]])
  have "\<forall>r \<in> public s \<union> thread_responses (threads s ! i). response_ok r"
    using ok i by (auto simp: responses_ok_def responses_public)
  then show "\<forall>r \<in> public t \<union> (\<Union>h \<in> set gs. thread_responses h). response_ok r"
    using gs gstep_obj_responses inv_obj [OF inv]
    by (auto simp: gstep_def split: option.splits gor.splits list.splits)
qed

lemma responses_ok_same:
  assumes "responses_ok s" "public t = public s" "threads t = threads s @ gs"
    and "\<forall>g \<in> set gs. thread_responses g = {}"
  shows "responses_ok t"
  using assms by (auto simp: responses_ok_def responses_public)

lemma responses_ok_mstep:
  assumes inv: "pm_inv s" and ok: "responses_ok s" and m: "mstep s = Some t"
  shows "responses_ok t"
proof -
  have "threads t = threads s" using m by (auto simp: mstep_def split: monitor.splits option.splits)
  moreover have "\<forall>r \<in> public t. response_ok r"
    using m ok inv_obj [OF inv] response_ok_RPCResponse
    by (auto simp: mstep_def public_def responses_ok_def responses_def split: monitor.splits option.splits if_splits)
  ultimately show ?thesis using ok by (auto simp: responses_ok_def responses_public)
qed

lemma responses_ok_act:
  assumes inv: "pm_inv s" and ok: "responses_ok s" and act: "act x s = Some t"
  shows "responses_ok t"
proof (cases x)
  case (CallCreate w spec u)
  with act have "t = ProcessCreate w spec u s" by (simp split: if_splits)
  with inv show ?thesis
    by (cases rule: ProcessCreate_cases [where w = w and spec = spec and u = u])
      (auto intro!: responses_ok_same [OF ok])
next
  case (CallReplace w spec sig u)
  with act have "t = ProcessReplace w spec sig u s" by (simp split: if_splits)
  with inv show ?thesis
    by (cases rule: ProcessReplace_cases [where w = w and spec = spec and sig = sig and u = u])
      (auto intro!: responses_ok_same [OF ok])
next
  case (CallDelete name)
  with act show ?thesis
    by (auto simp: ProcessDelete_def split: option.splits intro!: responses_ok_same [OF ok])
next
  case (Thread i e)
  with act responses_ok_gstep [OF inv ok] show ?thesis by (auto split: if_splits option.splits)
next
  case (MountCheck i sha mounts order)
  with act obtain mps as t' where i: "getProcessesToUpdateConditions sha mps order s = (as, t')"
      "t = replace_thread i [CondSend as] t'"
    by (auto simp: checkMountPointStatusForEngine_def split: if_splits option.splits prod.splits)
  have "public t' = public s \<and> threads t' = threads s"
    using i(1) by (induction sha mps order s arbitrary: as rule: getProcessesToUpdateConditions.induct)
      (auto split: option.splits prod.splits)
  then show ?thesis
    using ok unfolding i(2) by (intro responses_ok_replace [OF ok]) (auto simp: responses_ok_def responses_public)
next
  case ContextDone
  with act show ?thesis
    by (auto simp: mon_idle_def public_def split: if_splits intro!: responses_ok_same [OF ok])
next
  case (PassTime d)
  with act show ?thesis by (auto simp: public_def intro!: responses_ok_same [OF ok])
qed (use act responses_ok_mstep [OF inv ok] in simp)

lemma responses_ok_reachable: "reachable r s \<Longrightarrow> responses_ok s"
proof (induction rule: reachable.induct)
  case (init pm)
  show ?case by (simp add: responses_ok_def responses_def)
next
  case (step s s')
  then show ?case using responses_ok_act [OF pm_inv_reachable] by (auto simp: step_iff)
qed

text \<open>C12. Every response that the manager answers or broadcasts is well-formed, whatever the requests and the
  schedule: its ports fit into 32 bits and span exactly the port count of its specification, and its
  state is one of the five states of a process.\<close>

theorem responses_well_formed:
  assumes "reachable r s" "Inr resp \<in> set (replies s) \<or> resp \<in> set (events s)"
  shows "response_ok resp"
  using responses_ok_reachable [OF assms(1)] assms(2) by (auto simp: responses_ok_def responses_def)

lemma run_failing_event:
  "\<exists>s resp. exec [CallCreate None (demo_spec ''vol-r-0'' ''/e'') ''u0'', Thread 1 failing_env, Monitor, Monitor, Monitor]
       (init_sys demo_pm) = Some s \<and> events s = [resp] \<and> pstPortStart (prStatus resp) = 20000"
  by (simp add: run_defs RPCResponse_def)

lemma responses_well_formed_witness:
  "\<exists>s resp. reachable demo_range s \<and> events s = [resp] \<and> pstPortStart (prStatus resp) = 20000 \<and>
     response_ok resp"
proof -
  from run_failing_event obtain s resp where s: "reachable demo_range s" "events s = [resp]"
      "pstPortStart (prStatus resp) = 20000"
    using exec_reachable [OF demo_init_reachable] by blast
  with responses_well_formed [OF s(1), of resp] show ?thesis by auto
qed

end
