(* ===== verification/Manager_Logs.thy ===== *)
theory Manager_Logs
  imports Manager_Runs
begin



section \<open>Only requests open files and add processes\<close>

lemma logs_sections [simp]:
  "logsOpened (upd_obj a f s) = logsOpened s" "logsOpened (releaseProcessPorts p s) = logsOpened s"
  "logsOpened (unregister_commit p s) = logsOpened s" "logsOpened (new_object p s) = logsOpened s"
  "nextObj (releaseProcessPorts p s) = nextObj s" "nextObj (unregister_commit p s) = nextObj s"
  by (simp_all add: upd_obj_def releaseProcessPorts_def releasePorts_def unregister_commit_def new_object_def
      split: option.splits prod.splits)

lemma logs_threads [simp]:
  "logsOpened (replace_thread i gs s) = logsOpened s" "logsOpened (reply r s) = logsOpened s"
  "logsOpened (spawn g s) = logsOpened s"
  by (simp_all add: replace_thread_def reply_def spawn_def)





section \<open>Accounting\<close>








end
