(* ===== verification/Log_Model.thy ===== *)
theory Log_Model
  imports Go_Lib
begin

text \<open>
  The log files of processes (\<open>pkg/util/log.go\<close>): what a process writes is appended to its file
  and printed to the daemon's own log, and a stream reads the file line by line.
\<close>

section \<open>Setting up\<close>

text \<open>
  \<open>SetUpLogger\<close>: the result is the directory that the log formatter is given.  Of the errors of opening
  the test file only a missing permission counts, and the file stays open.
\<close>

datatype open_outcome = Opened | PermissionDenied error | OpenFailed error

definition SetUpLogger ::
  "(string \<Rightarrow> error option) \<Rightarrow> (string \<Rightarrow> string result) \<Rightarrow> (string \<Rightarrow> string \<Rightarrow> string) \<Rightarrow>
     (string \<Rightarrow> open_outcome) \<Rightarrow> string \<Rightarrow> string result" where
  "SetUpLogger mkdirAll absPath joinPath openFile logsDir =
     (case mkdirAll logsDir of
        Some e \<Rightarrow> Inl e
      | None \<Rightarrow>
          (case absPath logsDir of
             Inl e \<Rightarrow> Inl e
           | Inr dir \<Rightarrow>
               (case openFile (joinPath dir ''test'') of
                  PermissionDenied e \<Rightarrow> Inl e
                | _ \<Rightarrow> Inr dir)))"

section \<open>Writing\<close>

text \<open>The file system as the code uses it: a file is its content, or an error of opening it.\<close>

record log_writer =
  lwName :: string
  lwPath :: string
  lwOpen :: bool

record log_fs =
  fsFiles :: "string \<rightharpoonup> string"
  fsOpenError :: "string \<Rightarrow> error option"
  fsWriteError :: "error option"
  fsSyncError :: "error option"
  fsPrinted :: "(string \<times> string) list"

text \<open>\<open>filepath.Join\<close> and \<open>filepath.Abs\<close> are arguments.\<close>

definition NewLonghornWriter ::
  "(string \<Rightarrow> string \<Rightarrow> string) \<Rightarrow> (string \<Rightarrow> string result) \<Rightarrow> string \<Rightarrow> string \<Rightarrow> log_fs \<Rightarrow>
     log_writer result \<times> log_fs" where
  "NewLonghornWriter joinPath absPath name logsDir fs =
     (case absPath (joinPath logsDir (name @ ''.log'')) of
        Inl e \<Rightarrow> (Inl e, fs)
      | Inr logPath \<Rightarrow>
          (case fsOpenError fs logPath of
             Some e \<Rightarrow> (Inl e, fs)
           | None \<Rightarrow>
               (Inr \<lparr>lwName = name, lwPath = logPath, lwOpen = True\<rparr>,
                case fsFiles fs logPath of
                  None \<Rightarrow> fs\<lparr>fsFiles := (fsFiles fs)(logPath \<mapsto> '''')\<rparr>
                | Some _ \<Rightarrow> fs)))"

text \<open>
  \<open>Write\<close> prints the message under the name of the process, appends it to the file, and syncs
  the file.  The file is opened for appending only.
\<close>

definition writer_Write :: "log_writer \<Rightarrow> string \<Rightarrow> log_fs \<Rightarrow> nat result \<times> log_fs" where
  "writer_Write l input fs =
     (let fs' = fs\<lparr>fsPrinted := fsPrinted fs @ [(lwName l, input)]\<rparr>
      in if \<not> lwOpen l then (Inl (Err (''write '' @ lwPath l @ '': file already closed'')), fs')
         else case fsWriteError fs of
             Some e \<Rightarrow> (Inl e, fs')
           | None \<Rightarrow>
               let fs'' = fs'\<lparr>fsFiles := (fsFiles fs')(lwPath l \<mapsto>
                            (case fsFiles fs' (lwPath l) of None \<Rightarrow> '''' | Some s \<Rightarrow> s) @ input)\<rparr>
               in case fsSyncError fs of
                   Some e \<Rightarrow> (Inl e, fs'')
                 | None \<Rightarrow> (Inr (length input), fs''))"

definition writer_Close :: "log_writer \<Rightarrow> unit result \<times> log_writer" where
  "writer_Close l =
     (if lwOpen l then (Inr (), l\<lparr>lwOpen := False\<rparr>)
      else (Inl (Err (''close '' @ lwPath l @ '': file already closed'')), l))"

section \<open>Formatting\<close>

text \<open>
  \<open>Format\<close>: the field \<open>component\<close> of a log entry, when it is there, must be a string.  The entries
  of the daemon itself are formatted by the library, those of processes are their message.
\<close>

datatype log_field = StringField string | OtherField

definition Format ::
  "(string \<Rightarrow> string result) \<Rightarrow> log_field option \<Rightarrow> string \<Rightarrow> string result" where
  "Format textFormatter component message =
     (case (case component of None \<Rightarrow> StringField ''longhorn-instance-manager'' | Some c \<Rightarrow> c) of
        OtherField \<Rightarrow> Inl (Err ''field component must be a string'')
      | StringField c \<Rightarrow>
          if c = ''longhorn-instance-manager'' then
            (case textFormatter message of
               Inl e \<Rightarrow> Inl e
             | Inr msg \<Rightarrow> Inr (''['' @ c @ ''] '' @ msg))
          else Inr (''['' @ c @ ''] '' @ message))"

section \<open>Reading\<close>

text \<open>
  \<open>bufio.Scanner\<close> with its default split function: the lines without their line feed and without
  one carriage return before it; the text after the last line feed is a line if it is not empty.
  The scanner stops, with an error that \<open>StreamLog\<close> does not look at, at the first line that does
  not fit into its buffer of 65536 bytes together with the line feed.
\<close>

definition line_feed :: char where "line_feed = char_of (10 :: nat)"
definition carriage_return :: char where "carriage_return = char_of (13 :: nat)"

definition drop_cr :: "string \<Rightarrow> string" where
  "drop_cr s = (if s \<noteq> [] \<and> last s = carriage_return then butlast s else s)"

definition raw_lines :: "string \<Rightarrow> string list" where
  "raw_lines s =
     (let ps = split_char line_feed s in if last ps = '''' then butlast ps else ps)"

definition maxTokenSize :: nat where "maxTokenSize = 65536"

definition scan_lines :: "string \<Rightarrow> string list" where
  "scan_lines s = map drop_cr (takeWhile (\<lambda>l. length l < maxTokenSize) (raw_lines s))"

text \<open>\<open>StreamLog\<close> reads the file of the writer, until the reader closes \<open>done\<close> after \<open>n\<close> lines.\<close>

definition StreamLog :: "log_writer \<Rightarrow> log_fs \<Rightarrow> nat \<Rightarrow> string list result" where
  "StreamLog l fs n =
     (case fsOpenError fs (lwPath l) of
        Some e \<Rightarrow> Inl e
      | None \<Rightarrow>
          (case fsFiles fs (lwPath l) of
             None \<Rightarrow> Inl (Err (''open '' @ lwPath l @ '': no such file or directory''))
           | Some s \<Rightarrow> Inr (take n (scan_lines s))))"

section \<open>Lines\<close>

definition plain_line :: "string \<Rightarrow> bool" where
  "plain_line s \<longleftrightarrow> line_feed \<notin> set s \<and> (s = [] \<or> last s \<noteq> carriage_return) \<and> length s < maxTokenSize"

lemma split_char_lines:
  "\<forall>l \<in> set ls. c \<notin> set l \<Longrightarrow> split_char c (concat (map (\<lambda>l. l @ [c]) ls)) = ls @ ['''']"
  by (induction ls) (simp_all add: split_char_append)

lemma drop_cr_plain: "plain_line s \<Longrightarrow> drop_cr s = s"
  by (auto simp: plain_line_def drop_cr_def)

lemma raw_lines_concat:
  "\<forall>l \<in> set ls. line_feed \<notin> set l \<Longrightarrow> raw_lines (concat (map (\<lambda>l. l @ [line_feed]) ls)) = ls"
  by (simp add: raw_lines_def Let_def split_char_lines)

lemma scan_lines_prefix:
  assumes "\<forall>l \<in> set ls. plain_line l" "\<forall>l \<in> set rest. line_feed \<notin> set l" "maxTokenSize \<le> length big"
    and "line_feed \<notin> set big"
  shows "scan_lines (concat (map (\<lambda>l. l @ [line_feed]) (ls @ big # rest))) = ls"
proof -
  have "\<forall>l \<in> set (ls @ big # rest). line_feed \<notin> set l" using assms by (auto simp: plain_line_def)
  note raw = raw_lines_concat [OF this]
  have "takeWhile (\<lambda>l. length l < maxTokenSize) (ls @ big # rest) = ls"
    using assms(1,3) by (simp add: takeWhile_append plain_line_def)
  then show ?thesis using assms(1) unfolding scan_lines_def raw by (simp add: map_idI drop_cr_plain)
qed

lemma scan_lines_all:
  assumes "\<forall>l \<in> set ls. plain_line l"
  shows "scan_lines (concat (map (\<lambda>l. l @ [line_feed]) ls)) = ls"
proof -
  have "\<forall>l \<in> set ls. line_feed \<notin> set l" using assms by (auto simp: plain_line_def)
  note raw = raw_lines_concat [OF this]
  have "takeWhile (\<lambda>l. length l < maxTokenSize) ls = ls"
    using assms by (auto simp: takeWhile_eq_all_conv plain_line_def)
  then have "scan_lines (concat (map (\<lambda>l. l @ [line_feed]) ls)) = map drop_cr ls"
    by (simp only: scan_lines_def raw)
  with assms show ?thesis by (simp add: map_idI drop_cr_plain)
qed

end
