(* ===== verification/Util_Properties.thy ===== *)
theory Util_Properties
  imports Manager Log_Model
begin

text \<open>
  The properties of the parts the servers are built from: port ranges as text, the port bitmap,
  the health check with its probe, and the log stream.
\<close>

section \<open>Ports\<close>

text \<open>C32. A port range that is printed is parsed again: \<open>ParsePortRange\<close> of two non-negative numbers
  with a dash between them succeeds, and gives the numbers reduced to 32 bits, so that exactly the
  numbers below \<open>2 ^ 31\<close> come back and larger ones wrap around without an error.\<close>

theorem port_range_round_trip:
  assumes "0 \<le> a" "0 \<le> b" "a < 2 ^ 63" "b < 2 ^ 63"
  shows "ParsePortRange (itoa a @ ''-'' @ itoa b) = Inr (to_int32 a, to_int32 b) \<and>
    (ParsePortRange (itoa a @ ''-'' @ itoa b) = Inr (a, b) \<longleftrightarrow> a < 2 ^ 31 \<and> b < 2 ^ 31)"
proof -
  have "to_int32 x = x \<longleftrightarrow> x < 2 ^ 31" if "0 \<le> x" for x
    using that to_int32_id [of x] to_int32_bounds [of x] by auto
  with assms show ?thesis by (simp add: ParsePortRange_print [simplified])
qed

lemma port_range_round_trip_witness:
  "ParsePortRange (itoa 4294967297 @ ''-'' @ itoa 20003) = Inr (1, 20003)"
proof -
  have "to_int32 4294967297 = 1" "to_int32 20003 = 20003" by code_simp+
  with port_range_round_trip [of 4294967297 20003] show ?thesis by simp
qed

text \<open>C33. Releasing a range that was just allocated restores the bitmap: the allocated ports were
  free, they are not free in between, and after the release exactly the ports that were free before
  are free again.  (The exception is the range from 0 to 0, which \<open>ReleaseRange\<close> takes for no range.)\<close>

theorem allocate_release_round_trip:
  assumes "wf_bitmap b" "AllocateRange b n = (Inr (s, e), b1)" "(s, e) \<noteq> (0, 0)"
  shows "{s..e} \<subseteq> bm_free b \<and> int (card {s..e}) = n \<and> {s..e} \<inter> bm_free b1 = {} \<and>
    (\<exists>b2. ReleaseRange b1 s e = (None, b2) \<and> wf_bitmap b2 \<and> bm_free b2 = bm_free b)"
proof -
  note al = bm.allocate_ok [OF assms(1,2)]
  have sub: "{s..e} \<subseteq> bm_ports b1" using al bm.free_managed [OF assms(1)] by auto
  moreover have "s \<le> e" using al by simp
  ultimately obtain b2 where b2: "ReleaseRange b1 s e = (None, b2)" "bm_free b2 = bm_free b1 \<union> {s..e}"
    using bm.release_ok [of b1 s e] al assms(3) by blast
  have "{s, e} \<subseteq> bm_ports b1" using sub \<open>s \<le> e\<close> by auto
  then have "0 \<le> s" "e < 2 ^ 31" using bm.managed_range [of b1] al by auto
  then have "wf_bitmap b2" using bm.release_effect [OF _ b2(1)] al by blast
  with al b2 show ?thesis by auto
qed

lemma allocate_release_round_trip_witness:
  "\<exists>b1 b2. AllocateRange \<lparr>bmBase = 20000, bmSize = 4, bmStart = 0, bmData = [0, 1, 2, 3]\<rparr> 2 = (Inr (20000, 20001), b1) \<and>
     ReleaseRange b1 20000 20001 = (None, b2) \<and>
     bm_free b2 = bm_free \<lparr>bmBase = 20000, bmSize = 4, bmStart = 0, bmData = [0, 1, 2, 3]\<rparr>"
proof -
  let ?b = "\<lparr>bmBase = 20000, bmSize = 4, bmStart = 0, bmData = [0, 1, 2, 3]\<rparr>"
  have "AllocateRange ?b 2 = (Inr (20000, 20001), ?b\<lparr>bmData := [2, 3], bmStart := 2\<rparr>)" by code_simp
  moreover have "wf_bitmap ?b" by (simp add: wf_bitmap_def)
  ultimately show ?thesis using allocate_release_round_trip [of ?b 2 20000 20001] by fastforce
qed

text \<open>The search of the bitmap is not complete: when the four ports 20000 to 20003 have been
  allocated one by one and 20000, 20002 and 20003 have been released again, two ports cannot be
  allocated although two adjacent ones are free.\<close>

theorem allocation_misses_block:
  "let take = (\<lambda>b. snd (AllocateRange b 1));
       b1 = take (take (take (take \<lparr>bmBase = 20000, bmSize = 4, bmStart = 0, bmData = [0, 1, 2, 3]\<rparr>)));
       b2 = snd (ReleaseRange b1 20000 20000);
       b3 = snd (ReleaseRange b2 20002 20003)
   in NewBitmap 20000 20003 = Inr \<lparr>bmBase = 20000, bmSize = 4, bmStart = 0, bmData = [0, 1, 2, 3]\<rparr> \<and>
     wf_bitmap b3 \<and> {20002, 20003} \<subseteq> bm_free b3 \<and>
     fst (AllocateRange b3 2) = Inl (Err ''cannot find an empty port range'')"
proof -
  let ?b0 = "\<lparr>bmBase = 20000, bmSize = 4, bmStart = 0, bmData = [0, 1, 2, 3]\<rparr>"
  let ?b3 = "\<lparr>bmBase = 20000, bmSize = 4, bmStart = 4, bmData = [0, 2, 3]\<rparr>"
  have steps: "snd (AllocateRange ?b0 1) = \<lparr>bmBase = 20000, bmSize = 4, bmStart = 1, bmData = [1, 2, 3]\<rparr>"
    "snd (AllocateRange \<lparr>bmBase = 20000, bmSize = 4, bmStart = 1, bmData = [1, 2, 3]\<rparr> 1) =
       \<lparr>bmBase = 20000, bmSize = 4, bmStart = 2, bmData = [2, 3]\<rparr>"
    "snd (AllocateRange \<lparr>bmBase = 20000, bmSize = 4, bmStart = 2, bmData = [2, 3]\<rparr> 1) =
       \<lparr>bmBase = 20000, bmSize = 4, bmStart = 3, bmData = [3]\<rparr>"
    "snd (AllocateRange \<lparr>bmBase = 20000, bmSize = 4, bmStart = 3, bmData = [3]\<rparr> 1) =
       \<lparr>bmBase = 20000, bmSize = 4, bmStart = 4, bmData = []\<rparr>"
    "snd (ReleaseRange \<lparr>bmBase = 20000, bmSize = 4, bmStart = 4, bmData = []\<rparr> 20000 20000) =
       \<lparr>bmBase = 20000, bmSize = 4, bmStart = 4, bmData = [0]\<rparr>"
    "snd (ReleaseRange \<lparr>bmBase = 20000, bmSize = 4, bmStart = 4, bmData = [0]\<rparr> 20002 20003) = ?b3"
    by code_simp+
  have "NewBitmap 20000 20003 = Inr ?b0" by code_simp
  moreover have "fst (AllocateRange ?b3 2) = Inl (Err ''cannot find an empty port range'')" by code_simp
  moreover have "wf_bitmap ?b3" by (simp add: wf_bitmap_def)
  moreover have "{20002, 20003} \<subseteq> bm_free ?b3" by (simp add: mem_bm_free)
  ultimately show ?thesis by (simp only: Let_def steps simp_thms)
qed

section \<open>Health checks\<close>

text \<open>C34. \<open>WaitForRunning\<close> ends after at most 600 events, whatever they are, and answers true exactly
  when one of the first 600 events is a successful probe and only failed probes came before it.\<close>

theorem wait_for_running_bounded:
  "(WaitCount \<le> length es \<longrightarrow> WaitForRunning es \<noteq> None) \<and>
   (WaitForRunning es = Some True \<longleftrightarrow>
     (\<exists>k < 600. k < length es \<and> take k es = replicate k (Tick False) \<and> es ! k = Tick True))"
  using WaitForRunning_loop_ends [of WaitCount es] WaitForRunning_loop_True [of WaitCount es]
  by (simp add: WaitForRunning_def WaitCount_def)

lemma wait_for_running_bounded_witness:
  "WaitCount \<le> length (replicate 600 (Tick False)) \<and> WaitForRunning (replicate 600 (Tick False)) \<noteq> None \<and>
   WaitForRunning [Tick False, Tick True] = Some True"
proof -
  have "WaitCount \<le> length (replicate 600 (Tick False))" by (simp add: WaitCount_def)
  moreover from this have "WaitForRunning (replicate 600 (Tick False)) \<noteq> None"
    using wait_for_running_bounded [of "replicate 600 (Tick False)"] by blast
  moreover have "WaitForRunning [Tick False, Tick True] = Some True"
    using wait_for_running_bounded [of "[Tick False, Tick True]"] by (auto intro: exI [of _ "1 :: nat"])
  ultimately show ?thesis by blast
qed

text \<open>The readiness probe takes a timeout for success: \<open>ExecuteWithTimeout\<close> wraps the error of the
  command, which is nil when the command has not ended; so the probe answers false exactly when the
  command has ended with an error.\<close>

theorem probe_succeeds_on_timeout:
  "GRPCServiceReadinessProbe os address \<longleftrightarrow>
     (case os GRPCHealthProbe [''-addr'', address] of
        Finished err _ _ \<Rightarrow> err = None
      | TimedOut err _ _ \<Rightarrow> err = None)"
  by (auto simp: GRPCServiceReadinessProbe_def Execute_def ExecuteWithTimeout_def wrap_err_def
      split: run_outcome.splits option.splits)

section \<open>Log streams\<close>

text \<open>C35. A log stream gives back the lines that were written, up to the first line of 65536 bytes or
  more: from there on nothing is sent, and no error is reported.  The lines are those without a line feed in
  them and without a carriage return at their end, which the scanner would drop.\<close>

theorem log_stream_lines:
  assumes "fsOpenError fs (lwPath l) = None"
    and "fsFiles fs (lwPath l) = Some (concat (map (\<lambda>x. x @ [line_feed]) (ls @ big)))"
    and "\<forall>x \<in> set ls. plain_line x" "\<forall>x \<in> set big. line_feed \<notin> set x"
    and "big = [] \<or> maxTokenSize \<le> length (hd big)" "length ls \<le> n"
  shows "StreamLog l fs n = Inr ls"
proof (cases big)
  case Nil
  then show ?thesis using assms by (simp add: StreamLog_def scan_lines_all)
next
  case (Cons b rest)
  then have "scan_lines (concat (map (\<lambda>x. x @ [line_feed]) (ls @ big))) = ls"
    using scan_lines_prefix [OF assms(3), of rest b] assms(4,5) by simp
  then show ?thesis using assms(1,2,6) by (simp add: StreamLog_def)
qed

lemma log_stream_lines_witness:
  "StreamLog \<lparr>lwName = ''p'', lwPath = ''/p.log'', lwOpen = True\<rparr>
     \<lparr>fsFiles = [''/p.log'' \<mapsto> concat (map (\<lambda>x. x @ [line_feed])
        ([''one'', ''two''] @ [replicate maxTokenSize CHR ''x'', ''four'']))],
      fsOpenError = (\<lambda>_. None), fsWriteError = None, fsSyncError = None, fsPrinted = []\<rparr> 10 = Inr [''one'', ''two'']"
proof (rule log_stream_lines [where big = "[replicate maxTokenSize CHR ''x'', ''four'']"])
  have "CHR ''x'' \<noteq> line_feed" by code_simp
  then have "line_feed \<notin> set (replicate maxTokenSize CHR ''x'')" by (metis in_set_replicate)
  moreover have "line_feed \<notin> set ''four''" by code_simp
  ultimately show "\<forall>x \<in> set [replicate maxTokenSize CHR ''x'', ''four'']. line_feed \<notin> set x" by simp
  have c: "line_feed \<notin> set ''one''" "line_feed \<notin> set ''two''" "CHR ''e'' \<noteq> carriage_return" "CHR ''o'' \<noteq> carriage_return"
    by code_simp+
  then have "plain_line ''one''" "plain_line ''two''" by (simp_all add: plain_line_def maxTokenSize_def)
  then show "\<forall>x \<in> set [''one'', ''two'']. plain_line x" by simp
qed simp_all

end
