(* ===== verification/Broadcaster.thy ===== *)
theory Broadcaster
  imports Work
begin

text \<open>
  The broadcaster of \<open>pkg/util/broadcaster\<close>: every item of its input is offered to every
  subscriber's channel, which has room for 100 items.  A subscriber whose channel is full loses
  the item and is unsubscribed by a goroutine of its own; until that goroutine runs it may still
  receive later items.
\<close>

section \<open>State\<close>

definition sub_capacity :: nat where "sub_capacity = 100"

text \<open>
  A subscriber's channel: what is buffered, what has been read from it, and whether it is closed.
  \<open>offered\<close> records the items that were broadcast while it was subscribed.
\<close>

record 'i subscriber =
  buffer :: "'i list"
  received :: "'i list"
  closed :: bool
  offered :: "'i list"

text \<open>
  \<open>subs\<close> is the set of subscribed channels, \<open>pendingUnsub\<close> the goroutines that are about to
  unsubscribe a slow consumer.
\<close>

record 'i broadcaster =
  running :: bool
  subs :: "nat list"
  channels :: "nat \<rightharpoonup> 'i subscriber"
  nextSub :: nat
  pendingUnsub :: "nat list"

definition new_broadcaster :: "'i broadcaster" where
  "new_broadcaster = \<lparr>running = False, subs = [], channels = Map.empty, nextSub = 0, pendingUnsub = []\<rparr>"

section \<open>Operations\<close>

definition start :: "error option \<Rightarrow> 'i broadcaster \<Rightarrow> error option \<times> 'i broadcaster" where
  "start connect b = (case connect of Some e \<Rightarrow> (Some e, b) | None \<Rightarrow> (None, b\<lparr>running := True\<rparr>))"

definition Subscribe :: "error option \<Rightarrow> 'i broadcaster \<Rightarrow> nat result \<times> 'i broadcaster" where
  "Subscribe connect b =
     (case (if running b then (None, b) else start connect b) of
        (Some e, b') \<Rightarrow> (Inl e, b')
      | (None, b') \<Rightarrow>
          (Inr (nextSub b'),
           b'\<lparr>subs := subs b' @ [nextSub b'],
              channels := (channels b')(nextSub b' \<mapsto> \<lparr>buffer = [], received = [], closed = False, offered = []\<rparr>),
              nextSub := Suc (nextSub b')\<rparr>))"

definition upd_chan :: "nat \<Rightarrow> ('i subscriber \<Rightarrow> 'i subscriber) \<Rightarrow> 'i broadcaster \<Rightarrow> 'i broadcaster" where
  "upd_chan c f b =
     (case channels b c of None \<Rightarrow> b | Some s \<Rightarrow> b\<lparr>channels := (channels b)(c \<mapsto> f s)\<rparr>)"

definition unsub :: "nat \<Rightarrow> 'i broadcaster \<Rightarrow> 'i broadcaster" where
  "unsub c b =
     (if c \<in> set (subs b)
      then (upd_chan c (\<lambda>s. s\<lparr>closed := True\<rparr>) b)\<lparr>subs := removeAll c (subs b)\<rparr>
      else b)"

text \<open>One item of \<open>stream\<close> for one subscriber: a \<open>select\<close> with a default.\<close>

definition offer :: "'i \<Rightarrow> nat \<Rightarrow> 'i broadcaster \<Rightarrow> 'i broadcaster" where
  "offer item c b =
     (case channels b c of
        None \<Rightarrow> b
      | Some s \<Rightarrow>
          if length (buffer s) < sub_capacity
          then b\<lparr>channels := (channels b)(c \<mapsto> s\<lparr>buffer := buffer s @ [item], offered := offered s @ [item]\<rparr>)\<rparr>
          else b\<lparr>channels := (channels b)(c \<mapsto> s\<lparr>offered := offered s @ [item]\<rparr>),
                 pendingUnsub := pendingUnsub b @ [c]\<rparr>)"

definition stream_item :: "'i \<Rightarrow> 'i broadcaster \<Rightarrow> 'i broadcaster" where
  "stream_item item b = fold (offer item) (subs b) b"

text \<open>The end of the input: every subscriber is unsubscribed.\<close>

definition stream_end :: "'i broadcaster \<Rightarrow> 'i broadcaster" where
  "stream_end b = (fold unsub (subs b) b)\<lparr>running := False\<rparr>"

text \<open>A goroutine that unsubscribes a slow consumer, and a consumer that reads an item.\<close>

definition run_unsub :: "nat \<Rightarrow> 'i broadcaster \<Rightarrow> 'i broadcaster option" where
  "run_unsub i b =
     (if i < length (pendingUnsub b)
      then Some (unsub (pendingUnsub b ! i) (b\<lparr>pendingUnsub := take i (pendingUnsub b) @ drop (Suc i) (pendingUnsub b)\<rparr>))
      else None)"

definition receive :: "nat \<Rightarrow> 'i broadcaster \<Rightarrow> 'i broadcaster option" where
  "receive c b =
     (case channels b c of
        None \<Rightarrow> None
      | Some s \<Rightarrow> (case buffer s of
            [] \<Rightarrow> None
          | x # xs \<Rightarrow> Some (upd_chan c (\<lambda>s. s\<lparr>buffer := xs, received := received s @ [x]\<rparr>) b)))"

datatype 'i baction = Sub "error option" | ContextEnd nat | StreamItem 'i | StreamEnd | RunUnsub nat | Receive nat

fun bact :: "'i baction \<Rightarrow> 'i broadcaster \<Rightarrow> 'i broadcaster option" where
  "bact (Sub connect) b = Some (snd (Subscribe connect b))"
| "bact (ContextEnd c) b = Some (unsub c b)"
| "bact (StreamItem item) b = (if running b then Some (stream_item item b) else None)"
| "bact StreamEnd b = (if running b then Some (stream_end b) else None)"
| "bact (RunUnsub i) b = run_unsub i b"
| "bact (Receive c) b = receive c b"

inductive breachable :: "'i broadcaster \<Rightarrow> bool" where
  init: "breachable new_broadcaster"
| step: "breachable b \<Longrightarrow> bact x b = Some b' \<Longrightarrow> breachable b'"

section \<open>Invariant\<close>

definition sub_ok :: "'i broadcaster \<Rightarrow> nat \<Rightarrow> 'i subscriber \<Rightarrow> bool" where
  "sub_ok b c s \<longleftrightarrow> length (buffer s) \<le> sub_capacity \<and> subseq (received s @ buffer s) (offered s) \<and>
     (received s @ buffer s = offered s \<or> c \<in> set (pendingUnsub b) \<or> closed s) \<and>
     (closed s \<longleftrightarrow> c \<notin> set (subs b))"

definition binv :: "'i broadcaster \<Rightarrow> bool" where
  "binv b \<longleftrightarrow> distinct (subs b) \<and> set (subs b) \<subseteq> dom (channels b) \<and> dom (channels b) = {..<nextSub b} \<and>
     (\<forall>c s. channels b c = Some s \<longrightarrow> sub_ok b c s)"

lemma binv_sub: "binv b \<Longrightarrow> channels b c = Some s \<Longrightarrow> sub_ok b c s"
  by (simp add: binv_def)

lemma subs_simps [simp]:
  "subs (offer item c b) = subs b" "subs (upd_chan c f b) = subs b"
  "nextSub (offer item c b) = nextSub b" "nextSub (upd_chan c f b) = nextSub b"
  "pendingUnsub (upd_chan c f b) = pendingUnsub b"
  by (simp_all add: offer_def upd_chan_def split: option.splits)

lemma binv_new: "binv new_broadcaster"
  by (simp add: binv_def new_broadcaster_def lessThan_def)

lemma binv_running [simp]: "binv (b\<lparr>running := r\<rparr>) = binv b"
  by (simp add: binv_def sub_ok_def)

definition add_sub :: "'i broadcaster \<Rightarrow> 'i broadcaster" where
  "add_sub b = b\<lparr>subs := subs b @ [nextSub b],
      channels := (channels b)(nextSub b \<mapsto> \<lparr>buffer = [], received = [], closed = False, offered = []\<rparr>),
      nextSub := Suc (nextSub b)\<rparr>"

lemma binv_add_sub:
  assumes inv: "binv b"
  shows "binv (add_sub b)"
proof -
  have fresh: "nextSub b \<notin> set (subs b)" "channels b (nextSub b) = None"
    using inv by (auto simp: binv_def)
  have "sub_ok (add_sub b) c s" if "channels (add_sub b) c = Some s" for c s
    using that binv_sub [OF inv, of c s] fresh by (auto simp: add_sub_def sub_ok_def split: if_splits)
  moreover have "dom (channels (add_sub b)) = {..<nextSub (add_sub b)}"
    using inv by (simp add: add_sub_def binv_def lessThan_Suc)
  moreover have "set (subs (add_sub b)) \<subseteq> dom (channels (add_sub b))" "distinct (subs (add_sub b))"
    using inv fresh by (auto simp: add_sub_def binv_def)
  ultimately show ?thesis by (simp add: binv_def)
qed

lemma binv_Subscribe:
  assumes "binv b"
  shows "binv (snd (Subscribe connect b))"
proof -
  have "snd (Subscribe connect b) =
      (if running b then add_sub b else if connect = None then add_sub (b\<lparr>running := True\<rparr>) else b)"
    by (auto simp: Subscribe_def start_def add_sub_def split: option.splits)
  with assms show ?thesis by (simp add: binv_add_sub)
qed

lemma binv_unsub:
  assumes inv: "binv b"
  shows "binv (unsub c b)"
proof (cases "c \<in> set (subs b)")
  case True
  with inv obtain s where s: "channels b c = Some s" by (auto simp: binv_def)
  let ?b = "b\<lparr>channels := (channels b)(c \<mapsto> s\<lparr>closed := True\<rparr>), subs := removeAll c (subs b)\<rparr>"
  have "sub_ok ?b d t" if "channels ?b d = Some t" for d t
    using that binv_sub [OF inv s] binv_sub [OF inv, of d t] by (auto simp: sub_ok_def split: if_splits)
  moreover have "distinct (removeAll c (subs b))" using inv by (simp add: binv_def distinct_removeAll)
  ultimately have "binv ?b" using inv s by (auto simp: binv_def)
  with True s show ?thesis by (simp add: unsub_def upd_chan_def)
qed (simp add: unsub_def inv)

lemma binv_offer:
  assumes inv: "binv b" and c: "c \<in> set (subs b)"
  shows "binv (offer item c b)"
proof -
  from inv c obtain s where s: "channels b c = Some s" by (auto simp: binv_def)
  have app: "subseq (xs @ ys @ [item]) (zs @ [item])" if "subseq (xs @ ys) zs" for xs ys zs :: "'a list"
    using list_emb_append_mono [OF that, of "[item]" "[item]"] by simp
  have ok: "sub_ok (offer item c b) d t" if "channels (offer item c b) d = Some t" for d t
    using that s binv_sub [OF inv s] binv_sub [OF inv, of d t] c
    by (auto simp: offer_def sub_ok_def split: if_splits intro: app list_emb_append2)
  have "dom (channels (offer item c b)) = dom (channels b)" using s by (auto simp: offer_def)
  with ok inv show ?thesis by (auto simp: binv_def)
qed

lemma binv_stream_item:
  assumes "binv b"
  shows "binv (stream_item item b)"
proof -
  have "binv (fold (offer item) cs b')" if "binv b'" "set cs \<subseteq> set (subs b')" for cs b'
    using that
  proof (induction cs arbitrary: b')
    case (Cons c cs)
    then show ?case using binv_offer [of b' c item] by simp
  qed simp
  with assms show ?thesis by (simp add: stream_item_def)
qed

lemma binv_fold_unsub: "binv b \<Longrightarrow> binv (fold unsub cs b)"
  by (induction cs arbitrary: b) (auto intro: binv_unsub)

lemma binv_receive:
  assumes inv: "binv b" and rec: "receive c b = Some b'"
  shows "binv b'"
proof -
  from rec obtain s x xs where s: "channels b c = Some s" "buffer s = x # xs"
    and b': "b' = b\<lparr>channels := (channels b)(c \<mapsto> s\<lparr>buffer := xs, received := received s @ [x]\<rparr>)\<rparr>"
    by (auto simp: receive_def upd_chan_def split: option.splits list.splits)
  have "sub_ok b' d t" if "channels b' d = Some t" for d t
    using that s binv_sub [OF inv s(1)] binv_sub [OF inv, of d t]
    by (auto simp: b' sub_ok_def split: if_splits)
  with inv s show ?thesis by (auto simp: binv_def b')
qed

text \<open>
  The goroutine that unsubscribes a slow consumer drops its entry of the pending list only when
  the consumer is not subscribed any more.
\<close>

lemma binv_run_unsub:
  assumes inv: "binv b" and run: "run_unsub i b = Some b'"
  shows "binv b'"
proof -
  let ?c = "pendingUnsub b ! i" and ?ps = "take i (pendingUnsub b) @ drop (Suc i) (pendingUnsub b)"
  from run have i: "i < length (pendingUnsub b)" and b': "b' = unsub ?c (b\<lparr>pendingUnsub := ?ps\<rparr>)"
    by (auto simp: run_unsub_def split: if_splits)
  have pend: "set (pendingUnsub b) = insert ?c (set ?ps)"
    by (subst id_take_nth_drop [OF i]) simp
  have ch: "channels b' d = (if d = ?c \<and> ?c \<in> set (subs b) then map_option (\<lambda>s. s\<lparr>closed := True\<rparr>) (channels b d)
      else channels b d)" "subs b' = removeAll ?c (subs b)" "pendingUnsub b' = ?ps" "nextSub b' = nextSub b" for d
    by (auto simp: b' unsub_def upd_chan_def split: option.splits)
  have "sub_ok b' d t" if "channels b' d = Some t" for d t
    using that binv_sub [OF inv, of d] pend by (auto simp: ch sub_ok_def split: if_splits)
  moreover have "dom (channels b') = dom (channels b)" by (auto simp: ch split: if_splits)
  ultimately show ?thesis using inv ch by (auto simp: binv_def distinct_removeAll)
qed

lemma binv_bact:
  assumes inv: "binv b" and act: "bact x b = Some b'"
  shows "binv b'"
proof (cases x)
  case StreamEnd
  with act have "b' = (fold unsub (subs b) b)\<lparr>running := False\<rparr>" by (auto simp: stream_end_def split: if_splits)
  with binv_fold_unsub [OF inv] show ?thesis by simp
next
  case (RunUnsub i)
  with act binv_run_unsub [OF inv] show ?thesis by simp
next
  case (Receive c)
  with act binv_receive [OF inv] show ?thesis by simp
next
  case (StreamItem item)
  with act have "b' = stream_item item b" by (simp split: if_splits)
  with binv_stream_item [OF inv] show ?thesis by simp
next
  case (Sub connect)
  with act binv_Subscribe [OF inv] show ?thesis by auto
next
  case (ContextEnd c)
  with act binv_unsub [OF inv] show ?thesis by auto
qed

lemma binv_reachable: "breachable b \<Longrightarrow> binv b"
  by (induction rule: breachable.induct) (auto simp: binv_new intro: binv_bact)

lemma offer_other: "d \<noteq> c \<Longrightarrow> channels (offer item c b) d = channels b d"
  by (simp add: offer_def split: option.splits)

lemma fold_offer_other: "d \<notin> set cs \<Longrightarrow> channels (fold (offer item) cs b) d = channels b d"
  by (induction cs arbitrary: b) (auto simp: offer_other)

lemma offer_self:
  "channels b c = Some s \<Longrightarrow> channels (offer item c b) c =
    Some (s\<lparr>buffer := (if length (buffer s) < sub_capacity then buffer s @ [item] else buffer s),
            offered := offered s @ [item]\<rparr>)"
  by (simp add: offer_def)

lemma stream_item_channel:
  assumes "distinct cs" "c \<in> set cs" "channels b c = Some s"
  shows "\<exists>s'. channels (fold (offer item) cs b) c = Some s' \<and> received s' = received s \<and> closed s' = closed s \<and>
    offered s' = offered s @ [item] \<and>
    buffer s' = (if length (buffer s) < sub_capacity then buffer s @ [item] else buffer s)"
  using assms
proof (induction cs arbitrary: b)
  case (Cons d cs)
  show ?case
  proof (cases "d = c")
    case True
    then have "channels (fold (offer item) (d # cs) b) c = channels (offer item c b) c"
      using Cons.prems fold_offer_other [of c cs item "offer item c b"] by simp
    with offer_self [OF Cons.prems(3), of item] show ?thesis by (auto simp del: fold.simps)
  next
    case False
    then show ?thesis using Cons by (simp add: offer_other)
  qed
qed simp

lemma offer_pending: "set (pendingUnsub b) \<subseteq> set (pendingUnsub (offer item c b))"
  by (auto simp: offer_def split: option.splits)

lemma fold_offer_pending: "set (pendingUnsub b) \<subseteq> set (pendingUnsub (fold (offer item) cs b))"
proof (induction cs arbitrary: b)
  case (Cons c cs)
  from offer_pending [of b item c] Cons [of "offer item c b"] show ?case by simp
qed simp

lemma fold_offer_full:
  assumes "c \<in> set cs" "channels b c = Some s" "\<not> length (buffer s) < sub_capacity"
  shows "c \<in> set (pendingUnsub (fold (offer item) cs b))"
  using assms
proof (induction cs arbitrary: b)
  case (Cons d cs)
  show ?case
  proof (cases "d = c")
    case True
    then have "c \<in> set (pendingUnsub (offer item d b))" using Cons.prems by (simp add: offer_def)
    then show ?thesis using fold_offer_pending [of "offer item d b" item cs] by auto
  next
    case False
    then show ?thesis using Cons by (simp add: offer_other)
  qed
qed simp

section \<open>Properties\<close>

text \<open>C22. What a subscriber gets: in every reachable state its channel holds at most 100 items, the
  items it has read and those in its channel are a subsequence of what was broadcast while it was
  subscribed, in that order, and nothing of it is missing unless the subscriber has been closed or
  is about to be unsubscribed as a slow consumer.\<close>

theorem broadcast_in_order:
  assumes "breachable b" "channels b c = Some s"
  shows "length (buffer s) \<le> 100 \<and> subseq (received s @ buffer s) (offered s) \<and>
    (received s @ buffer s = offered s \<or> c \<in> set (pendingUnsub b) \<or> closed s) \<and>
    (closed s \<longleftrightarrow> c \<notin> set (subs b))"
  using binv_sub [OF binv_reachable [OF assms(1)] assms(2)] by (auto simp: sub_ok_def sub_capacity_def)

lemma breachable_run: "breachable b \<Longrightarrow> run_actions bact xs b = Some b' \<Longrightarrow> breachable b'"
  by (induction xs arbitrary: b) (auto simp del: bact.simps split: option.splits intro: breachable.step)

definition demo_actions :: "nat baction list" where
  "demo_actions = [Sub None, StreamItem 5, StreamItem 6, Receive 0]"

lemma demo_broadcast:
  "\<exists>b. run_actions bact demo_actions new_broadcaster = Some b \<and> subs b = [0] \<and>
     channels b 0 = Some \<lparr>buffer = [6], received = [5], closed = False, offered = [5, 6]\<rparr>"
  by (simp add: demo_actions_def new_broadcaster_def Subscribe_def start_def stream_item_def offer_def
      receive_def upd_chan_def sub_capacity_def)

lemma broadcast_in_order_witness:
  "\<exists>b s. breachable b \<and> channels b 0 = Some s \<and> received s = [5 :: nat] \<and> buffer s = [6] \<and>
     subseq (received s @ buffer s) (offered s)"
proof -
  obtain b where b: "run_actions bact demo_actions new_broadcaster = Some b"
      "channels b 0 = Some \<lparr>buffer = [6], received = [5], closed = False, offered = [5, 6]\<rparr>"
    using demo_broadcast by blast
  have "breachable b" using breachable_run [OF breachable.init b(1)] .
  with broadcast_in_order [OF this b(2)] b(2) show ?thesis by auto
qed

text \<open>C23. One item of the stream reaches every subscriber: it is appended to the channel of each
  subscriber that has room; a subscriber whose channel is full keeps what it has and is going to be
  unsubscribed; the channels of others do not change.\<close>

theorem stream_item_effect:
  assumes "breachable b" "channels b c = Some s"
  shows "if c \<in> set (subs b)
    then \<exists>s'. channels (stream_item item b) c = Some s' \<and> received s' = received s \<and>
      offered s' = offered s @ [item] \<and>
      (if length (buffer s) < 100 then buffer s' = buffer s @ [item]
       else buffer s' = buffer s \<and> c \<in> set (pendingUnsub (stream_item item b)))
    else channels (stream_item item b) c = Some s"
proof -
  have d: "distinct (subs b)" using binv_reachable [OF assms(1)] by (simp add: binv_def)
  show ?thesis
  proof (cases "c \<in> set (subs b)")
    case True
    from stream_item_channel [OF d True assms(2), of item] fold_offer_full [OF True assms(2), of item]
    show ?thesis using True by (auto simp: stream_item_def sub_capacity_def)
  next
    case False
    with assms(2) show ?thesis by (simp add: stream_item_def fold_offer_other)
  qed
qed

lemma stream_item_effect_witness:
  "\<exists>b s s'. breachable b \<and> channels b 0 = Some s \<and> channels (stream_item 7 b) 0 = Some s' \<and>
     buffer s = [6 :: nat] \<and> buffer s' = [6, 7]"
proof -
  obtain b where b: "run_actions bact demo_actions new_broadcaster = Some b" "subs b = [0]"
      "channels b 0 = Some \<lparr>buffer = [6], received = [5], closed = False, offered = [5, 6]\<rparr>"
    using demo_broadcast by blast
  have "breachable b" using breachable_run [OF breachable.init b(1)] .
  with stream_item_effect [OF this b(3), of 7] b show ?thesis by auto
qed

end
