(* ===== verification/Service.thy ===== *)
theory Service
  imports Process
begin

text \<open>
  Handlers that call remote services.  A call changes the state \<open>'w\<close> of the world behind the
  service and returns a value or an error; a handler that dereferences a nil pointer panics.
  The services themselves (the gRPC stubs of the process manager and of SPDK) are records of
  such calls, parameters of the handlers.
\<close>

section \<open>Calls\<close>

datatype 'a outcome = Ret 'a | Fail error | Panic

type_synonym ('w, 'a) call = "'w \<Rightarrow> 'a outcome \<times> 'w"

definition ret :: "'a \<Rightarrow> ('w, 'a) call" where
  "ret x w = (Ret x, w)"

definition fail :: "error \<Rightarrow> ('w, 'a) call" where
  "fail e w = (Fail e, w)"

definition panic :: "('w, 'a) call" where
  "panic w = (Panic, w)"

text \<open>
  \<open>on_error m f k\<close> is the Go idiom of a call whose error is returned after the change \<open>f\<close>, and
  whose value is used by \<open>k\<close>.
\<close>

definition on_error :: "('w, 'a) call \<Rightarrow> (error \<Rightarrow> error) \<Rightarrow> ('a \<Rightarrow> ('w, 'b) call) \<Rightarrow> ('w, 'b) call" where
  "on_error m f k w =
     (case m w of
        (Ret x, w') \<Rightarrow> k x w'
      | (Fail e, w') \<Rightarrow> (Fail (f e), w')
      | (Panic, w') \<Rightarrow> (Panic, w'))"

text \<open>
  \<open>with_conn\<close> opens a connection, runs a body and closes the connection again when the body
  returns, fails or panics: \<open>c, err := New...; if err != nil { return f(err) }; defer c.Close()\<close>.
\<close>

definition with_conn ::
  "('w, unit) call \<Rightarrow> (error \<Rightarrow> error) \<Rightarrow> ('w \<Rightarrow> 'w) \<Rightarrow> ('w, 'a) call \<Rightarrow> ('w, 'a) call" where
  "with_conn open f close body w =
     (case open w of
        (Ret _, w') \<Rightarrow> (case body w' of (r, w'') \<Rightarrow> (r, close w''))
      | (Fail e, w') \<Rightarrow> (Fail (f e), w')
      | (Panic, w') \<Rightarrow> (Panic, w'))"

text \<open>\<open>grpcstatus.Error(codes.Internal, errors.Wrapf(err, m).Error())\<close>.\<close>

definition internal_error :: "string \<Rightarrow> error \<Rightarrow> error" where
  "internal_error m e = Status Internal (error_string (Wrap m e))"

lemma call_simps [simp]:
  "ret x w = (Ret x, w)" "fail e w = (Fail e, w)" "panic w = (Panic, w)"
  by (simp_all add: ret_def fail_def panic_def)

lemma on_error_simps [simp]:
  "m w = (Ret x, w') \<Longrightarrow> on_error m f k w = k x w'"
  "m w = (Fail e, w') \<Longrightarrow> on_error m f k w = (Fail (f e), w')"
  "m w = (Panic, w') \<Longrightarrow> on_error m f k w = (Panic, w')"
  by (simp_all add: on_error_def)

lemma on_error_Ret:
  "on_error m f k w = (Ret y, w'') \<longleftrightarrow> (\<exists>x w'. m w = (Ret x, w') \<and> k x w' = (Ret y, w''))"
  by (auto simp: on_error_def split: prod.splits outcome.splits)

lemma on_error_Fail:
  "on_error m f k w = (Fail e, w'') \<longleftrightarrow>
     (\<exists>e'. m w = (Fail e', w'') \<and> e = f e') \<or> (\<exists>x w'. m w = (Ret x, w') \<and> k x w' = (Fail e, w''))"
  by (auto simp: on_error_def split: prod.splits outcome.splits)

lemma snd_on_error_ret: "snd (on_error m f ret w) = snd (m w)"
  by (simp add: on_error_def split: prod.splits outcome.splits)

lemma with_conn_simps [simp]:
  "open w = (Ret x, w') \<Longrightarrow> with_conn open f close body w = (case body w' of (r, w'') \<Rightarrow> (r, close w''))"
  "open w = (Fail e, w') \<Longrightarrow> with_conn open f close body w = (Fail (f e), w')"
  "open w = (Panic, w') \<Longrightarrow> with_conn open f close body w = (Panic, w')"
  by (simp_all add: with_conn_def)

section \<open>Balance of connections\<close>

text \<open>
  A call is balanced for a count of open connections when it leaves the count as it was; it opens
  a connection when it adds one exactly if it returns.
\<close>

definition balanced :: "('w \<Rightarrow> int) \<Rightarrow> ('w, 'a) call \<Rightarrow> bool" where
  "balanced conns m \<longleftrightarrow> (\<forall>w. conns (snd (m w)) = conns w)"

definition opens :: "('w \<Rightarrow> int) \<Rightarrow> ('w, 'a) call \<Rightarrow> bool" where
  "opens conns m \<longleftrightarrow>
     (\<forall>w. conns (snd (m w)) = conns w + (case fst (m w) of Ret _ \<Rightarrow> 1 | _ \<Rightarrow> 0))"

definition closes :: "('w \<Rightarrow> int) \<Rightarrow> ('w \<Rightarrow> 'w) \<Rightarrow> bool" where
  "closes conns f \<longleftrightarrow> (\<forall>w. conns (f w) = conns w - 1)"

named_theorems balance

lemma balanced_simple [balance]:
  "balanced conns (ret x)" "balanced conns (fail e)" "balanced conns panic"
  by (simp_all add: balanced_def)

lemma balanced_on_error [balance]:
  "balanced conns m \<Longrightarrow> (\<And>x. balanced conns (k x)) \<Longrightarrow> balanced conns (on_error m f k)"
  unfolding balanced_def by (simp add: on_error_def split: prod.splits outcome.splits) (metis snd_conv)

lemma balanced_with_conn [balance]:
  "opens conns open \<Longrightarrow> closes conns close \<Longrightarrow> balanced conns body \<Longrightarrow>
    balanced conns (with_conn open f close body)"
  unfolding balanced_def opens_def closes_def
  by (simp add: with_conn_def split: prod.splits outcome.splits) (metis add_diff_cancel_right' fst_conv outcome.simps(10-12) snd_conv add.right_neutral)

lemma balanced_if [balance]:
  "(b \<Longrightarrow> balanced conns m) \<Longrightarrow> (\<not> b \<Longrightarrow> balanced conns n) \<Longrightarrow> balanced conns (if b then m else n)"
  by simp

lemma balanced_option [balance]:
  "(x = None \<Longrightarrow> balanced conns m) \<Longrightarrow> (\<And>y. x = Some y \<Longrightarrow> balanced conns (k y)) \<Longrightarrow>
    balanced conns (case x of None \<Rightarrow> m | Some y \<Rightarrow> k y)"
  by (cases x) auto

lemma balanced_sum [balance]:
  "(\<And>e. x = Inl e \<Longrightarrow> balanced conns (j e)) \<Longrightarrow> (\<And>y. x = Inr y \<Longrightarrow> balanced conns (k y)) \<Longrightarrow>
    balanced conns (case x of Inl e \<Rightarrow> j e | Inr y \<Rightarrow> k y)"
  by (cases x) auto

lemma balanced_prod [balance]:
  "(\<And>a b. x = (a, b) \<Longrightarrow> balanced conns (k a b)) \<Longrightarrow> balanced conns (case x of (a, b) \<Rightarrow> k a b)"
  by (cases x) auto

text \<open>The difference of two counts, when a call changes one of them, both, or none.\<close>

lemma balanced_diff: "balanced f m \<Longrightarrow> balanced g m \<Longrightarrow> balanced (\<lambda>w. f w - g w) m"
  by (simp add: balanced_def)

lemma opens_diff: "opens f m \<Longrightarrow> balanced g m \<Longrightarrow> opens (\<lambda>w. f w - g w) m"
  by (simp add: opens_def balanced_def)

lemma opens_both: "opens f m \<Longrightarrow> opens g m \<Longrightarrow> balanced (\<lambda>w. f w - g w) m"
  by (simp add: opens_def balanced_def)

section \<open>Enumerations of the protocol\<close>

text \<open>Values of protocol enumerations are open: an \<open>int32\<close>, with names for some of them.\<close>

definition DATA_ENGINE_V1 :: int where "DATA_ENGINE_V1 = 0"
definition DATA_ENGINE_V2 :: int where "DATA_ENGINE_V2 = 1"
definition DiskType_filesystem :: int where "DiskType_filesystem = 0"
definition DiskType_block :: int where "DiskType_block = 1"

definition DataEngine_String :: "int \<Rightarrow> string" where
  "DataEngine_String x =
     (if x = DATA_ENGINE_V1 then ''DATA_ENGINE_V1'' else if x = DATA_ENGINE_V2 then ''DATA_ENGINE_V2''
      else itoa x)"

definition DiskType_String :: "int \<Rightarrow> string" where
  "DiskType_String x =
     (if x = DiskType_filesystem then ''filesystem'' else if x = DiskType_block then ''block'' else itoa x)"

definition BackendStoreDriver_String :: "int \<Rightarrow> string" where
  "BackendStoreDriver_String x = (if x = 0 then ''v1'' else if x = 1 then ''v2'' else itoa x)"

section \<open>Errors of tasks\<close>

record replica_error =
  reAddress :: string
  reMessage :: string

definition ReplicaError_Error :: "replica_error \<Rightarrow> string" where
  "ReplicaError_Error e = reAddress e @ '': '' @ reMessage e"

definition TaskError_Error :: "replica_error list \<Rightarrow> string" where
  "TaskError_Error errs = (if errs = [] then ''Unknown'' else join ''; '' (map ReplicaError_Error errs))"

section \<open>The process manager as a service\<close>

record 'w pm_service =
  pmConnect :: "string \<Rightarrow> ('w, unit) call"
  pmClose :: "string \<Rightarrow> 'w \<Rightarrow> 'w"
  rpcProcessCreate :: "process_spec \<Rightarrow> ('w, process_response) call"
  rpcProcessDelete :: "string \<Rightarrow> ('w, process_response) call"
  rpcProcessGet :: "string \<Rightarrow> ('w, process_response) call"
  rpcProcessList :: "('w, (string \<times> process_response) list) call"
  rpcProcessReplace :: "process_spec \<Rightarrow> string \<Rightarrow> ('w, process_response) call"
  rpcProcessLog :: "string \<Rightarrow> ('w, string list \<times> error option) call"

text \<open>\<open>pkg/client/process_manager.go\<close>: the client checks its arguments before it calls.\<close>

definition NewProcessManagerClient :: "'w pm_service \<Rightarrow> string \<Rightarrow> ('w, unit) call" where
  "NewProcessManagerClient svc serviceURL =
     on_error (pmConnect svc serviceURL) (Wrap (''cannot connect to ProcessManagerService '' @ serviceURL)) ret"

definition Client_ProcessCreate ::
  "'w pm_service \<Rightarrow> string \<Rightarrow> string \<Rightarrow> int \<Rightarrow> string list \<Rightarrow> string list \<Rightarrow> ('w, process_response) call" where
  "Client_ProcessCreate svc name binary portCount args portArgs =
     (if name = '''' \<or> binary = '''' then fail (Err ''failed to start process: missing required parameter'')
      else rpcProcessCreate svc \<lparr>psName = name, psBinary = binary, psArgs = args,
             psPortCount = to_int32 portCount, psPortArgs = portArgs\<rparr>)"

definition Client_ProcessDelete :: "'w pm_service \<Rightarrow> string \<Rightarrow> ('w, process_response) call" where
  "Client_ProcessDelete svc name =
     (if name = '''' then fail (Err ''failed to delete process: missing required parameter name'')
      else rpcProcessDelete svc name)"

definition Client_ProcessGet :: "'w pm_service \<Rightarrow> string \<Rightarrow> ('w, process_response) call" where
  "Client_ProcessGet svc name =
     (if name = '''' then fail (Err ''failed to get process: missing required parameter name'')
      else rpcProcessGet svc name)"

definition Client_ProcessList :: "'w pm_service \<Rightarrow> ('w, (string \<times> process_response) list) call" where
  "Client_ProcessList svc = on_error (rpcProcessList svc) (Wrap ''failed to list processes'') ret"

definition Client_ProcessLog :: "'w pm_service \<Rightarrow> string \<Rightarrow> ('w, string list \<times> error option) call" where
  "Client_ProcessLog svc name =
     (if name = '''' then fail (Err ''failed to get process: missing required parameter name'')
      else on_error (rpcProcessLog svc name) (Wrap (''failed to get process log of '' @ name)) ret)"

definition Client_ProcessReplace ::
  "'w pm_service \<Rightarrow> string \<Rightarrow> string \<Rightarrow> int \<Rightarrow> string list \<Rightarrow> string list \<Rightarrow> string \<Rightarrow>
     ('w, process_response) call" where
  "Client_ProcessReplace svc name binary portCount args portArgs terminateSignal =
     (if name = '''' \<or> binary = '''' then fail (Err ''failed to start process: missing required parameter'')
      else if terminateSignal \<noteq> ''SIGHUP'' then fail (Err (''unsupported terminate signal '' @ terminateSignal))
      else rpcProcessReplace svc \<lparr>psName = name, psBinary = binary, psArgs = args,
             psPortCount = to_int32 portCount, psPortArgs = portArgs\<rparr> terminateSignal)"

section \<open>Versions\<close>

record version_output =
  vVersion :: string
  vGitCommit :: string
  vBuildDate :: string
  vAPIVersion :: int
  vAPIMinVersion :: int
  vProxyAPIVersion :: int
  vProxyAPIMinVersion :: int

definition InstanceManagerAPIVersion :: int where "InstanceManagerAPIVersion = 6"
definition InstanceManagerAPIMinVersion :: int where "InstanceManagerAPIMinVersion = 1"
definition InstanceManagerProxyAPIVersion :: int where "InstanceManagerProxyAPIVersion = 5"
definition InstanceManagerProxyAPIMinVersion :: int where "InstanceManagerProxyAPIMinVersion = 1"
definition InstanceManagerDiskServiceAPIVersion :: int where "InstanceManagerDiskServiceAPIVersion = 1"
definition InstanceManagerDiskServiceAPIMinVersion :: int where "InstanceManagerDiskServiceAPIMinVersion = 1"

text \<open>\<open>GetVersion\<close>; the build data are package variables filled in at link time.\<close>

definition GetVersion :: "string \<Rightarrow> string \<Rightarrow> string \<Rightarrow> version_output" where
  "GetVersion version gitCommit buildDate =
     \<lparr>vVersion = version, vGitCommit = gitCommit, vBuildDate = buildDate,
      vAPIVersion = InstanceManagerAPIVersion, vAPIMinVersion = InstanceManagerAPIMinVersion,
      vProxyAPIVersion = InstanceManagerProxyAPIVersion,
      vProxyAPIMinVersion = InstanceManagerProxyAPIMinVersion\<rparr>"

text \<open>The handlers answer it with the numbers as \<open>int64\<close>, and the clients read them as \<open>int\<close>.\<close>

definition VersionGet :: "version_output \<Rightarrow> version_output" where
  "VersionGet v = v\<lparr>vAPIVersion := to_int64 (vAPIVersion v), vAPIMinVersion := to_int64 (vAPIMinVersion v),
      vProxyAPIVersion := to_int64 (vProxyAPIVersion v),
      vProxyAPIMinVersion := to_int64 (vProxyAPIMinVersion v)\<rparr>"

record disk_version_output =
  dvVersion :: string
  dvGitCommit :: string
  dvBuildDate :: string
  dvAPIVersion :: int
  dvAPIMinVersion :: int

definition GetDiskServiceVersion :: "string \<Rightarrow> string \<Rightarrow> string \<Rightarrow> disk_version_output" where
  "GetDiskServiceVersion version gitCommit buildDate =
     \<lparr>dvVersion = version, dvGitCommit = gitCommit, dvBuildDate = buildDate,
      dvAPIVersion = InstanceManagerDiskServiceAPIVersion,
      dvAPIMinVersion = InstanceManagerDiskServiceAPIMinVersion\<rparr>"

definition Disk_VersionGet :: "disk_version_output \<Rightarrow> disk_version_output" where
  "Disk_VersionGet v = v\<lparr>dvAPIVersion := to_int64 (dvAPIVersion v), dvAPIMinVersion := to_int64 (dvAPIMinVersion v)\<rparr>"

end
