(* ===== verification/Instance_Model.thy ===== *)
theory Instance_Model
  imports Service Manager
begin

text \<open>
  The instance service of \<open>pkg/instance/instance.go\<close> and \<open>pkg/instance/log.go\<close>: one set of
  requests for two data engines.  The v1 engine keeps its instances as processes of the process
  manager, the v2 engine as engines and replicas of an SPDK service.
\<close>

section \<open>The SPDK service\<close>

record lvol =
  lvName :: string
  lvActualSize :: nat
  lvParent :: string
  lvChildren :: "string \<rightharpoonup> bool"
  lvCreationTime :: string
  lvUserCreated :: bool
  lvSnapshotTimestamp :: string

text \<open>
  Maps that the code iterates are association lists with distinct keys, in the order of the
  iteration.
\<close>

record spdk_engine =
  eName :: string
  eSpecSize :: nat
  eFrontend :: string
  eEndpoint :: string
  eReplicaAddressMap :: "(string \<times> string) list"
  eReplicaModeMap :: "(string \<times> string) list"
  eHead :: "lvol option"
  eSnapshots :: "string \<rightharpoonup> lvol"
  eState :: string
  eErrorMsg :: string
  ePort :: int
  eTargetPort :: int
  eStandbyTargetPort :: int

record spdk_replica =
  rName :: string
  rLvsName :: string
  rLvsUUID :: string
  rSpecSize :: nat
  rActualSize :: nat
  rState :: string
  rErrorMsg :: string
  rPortStart :: int
  rPortEnd :: int

record spdk_disk =
  dId :: string
  dName :: string
  dUuid :: string
  dPath :: string
  dType :: string
  dDriver :: string
  dTotalSize :: int
  dFreeSize :: int
  dTotalBlocks :: int
  dFreeBlocks :: int
  dBlockSize :: int
  dClusterSize :: int

record engine_create =
  ecName :: string
  ecVolumeName :: string
  ecFrontend :: string
  ecSize :: nat
  ecReplicaAddressMap :: "string \<rightharpoonup> string"
  ecPortCount :: int
  ecInitiatorAddress :: string
  ecTargetAddress :: string
  ecSalvageRequested :: bool

record replica_create =
  rcName :: string
  rcDiskName :: string
  rcDiskUuid :: string
  rcSize :: nat
  rcPortCount :: int
  rcBackingImageName :: string

record 'w spdk_service =
  spdkConnect :: "string \<Rightarrow> ('w, unit) call"
  spdkClose :: "string \<Rightarrow> 'w \<Rightarrow> 'w"
  spdkEngineCreate :: "engine_create \<Rightarrow> ('w, spdk_engine) call"
  spdkEngineDelete :: "string \<Rightarrow> ('w, unit) call"
  spdkEngineGet :: "string \<Rightarrow> ('w, spdk_engine) call"
  spdkEngineList :: "('w, spdk_engine list) call"
  spdkEngineSuspend :: "string \<Rightarrow> ('w, unit) call"
  spdkEngineResume :: "string \<Rightarrow> ('w, unit) call"
  spdkEngineSwitchOverTarget :: "string \<Rightarrow> string \<Rightarrow> ('w, unit) call"
  spdkEngineDeleteTarget :: "string \<Rightarrow> ('w, unit) call"
  spdkReplicaCreate :: "replica_create \<Rightarrow> ('w, spdk_replica) call"
  spdkReplicaDelete :: "string \<Rightarrow> bool \<Rightarrow> ('w, unit) call"
  spdkReplicaGet :: "string \<Rightarrow> ('w, spdk_replica) call"
  spdkReplicaList :: "('w, (string \<times> spdk_replica) list) call"
  spdkDiskCreate :: "string \<Rightarrow> string \<Rightarrow> string \<Rightarrow> string \<Rightarrow> int \<Rightarrow> ('w, spdk_disk) call"
  spdkDiskDelete :: "string \<Rightarrow> string \<Rightarrow> string \<Rightarrow> string \<Rightarrow> ('w, unit) call"
  spdkDiskGet :: "string \<Rightarrow> string \<Rightarrow> string \<Rightarrow> ('w, spdk_disk) call"
  spdkLogSetLevel :: "string \<Rightarrow> ('w, unit) call"
  spdkLogSetFlags :: "string \<Rightarrow> ('w, unit) call"
  spdkLogGetFlags :: "('w, string) call"

text \<open>
  The levels of the logging library logrus, their names, and the parser, which ignores case and knows
  two names of a warning.  The \<open>quote\<close> is the quoting of \<open>fmt\<close> (the verb \<open>%q\<close>).
\<close>

datatype log_level = PanicLevel | FatalLevel | ErrorLevel | WarnLevel | InfoLevel | DebugLevel | TraceLevel

fun Level_String :: "log_level \<Rightarrow> string" where
  "Level_String TraceLevel = ''trace''"
| "Level_String DebugLevel = ''debug''"
| "Level_String InfoLevel = ''info''"
| "Level_String WarnLevel = ''warning''"
| "Level_String ErrorLevel = ''error''"
| "Level_String FatalLevel = ''fatal''"
| "Level_String PanicLevel = ''panic''"

definition ParseLevel :: "(string \<Rightarrow> string) \<Rightarrow> string \<Rightarrow> log_level result" where
  "ParseLevel quote lvl =
     (let l = to_lower lvl
      in if l = ''panic'' then Inr PanicLevel
         else if l = ''fatal'' then Inr FatalLevel
         else if l = ''error'' then Inr ErrorLevel
         else if l = ''warn'' \<or> l = ''warning'' then Inr WarnLevel
         else if l = ''info'' then Inr InfoLevel
         else if l = ''debug'' then Inr DebugLevel
         else if l = ''trace'' then Inr TraceLevel
         else Inl (Err (''not a valid logrus Level: '' @ quote lvl)))"

text \<open>The level of the instance manager's own log is part of the world.\<close>

record 'w log_service =
  logQuote :: "string \<Rightarrow> string"
  logGetLevel :: "'w \<Rightarrow> log_level"
  logWriteLevel :: "log_level \<Rightarrow> 'w \<Rightarrow> 'w"

record 'w services =
  pmSvc :: "'w pm_service"
  spdkSvc :: "'w spdk_service"
  logSvc :: "'w log_service"

definition NewSPDKClient :: "'w services \<Rightarrow> string \<Rightarrow> (unit \<Rightarrow> ('w, 'a) call) \<Rightarrow> ('w, 'a) call" where
  "NewSPDKClient S address k =
     on_error (spdkConnect (spdkSvc S) address) (internal_error ''failed to create SPDK client'') k"

text \<open>The clients that a handler creates for one request and closes when it returns.\<close>

definition dial_spdk :: "'w services \<Rightarrow> string \<Rightarrow> ('w, 'a) call \<Rightarrow> ('w, 'a) call" where
  "dial_spdk S address body =
     with_conn (spdkConnect (spdkSvc S) address) (internal_error ''failed to create SPDK client'')
       (spdkClose (spdkSvc S) address) body"

definition dial_pm :: "'w services \<Rightarrow> string \<Rightarrow> ('w, 'a) call \<Rightarrow> ('w, 'a) call" where
  "dial_pm S address body =
     with_conn (NewProcessManagerClient (pmSvc S) (''tcp://'' @ address))
       (internal_error ''failed to create ProcessManagerClient'')
       (pmClose (pmSvc S) (''tcp://'' @ address)) body"

section \<open>Messages\<close>

record process_instance_spec =
  pisBinary :: string
  pisArgs :: "string list"

record spdk_instance_spec =
  sisReplicaAddressMap :: "string \<rightharpoonup> string"
  sisFrontend :: string
  sisSize :: nat
  sisDiskName :: string
  sisDiskUuid :: string
  sisExposeRequired :: bool
  sisBackingImageName :: string
  sisSalvageRequested :: bool

record instance_spec =
  isName :: string
  isType :: string
  isBackendStoreDriver :: int
  isDataEngine :: int
  isVolumeName :: string
  isPortCount :: int
  isPortArgs :: "string list"
  isProcessInstanceSpec :: "process_instance_spec option"
  isSpdkInstanceSpec :: "spdk_instance_spec option"
  isUpgradeRequired :: bool
  isInitiatorAddress :: string
  isTargetAddress :: string

record instance_status =
  istState :: string
  istErrorMsg :: string
  istConditions :: "string \<rightharpoonup> bool"
  istPortStart :: int
  istPortEnd :: int
  istTargetPortStart :: int
  istTargetPortEnd :: int
  istStandbyTargetPortStart :: int
  istStandbyTargetPortEnd :: int

record instance_response =
  irSpec :: instance_spec
  irStatus :: instance_status
  irDeleted :: bool

definition zero_instance_spec :: instance_spec where
  "zero_instance_spec = \<lparr>isName = '''', isType = '''', isBackendStoreDriver = 0, isDataEngine = 0,
     isVolumeName = '''', isPortCount = 0, isPortArgs = [], isProcessInstanceSpec = None,
     isSpdkInstanceSpec = None, isUpgradeRequired = False, isInitiatorAddress = '''', isTargetAddress = ''''\<rparr>"

definition zero_instance_status :: instance_status where
  "zero_instance_status = \<lparr>istState = '''', istErrorMsg = '''', istConditions = Map.empty,
     istPortStart = 0, istPortEnd = 0, istTargetPortStart = 0, istTargetPortEnd = 0,
     istStandbyTargetPortStart = 0, istStandbyTargetPortEnd = 0\<rparr>"

record delete_request =
  dqName :: string
  dqType :: string
  dqDataEngine :: int
  dqDiskUuid :: string
  dqCleanupRequired :: bool

section \<open>Conversions\<close>

definition processResponseToInstanceResponse :: "process_response \<Rightarrow> string \<Rightarrow> instance_response" where
  "processResponseToInstanceResponse p processType =
     \<lparr>irSpec = zero_instance_spec\<lparr>isName := psName (prSpec p), isType := processType,
        isBackendStoreDriver := 0, isDataEngine := DATA_ENGINE_V1,
        isProcessInstanceSpec := Some \<lparr>pisBinary = psBinary (prSpec p), pisArgs = psArgs (prSpec p)\<rparr>,
        isPortCount := psPortCount (prSpec p), isPortArgs := psPortArgs (prSpec p)\<rparr>,
      irStatus = zero_instance_status\<lparr>istState := pstState (prStatus p),
        istPortStart := pstPortStart (prStatus p), istPortEnd := pstPortEnd (prStatus p),
        istTargetPortStart := (if processType = InstanceTypeEngine then pstPortStart (prStatus p) else 0),
        istTargetPortEnd := (if processType = InstanceTypeEngine then pstPortEnd (prStatus p) else 0),
        istErrorMsg := pstErrorMsg (prStatus p), istConditions := pstConditions (prStatus p)\<rparr>,
      irDeleted = prDeleted p\<rparr>"

definition replicaResponseToInstanceResponse :: "spdk_replica \<Rightarrow> instance_response" where
  "replicaResponseToInstanceResponse r =
     \<lparr>irSpec = zero_instance_spec\<lparr>isName := rName r, isType := InstanceTypeReplica,
        isBackendStoreDriver := 1, isDataEngine := DATA_ENGINE_V2\<rparr>,
      irStatus = zero_instance_status\<lparr>istState := rState r, istErrorMsg := rErrorMsg r,
        istPortStart := rPortStart r, istPortEnd := rPortEnd r\<rparr>,
      irDeleted = False\<rparr>"

definition engineResponseToInstanceResponse :: "spdk_engine \<Rightarrow> instance_response" where
  "engineResponseToInstanceResponse e =
     \<lparr>irSpec = zero_instance_spec\<lparr>isName := eName e, isType := InstanceTypeEngine,
        isBackendStoreDriver := 1, isDataEngine := DATA_ENGINE_V2\<rparr>,
      irStatus = zero_instance_status\<lparr>istState := eState e, istErrorMsg := eErrorMsg e,
        istPortStart := ePort e, istPortEnd := ePort e,
        istTargetPortStart := eTargetPort e, istTargetPortEnd := eTargetPort e,
        istStandbyTargetPortStart := eStandbyTargetPort e, istStandbyTargetPortEnd := eStandbyTargetPort e\<rparr>,
      irDeleted = False\<rparr>"

section \<open>The server\<close>

datatype instance_ops =
    V1DataEngineInstanceOps string
  | V2DataEngineInstanceOps string

record server =
  svV2DataEngineEnabled :: bool
  svOps :: "int \<rightharpoonup> instance_ops"

definition NewServer :: "string \<Rightarrow> string \<Rightarrow> bool \<Rightarrow> server" where
  "NewServer processManagerServiceAddress spdkServiceAddress v2DataEngineEnabled =
     \<lparr>svV2DataEngineEnabled = v2DataEngineEnabled,
      svOps = [DATA_ENGINE_V1 \<mapsto> V1DataEngineInstanceOps processManagerServiceAddress,
               DATA_ENGINE_V2 \<mapsto> V2DataEngineInstanceOps spdkServiceAddress]\<rparr>"

definition unsupported_engine :: "int \<Rightarrow> error" where
  "unsupported_engine e = Status Unimplemented (''unsupported data engine '' @ DataEngine_String e)"

definition with_ops :: "server \<Rightarrow> int \<Rightarrow> (instance_ops \<Rightarrow> ('w, 'a) call) \<Rightarrow> ('w, 'a) call" where
  "with_ops s engine k =
     (case svOps s engine of None \<Rightarrow> fail (unsupported_engine engine) | Some ops \<Rightarrow> k ops)"

definition unknown_type :: "string \<Rightarrow> error" where
  "unknown_type t = Status InvalidArgument (''unknown instance type '' @ t)"

section \<open>Requests that change instances\<close>

fun Ops_InstanceCreate :: "'w services \<Rightarrow> instance_ops \<Rightarrow> instance_spec \<Rightarrow> ('w, instance_response) call" where
  "Ops_InstanceCreate S (V1DataEngineInstanceOps addr) spec =
     (case isProcessInstanceSpec spec of
        None \<Rightarrow> fail (Status InvalidArgument ''ProcessInstanceSpec is required for longhorn data engine'')
      | Some pis \<Rightarrow>
          dial_pm S addr (
            on_error (Client_ProcessCreate (pmSvc S) (isName spec) (pisBinary pis) (isPortCount spec)
                        (pisArgs pis) (isPortArgs spec)) id
              (\<lambda>p. ret (processResponseToInstanceResponse p (isType spec)))))"
| "Ops_InstanceCreate S (V2DataEngineInstanceOps addr) spec =
     dial_spdk S addr (
       if isType spec = InstanceTypeEngine then
         (case isSpdkInstanceSpec spec of
            None \<Rightarrow> panic
          | Some sis \<Rightarrow>
              on_error (spdkEngineCreate (spdkSvc S)
                  \<lparr>ecName = isName spec, ecVolumeName = isVolumeName spec, ecFrontend = sisFrontend sis,
                   ecSize = sisSize sis, ecReplicaAddressMap = sisReplicaAddressMap sis,
                   ecPortCount = isPortCount spec, ecInitiatorAddress = isInitiatorAddress spec,
                   ecTargetAddress = isTargetAddress spec, ecSalvageRequested = sisSalvageRequested sis\<rparr>) id
                (\<lambda>e. ret (engineResponseToInstanceResponse e)))
       else if isType spec = InstanceTypeReplica then
         (case isSpdkInstanceSpec spec of
            None \<Rightarrow> panic
          | Some sis \<Rightarrow>
              on_error (spdkReplicaCreate (spdkSvc S)
                  \<lparr>rcName = isName spec, rcDiskName = sisDiskName sis, rcDiskUuid = sisDiskUuid sis,
                   rcSize = sisSize sis, rcPortCount = isPortCount spec,
                   rcBackingImageName = sisBackingImageName sis\<rparr>) id
                (\<lambda>r. ret (replicaResponseToInstanceResponse r)))
       else fail (unknown_type (isType spec)))"

definition InstanceCreate :: "'w services \<Rightarrow> server \<Rightarrow> instance_spec \<Rightarrow> ('w, instance_response) call" where
  "InstanceCreate S s spec = with_ops s (isDataEngine spec) (\<lambda>ops. Ops_InstanceCreate S ops spec)"

fun Ops_InstanceDelete :: "'w services \<Rightarrow> instance_ops \<Rightarrow> delete_request \<Rightarrow> ('w, instance_response) call" where
  "Ops_InstanceDelete S (V1DataEngineInstanceOps addr) req =
     dial_pm S addr (
       on_error (Client_ProcessDelete (pmSvc S) (dqName req)) id
         (\<lambda>p. ret (processResponseToInstanceResponse p (dqType req))))"
| "Ops_InstanceDelete S (V2DataEngineInstanceOps addr) req =
     dial_spdk S addr (
       on_error
         (if dqType req = InstanceTypeEngine then
            (if dqCleanupRequired req then spdkEngineDelete (spdkSvc S) (dqName req) else ret ())
          else if dqType req = InstanceTypeReplica then
            spdkReplicaDelete (spdkSvc S) (dqName req) (dqCleanupRequired req)
          else fail (unknown_type (dqType req))) id
         (\<lambda>_. ret \<lparr>irSpec = zero_instance_spec\<lparr>isName := dqName req\<rparr>,
                   irStatus = zero_instance_status\<lparr>istState := state_string StateStopped\<rparr>,
                   irDeleted = True\<rparr>))"

definition InstanceDelete :: "'w services \<Rightarrow> server \<Rightarrow> delete_request \<Rightarrow> ('w, instance_response) call" where
  "InstanceDelete S s req = with_ops s (dqDataEngine req) (\<lambda>ops. Ops_InstanceDelete S ops req)"

fun Ops_InstanceReplace ::
  "'w services \<Rightarrow> instance_ops \<Rightarrow> instance_spec \<Rightarrow> string \<Rightarrow> ('w, instance_response) call" where
  "Ops_InstanceReplace S (V1DataEngineInstanceOps addr) spec terminateSignal =
     (case isProcessInstanceSpec spec of
        None \<Rightarrow> fail (Status InvalidArgument ''ProcessInstanceSpec is required for longhorn data engine'')
      | Some pis \<Rightarrow>
          dial_pm S addr (
            on_error (Client_ProcessReplace (pmSvc S) (isName spec) (pisBinary pis) (isPortCount spec)
                        (pisArgs pis) (isPortArgs spec) terminateSignal) id
              (\<lambda>p. ret (processResponseToInstanceResponse p (isType spec)))))"
| "Ops_InstanceReplace S (V2DataEngineInstanceOps addr) spec terminateSignal =
     fail (Status Unimplemented ''v2 data engine instance replace is not supported'')"

definition InstanceReplace ::
  "'w services \<Rightarrow> server \<Rightarrow> instance_spec \<Rightarrow> string \<Rightarrow> ('w, instance_response) call" where
  "InstanceReplace S s spec terminateSignal =
     with_ops s (isDataEngine spec) (\<lambda>ops. Ops_InstanceReplace S ops spec terminateSignal)"

section \<open>Requests that read instances\<close>

fun Ops_InstanceGet :: "'w services \<Rightarrow> instance_ops \<Rightarrow> string \<Rightarrow> string \<Rightarrow> ('w, instance_response) call" where
  "Ops_InstanceGet S (V1DataEngineInstanceOps addr) name type =
     dial_pm S addr (
       on_error (Client_ProcessGet (pmSvc S) name) id
         (\<lambda>p. ret (processResponseToInstanceResponse p type)))"
| "Ops_InstanceGet S (V2DataEngineInstanceOps addr) name type =
     dial_spdk S addr (
       if type = InstanceTypeEngine then
         on_error (spdkEngineGet (spdkSvc S) name) id (\<lambda>e. ret (engineResponseToInstanceResponse e))
       else if type = InstanceTypeReplica then
         on_error (spdkReplicaGet (spdkSvc S) name) id (\<lambda>r. ret (replicaResponseToInstanceResponse r))
       else fail (unknown_type type))"

definition InstanceGet :: "'w services \<Rightarrow> server \<Rightarrow> int \<Rightarrow> string \<Rightarrow> string \<Rightarrow> ('w, instance_response) call" where
  "InstanceGet S s dataEngine name type = with_ops s dataEngine (\<lambda>ops. Ops_InstanceGet S ops name type)"

text \<open>The type of a listed process is read off its name.\<close>

definition process_type :: "string \<Rightarrow> string" where
  "process_type name = (if IsEngineProcess name then InstanceTypeEngine else InstanceTypeReplica)"

fun add_processes ::
  "(string \<times> process_response) list \<Rightarrow> (string \<rightharpoonup> instance_response) \<Rightarrow> (string \<rightharpoonup> instance_response)" where
  "add_processes [] instances = instances"
| "add_processes ((_, p) # ps) instances =
     add_processes ps (instances(psName (prSpec p) \<mapsto>
       processResponseToInstanceResponse p (process_type (psName (prSpec p)))))"

fun add_replicas ::
  "spdk_replica list \<Rightarrow> (string \<rightharpoonup> instance_response) \<Rightarrow> (string \<rightharpoonup> instance_response)" where
  "add_replicas [] instances = instances"
| "add_replicas (r # rs) instances =
     add_replicas rs (instances(rName r \<mapsto> replicaResponseToInstanceResponse r))"

fun add_engines ::
  "spdk_engine list \<Rightarrow> (string \<rightharpoonup> instance_response) \<Rightarrow> (string \<rightharpoonup> instance_response)" where
  "add_engines [] instances = instances"
| "add_engines (e # es) instances =
     add_engines es (instances(eName e \<mapsto> engineResponseToInstanceResponse e))"

fun Ops_InstanceList ::
  "'w services \<Rightarrow> instance_ops \<Rightarrow> (string \<rightharpoonup> instance_response) \<Rightarrow> ('w, string \<rightharpoonup> instance_response) call" where
  "Ops_InstanceList S (V1DataEngineInstanceOps addr) instances =
     dial_pm S addr (
       on_error (Client_ProcessList (pmSvc S)) id (\<lambda>ps. ret (add_processes ps instances)))"
| "Ops_InstanceList S (V2DataEngineInstanceOps addr) instances =
     dial_spdk S addr (
       on_error (spdkReplicaList (spdkSvc S)) id (\<lambda>rs.
         on_error (spdkEngineList (spdkSvc S)) id (\<lambda>es.
           ret (add_engines es (add_replicas (map snd rs) instances)))))"

text \<open>A missing entry of the map of operations would be a nil interface.\<close>

definition ops_or_panic :: "server \<Rightarrow> int \<Rightarrow> (instance_ops \<Rightarrow> ('w, 'a) call) \<Rightarrow> ('w, 'a) call" where
  "ops_or_panic s engine k = (case svOps s engine of None \<Rightarrow> panic | Some ops \<Rightarrow> k ops)"

definition InstanceList :: "'w services \<Rightarrow> server \<Rightarrow> ('w, string \<rightharpoonup> instance_response) call" where
  "InstanceList S s =
     ops_or_panic s DATA_ENGINE_V1 (\<lambda>ops.
       on_error (Ops_InstanceList S ops Map.empty) id (\<lambda>instances.
         if svV2DataEngineEnabled s then
           ops_or_panic s DATA_ENGINE_V2 (\<lambda>ops2.
             on_error (Ops_InstanceList S ops2 instances) id ret)
         else ret instances))"

text \<open>
  \<open>InstanceLog\<close> forwards the lines of the process manager's stream; the stream ends with \<open>EOF\<close>
  or with an error, which is reported when all lines before it could be sent.
\<close>

fun Ops_InstanceLog ::
  "'w services \<Rightarrow> instance_ops \<Rightarrow> (string \<Rightarrow> error option) \<Rightarrow> string \<Rightarrow> ('w, string list \<times> error option) call" where
  "Ops_InstanceLog S (V1DataEngineInstanceOps addr) srv name =
     dial_pm S addr (
       on_error (Client_ProcessLog (pmSvc S) name) id (\<lambda>(lines, streamErr).
         (case send_lines srv lines of
            (sent, Some e) \<Rightarrow> ret (sent, Some e)
          | (sent, None) \<Rightarrow> ret (sent, streamErr))))"
| "Ops_InstanceLog S (V2DataEngineInstanceOps addr) srv name =
     fail (Status Unimplemented ''v2 data engine instance log is not supported'')"

definition InstanceLog ::
  "'w services \<Rightarrow> server \<Rightarrow> (string \<Rightarrow> error option) \<Rightarrow> int \<Rightarrow> string \<Rightarrow> ('w, string list \<times> error option) call" where
  "InstanceLog S s srv dataEngine name = with_ops s dataEngine (\<lambda>ops. Ops_InstanceLog S ops srv name)"

section \<open>Requests for engines of the v2 data engine\<close>

text \<open>
  Suspending, resuming, switching the target over and deleting the target share their shape: only
  engines of the v2 data engine have the operation.
\<close>

definition v2_engine_only ::
  "'w services \<Rightarrow> string \<Rightarrow> string \<Rightarrow> ('w, unit) call \<Rightarrow> string \<Rightarrow> string \<Rightarrow> ('w, unit) call" where
  "v2_engine_only S addr type m what unsupported =
     dial_spdk S addr (
       if type = InstanceTypeEngine then on_error m (internal_error what) ret
       else if type = InstanceTypeReplica
       then fail (Status InvalidArgument (unsupported @ '' is not supported for instance type '' @ type))
       else fail (unknown_type type))"

fun Ops_InstanceSuspend :: "'w services \<Rightarrow> instance_ops \<Rightarrow> string \<Rightarrow> string \<Rightarrow> ('w, unit) call" where
  "Ops_InstanceSuspend S (V1DataEngineInstanceOps addr) name type =
     fail (Status Unimplemented ''v1 data engine instance suspend is not supported'')"
| "Ops_InstanceSuspend S (V2DataEngineInstanceOps addr) name type =
     v2_engine_only S addr type (spdkEngineSuspend (spdkSvc S) name) (''failed to suspend engine '' @ name) ''suspend''"

definition InstanceSuspend :: "'w services \<Rightarrow> server \<Rightarrow> int \<Rightarrow> string \<Rightarrow> string \<Rightarrow> ('w, unit) call" where
  "InstanceSuspend S s dataEngine name type = with_ops s dataEngine (\<lambda>ops. Ops_InstanceSuspend S ops name type)"

fun Ops_InstanceResume :: "'w services \<Rightarrow> instance_ops \<Rightarrow> string \<Rightarrow> string \<Rightarrow> ('w, unit) call" where
  "Ops_InstanceResume S (V1DataEngineInstanceOps addr) name type =
     fail (Status Unimplemented ''v1 data engine instance resume is not supported'')"
| "Ops_InstanceResume S (V2DataEngineInstanceOps addr) name type =
     v2_engine_only S addr type (spdkEngineResume (spdkSvc S) name) (''failed to resume engine '' @ name) ''resume''"

definition InstanceResume :: "'w services \<Rightarrow> server \<Rightarrow> int \<Rightarrow> string \<Rightarrow> string \<Rightarrow> ('w, unit) call" where
  "InstanceResume S s dataEngine name type = with_ops s dataEngine (\<lambda>ops. Ops_InstanceResume S ops name type)"

fun Ops_InstanceSwitchOverTarget ::
  "'w services \<Rightarrow> instance_ops \<Rightarrow> string \<Rightarrow> string \<Rightarrow> string \<Rightarrow> ('w, unit) call" where
  "Ops_InstanceSwitchOverTarget S (V1DataEngineInstanceOps addr) name type targetAddress =
     fail (Status Unimplemented ''v1 data engine instance target switch over is not supported'')"
| "Ops_InstanceSwitchOverTarget S (V2DataEngineInstanceOps addr) name type targetAddress =
     v2_engine_only S addr type (spdkEngineSwitchOverTarget (spdkSvc S) name targetAddress)
       (''failed to switch over target for engine '' @ name) ''target switch over''"

definition InstanceSwitchOverTarget ::
  "'w services \<Rightarrow> server \<Rightarrow> int \<Rightarrow> string \<Rightarrow> string \<Rightarrow> string \<Rightarrow> ('w, unit) call" where
  "InstanceSwitchOverTarget S s dataEngine name type targetAddress =
     with_ops s dataEngine (\<lambda>ops. Ops_InstanceSwitchOverTarget S ops name type targetAddress)"

fun Ops_InstanceDeleteTarget :: "'w services \<Rightarrow> instance_ops \<Rightarrow> string \<Rightarrow> string \<Rightarrow> ('w, unit) call" where
  "Ops_InstanceDeleteTarget S (V1DataEngineInstanceOps addr) name type =
     fail (Status Unimplemented ''v1 data engine instance target delete is not supported'')"
| "Ops_InstanceDeleteTarget S (V2DataEngineInstanceOps addr) name type =
     v2_engine_only S addr type (spdkEngineDeleteTarget (spdkSvc S) name)
       (''failed to delete target for engine '' @ name) ''target deletion''"

definition InstanceDeleteTarget :: "'w services \<Rightarrow> server \<Rightarrow> int \<Rightarrow> string \<Rightarrow> string \<Rightarrow> ('w, unit) call" where
  "InstanceDeleteTarget S s dataEngine name type =
     with_ops s dataEngine (\<lambda>ops. Ops_InstanceDeleteTarget S ops name type)"

section \<open>Logging\<close>

text \<open>\<open>logSetLevel\<close> parses the level, compares it with the current one and writes it if different.\<close>

definition logSetLevel :: "'w services \<Rightarrow> string \<Rightarrow> ('w, unit) call" where
  "logSetLevel S level w =
     (case ParseLevel (logQuote (logSvc S)) level of
        Inl e \<Rightarrow> (Fail e, w)
      | Inr newLevel \<Rightarrow>
          (Ret (), if logGetLevel (logSvc S) w \<noteq> newLevel then logWriteLevel (logSvc S) newLevel w else w))"

fun Ops_LogSetLevel :: "'w services \<Rightarrow> instance_ops \<Rightarrow> string \<Rightarrow> ('w, unit) call" where
  "Ops_LogSetLevel S (V1DataEngineInstanceOps addr) level = on_error (logSetLevel S level) id ret"
| "Ops_LogSetLevel S (V2DataEngineInstanceOps addr) level =
     dial_spdk S addr (
       on_error (spdkLogSetLevel (spdkSvc S) (to_upper level))
         (internal_error ''failed to set v2 data engine log level'') ret)"

definition LogSetLevel :: "'w services \<Rightarrow> server \<Rightarrow> int \<Rightarrow> string \<Rightarrow> ('w, unit) call" where
  "LogSetLevel S s dataEngine level = with_ops s dataEngine (\<lambda>ops. Ops_LogSetLevel S ops level)"

fun Ops_LogSetFlags :: "'w services \<Rightarrow> instance_ops \<Rightarrow> string \<Rightarrow> ('w, unit) call" where
  "Ops_LogSetFlags S (V1DataEngineInstanceOps addr) flags = ret ()"
| "Ops_LogSetFlags S (V2DataEngineInstanceOps addr) flags =
     dial_spdk S addr (
       on_error (spdkLogSetFlags (spdkSvc S) flags) (internal_error ''failed to set log flags'') ret)"

definition LogSetFlags :: "'w services \<Rightarrow> server \<Rightarrow> int \<Rightarrow> string \<Rightarrow> ('w, unit) call" where
  "LogSetFlags S s dataEngine flags = with_ops s dataEngine (\<lambda>ops. Ops_LogSetFlags S ops flags)"

text \<open>Both engines answer the level of the instance manager's own log.\<close>

fun Ops_LogGetLevel :: "'w services \<Rightarrow> instance_ops \<Rightarrow> ('w, string) call" where
  "Ops_LogGetLevel S (V1DataEngineInstanceOps addr) = (\<lambda>w. (Ret (Level_String (logGetLevel (logSvc S) w)), w))"
| "Ops_LogGetLevel S (V2DataEngineInstanceOps addr) = (\<lambda>w. (Ret (Level_String (logGetLevel (logSvc S) w)), w))"

definition LogGetLevel :: "'w services \<Rightarrow> server \<Rightarrow> int \<Rightarrow> ('w, string) call" where
  "LogGetLevel S s dataEngine = with_ops s dataEngine (Ops_LogGetLevel S)"

fun Ops_LogGetFlags :: "'w services \<Rightarrow> instance_ops \<Rightarrow> ('w, string) call" where
  "Ops_LogGetFlags S (V1DataEngineInstanceOps addr) = ret ''''"
| "Ops_LogGetFlags S (V2DataEngineInstanceOps addr) =
     dial_spdk S addr (
       on_error (spdkLogGetFlags (spdkSvc S)) (internal_error ''failed to get log flags'') ret)"

definition LogGetFlags :: "'w services \<Rightarrow> server \<Rightarrow> int \<Rightarrow> ('w, string) call" where
  "LogGetFlags S s dataEngine = with_ops s dataEngine (Ops_LogGetFlags S)"

section \<open>Version\<close>

definition Instance_VersionGet :: "version_output \<Rightarrow> version_output" where
  "Instance_VersionGet v = VersionGet v"

section \<open>Watching\<close>

definition maxMonitorRetryCount :: nat where "maxMonitorRetryCount = 10"

text \<open>
  What a watch loop meets: the context is done, the stream delivers an item, or receiving fails.
  A loop returns how many notifications it has sent and, when it has ended, its error.
\<close>

datatype watch_event = CtxDone error | Item | RecvError error

fun watch_loop :: "string \<Rightarrow> nat \<Rightarrow> watch_event list \<Rightarrow> nat \<times> error option" where
  "watch_loop what failureCount [] =
     (if maxMonitorRetryCount \<le> failureCount
      then (0, Some (Err (''continuously receiving errors for 10 times, stopping watching '' @ what)))
      else (0, None))"
| "watch_loop what failureCount (ev # es) =
     (if maxMonitorRetryCount \<le> failureCount
      then (0, Some (Err (''continuously receiving errors for 10 times, stopping watching '' @ what)))
      else case ev of
          CtxDone e \<Rightarrow> (0, Some e)
        | Item \<Rightarrow> (case watch_loop what failureCount es of (n, r) \<Rightarrow> (Suc n, r))
        | RecvError e \<Rightarrow>
            if status_code e = Canceled then (0, Some e)
            else watch_loop what (Suc failureCount) es)"

definition watch :: "string \<Rightarrow> string \<Rightarrow> error option \<Rightarrow> watch_event list \<Rightarrow> nat \<times> error option" where
  "watch notifier what opened es =
     (case opened of
        Some e \<Rightarrow> (0, Some (Wrap (''failed to create '' @ notifier @ '' watch notifier'') e))
      | None \<Rightarrow> watch_loop what 0 es)"

definition watchProcess :: "error option \<Rightarrow> watch_event list \<Rightarrow> nat \<times> error option" where
  "watchProcess opened es = watch ''process'' ''processes'' opened es"

definition watchSPDKEngine :: "error option \<Rightarrow> watch_event list \<Rightarrow> nat \<times> error option" where
  "watchSPDKEngine opened es = watch ''SPDK engine'' ''SPDK engines'' opened es"

definition watchSPDKReplica :: "error option \<Rightarrow> watch_event list \<Rightarrow> nat \<times> error option" where
  "watchSPDKReplica opened es = watch ''SPDK replica'' ''SPDK replicas'' opened es"

text \<open>
  A loop that forwards notifications: the context is done, or a notification is sent, with the
  outcome of the send.  The instance service and the proxy have one each.
\<close>

datatype notify_event = NotifyDone error | NotifyItem "error option"

fun notify_loop :: "string \<Rightarrow> notify_event list \<Rightarrow> nat \<times> error option" where
  "notify_loop msg [] = (0, None)"
| "notify_loop msg (NotifyDone e # es) = (0, Some e)"
| "notify_loop msg (NotifyItem (Some e) # es) = (0, Some (Wrap msg e))"
| "notify_loop msg (NotifyItem None # es) = (case notify_loop msg es of (n, r) \<Rightarrow> (Suc n, r))"

definition handleNotify :: "notify_event list \<Rightarrow> nat \<times> error option" where
  "handleNotify es = notify_loop ''failed to send instance response'' es"

end
