(* ===== verification/Disk_Model.thy ===== *)
theory Disk_Model
  imports Instance_Model
begin

text \<open>
  The disk service of \<open>pkg/disk/disk.go\<close>.  Filesystem disks are not served; block disks are
  handed to the SPDK client that the server creates when SPDK is enabled.  Without SPDK the
  server still registers the block operations, with a nil client: calling a method of it
  dereferences nil.
\<close>

section \<open>Server\<close>

datatype disk_ops = FilesystemDiskOps | BlockDiskOps "unit option"

record disk_server =
  dsOps :: "int \<rightharpoonup> disk_ops"

definition spdkTgtReadinessProbeTimeout :: nat where "spdkTgtReadinessProbeTimeout = 60"

text \<open>\<open>NewServer\<close>; \<open>dials\<close> are the attempts of \<open>IsSPDKTgtReady\<close> to reach \<open>spdk_tgt\<close>.\<close>

definition NewDiskServer ::
  "'w services \<Rightarrow> bool list \<Rightarrow> bool \<Rightarrow> string \<Rightarrow> ('w, disk_server) call" where
  "NewDiskServer S dials spdkEnabled spdkServiceAddress =
     (let server = (\<lambda>c. \<lparr>dsOps = [DiskType_filesystem \<mapsto> FilesystemDiskOps, DiskType_block \<mapsto> BlockDiskOps c]\<rparr>)
      in if spdkEnabled then
           (if \<not> IsSPDKTgtReady spdkTgtReadinessProbeTimeout dials
            then fail (Err ''spdk_tgt is not ready in 1m0s'')
            else NewSPDKClient S spdkServiceAddress (\<lambda>c. ret (server (Some c))))
         else ret (server None))"

definition unsupported_disk :: "int \<Rightarrow> error" where
  "unsupported_disk t = Status Unimplemented (''unsupported disk type '' @ DiskType_String t)"

definition with_disk_ops :: "disk_server \<Rightarrow> int \<Rightarrow> (disk_ops \<Rightarrow> ('w, 'a) call) \<Rightarrow> ('w, 'a) call" where
  "with_disk_ops s t k = (case dsOps s t of None \<Rightarrow> fail (unsupported_disk t) | Some ops \<Rightarrow> k ops)"

text \<open>A method of the SPDK client, which must not be nil.\<close>

definition client_call :: "unit option \<Rightarrow> ('w, 'a) call \<Rightarrow> ('w, 'a) call" where
  "client_call c m = (case c of None \<Rightarrow> panic | Some _ \<Rightarrow> m)"

definition plain_internal :: "error \<Rightarrow> error" where
  "plain_internal e = Status Internal (error_string e)"

section \<open>Messages\<close>

record disk_request =
  dkType :: int
  dkName :: string
  dkUuid :: string
  dkPath :: string
  dkDriver :: string
  dkBlockSize :: int
  dkReplicaInstanceName :: string

text \<open>\<open>spdkDiskToDisk\<close> copies the fields one by one.\<close>

definition spdkDiskToDisk :: "spdk_disk \<Rightarrow> spdk_disk" where
  "spdkDiskToDisk d =
     \<lparr>dId = dId d, dName = dName d, dUuid = dUuid d, dPath = dPath d, dType = dType d, dDriver = dDriver d,
      dTotalSize = dTotalSize d, dFreeSize = dFreeSize d, dTotalBlocks = dTotalBlocks d,
      dFreeBlocks = dFreeBlocks d, dBlockSize = dBlockSize d, dClusterSize = dClusterSize d\<rparr>"

record replica_instance =
  riName :: string
  riDiskName :: string
  riDiskUuid :: string
  riSpecSize :: nat
  riActualSize :: nat

definition replicaToReplicaInstance :: "spdk_replica \<Rightarrow> replica_instance" where
  "replicaToReplicaInstance r =
     \<lparr>riName = rName r, riDiskName = rLvsName r, riDiskUuid = rLvsUUID r,
      riSpecSize = rSpecSize r, riActualSize = rActualSize r\<rparr>"

section \<open>Requests\<close>

fun Ops_DiskCreate :: "'w services \<Rightarrow> disk_ops \<Rightarrow> disk_request \<Rightarrow> ('w, spdk_disk) call" where
  "Ops_DiskCreate S FilesystemDiskOps req = fail (unsupported_disk (dkType req))"
| "Ops_DiskCreate S (BlockDiskOps c) req =
     on_error (client_call c (spdkDiskCreate (spdkSvc S) (dkName req) (dkUuid req) (dkPath req)
                                (dkDriver req) (dkBlockSize req))) plain_internal
       (\<lambda>d. ret (spdkDiskToDisk d))"

definition DiskCreate :: "'w services \<Rightarrow> disk_server \<Rightarrow> disk_request \<Rightarrow> ('w, spdk_disk) call" where
  "DiskCreate S s req =
     (if dkName req = '''' \<or> dkPath req = ''''
      then fail (Status InvalidArgument ''disk name and disk path are required'')
      else with_disk_ops s (dkType req) (\<lambda>ops. Ops_DiskCreate S ops req))"

fun Ops_DiskDelete :: "'w services \<Rightarrow> disk_ops \<Rightarrow> disk_request \<Rightarrow> ('w, unit) call" where
  "Ops_DiskDelete S FilesystemDiskOps req = fail (unsupported_disk (dkType req))"
| "Ops_DiskDelete S (BlockDiskOps c) req =
     client_call c (spdkDiskDelete (spdkSvc S) (dkName req) (dkUuid req) (dkPath req) (dkDriver req))"

definition DiskDelete :: "'w services \<Rightarrow> disk_server \<Rightarrow> disk_request \<Rightarrow> ('w, unit) call" where
  "DiskDelete S s req =
     (if dkName req = '''' then fail (Status InvalidArgument ''disk name is required'')
      else with_disk_ops s (dkType req) (\<lambda>ops. Ops_DiskDelete S ops req))"

fun Ops_DiskGet :: "'w services \<Rightarrow> disk_ops \<Rightarrow> disk_request \<Rightarrow> ('w, spdk_disk) call" where
  "Ops_DiskGet S FilesystemDiskOps req = fail (unsupported_disk (dkType req))"
| "Ops_DiskGet S (BlockDiskOps c) req =
     on_error (client_call c (spdkDiskGet (spdkSvc S) (dkName req) (dkPath req) (dkDriver req))) plain_internal
       (\<lambda>d. ret (spdkDiskToDisk d))"

definition DiskGet :: "'w services \<Rightarrow> disk_server \<Rightarrow> disk_request \<Rightarrow> ('w, spdk_disk) call" where
  "DiskGet S s req =
     (if dkName req = '''' then fail (Status InvalidArgument ''disk name is required'')
      else with_disk_ops s (dkType req) (\<lambda>ops. Ops_DiskGet S ops req))"

text \<open>The list of replicas is not restricted to the disk of the request.\<close>

fun Ops_DiskReplicaInstanceList ::
  "'w services \<Rightarrow> disk_ops \<Rightarrow> disk_request \<Rightarrow> ('w, string \<rightharpoonup> replica_instance) call" where
  "Ops_DiskReplicaInstanceList S FilesystemDiskOps req = fail (unsupported_disk (dkType req))"
| "Ops_DiskReplicaInstanceList S (BlockDiskOps c) req =
     on_error (client_call c (spdkReplicaList (spdkSvc S))) plain_internal
       (\<lambda>rs. ret (fold (\<lambda>(name, r) m. m(name \<mapsto> replicaToReplicaInstance r)) rs Map.empty))"

definition DiskReplicaInstanceList ::
  "'w services \<Rightarrow> disk_server \<Rightarrow> disk_request \<Rightarrow> ('w, string \<rightharpoonup> replica_instance) call" where
  "DiskReplicaInstanceList S s req =
     (if dkName req = '''' then fail (Status InvalidArgument ''disk name is required'')
      else with_disk_ops s (dkType req) (\<lambda>ops. Ops_DiskReplicaInstanceList S ops req))"

fun Ops_DiskReplicaInstanceDelete :: "'w services \<Rightarrow> disk_ops \<Rightarrow> disk_request \<Rightarrow> ('w, unit) call" where
  "Ops_DiskReplicaInstanceDelete S FilesystemDiskOps req = fail (unsupported_disk (dkType req))"
| "Ops_DiskReplicaInstanceDelete S (BlockDiskOps c) req =
     on_error (client_call c (spdkReplicaDelete (spdkSvc S) (dkReplicaInstanceName req) True)) plain_internal ret"

definition DiskReplicaInstanceDelete :: "'w services \<Rightarrow> disk_server \<Rightarrow> disk_request \<Rightarrow> ('w, unit) call" where
  "DiskReplicaInstanceDelete S s req =
     (if dkName req = '''' \<or> dkUuid req = '''' \<or> dkReplicaInstanceName req = ''''
      then fail (Status InvalidArgument ''disk name, disk UUID and replica instance name are required'')
      else with_disk_ops s (dkType req) (\<lambda>ops. Ops_DiskReplicaInstanceDelete S ops req))"

end
