(* ===== verification/Client_Model.thy ===== *)
theory Client_Model
  imports Disk_Model
begin

text \<open>
  The clients of the instance and disk services (\<open>pkg/client/instance.go\<close>,
  \<open>pkg/client/disk.go\<close>, \<open>pkg/client/types.go\<close>) and the types they answer with (\<open>pkg/api\<close>).
  A service is a record of the gRPC methods; \<open>instance_service_of\<close> and \<open>disk_service_of\<close> are the
  services that the servers of this development implement.
\<close>

section \<open>Answers\<close>

record api_process_status =
  apsState :: string
  apsErrorMsg :: string
  apsConditions :: "string \<rightharpoonup> bool"
  apsPortStart :: int
  apsPortEnd :: int

record api_process =
  apName :: string
  apBinary :: string
  apArgs :: "string list"
  apPortCount :: int
  apPortArgs :: "string list"
  apStatus :: api_process_status
  apDeleted :: bool

definition RPCToProcessStatus :: "process_status \<Rightarrow> api_process_status" where
  "RPCToProcessStatus obj = \<lparr>apsState = pstState obj, apsErrorMsg = pstErrorMsg obj,
     apsConditions = pstConditions obj, apsPortStart = pstPortStart obj, apsPortEnd = pstPortEnd obj\<rparr>"

definition RPCToProcess :: "process_response \<Rightarrow> api_process" where
  "RPCToProcess obj = \<lparr>apName = psName (prSpec obj), apBinary = psBinary (prSpec obj), apArgs = psArgs (prSpec obj),
     apPortCount = psPortCount (prSpec obj), apPortArgs = psPortArgs (prSpec obj),
     apStatus = RPCToProcessStatus (prStatus obj), apDeleted = False\<rparr>"

definition RPCToProcessList :: "(string \<rightharpoonup> process_response) \<Rightarrow> (string \<rightharpoonup> api_process)" where
  "RPCToProcessList obj = (\<lambda>name. map_option RPCToProcess (obj name))"

record api_instance =
  aiName :: string
  aiType :: string
  aiDataEngine :: string
  aiPortCount :: int
  aiPortArgs :: "string list"
  aiStatus :: instance_status
  aiDeleted :: bool
  aiProcessSpec :: "process_instance_spec option"
  aiBackendStoreDriver :: string

definition dataEngines :: "string \<Rightarrow> string" where
  "dataEngines e = (if e = ''DATA_ENGINE_V1'' then ''v1'' else if e = ''DATA_ENGINE_V2'' then ''v2'' else '''')"

definition RPCToInstanceStatus :: "instance_status \<Rightarrow> instance_status" where
  "RPCToInstanceStatus obj = \<lparr>istState = istState obj, istErrorMsg = istErrorMsg obj,
     istConditions = istConditions obj, istPortStart = istPortStart obj, istPortEnd = istPortEnd obj,
     istTargetPortStart = istTargetPortStart obj, istTargetPortEnd = istTargetPortEnd obj,
     istStandbyTargetPortStart = istStandbyTargetPortStart obj,
     istStandbyTargetPortEnd = istStandbyTargetPortEnd obj\<rparr>"

text \<open>The field \<open>Deleted\<close> of the answer is not copied.\<close>

definition RPCToInstance :: "instance_response \<Rightarrow> api_instance" where
  "RPCToInstance obj = \<lparr>aiName = isName (irSpec obj), aiType = isType (irSpec obj),
     aiDataEngine = dataEngines (DataEngine_String (isDataEngine (irSpec obj))),
     aiPortCount = isPortCount (irSpec obj), aiPortArgs = isPortArgs (irSpec obj),
     aiStatus = RPCToInstanceStatus (irStatus obj), aiDeleted = False,
     aiProcessSpec = map_option (\<lambda>s. \<lparr>pisBinary = pisBinary s, pisArgs = pisArgs s\<rparr>)
                       (isProcessInstanceSpec (irSpec obj)),
     aiBackendStoreDriver = BackendStoreDriver_String (isBackendStoreDriver (irSpec obj))\<rparr>"

definition RPCToInstanceList :: "(string \<rightharpoonup> instance_response) \<Rightarrow> (string \<rightharpoonup> api_instance)" where
  "RPCToInstanceList obj = (\<lambda>name. map_option RPCToInstance (obj name))"

section \<open>Data engines and disk types by name\<close>

definition getDataEngine :: "string \<Rightarrow> string" where
  "getDataEngine dataEngine =
     (if has_suffix (to_lower dataEngine) ''v2'' then ''DATA_ENGINE_V2'' else ''DATA_ENGINE_V1'')"

definition DataEngine_value :: "string \<rightharpoonup> int" where
  "DataEngine_value = [''DATA_ENGINE_V1'' \<mapsto> DATA_ENGINE_V1, ''DATA_ENGINE_V2'' \<mapsto> DATA_ENGINE_V2]"

definition DiskType_value :: "string \<rightharpoonup> int" where
  "DiskType_value = [''filesystem'' \<mapsto> DiskType_filesystem, ''block'' \<mapsto> DiskType_block]"

text \<open>Reading a missing key of a Go map gives the zero value.\<close>

definition DiskType_or_zero :: "string \<Rightarrow> int" where
  "DiskType_or_zero t = (case DiskType_value t of None \<Rightarrow> 0 | Some x \<Rightarrow> x)"

definition with_engine :: "string \<Rightarrow> string \<Rightarrow> (int \<Rightarrow> ('w, 'a) call) \<Rightarrow> ('w, 'a) call" where
  "with_engine what dataEngine k =
     (case DataEngine_value (getDataEngine dataEngine) of
        None \<Rightarrow> fail (Err (''failed to '' @ what @ '': invalid data engine '' @ dataEngine))
      | Some driver \<Rightarrow> k driver)"

section \<open>The services\<close>

record 'w instance_service =
  irpcCreate :: "instance_spec \<Rightarrow> ('w, instance_response) call"
  irpcDelete :: "delete_request \<Rightarrow> ('w, instance_response) call"
  irpcGet :: "int \<Rightarrow> string \<Rightarrow> string \<Rightarrow> ('w, instance_response) call"
  irpcList :: "('w, string \<rightharpoonup> instance_response) call"
  irpcReplace :: "instance_spec \<Rightarrow> string \<Rightarrow> ('w, instance_response) call"
  irpcLog :: "int \<Rightarrow> string \<Rightarrow> ('w, string list \<times> error option) call"
  irpcSuspend :: "int \<Rightarrow> string \<Rightarrow> string \<Rightarrow> ('w, unit) call"
  irpcResume :: "int \<Rightarrow> string \<Rightarrow> string \<Rightarrow> ('w, unit) call"
  irpcSwitchOverTarget :: "int \<Rightarrow> string \<Rightarrow> string \<Rightarrow> string \<Rightarrow> ('w, unit) call"
  irpcDeleteTarget :: "int \<Rightarrow> string \<Rightarrow> string \<Rightarrow> ('w, unit) call"
  irpcLogSetLevel :: "int \<Rightarrow> string \<Rightarrow> ('w, unit) call"
  irpcLogSetFlags :: "int \<Rightarrow> string \<Rightarrow> ('w, unit) call"
  irpcLogGetLevel :: "int \<Rightarrow> ('w, string) call"
  irpcLogGetFlags :: "int \<Rightarrow> ('w, string) call"

record 'w disk_service =
  drpcCreate :: "disk_request \<Rightarrow> ('w, spdk_disk) call"
  drpcDelete :: "disk_request \<Rightarrow> ('w, unit) call"
  drpcGet :: "disk_request \<Rightarrow> ('w, spdk_disk) call"
  drpcReplicaInstanceList :: "disk_request \<Rightarrow> ('w, string \<rightharpoonup> replica_instance) call"
  drpcReplicaInstanceDelete :: "disk_request \<Rightarrow> ('w, unit) call"

section \<open>The instance service client\<close>

record engine_request =
  erReplicaAddressMap :: "string \<rightharpoonup> string"
  erFrontend :: string
  erInitiatorAddress :: string
  erTargetAddress :: string
  erUpgradeRequired :: bool
  erSalvageRequested :: bool

record replica_request =
  rrDiskName :: string
  rrDiskUUID :: string
  rrExposeRequired :: bool
  rrBackingImageName :: string

record create_request =
  crDataEngine :: string
  crName :: string
  crInstanceType :: string
  crVolumeName :: string
  crSize :: nat
  crPortCount :: int
  crPortArgs :: "string list"
  crBinary :: string
  crBinaryArgs :: "string list"
  crEngine :: engine_request
  crReplica :: replica_request

definition zero_spdk_spec :: spdk_instance_spec where
  "zero_spdk_spec = \<lparr>sisReplicaAddressMap = Map.empty, sisFrontend = '''', sisSize = 0, sisDiskName = '''',
     sisDiskUuid = '''', sisExposeRequired = False, sisBackingImageName = '''', sisSalvageRequested = False\<rparr>"

text \<open>The specification for the v2 data engine; \<open>None\<close> is an invalid instance type.\<close>

definition spdk_spec_of :: "create_request \<Rightarrow> spdk_instance_spec option" where
  "spdk_spec_of req =
     (if crInstanceType req = InstanceTypeEngine then
        Some (zero_spdk_spec\<lparr>sisSize := crSize req, sisReplicaAddressMap := erReplicaAddressMap (crEngine req),
          sisFrontend := erFrontend (crEngine req), sisSalvageRequested := erSalvageRequested (crEngine req)\<rparr>)
      else if crInstanceType req = InstanceTypeReplica then
        Some (zero_spdk_spec\<lparr>sisSize := crSize req, sisDiskName := rrDiskName (crReplica req),
          sisDiskUuid := rrDiskUUID (crReplica req), sisExposeRequired := rrExposeRequired (crReplica req),
          sisBackingImageName := rrBackingImageName (crReplica req)\<rparr>)
      else None)"

definition create_spec ::
  "create_request \<Rightarrow> int \<Rightarrow> process_instance_spec option \<Rightarrow> spdk_instance_spec option \<Rightarrow> instance_spec" where
  "create_spec req driver pis sis =
     \<lparr>isName = crName req, isType = crInstanceType req, isBackendStoreDriver = driver, isDataEngine = driver,
      isVolumeName = crVolumeName req, isPortCount = to_int32 (crPortCount req), isPortArgs = crPortArgs req,
      isProcessInstanceSpec = pis, isSpdkInstanceSpec = sis,
      isUpgradeRequired = erUpgradeRequired (crEngine req),
      isInitiatorAddress = erInitiatorAddress (crEngine req),
      isTargetAddress = erTargetAddress (crEngine req)\<rparr>"

definition Client_InstanceCreate :: "'w instance_service \<Rightarrow> create_request \<Rightarrow> ('w, api_instance) call" where
  "Client_InstanceCreate svc req =
     (if crName req = '''' \<or> crInstanceType req = ''''
      then fail (Err ''failed to create instance: missing required parameter'')
      else with_engine ''delete instance'' (crDataEngine req) (\<lambda>driver.
        let send = (\<lambda>pis sis.
              on_error (irpcCreate svc (create_spec req driver pis sis)) (Wrap ''failed to create instance'')
                (\<lambda>p. ret (RPCToInstance p)))
        in if driver = DATA_ENGINE_V1
           then send (Some \<lparr>pisBinary = crBinary req, pisArgs = crBinaryArgs req\<rparr>) None
           else case spdk_spec_of req of
               None \<Rightarrow> fail (Err (''failed to create instance: invalid instance type '' @ crInstanceType req))
             | Some sis \<Rightarrow> send None (Some sis)))"

definition Client_InstanceDelete ::
  "'w instance_service \<Rightarrow> string \<Rightarrow> string \<Rightarrow> string \<Rightarrow> string \<Rightarrow> bool \<Rightarrow> ('w, api_instance) call" where
  "Client_InstanceDelete svc dataEngine name instanceType diskUUID cleanupRequired =
     (if name = '''' then fail (Err ''failed to delete instance: missing required parameter name'')
      else with_engine ''delete instance'' dataEngine (\<lambda>driver.
        on_error (irpcDelete svc \<lparr>dqName = name, dqType = instanceType, dqDataEngine = driver,
                    dqDiskUuid = diskUUID, dqCleanupRequired = cleanupRequired\<rparr>)
          (Wrap (''failed to delete instance '' @ name)) (\<lambda>p. ret (RPCToInstance p))))"

definition Client_InstanceGet ::
  "'w instance_service \<Rightarrow> string \<Rightarrow> string \<Rightarrow> string \<Rightarrow> ('w, api_instance) call" where
  "Client_InstanceGet svc dataEngine name instanceType =
     (if name = '''' then fail (Err ''failed to get instance: missing required parameter name'')
      else with_engine ''get instance'' dataEngine (\<lambda>driver.
        on_error (irpcGet svc driver name instanceType) (Wrap (''failed to get instance '' @ name))
          (\<lambda>p. ret (RPCToInstance p))))"

definition Client_InstanceList :: "'w instance_service \<Rightarrow> ('w, string \<rightharpoonup> api_instance) call" where
  "Client_InstanceList svc =
     on_error (irpcList svc) (Wrap ''failed to list instances'') (\<lambda>m. ret (RPCToInstanceList m))"

definition Client_InstanceLog ::
  "'w instance_service \<Rightarrow> string \<Rightarrow> string \<Rightarrow> string \<Rightarrow> ('w, string list \<times> error option) call" where
  "Client_InstanceLog svc dataEngine name instanceType =
     (if name = '''' then fail (Err ''failed to get instance: missing required parameter name'')
      else with_engine ''log instance'' dataEngine (\<lambda>driver.
        on_error (irpcLog svc driver name) (Wrap (''failed to get instance log of '' @ name)) ret))"

definition Client_InstanceReplace ::
  "'w instance_service \<Rightarrow> string \<Rightarrow> string \<Rightarrow> string \<Rightarrow> string \<Rightarrow> int \<Rightarrow> string list \<Rightarrow> string list \<Rightarrow> string \<Rightarrow>
     ('w, api_instance) call" where
  "Client_InstanceReplace svc dataEngine name instanceType binary portCount args portArgs terminateSignal =
     (if name = '''' \<or> binary = '''' then fail (Err ''failed to replace instance: missing required parameter'')
      else with_engine ''replace instance'' dataEngine (\<lambda>driver.
        if terminateSignal \<noteq> ''SIGHUP'' then fail (Err (''unsupported terminate signal '' @ terminateSignal))
        else on_error (irpcReplace svc
                 (zero_instance_spec\<lparr>isName := name, isType := instanceType, isBackendStoreDriver := driver,
                    isDataEngine := driver, isProcessInstanceSpec := Some \<lparr>pisBinary = binary, pisArgs = args\<rparr>,
                    isPortCount := to_int32 portCount, isPortArgs := portArgs\<rparr>) terminateSignal)
               (Wrap ''failed to replace instance'') (\<lambda>p. ret (RPCToInstance p))))"

text \<open>The four requests for engines of the v2 data engine.\<close>

definition engine_call ::
  "string \<Rightarrow> string \<Rightarrow> string \<Rightarrow> string \<Rightarrow> (int \<Rightarrow> ('w, unit) call) \<Rightarrow> ('w, unit) call" where
  "engine_call what invalid dataEngine name m =
     (if name = '''' then fail (Err (''failed to '' @ what @ '' instance: missing required parameter name''))
      else with_engine invalid dataEngine (\<lambda>driver.
        on_error (m driver) (Wrap (''failed to '' @ what @ '' instance '' @ name)) ret))"

definition Client_InstanceSuspend :: "'w instance_service \<Rightarrow> string \<Rightarrow> string \<Rightarrow> string \<Rightarrow> ('w, unit) call" where
  "Client_InstanceSuspend svc dataEngine name instanceType =
     engine_call ''suspend'' ''suspend instance'' dataEngine name (\<lambda>driver. irpcSuspend svc driver name instanceType)"

definition Client_InstanceResume :: "'w instance_service \<Rightarrow> string \<Rightarrow> string \<Rightarrow> string \<Rightarrow> ('w, unit) call" where
  "Client_InstanceResume svc dataEngine name instanceType =
     engine_call ''resume'' ''resume instance'' dataEngine name (\<lambda>driver. irpcResume svc driver name instanceType)"

definition Client_InstanceSwitchOverTarget ::
  "'w instance_service \<Rightarrow> string \<Rightarrow> string \<Rightarrow> string \<Rightarrow> string \<Rightarrow> ('w, unit) call" where
  "Client_InstanceSwitchOverTarget svc dataEngine name instanceType targetAddress =
     (if name \<noteq> '''' \<and> targetAddress = ''''
      then fail (Err ''failed to switch over target for instance: missing required parameter target address'')
      else engine_call ''switch over target for'' ''switch over target instance'' dataEngine name
             (\<lambda>driver. irpcSwitchOverTarget svc driver name instanceType targetAddress))"

definition Client_InstanceDeleteTarget :: "'w instance_service \<Rightarrow> string \<Rightarrow> string \<Rightarrow> string \<Rightarrow> ('w, unit) call" where
  "Client_InstanceDeleteTarget svc dataEngine name instanceType =
     engine_call ''delete target for'' ''delete target instance'' dataEngine name
       (\<lambda>driver. irpcDeleteTarget svc driver name instanceType)"

definition Client_LogSetLevel :: "'w instance_service \<Rightarrow> string \<Rightarrow> string \<Rightarrow> ('w, unit) call" where
  "Client_LogSetLevel svc dataEngine level =
     with_engine ''set log level'' dataEngine (\<lambda>driver. irpcLogSetLevel svc driver level)"

definition Client_LogSetFlags :: "'w instance_service \<Rightarrow> string \<Rightarrow> string \<Rightarrow> ('w, unit) call" where
  "Client_LogSetFlags svc dataEngine flags =
     with_engine ''set log flags'' dataEngine (\<lambda>driver. irpcLogSetFlags svc driver flags)"

definition Client_LogGetLevel :: "'w instance_service \<Rightarrow> string \<Rightarrow> ('w, string) call" where
  "Client_LogGetLevel svc dataEngine =
     with_engine ''get log level'' dataEngine (\<lambda>driver. irpcLogGetLevel svc driver)"

definition Client_LogGetFlags :: "'w instance_service \<Rightarrow> string \<Rightarrow> ('w, string) call" where
  "Client_LogGetFlags svc dataEngine =
     with_engine ''get log flags'' dataEngine (\<lambda>driver. irpcLogGetFlags svc driver)"

section \<open>The disk service client\<close>

text \<open>The answer \<open>api.DiskInfo\<close> has the fields of the disk.\<close>

definition disk_info :: "spdk_disk \<Rightarrow> spdk_disk" where
  "disk_info d =
     \<lparr>dId = dId d, dName = dName d, dUuid = dUuid d, dPath = dPath d, dType = dType d, dDriver = dDriver d,
      dTotalSize = dTotalSize d, dFreeSize = dFreeSize d, dTotalBlocks = dTotalBlocks d,
      dFreeBlocks = dFreeBlocks d, dBlockSize = dBlockSize d, dClusterSize = dClusterSize d\<rparr>"

definition Client_DiskCreate ::
  "'w disk_service \<Rightarrow> string \<Rightarrow> string \<Rightarrow> string \<Rightarrow> string \<Rightarrow> string \<Rightarrow> int \<Rightarrow> ('w, spdk_disk) call" where
  "Client_DiskCreate svc diskType diskName diskUUID diskPath diskDriver blockSize =
     (if diskName = '''' \<or> diskPath = '''' then fail (Err ''failed to create disk: missing required parameters'')
      else case DiskType_value diskType of
          None \<Rightarrow> fail (Err (''failed to get disk info: invalid disk type '' @ diskType))
        | Some t \<Rightarrow>
            on_error (drpcCreate svc \<lparr>dkType = t, dkName = diskName, dkUuid = diskUUID, dkPath = diskPath,
                        dkDriver = diskDriver, dkBlockSize = blockSize, dkReplicaInstanceName = ''''\<rparr>) id
              (\<lambda>d. ret (disk_info d)))"

definition Client_DiskGet ::
  "'w disk_service \<Rightarrow> string \<Rightarrow> string \<Rightarrow> string \<Rightarrow> string \<Rightarrow> ('w, spdk_disk) call" where
  "Client_DiskGet svc diskType diskName diskPath diskDriver =
     (if diskName = '''' then fail (Err ''failed to get disk info: missing required parameter diskName'')
      else case DiskType_value diskType of
          None \<Rightarrow> fail (Err (''failed to get disk info: invalid disk type '' @ diskType))
        | Some t \<Rightarrow>
            on_error (drpcGet svc \<lparr>dkType = t, dkName = diskName, dkUuid = '''', dkPath = diskPath,
                        dkDriver = diskDriver, dkBlockSize = 0, dkReplicaInstanceName = ''''\<rparr>) id
              (\<lambda>d. ret (disk_info d)))"

definition Client_DiskDelete ::
  "'w disk_service \<Rightarrow> string \<Rightarrow> string \<Rightarrow> string \<Rightarrow> string \<Rightarrow> string \<Rightarrow> ('w, unit) call" where
  "Client_DiskDelete svc diskType diskName diskUUID diskPath diskDriver =
     (if diskName = '''' then fail (Err ''failed to delete disk: missing required diskName'')
      else drpcDelete svc \<lparr>dkType = DiskType_or_zero diskType, dkName = diskName, dkUuid = diskUUID,
             dkPath = diskPath, dkDriver = diskDriver, dkBlockSize = 0, dkReplicaInstanceName = ''''\<rparr>)"

definition Client_DiskReplicaInstanceList ::
  "'w disk_service \<Rightarrow> string \<Rightarrow> string \<Rightarrow> string \<Rightarrow> ('w, string \<rightharpoonup> replica_instance) call" where
  "Client_DiskReplicaInstanceList svc diskType diskName diskDriver =
     (if diskName = '''' then fail (Err ''failed to list replica instances on disk: missing required parameter'')
      else on_error (drpcReplicaInstanceList svc \<lparr>dkType = DiskType_or_zero diskType, dkName = diskName,
                       dkUuid = '''', dkPath = '''', dkDriver = diskDriver, dkBlockSize = 0,
                       dkReplicaInstanceName = ''''\<rparr>) id ret)"

definition Client_DiskReplicaInstanceDelete ::
  "'w disk_service \<Rightarrow> string \<Rightarrow> string \<Rightarrow> string \<Rightarrow> string \<Rightarrow> string \<Rightarrow> ('w, unit) call" where
  "Client_DiskReplicaInstanceDelete svc diskType diskName diskUUID diskDriver replicaInstanceName =
     (if diskName = '''' \<or> diskUUID = '''' \<or> replicaInstanceName = ''''
      then fail (Err ''failed to delete replica instance on disk: missing required parameters'')
      else drpcReplicaInstanceDelete svc \<lparr>dkType = DiskType_or_zero diskType, dkName = diskName,
             dkUuid = diskUUID, dkPath = '''', dkDriver = diskDriver, dkBlockSize = 0,
             dkReplicaInstanceName = replicaInstanceName\<rparr>)"

section \<open>Client and server together\<close>

text \<open>
  What a gRPC client receives for an error of a handler: a status keeps its code and message, any
  other error arrives as a status with the code found in it, or \<open>Unknown\<close>.
\<close>

definition wire :: "error \<Rightarrow> error" where
  "wire e = (case e of Status c m \<Rightarrow> Status c m | _ \<Rightarrow> Status (status_code e) (error_string e))"

definition over_wire :: "('w, 'a) call \<Rightarrow> ('w, 'a) call" where
  "over_wire m = on_error m wire ret"

definition instance_service_of :: "'w services \<Rightarrow> server \<Rightarrow> (string \<Rightarrow> error option) \<Rightarrow> 'w instance_service" where
  "instance_service_of S s srv =
     \<lparr>irpcCreate = (\<lambda>spec. over_wire (InstanceCreate S s spec)),
      irpcDelete = (\<lambda>req. over_wire (InstanceDelete S s req)),
      irpcGet = (\<lambda>e n t. over_wire (InstanceGet S s e n t)),
      irpcList = over_wire (InstanceList S s),
      irpcReplace = (\<lambda>spec sig. over_wire (InstanceReplace S s spec sig)),
      irpcLog = (\<lambda>e n. over_wire (InstanceLog S s srv e n)),
      irpcSuspend = (\<lambda>e n t. over_wire (InstanceSuspend S s e n t)),
      irpcResume = (\<lambda>e n t. over_wire (InstanceResume S s e n t)),
      irpcSwitchOverTarget = (\<lambda>e n t a. over_wire (InstanceSwitchOverTarget S s e n t a)),
      irpcDeleteTarget = (\<lambda>e n t. over_wire (InstanceDeleteTarget S s e n t)),
      irpcLogSetLevel = (\<lambda>e l. over_wire (LogSetLevel S s e l)),
      irpcLogSetFlags = (\<lambda>e f. over_wire (LogSetFlags S s e f)),
      irpcLogGetLevel = (\<lambda>e. over_wire (LogGetLevel S s e)),
      irpcLogGetFlags = (\<lambda>e. over_wire (LogGetFlags S s e))\<rparr>"

definition disk_service_of :: "'w services \<Rightarrow> disk_server \<Rightarrow> 'w disk_service" where
  "disk_service_of S s =
     \<lparr>drpcCreate = (\<lambda>req. over_wire (DiskCreate S s req)),
      drpcDelete = (\<lambda>req. over_wire (DiskDelete S s req)),
      drpcGet = (\<lambda>req. over_wire (DiskGet S s req)),
      drpcReplicaInstanceList = (\<lambda>req. over_wire (DiskReplicaInstanceList S s req)),
      drpcReplicaInstanceDelete = (\<lambda>req. over_wire (DiskReplicaInstanceDelete S s req))\<rparr>"

end
