(* ===== verification/Watch_Model.thy ===== *)
theory Watch_Model
  imports Instance_Model Work
begin

text \<open>
  The handlers \<open>InstanceWatch\<close> (\<open>pkg/instance/instance.go\<close>) and \<open>SPDKBackingImageWatch\<close>
  (\<open>pkg/proxy/backing_image.go\<close>).  Both run an errgroup: watchers receive items from the streams of
  other services and put a notification for each into a channel, a notifier takes them out and sends
  them to the caller, and a goroutine closes the clients when the notifier ends.  The goroutines are
  program counters that interleave, as those of the process manager.
\<close>

section \<open>State\<close>

text \<open>The capacity of the channel \<open>notifyChan\<close>.\<close>

definition notify_capacity :: nat where "notify_capacity = 1024"

text \<open>
  A watcher opens its stream, then loops with a count of failures: it looks at the count and at the
  context, waits in \<open>Recv\<close>, and waits in the send to the channel.
\<close>

datatype watcher = WOpen | WLoop nat | WRecv nat | WSend nat | WEnd

text \<open>
  The notifier waits in its \<open>select\<close>, sends to the caller, tells the closing goroutine that it is done
  (the deferred function) and returns its error to the group.
\<close>

datatype notifier = HSelect | HSend | HDefer error | HReturn error | HEnd

datatype closer = CWait | CClose | CEnd

record watch_state =
  wNames :: "(string \<times> string) list"
  wSendMsg :: string
  wStreamCtx :: bool
  wWatchers :: "watcher list"
  wNotifier :: notifier
  wCloser :: closer
  wChan :: nat
  wCtxDone :: bool
  wGroupErr :: "error option"
  wReceived :: nat
  wSent :: nat

text \<open>
  A goroutine of the group returns an error: the first one is kept, and it ends the context of the
  group.
\<close>

definition group_return :: "error \<Rightarrow> watch_state \<Rightarrow> watch_state" where
  "group_return e s =
     s\<lparr>wGroupErr := (case wGroupErr s of None \<Rightarrow> Some e | Some e' \<Rightarrow> Some e'), wCtxDone := True\<rparr>"

definition context_canceled :: error where
  "context_canceled = Err ''context canceled''"

definition set_watcher :: "nat \<Rightarrow> watcher \<Rightarrow> watch_state \<Rightarrow> watch_state" where
  "set_watcher i pc s = s\<lparr>wWatchers := (wWatchers s)[i := pc]\<rparr>"

section \<open>Watchers\<close>

definition too_many_failures :: "string \<Rightarrow> error" where
  "too_many_failures what = Err (''continuously receiving errors for 10 times, stopping watching '' @ what)"

text \<open>
  The steps of a watcher that do not wait for its stream; \<open>opened\<close> is the answer of the call that opens
  the stream.  The send to the channel waits while the channel is full.
\<close>

definition watcher_step :: "error option \<Rightarrow> nat \<Rightarrow> watch_state \<Rightarrow> watch_state option" where
  "watcher_step opened i s =
     (case wNames s ! i of (stream, what) \<Rightarrow>
        case wWatchers s ! i of
          WOpen \<Rightarrow>
            (case opened of
               Some e \<Rightarrow> Some (group_return (Wrap (''failed to create '' @ stream @ '' watch notifier'') e)
                                 (set_watcher i WEnd s))
             | None \<Rightarrow> Some (set_watcher i (WLoop 0) s))
        | WLoop failureCount \<Rightarrow>
            if maxMonitorRetryCount \<le> failureCount
            then Some (group_return (too_many_failures what) (set_watcher i WEnd s))
            else if wCtxDone s then Some (group_return context_canceled (set_watcher i WEnd s))
            else Some (set_watcher i (WRecv failureCount) s)
        | WSend failureCount \<Rightarrow>
            if wChan s < notify_capacity
            then Some (set_watcher i (WLoop failureCount) (s\<lparr>wChan := Suc (wChan s)\<rparr>))
            else None
        | _ \<Rightarrow> None)"

text \<open>\<open>Recv\<close> returns an item or an error.\<close>

definition recv_step :: "error option \<Rightarrow> nat \<Rightarrow> watch_state \<Rightarrow> watch_state option" where
  "recv_step r i s =
     (case wWatchers s ! i of
        WRecv failureCount \<Rightarrow>
          (case r of
             None \<Rightarrow> Some (set_watcher i (WSend failureCount) (s\<lparr>wReceived := Suc (wReceived s)\<rparr>))
           | Some e \<Rightarrow>
               if status_code e = Canceled then Some (group_return e (set_watcher i WEnd s))
               else Some (set_watcher i (WLoop (Suc failureCount)) s))
      | _ \<Rightarrow> None)"

text \<open>
  When \<open>Recv\<close> cannot wait any more: the client has been closed, or the stream was opened with the
  context of the group and that is done.
\<close>

definition stream_closed :: "watch_state \<Rightarrow> bool" where
  "stream_closed s \<longleftrightarrow> wCloser s = CEnd \<or> wStreamCtx s \<and> wCtxDone s"

section \<open>Notifier and closing goroutine\<close>

text \<open>
  The \<open>select\<close> of \<open>handleNotify\<close> takes either case that is ready; \<open>sent\<close> is the answer of \<open>srv.Send\<close>.
\<close>

definition notifier_step :: "bool \<Rightarrow> error option \<Rightarrow> watch_state \<Rightarrow> watch_state option" where
  "notifier_step prefer_done sent s =
     (case wNotifier s of
        HSelect \<Rightarrow>
          if prefer_done then (if wCtxDone s then Some (s\<lparr>wNotifier := HDefer context_canceled\<rparr>) else None)
          else if 0 < wChan s then Some (s\<lparr>wNotifier := HSend, wChan := wChan s - 1\<rparr>) else None
      | HSend \<Rightarrow>
          (case sent of
             None \<Rightarrow> Some (s\<lparr>wNotifier := HSelect, wSent := Suc (wSent s)\<rparr>)
           | Some e \<Rightarrow> Some (s\<lparr>wNotifier := HDefer (Wrap (wSendMsg s) e)\<rparr>))
      | HDefer e \<Rightarrow>
          if wCloser s = CWait then Some (s\<lparr>wNotifier := HReturn e, wCloser := CClose\<rparr>) else None
      | HReturn e \<Rightarrow> Some (group_return e (s\<lparr>wNotifier := HEnd\<rparr>))
      | HEnd \<Rightarrow> None)"

definition closer_step :: "watch_state \<Rightarrow> watch_state option" where
  "closer_step s = (if wCloser s = CClose then Some (s\<lparr>wCloser := CEnd\<rparr>) else None)"

section \<open>Actions\<close>

text \<open>
  \<open>Recv\<close> and \<open>ParentDone\<close> come from outside: a stream delivers, and the context of the server is done.
  A closed stream answers with an error.
\<close>

datatype watch_action =
    Watch nat "error option"
  | RecvClosed nat error
  | Notifier bool "error option"
  | Closer
  | Recv nat "error option"
  | ParentDone

fun watch_internal :: "watch_action \<Rightarrow> bool" where
  "watch_internal (Recv i r) = False"
| "watch_internal ParentDone = False"
| "watch_internal x = True"

fun wact :: "watch_action \<Rightarrow> watch_state \<Rightarrow> watch_state option" where
  "wact (Watch i opened) s = (if i < length (wWatchers s) then watcher_step opened i s else None)"
| "wact (RecvClosed i e) s =
     (if i < length (wWatchers s) \<and> stream_closed s then recv_step (Some e) i s else None)"
| "wact (Notifier b sent) s = notifier_step b sent s"
| "wact Closer s = closer_step s"
| "wact (Recv i r) s = (if i < length (wWatchers s) \<and> wCloser s \<noteq> CEnd then recv_step r i s else None)"
| "wact ParentDone s = Some (s\<lparr>wCtxDone := True\<rparr>)"

section \<open>The handlers\<close>

definition start_group :: "(string \<times> string) list \<Rightarrow> string \<Rightarrow> bool \<Rightarrow> bool \<Rightarrow> watch_state" where
  "start_group names msg streamCtx ctxDone =
     \<lparr>wNames = names, wSendMsg = msg, wStreamCtx = streamCtx, wWatchers = map (\<lambda>_. WOpen) names,
      wNotifier = HSelect, wCloser = CWait, wChan = 0, wCtxDone = ctxDone, wGroupErr = None,
      wReceived = 0, wSent = 0\<rparr>"

text \<open>
  A handler up to the wait for the group: the error when a client cannot be created, after which the
  closing goroutine closes the clients created before, or the running group.  \<open>ctxDone\<close> tells whether
  the context of the server is done already.
\<close>

definition InstanceWatch_begin ::
  "bool \<Rightarrow> error option \<Rightarrow> error option \<Rightarrow> bool \<Rightarrow> error \<times> string list + watch_state" where
  "InstanceWatch_begin v2 pmClient spdkClient ctxDone =
     (case pmClient of
        Some e \<Rightarrow> Inl (internal_error ''failed to create ProcessManagerClient'' e, [])
      | None \<Rightarrow>
          if v2 then
            (case spdkClient of
               Some e \<Rightarrow> Inl (internal_error ''failed to create SPDK client'' e, [''processManagerClient''])
             | None \<Rightarrow> Inr (start_group [(''process'', ''processes''), (''SPDK engine'', ''SPDK engines''),
                                         (''SPDK replica'', ''SPDK replicas'')]
                              ''failed to send instance response'' False ctxDone))
          else Inr (start_group [(''process'', ''processes'')] ''failed to send instance response'' False ctxDone))"

definition SPDKBackingImageWatch_begin :: "error option \<Rightarrow> bool \<Rightarrow> error \<times> string list + watch_state" where
  "SPDKBackingImageWatch_begin spdkClient ctxDone =
     (case spdkClient of
        Some e \<Rightarrow> Inl (internal_error ''failed to create SPDK client'' e, [])
      | None \<Rightarrow> Inr (start_group [(''SPDK replica'', ''SPDK backing images'')]
                       ''failed to send backing image response'' True ctxDone))"

text \<open>\<open>g.Wait\<close> returns when every goroutine of the group has ended; the handler wraps its error.\<close>

definition group_ended :: "watch_state \<Rightarrow> bool" where
  "group_ended s \<longleftrightarrow> wNotifier s = HEnd \<and> list_all (\<lambda>pc. pc = WEnd) (wWatchers s)"

definition watch_return :: "string \<Rightarrow> watch_state \<Rightarrow> error option option" where
  "watch_return what s =
     (if group_ended s then Some (wrap_err (''failed to watch '' @ what) (wGroupErr s)) else None)"

definition InstanceWatch_return :: "watch_state \<Rightarrow> error option option" where
  "InstanceWatch_return s = watch_return ''instances'' s"

definition SPDKBackingImageWatch_return :: "watch_state \<Rightarrow> error option option" where
  "SPDKBackingImageWatch_return s = watch_return ''backing images'' s"

text \<open>The reachable states of a handler.\<close>

inductive watch_started :: "watch_state \<Rightarrow> bool" where
  instances: "InstanceWatch_begin v2 pmClient spdkClient ctxDone = Inr s \<Longrightarrow> watch_started s"
| backing_images: "SPDKBackingImageWatch_begin spdkClient ctxDone = Inr s \<Longrightarrow> watch_started s"

inductive watch_reachable :: "watch_state \<Rightarrow> bool" where
  started: "watch_started s \<Longrightarrow> watch_reachable s"
| step: "watch_reachable s \<Longrightarrow> wact x s = Some t \<Longrightarrow> watch_reachable t"

lemma run_watch_reachable:
  "watch_reachable s \<Longrightarrow> run_actions wact xs s = Some t \<Longrightarrow> watch_reachable t"
proof (induction xs arbitrary: s)
  case (Cons x xs)
  then show ?case by (auto split: option.splits intro: watch_reachable.step)
qed simp

section \<open>Bounded work\<close>

fun watcher_work :: "watcher \<Rightarrow> nat" where
  "watcher_work WOpen = 2 * maxMonitorRetryCount + 2"
| "watcher_work (WLoop n) = 1 + 2 * (maxMonitorRetryCount - n)"
| "watcher_work (WRecv n) = 2 + 2 * (maxMonitorRetryCount - Suc n)"
| "watcher_work (WSend n) = 4 + 2 * (maxMonitorRetryCount - n)"
| "watcher_work WEnd = 0"

fun notifier_work :: "notifier \<Rightarrow> nat" where
  "notifier_work HSelect = 4"
| "notifier_work HSend = 5"
| "notifier_work (HDefer e) = 3"
| "notifier_work (HReturn e) = 1"
| "notifier_work HEnd = 0"

definition watch_work :: "watch_state \<Rightarrow> nat" where
  "watch_work s = sum_list (map watcher_work (wWatchers s)) + notifier_work (wNotifier s) +
     (if wCloser s = CClose then 1 else 0) + 2 * wChan s"

lemma group_return_simps [simp]:
  "wWatchers (group_return e s) = wWatchers s" "wNotifier (group_return e s) = wNotifier s"
  "wCloser (group_return e s) = wCloser s" "wChan (group_return e s) = wChan s"
  "wCtxDone (group_return e s)" "\<exists>e'. wGroupErr (group_return e s) = Some e'"
  "wReceived (group_return e s) = wReceived s" "wSent (group_return e s) = wSent s"
  by (simp_all add: group_return_def split: option.splits)

lemma set_watcher_simps [simp]:
  "wWatchers (set_watcher i pc s) = (wWatchers s)[i := pc]" "wNotifier (set_watcher i pc s) = wNotifier s"
  "wCloser (set_watcher i pc s) = wCloser s" "wChan (set_watcher i pc s) = wChan s"
  "wCtxDone (set_watcher i pc s) = wCtxDone s" "wGroupErr (set_watcher i pc s) = wGroupErr s"
  "wReceived (set_watcher i pc s) = wReceived s" "wSent (set_watcher i pc s) = wSent s"
  by (simp_all add: set_watcher_def)

lemma sum_watchers:
  fixes f :: "watcher \<Rightarrow> nat"
  assumes "i < length ws"
  shows "sum_list (map f (ws[i := pc])) + f (ws ! i) = sum_list (map f ws) + f pc"
proof -
  have "sum_list (map f ws) = sum_list (map f (take i ws)) + f (ws ! i) + sum_list (map f (drop (Suc i) ws))"
    by (subst id_take_nth_drop [OF assms]) simp
  with assms show ?thesis by (simp add: upd_conv_take_nth_drop)
qed

text \<open>What a step of a watcher changes: its own program counter, and the channel by at most one item.\<close>

lemma watcher_step_effect:
  assumes "watcher_step opened i s = Some t"
  shows "\<exists>pc. wWatchers t = (wWatchers s)[i := pc] \<and> wNotifier t = wNotifier s \<and> wCloser t = wCloser s \<and>
    wSent t = wSent s \<and> wReceived t = wReceived s \<and> (wCtxDone s \<longrightarrow> wCtxDone t) \<and>
    watcher_work pc + 2 * wChan t < watcher_work (wWatchers s ! i) + 2 * wChan s"
  using assms
  by (auto simp: watcher_step_def split: if_splits prod.splits watcher.splits option.splits)

lemma recv_step_effect:
  assumes "recv_step r i s = Some t"
  shows "\<exists>pc. wWatchers t = (wWatchers s)[i := pc] \<and> wNotifier t = wNotifier s \<and> wCloser t = wCloser s \<and>
    wChan t = wChan s \<and> wSent t = wSent s \<and> (wCtxDone s \<longrightarrow> wCtxDone t) \<and>
    (r \<noteq> None \<longrightarrow> wReceived t = wReceived s \<and> watcher_work pc < watcher_work (wWatchers s ! i))"
  using assms
  by (auto simp: recv_step_def split: if_splits watcher.splits option.splits)

lemma watch_work_decreases:
  assumes "watch_internal x" "wact x s = Some t"
  shows "watch_work t < watch_work s"
proof (cases x)
  case (Watch i opened)
  with assms obtain pc where "i < length (wWatchers s)" "wWatchers t = (wWatchers s)[i := pc]"
      "wNotifier t = wNotifier s" "wCloser t = wCloser s"
      "watcher_work pc + 2 * wChan t < watcher_work (wWatchers s ! i) + 2 * wChan s"
    by (auto split: if_splits dest: watcher_step_effect)
  with sum_watchers [of i "wWatchers s" watcher_work pc] show ?thesis by (simp add: watch_work_def)
next
  case (RecvClosed i e)
  with assms obtain pc where "i < length (wWatchers s)" "wWatchers t = (wWatchers s)[i := pc]"
      "wNotifier t = wNotifier s" "wCloser t = wCloser s" "wChan t = wChan s"
      "watcher_work pc < watcher_work (wWatchers s ! i)"
    by (auto split: if_splits dest: recv_step_effect)
  with sum_watchers [of i "wWatchers s" watcher_work pc] show ?thesis by (simp add: watch_work_def)
next
  case (Notifier b sent)
  with assms show ?thesis
    by (auto simp: watch_work_def notifier_step_def split: if_splits notifier.splits option.splits)
qed (use assms in \<open>auto simp: watch_work_def closer_step_def split: if_splits\<close>)

interpretation watch: bounded_work wact watch_internal watch_work
  by unfold_locales (rule watch_work_decreases)

end
