(* ===== verification/Watch_Properties.thy ===== *)
theory Watch_Properties
  imports Watch_Model
begin

text \<open>
  The watch handlers: what holds in every state of them, that they end once the context of the group is
  done, the one way in which they do not, and that no notification is lost.
\<close>

section \<open>The invariant\<close>

definition notifier_open :: "notifier \<Rightarrow> bool" where
  "notifier_open h \<longleftrightarrow> (case h of HReturn e \<Rightarrow> False | HEnd \<Rightarrow> False | _ \<Rightarrow> True)"

text \<open>Watchers that hold an item they have not put into the channel yet.\<close>

fun sending :: "watcher \<Rightarrow> bool" where
  "sending (WSend n) = True"
| "sending pc = False"

text \<open>How many items the channel may hold once the context is done.\<close>

fun may_send :: "watcher \<Rightarrow> bool" where
  "may_send (WRecv n) = True"
| "may_send (WSend n) = True"
| "may_send pc = False"

definition held_items :: "watch_state \<Rightarrow> nat" where
  "held_items s = length (filter sending (wWatchers s))"

definition watch_inv :: "watch_state \<Rightarrow> bool" where
  "watch_inv s \<longleftrightarrow> wChan s \<le> notify_capacity \<and>
     (wCloser s = CWait \<longleftrightarrow> notifier_open (wNotifier s)) \<and>
     (wNotifier s = HEnd \<or> WEnd \<in> set (wWatchers s) \<longrightarrow> wGroupErr s \<noteq> None \<and> wCtxDone s)"

lemma count_update:
  assumes "i < length ws"
  shows "length (filter P (ws[i := x])) + (if P (ws ! i) then 1 else 0) =
    length (filter P ws) + (if P x then 1 else 0)"
proof -
  have "length (filter P ws) = length (filter P (take i ws)) + (if P (ws ! i) then 1 else 0) +
      length (filter P (drop (Suc i) ws))"
    by (subst id_take_nth_drop [OF assms]) simp
  with assms show ?thesis by (simp add: upd_conv_take_nth_drop)
qed

lemma watch_inv_started: "watch_started s \<Longrightarrow> watch_inv s"
  by (auto simp: watch_started.simps InstanceWatch_begin_def SPDKBackingImageWatch_begin_def start_group_def
      watch_inv_def notifier_open_def split: option.splits if_splits)

text \<open>A step of a watcher or of its stream, by what it does to the counts.\<close>

definition watcher_moved :: "nat \<Rightarrow> watcher \<Rightarrow> watch_state \<Rightarrow> watch_state \<Rightarrow> bool" where
  "watcher_moved i pc s t \<longleftrightarrow> i < length (wWatchers s) \<and> wWatchers t = (wWatchers s)[i := pc] \<and>
     wNotifier t = wNotifier s \<and> wCloser t = wCloser s \<and> wSent t = wSent s \<and>
     (if pc = WEnd then wGroupErr t \<noteq> None \<and> wCtxDone t
      else wGroupErr t = wGroupErr s \<and> wCtxDone t = wCtxDone s) \<and>
     (wChan s \<le> notify_capacity \<longrightarrow> wChan t \<le> notify_capacity) \<and>
     (wCtxDone s \<longrightarrow> wChan t + of_bool (may_send pc) \<le> wChan s + of_bool (may_send (wWatchers s ! i))) \<and>
     wChan t + of_bool (sending pc) + wReceived s = wChan s + of_bool (sending (wWatchers s ! i)) + wReceived t"

lemma watcher_step_moved:
  assumes "i < length (wWatchers s)" "watcher_step opened i s = Some t"
  shows "watcher_moved i (wWatchers t ! i) s t"
proof (cases "wWatchers s ! i")
  case WOpen
  with assms show ?thesis
    by (simp add: watcher_step_def watcher_moved_def split: prod.splits option.splits) auto
next
  case (WLoop n)
  with assms show ?thesis
    by (simp add: watcher_step_def watcher_moved_def split: prod.splits if_splits) auto
next
  case (WSend n)
  with assms show ?thesis
    by (simp add: watcher_step_def watcher_moved_def split: prod.splits if_splits) auto
qed (use assms in \<open>simp_all add: watcher_step_def split: prod.splits\<close>)

lemma recv_step_moved:
  assumes "i < length (wWatchers s)" "recv_step r i s = Some t"
  shows "watcher_moved i (wWatchers t ! i) s t"
proof (cases "wWatchers s ! i")
  case (WRecv n)
  with assms show ?thesis
    by (simp add: recv_step_def watcher_moved_def split: option.splits if_splits) auto
qed (use assms in \<open>simp_all add: recv_step_def\<close>)

text \<open>The actions: a watcher moves, or the notifier, the closing goroutine or the context of the server.\<close>

lemma wact_cases:
  assumes "wact x s = Some t"
  obtains (watcher) i pc where "watcher_moved i pc s t"
    | (notifier) b sent where "notifier_step b sent s = Some t"
    | (closer) "wCloser s = CClose" "t = s\<lparr>wCloser := CEnd\<rparr>"
    | (parent) "t = s\<lparr>wCtxDone := True\<rparr>"
proof (cases x)
  case (Watch i opened)
  with assms show ?thesis by (intro watcher) (auto split: if_splits intro: watcher_step_moved)
next
  case (RecvClosed i e)
  with assms show ?thesis by (intro watcher) (auto split: if_splits intro: recv_step_moved)
next
  case (Recv i r)
  with assms show ?thesis by (intro watcher) (auto split: if_splits intro: recv_step_moved)
next
  case (Notifier b sent)
  with assms show ?thesis by (intro notifier) simp
next
  case Closer
  with assms show ?thesis by (intro closer) (simp_all add: closer_step_def split: if_splits)
next
  case ParentDone
  with assms show ?thesis by (intro parent) simp
qed

lemma watch_inv_moved:
  assumes "watch_inv s" "watcher_moved i pc s t"
  shows "watch_inv t"
proof -
  have "WEnd \<in> set (wWatchers s)" if "WEnd \<in> set ((wWatchers s)[i := pc])" "pc \<noteq> WEnd"
    using that set_update_subset_insert [of "wWatchers s" i pc] by auto
  with assms show ?thesis by (auto simp: watch_inv_def watcher_moved_def split: if_splits)
qed

lemma watch_inv_notifier:
  assumes "watch_inv s" "notifier_step b sent s = Some t"
  shows "watch_inv t"
  using assms
  by (cases "wNotifier s")
    (simp_all add: notifier_step_def watch_inv_def notifier_open_def split: if_splits option.splits, auto)

lemma watch_inv_wact:
  assumes "watch_inv s" "wact x s = Some t"
  shows "watch_inv t"
  using assms(2)
proof (cases rule: wact_cases)
  case closer
  with assms(1) show ?thesis by (auto simp: watch_inv_def)
next
  case parent
  with assms(1) show ?thesis by (auto simp: watch_inv_def)
qed (use assms(1) in \<open>blast intro: watch_inv_moved watch_inv_notifier\<close>)+

lemma watch_inv_reachable: "watch_reachable s \<Longrightarrow> watch_inv s"
  by (induction rule: watch_reachable.induct) (auto intro: watch_inv_started watch_inv_wact)

section \<open>The loop of one watcher\<close>

text \<open>
  A watcher of the group runs the loop \<open>watch_loop\<close> of \<open>Instance_Model\<close>: the steps that an event of its stream
  causes lead from one round of the loop to the next, and the loop goes on from there.
\<close>

fun watch_script :: "nat \<Rightarrow> watch_event list \<Rightarrow> watch_action list" where
  "watch_script i [] = []"
| "watch_script i (CtxDone e # es) = [ParentDone, Watch i None]"
| "watch_script i (Item # es) = [Watch i None, Recv i None, Watch i None] @ watch_script i es"
| "watch_script i (RecvError e # es) = [Watch i None, Recv i (Some e)] @ watch_script i es"

definition in_round :: "nat \<Rightarrow> nat \<Rightarrow> watch_state \<Rightarrow> bool" where
  "in_round i n s \<longleftrightarrow> i < length (wWatchers s) \<and> wWatchers s ! i = WLoop n \<and> \<not> wCtxDone s \<and> wCloser s \<noteq> CEnd"

lemma round_item:
  assumes "in_round i n s" "n < maxMonitorRetryCount" "wChan s < notify_capacity"
  shows "\<exists>t. run_actions wact [Watch i None, Recv i None, Watch i None] s = Some t \<and> in_round i n t \<and>
    wChan t = Suc (wChan s) \<and> wGroupErr t = wGroupErr s"
  using assms
  by (simp add: in_round_def watcher_step_def recv_step_def set_watcher_def split: prod.splits)

lemma round_error:
  assumes "in_round i n s" "n < maxMonitorRetryCount" "status_code e \<noteq> Canceled"
  shows "\<exists>t. run_actions wact [Watch i None, Recv i (Some e)] s = Some t \<and> in_round i (Suc n) t \<and>
    wChan t = wChan s \<and> wGroupErr t = wGroupErr s"
  using assms
  by (simp add: in_round_def watcher_step_def recv_step_def set_watcher_def split: prod.splits)

lemma watch_loop_runs:
  assumes "in_round i n s" "wChan s + length es \<le> notify_capacity" "snd (watch_loop what n es) = None"
  shows "\<exists>t m. run_actions wact (watch_script i es) s = Some t \<and> in_round i m t \<and>
    wChan t = wChan s + fst (watch_loop what n es) \<and> wGroupErr t = wGroupErr s \<and>
    (\<forall>es'. watch_loop what n (es @ es') =
       (case watch_loop what m es' of (k, r) \<Rightarrow> (fst (watch_loop what n es) + k, r)))"
  using assms
proof (induction es arbitrary: n s)
  case Nil
  then show ?case by (auto split: if_splits prod.splits)
next
  case (Cons ev es)
  then have n: "n < maxMonitorRetryCount" by (auto split: if_splits)
  show ?case
  proof (cases ev)
    case (CtxDone e)
    with Cons.prems(3) n show ?thesis by simp
  next
    case Item
    from round_item [OF Cons.prems(1) n] Cons.prems(2) obtain u where
      u: "run_actions wact [Watch i None, Recv i None, Watch i None] s = Some u" "in_round i n u"
        "wChan u = Suc (wChan s)" "wGroupErr u = wGroupErr s" by auto
    have "snd (watch_loop what n es) = None" using Cons.prems(3) n Item by (simp split: prod.splits)
    from Cons.IH [OF u(2) _ this] u(3) Cons.prems(2) obtain t m where
      t: "run_actions wact (watch_script i es) u = Some t" "in_round i m t"
        "wChan t = wChan u + fst (watch_loop what n es)" "wGroupErr t = wGroupErr u"
        "\<forall>es'. watch_loop what n (es @ es') =
          (case watch_loop what m es' of (k, r) \<Rightarrow> (fst (watch_loop what n es) + k, r))" by auto
    have "run_actions wact (watch_script i (ev # es)) s = Some t"
      using u(1) t(1) by (simp only: Item watch_script.simps run_actions_append) simp
    with t u Item n show ?thesis by (intro exI [of _ t] exI [of _ m]) (auto split: prod.splits)
  next
    case (RecvError e)
    have c: "status_code e \<noteq> Canceled" using Cons.prems(3) n RecvError by auto
    from round_error [OF Cons.prems(1) n c] obtain u where
      u: "run_actions wact [Watch i None, Recv i (Some e)] s = Some u" "in_round i (Suc n) u"
        "wChan u = wChan s" "wGroupErr u = wGroupErr s" by auto
    have "snd (watch_loop what (Suc n) es) = None" using Cons.prems(3) n c RecvError by simp
    from Cons.IH [OF u(2) _ this] u(3) Cons.prems(2) obtain t m where
      t: "run_actions wact (watch_script i es) u = Some t" "in_round i m t"
        "wChan t = wChan u + fst (watch_loop what (Suc n) es)" "wGroupErr t = wGroupErr u"
        "\<forall>es'. watch_loop what (Suc n) (es @ es') =
          (case watch_loop what m es' of (k, r) \<Rightarrow> (fst (watch_loop what (Suc n) es) + k, r))" by auto
    have "run_actions wact (watch_script i (ev # es)) s = Some t"
      using u(1) t(1) by (simp only: RecvError watch_script.simps run_actions_append) simp
    with t u RecvError n c show ?thesis by (intro exI [of _ t] exI [of _ m]) auto
  qed
qed

section \<open>Ending\<close>

lemma set_nthE: "x \<in> set xs \<Longrightarrow> (\<And>i. i < length xs \<Longrightarrow> xs ! i = x \<Longrightarrow> P) \<Longrightarrow> P"
  by (auto simp: in_set_conv_nth)

text \<open>Nothing is left to do in a group whose context is done: it has ended, or a watcher waits for the channel.\<close>

lemma quiet_watch:
  assumes inv: "watch_inv s" and ctx: "wCtxDone s"
    and quiet: "\<And>x. watch_internal x \<Longrightarrow> wact x s = None"
  shows "wNotifier s = HEnd \<and> wCloser s = CEnd"
    and "pc \<in> set (wWatchers s) \<Longrightarrow> pc = WEnd \<or> sending pc \<and> wChan s = notify_capacity"
proof -
  have "wNotifier s = HEnd"
    using quiet [of "Notifier True None"] inv ctx
    by (auto simp: notifier_step_def watch_inv_def notifier_open_def split: notifier.splits if_splits)
  moreover have "wCloser s = CEnd"
    using quiet [of Closer] inv calculation
    by (cases "wCloser s") (auto simp: closer_step_def watch_inv_def notifier_open_def)
  ultimately show ended: "wNotifier s = HEnd \<and> wCloser s = CEnd" by simp
  assume "pc \<in> set (wWatchers s)"
  then obtain i where i: "i < length (wWatchers s)" "wWatchers s ! i = pc" by (rule set_nthE)
  then show "pc = WEnd \<or> sending pc \<and> wChan s = notify_capacity"
    using quiet [of "Watch i None"] quiet [of "RecvClosed i context_canceled"] ended inv
    by (cases pc) (auto simp: watcher_step_def recv_step_def stream_closed_def watch_inv_def
        split: prod.splits if_splits)
qed

definition pressure :: "watch_state \<Rightarrow> nat" where
  "pressure s = wChan s + length (filter may_send (wWatchers s))"

lemma pressure_wact:
  assumes "wCtxDone s" "wact x s = Some t"
  shows "wCtxDone t \<and> pressure t \<le> pressure s"
  using assms(2)
proof (cases rule: wact_cases)
  case (watcher i pc)
  with assms(1) count_update [of i "wWatchers s" may_send pc] show ?thesis
    by (auto simp: watcher_moved_def pressure_def split: if_splits)
next
  case (notifier b sent)
  with assms(1) show ?thesis
    by (auto simp: notifier_step_def pressure_def split: if_splits notifier.splits option.splits)
qed (use assms(1) in \<open>auto simp: pressure_def\<close>)

lemma pressure_run:
  "run_actions wact xs s = Some t \<Longrightarrow> wCtxDone s \<Longrightarrow> wCtxDone t \<and> pressure t \<le> pressure s"
proof (induction xs arbitrary: s)
  case (Cons x xs)
  then obtain u where "wact x s = Some u" "run_actions wact xs u = Some t" by (auto split: option.splits)
  with Cons pressure_wact [of s x u] show ?case by fastforce
qed simp


lemma quiet_ends:
  assumes inv: "watch_inv s" and ctx: "wCtxDone s" and room: "pressure s \<le> notify_capacity"
    and quiet: "\<And>x. watch_internal x \<Longrightarrow> wact x s = None"
  shows "group_ended s \<and> wGroupErr s \<noteq> None"
proof -
  have "pc = WEnd" if pc: "pc \<in> set (wWatchers s)" for pc
  proof (rule ccontr)
    assume "pc \<noteq> WEnd"
    with quiet_watch(2) [OF inv ctx quiet pc] have "sending pc" "wChan s = notify_capacity" by auto
    moreover from this(1) have "may_send pc" by (cases pc) simp_all
    with pc have "0 < length (filter may_send (wWatchers s))" by (auto simp: filter_empty_conv)
    ultimately show False using room by (simp add: pressure_def)
  qed
  with quiet_watch(1) [OF inv ctx quiet] inv show ?thesis
    by (auto simp: group_ended_def list_all_iff watch_inv_def)
qed

text \<open>C15. A watch ends once the context of its group is done, which is when the server stops, or any of its
  goroutines has failed: its goroutines can take only a bounded number of steps by themselves, and when
  none is left the handler returns, with an error that says so.  It is enough that the items in the
  channel and the watchers that may still put one there do not exceed the capacity of the channel.\<close>

theorem watch_ends:
  assumes "watch_reachable s" "wCtxDone s" "pressure s \<le> notify_capacity"
    and "list_all watch_internal xs" "run_actions wact xs s = Some t"
  shows "length xs \<le> watch_work s \<and>
    ((\<forall>x. watch_internal x \<longrightarrow> wact x t = None) \<longrightarrow>
       (\<exists>e. watch_return what t = Some (Some (Wrap (''failed to watch '' @ what) e))))"
proof -
  have "watch_inv t" using assms run_watch_reachable watch_inv_reachable by blast
  moreover have "wCtxDone t" "pressure t \<le> notify_capacity" using pressure_run [OF assms(5,2)] assms(3) by auto
  ultimately show ?thesis
    using watch.internal_run_bounded [OF assms(4,5)] quiet_ends [of t]
    by (auto simp: watch_return_def wrap_err_def)
qed

definition demo_watch :: watch_state where
  "demo_watch = start_group [(''process'', ''processes'')] ''failed to send instance response'' False False"

lemma demo_watch_reachable: "watch_reachable demo_watch"
  by (rule watch_reachable.started, rule watch_started.instances [of False None None False])
    (simp add: InstanceWatch_begin_def demo_watch_def)

lemma watch_ends_witness:
  "\<exists>s xs t e. watch_reachable s \<and> wCtxDone s \<and> list_all watch_internal xs \<and> run_actions wact xs s = Some t \<and>
     length xs \<le> 26 \<and> InstanceWatch_return t = Some (Some (Wrap ''failed to watch instances'' e))"
proof -
  let ?s = "demo_watch\<lparr>wCtxDone := True\<rparr>"
  have s: "watch_reachable ?s" by (rule watch_reachable.step [OF demo_watch_reachable, of ParentDone]) simp
  from watch.settles [of ?s] obtain xs t where t: "list_all watch_internal xs" "run_actions wact xs ?s = Some t"
      "\<forall>x. watch_internal x \<longrightarrow> wact x t = None" by blast
  have "watch_work ?s = 26"
    by (simp add: demo_watch_def start_group_def watch_work_def maxMonitorRetryCount_def)
  with watch_ends [OF s _ _ t(1,2), of "''instances''"] t(3) have
      "length xs \<le> 26" "\<exists>e. watch_return ''instances'' t = Some (Some (Wrap ''failed to watch instances'' e))"
    by (auto simp: demo_watch_def start_group_def pressure_def)
  moreover have "wCtxDone ?s" by simp
  ultimately show ?thesis using s t unfolding InstanceWatch_return_def by blast
qed

section \<open>The deadlock\<close>

text \<open>
  The notifier waits for the caller in \<open>srv.Send\<close> while the watcher of processes has put \<open>n\<close> further
  items into the channel.
\<close>

definition slow_caller :: "nat \<Rightarrow> watch_state" where
  "slow_caller n = demo_watch\<lparr>wWatchers := [WLoop 0], wNotifier := HSend, wChan := n, wReceived := Suc n\<rparr>"

lemma slow_caller_step:
  assumes "watch_reachable (slow_caller n)" "n < notify_capacity"
  shows "watch_reachable (slow_caller (Suc n))"
proof (rule run_watch_reachable [OF assms(1)])
  show "run_actions wact [Watch 0 None, Recv 0 None, Watch 0 None] (slow_caller n) = Some (slow_caller (Suc n))"
    using assms(2)
    by (simp add: slow_caller_def demo_watch_def start_group_def watcher_step_def recv_step_def set_watcher_def
        maxMonitorRetryCount_def)
qed

lemma slow_caller_reachable: "n \<le> notify_capacity \<Longrightarrow> watch_reachable (slow_caller n)"
proof (induction n)
  case 0
  have "run_actions wact [Watch 0 None, Watch 0 None, Recv 0 None, Watch 0 None, Notifier False None] demo_watch =
      Some (slow_caller 0)"
    by (simp add: slow_caller_def demo_watch_def start_group_def watcher_step_def recv_step_def set_watcher_def
        notifier_step_def maxMonitorRetryCount_def notify_capacity_def)
  then show ?case by (rule run_watch_reachable [OF demo_watch_reachable])
qed (simp add: slow_caller_step)

text \<open>C16. \<open>InstanceWatch\<close> can wait for ever: when the caller is slow, so that the channel is full and a
  watcher waits to put one more item into it, and then the send to the caller fails, the notifier ends
  and nobody empties the channel.  The context of the group is done, but no goroutine of it can take a
  step any more, and the handler does not return.\<close>

theorem watch_deadlock:
  "\<exists>s. watch_reachable s \<and> wCtxDone s \<and> wNotifier s = HEnd \<and> wWatchers s = [WSend 0] \<and>
     {x. wact x s \<noteq> None} = {ParentDone} \<and> wact ParentDone s = Some s \<and> InstanceWatch_return s = None"
proof -
  let ?e = "Status Unknown ''transport is closing''"
  let ?f = "Wrap ''failed to send instance response'' ?e"
  let ?t = "(slow_caller notify_capacity)\<lparr>wWatchers := [WSend 0], wReceived := Suc (Suc notify_capacity),
    wNotifier := HEnd, wCloser := CEnd, wCtxDone := True, wGroupErr := Some ?f\<rparr>"
  have "run_actions wact [Watch 0 None, Recv 0 None, Notifier False (Some ?e), Notifier False None,
      Notifier False None, Closer] (slow_caller notify_capacity) = Some ?t"
    by (simp add: slow_caller_def demo_watch_def start_group_def watcher_step_def recv_step_def set_watcher_def
        notifier_step_def closer_step_def group_return_def maxMonitorRetryCount_def)
  then have "watch_reachable ?t" using slow_caller_reachable run_watch_reachable by blast
  moreover have "wact x ?t \<noteq> None \<longleftrightarrow> x = ParentDone" for x
    by (cases x) (auto simp: slow_caller_def demo_watch_def start_group_def watcher_step_def recv_step_def
        notifier_step_def closer_step_def)
  then have "{x. wact x ?t \<noteq> None} = {ParentDone}" by blast
  ultimately show ?thesis
    by (intro exI [of _ ?t]) (simp add: InstanceWatch_return_def watch_return_def group_ended_def)
qed

section \<open>Notifications\<close>

definition items_accounted :: "watch_state \<Rightarrow> bool" where
  "items_accounted s \<longleftrightarrow> (let n = wSent s + wChan s + held_items s in
     case wNotifier s of
       HSelect \<Rightarrow> wReceived s = n
     | HSend \<Rightarrow> wReceived s = Suc n
     | _ \<Rightarrow> n \<le> wReceived s \<and> wReceived s \<le> Suc n)"

lemma items_moved:
  assumes "items_accounted s" "watcher_moved i pc s t"
  shows "items_accounted t"
proof -
  have "wReceived t + (wSent s + wChan s + held_items s) = wReceived s + (wSent t + wChan t + held_items t)"
    using assms(2) count_update [of i "wWatchers s" sending pc]
    by (auto simp: watcher_moved_def held_items_def split: if_splits)
  moreover have "wNotifier t = wNotifier s" using assms(2) by (simp add: watcher_moved_def)
  ultimately show ?thesis using assms(1) by (auto simp: items_accounted_def Let_def split: notifier.splits)
qed

lemma items_wact:
  assumes "items_accounted s" "wact x s = Some t"
  shows "items_accounted t"
  using assms(2)
proof (cases rule: wact_cases)
  case (notifier b sent)
  with assms(1) show ?thesis
    by (cases "wNotifier s")
      (simp_all add: notifier_step_def items_accounted_def held_items_def Let_def split: if_splits option.splits, auto)
next
  case (watcher i pc)
  with assms(1) show ?thesis by (rule items_moved)
qed (use assms(1) in \<open>auto simp: items_accounted_def held_items_def Let_def split: notifier.splits\<close>)

lemma items_reachable: "watch_reachable s \<Longrightarrow> items_accounted s"
proof (induction rule: watch_reachable.induct)
  case (started s)
  then show ?case
    by (auto simp: watch_started.simps InstanceWatch_begin_def SPDKBackingImageWatch_begin_def start_group_def
        items_accounted_def held_items_def split: option.splits if_splits)
qed (blast intro: items_wact)

text \<open>C17. A watch loses no notification: every item that its watchers have received has been sent to the
  caller, is in the channel, is held by a watcher that waits for the channel, or is the one that is
  being sent; after a send that failed, that one alone is missing.\<close>

theorem no_notification_lost:
  assumes "watch_reachable s"
  shows "(wNotifier s = HSelect \<longrightarrow> wReceived s = wSent s + wChan s + held_items s) \<and>
    (wNotifier s = HSend \<longrightarrow> wReceived s = Suc (wSent s + wChan s + held_items s)) \<and>
    wReceived s \<le> Suc (wSent s + wChan s + held_items s) \<and> wSent s \<le> wReceived s \<and>
    wChan s \<le> notify_capacity"
  using items_reachable [OF assms] watch_inv_reachable [OF assms]
  by (auto simp: items_accounted_def watch_inv_def Let_def split: notifier.splits)

lemma no_notification_lost_witness:
  "\<exists>s. watch_reachable s \<and> wChan s = 7 \<and> wReceived s = Suc (wSent s + wChan s + held_items s)"
proof -
  have r: "watch_reachable (slow_caller 7)"
    by (rule slow_caller_reachable) (simp add: notify_capacity_def)
  have "wNotifier (slow_caller 7) = HSend" "wChan (slow_caller 7) = 7" by (simp_all add: slow_caller_def)
  with no_notification_lost [OF r] r show ?thesis by blast
qed

end
