(* ===== verification/Service_Properties.thy ===== *)
theory Service_Properties
  imports Client_Model Watch_Properties
begin

text \<open>
  The properties of the instance and disk services and of their clients: connections, data
  engines and disk types that are not served, and the requests that reach the process manager.
\<close>

section \<open>Connections of the instance service\<close>

text \<open>
  What is assumed of the services when connections are counted: only connecting and closing change
  the number of open connections.
\<close>

definition pm_tracks :: "('w \<Rightarrow> int) \<Rightarrow> 'w pm_service \<Rightarrow> bool" where
  "pm_tracks conns s \<longleftrightarrow>
     (\<forall>a. opens conns (pmConnect s a)) \<and> (\<forall>a. closes conns (pmClose s a)) \<and>
     (\<forall>x. balanced conns (rpcProcessCreate s x)) \<and> (\<forall>x. balanced conns (rpcProcessDelete s x)) \<and>
     (\<forall>x. balanced conns (rpcProcessGet s x)) \<and> balanced conns (rpcProcessList s) \<and>
     (\<forall>x y. balanced conns (rpcProcessReplace s x y)) \<and> (\<forall>x. balanced conns (rpcProcessLog s x))"

definition spdk_tracks :: "('w \<Rightarrow> int) \<Rightarrow> 'w spdk_service \<Rightarrow> bool" where
  "spdk_tracks conns s \<longleftrightarrow>
     (\<forall>a. opens conns (spdkConnect s a)) \<and> (\<forall>a. closes conns (spdkClose s a)) \<and>
     (\<forall>x. balanced conns (spdkEngineCreate s x)) \<and> (\<forall>x. balanced conns (spdkEngineDelete s x)) \<and>
     (\<forall>x. balanced conns (spdkEngineGet s x)) \<and> balanced conns (spdkEngineList s) \<and>
     (\<forall>x. balanced conns (spdkEngineSuspend s x)) \<and> (\<forall>x. balanced conns (spdkEngineResume s x)) \<and>
     (\<forall>x y. balanced conns (spdkEngineSwitchOverTarget s x y)) \<and>
     (\<forall>x. balanced conns (spdkEngineDeleteTarget s x)) \<and> (\<forall>x. balanced conns (spdkReplicaCreate s x)) \<and>
     (\<forall>x y. balanced conns (spdkReplicaDelete s x y)) \<and> (\<forall>x. balanced conns (spdkReplicaGet s x)) \<and>
     balanced conns (spdkReplicaList s) \<and> (\<forall>x. balanced conns (spdkLogSetLevel s x)) \<and>
     (\<forall>x. balanced conns (spdkLogSetFlags s x)) \<and> balanced conns (spdkLogGetFlags s)"

definition services_track :: "('w \<Rightarrow> int) \<Rightarrow> 'w services \<Rightarrow> bool" where
  "services_track conns S \<longleftrightarrow> pm_tracks conns (pmSvc S) \<and> spdk_tracks conns (spdkSvc S) \<and>
     (\<forall>l w. conns (logWriteLevel (logSvc S) l w) = conns w)"

lemma opens_NewProcessManagerClient:
  "opens conns (pmConnect svc a) \<Longrightarrow> opens conns (NewProcessManagerClient svc a)"
  by (simp add: opens_def NewProcessManagerClient_def on_error_def split: prod.splits outcome.splits)
    (metis fst_conv snd_conv outcome.simps(10-12))

lemma balanced_dials [balance]:
  assumes "services_track conns S" "balanced conns body"
  shows "balanced conns (dial_pm S addr body)" "balanced conns (dial_spdk S addr body)"
  using assms unfolding dial_pm_def dial_spdk_def services_track_def pm_tracks_def spdk_tracks_def
  by (auto intro!: balanced_with_conn opens_NewProcessManagerClient)

lemma balanced_with_ops [balance]:
  "(\<And>ops. balanced conns (k ops)) \<Longrightarrow> balanced conns (with_ops s e k)"
  "(\<And>ops. balanced conns (k ops)) \<Longrightarrow> balanced conns (ops_or_panic s e k)"
  by (auto simp: with_ops_def ops_or_panic_def intro!: balance)

lemma balanced_pm [balance]:
  assumes "services_track conns S"
  shows "balanced conns (Client_ProcessCreate (pmSvc S) n b c as ps)"
    "balanced conns (Client_ProcessDelete (pmSvc S) n)" "balanced conns (Client_ProcessGet (pmSvc S) n)"
    "balanced conns (Client_ProcessList (pmSvc S))" "balanced conns (Client_ProcessLog (pmSvc S) n)"
    "balanced conns (Client_ProcessReplace (pmSvc S) n b c as ps sig)"
  using assms unfolding services_track_def pm_tracks_def
  by (auto simp: Client_ProcessCreate_def Client_ProcessDelete_def Client_ProcessGet_def
      Client_ProcessList_def Client_ProcessLog_def Client_ProcessReplace_def intro!: balance)

lemma balanced_spdk [balance]:
  assumes "services_track conns S"
  shows "balanced conns (spdkEngineCreate (spdkSvc S) ec)" "balanced conns (spdkEngineDelete (spdkSvc S) n)"
    "balanced conns (spdkEngineGet (spdkSvc S) n)" "balanced conns (spdkEngineList (spdkSvc S))"
    "balanced conns (spdkEngineSuspend (spdkSvc S) n)" "balanced conns (spdkEngineResume (spdkSvc S) n)"
    "balanced conns (spdkEngineSwitchOverTarget (spdkSvc S) n a)"
    "balanced conns (spdkEngineDeleteTarget (spdkSvc S) n)" "balanced conns (spdkReplicaCreate (spdkSvc S) rc)"
    "balanced conns (spdkReplicaDelete (spdkSvc S) n b)" "balanced conns (spdkReplicaGet (spdkSvc S) n)"
    "balanced conns (spdkReplicaList (spdkSvc S))" "balanced conns (spdkLogSetLevel (spdkSvc S) n)"
    "balanced conns (spdkLogSetFlags (spdkSvc S) n)" "balanced conns (spdkLogGetFlags (spdkSvc S))"
  using assms unfolding services_track_def spdk_tracks_def by blast+

lemma balanced_log [balance]:
  assumes "services_track conns S"
  shows "balanced conns (logSetLevel S l)" "balanced conns (Ops_LogGetLevel S ops)"
  using assms unfolding services_track_def balanced_def
  by (cases ops; auto simp: logSetLevel_def split: sum.splits)+

lemma balanced_Ops [balance]:
  assumes "services_track conns S"
  shows "balanced conns (Ops_InstanceCreate S ops spec)" "balanced conns (Ops_InstanceDelete S ops req)"
    "balanced conns (Ops_InstanceReplace S ops spec sig)" "balanced conns (Ops_InstanceGet S ops n t)"
    "balanced conns (Ops_InstanceList S ops m)" "balanced conns (Ops_InstanceLog S ops srv n)"
    "balanced conns (Ops_InstanceSuspend S ops n t)" "balanced conns (Ops_InstanceResume S ops n t)"
    "balanced conns (Ops_InstanceSwitchOverTarget S ops n t a)"
    "balanced conns (Ops_InstanceDeleteTarget S ops n t)" "balanced conns (Ops_LogSetLevel S ops l)"
    "balanced conns (Ops_LogSetFlags S ops l)" "balanced conns (Ops_LogGetFlags S ops)"
  using assms by (cases ops; auto simp: v2_engine_only_def intro!: balance)+

lemma instance_handlers_balanced:
  assumes "services_track conns S"
  shows "balanced conns (InstanceCreate S s spec) \<and> balanced conns (InstanceDelete S s req) \<and>
    balanced conns (InstanceReplace S s spec sig) \<and> balanced conns (InstanceGet S s e n t) \<and>
    balanced conns (InstanceList S s) \<and> balanced conns (InstanceLog S s srv e n) \<and>
    balanced conns (InstanceSuspend S s e n t) \<and> balanced conns (InstanceResume S s e n t) \<and>
    balanced conns (InstanceSwitchOverTarget S s e n t a) \<and> balanced conns (InstanceDeleteTarget S s e n t) \<and>
    balanced conns (LogSetLevel S s e l) \<and> balanced conns (LogSetFlags S s e l) \<and>
    balanced conns (LogGetLevel S s e) \<and> balanced conns (LogGetFlags S s e)"
  using assms unfolding InstanceCreate_def InstanceDelete_def InstanceReplace_def InstanceGet_def
    InstanceList_def InstanceLog_def InstanceSuspend_def InstanceResume_def InstanceSwitchOverTarget_def
    InstanceDeleteTarget_def LogSetLevel_def LogSetFlags_def LogGetLevel_def LogGetFlags_def
  by (intro conjI balance)

text \<open>
  When the group of a watch has ended, the closing goroutine has been told, and nothing is left to do
  but its closing of the clients.
\<close>

lemma ended_watch_closes:
  assumes "watch_reachable s" "group_ended s"
  shows "wCloser s = CEnd \<or> wact Closer s = Some (s\<lparr>wCloser := CEnd\<rparr>)"
    and "wact x s = Some t \<Longrightarrow> watch_internal x \<Longrightarrow> wCloser t = CEnd"
proof -
  have "wCloser s \<noteq> CWait"
    using watch_inv_reachable [OF assms(1)] assms(2) by (simp add: watch_inv_def group_ended_def notifier_open_def)
  then show "wCloser s = CEnd \<or> wact Closer s = Some (s\<lparr>wCloser := CEnd\<rparr>)"
    by (cases "wCloser s") (simp_all add: closer_step_def)
  have ended: "wWatchers s ! i = WEnd" if "i < length (wWatchers s)" for i
    using assms(2) that by (simp add: group_ended_def list_all_length)
  show "wCloser t = CEnd" if "wact x s = Some t" "watch_internal x"
    using that assms(2) ended
    by (cases x) (auto simp: watcher_step_def recv_step_def notifier_step_def closer_step_def group_ended_def
        split: if_splits prod.splits)
qed

text \<open>C25. The connections of the instance service.  A handler for a single request closes the connections
  it opens, on every path: when only connecting and closing change the number of open connections, that number is
  the same after the handler as before, whether it returns, fails or panics.  The watches \<open>InstanceWatch\<close>
  and the proxy's \<open>SPDKBackingImageWatch\<close> leave their clients to a goroutine: when one has returned, that goroutine
  has closed the clients or its step that closes them can be taken, and no other step of the watch is left;
  and when a client cannot be created, the one created before is handed to it.  (Before it has returned nothing is
  claimed here: a watch that is stuck, C16, keeps its clients open.)\<close>

theorem instance_connections_closed:
  assumes "services_track conns S"
  shows "(balanced conns (InstanceCreate S s spec) \<and> balanced conns (InstanceDelete S s req) \<and>
    balanced conns (InstanceReplace S s spec sig) \<and> balanced conns (InstanceGet S s e n t) \<and>
    balanced conns (InstanceList S s) \<and> balanced conns (InstanceLog S s srv e n) \<and>
    balanced conns (InstanceSuspend S s e n t) \<and> balanced conns (InstanceResume S s e n t) \<and>
    balanced conns (InstanceSwitchOverTarget S s e n t a) \<and> balanced conns (InstanceDeleteTarget S s e n t) \<and>
    balanced conns (LogSetLevel S s e l) \<and> balanced conns (LogSetFlags S s e l) \<and>
    balanced conns (LogGetLevel S s e) \<and> balanced conns (LogGetFlags S s e)) \<and>
   (\<forall>w. watch_reachable w \<and> (InstanceWatch_return w \<noteq> None \<or> SPDKBackingImageWatch_return w \<noteq> None) \<longrightarrow>
      (wCloser w = CEnd \<or> wact Closer w = Some (w\<lparr>wCloser := CEnd\<rparr>)) \<and>
      (\<forall>x w'. wact x w = Some w' \<and> watch_internal x \<longrightarrow> wCloser w' = CEnd)) \<and>
   (\<forall>v2 pmClient spdkClient ctxDone err handed. InstanceWatch_begin v2 pmClient spdkClient ctxDone = Inl (err, handed) \<longrightarrow>
      (''processManagerClient'' \<in> set handed \<longleftrightarrow> pmClient = None) \<and> (pmClient = None \<longrightarrow> v2 \<and> spdkClient \<noteq> None))"
proof (intro conjI [OF instance_handlers_balanced [OF assms]] conjI allI impI)
  fix w assume "watch_reachable w \<and> (InstanceWatch_return w \<noteq> None \<or> SPDKBackingImageWatch_return w \<noteq> None)"
  then have w: "watch_reachable w" "group_ended w"
    by (auto simp: InstanceWatch_return_def SPDKBackingImageWatch_return_def watch_return_def split: if_splits)
  show "wCloser w = CEnd \<or> wact Closer w = Some (w\<lparr>wCloser := CEnd\<rparr>)" by (rule ended_watch_closes(1) [OF w])
  show "wCloser w' = CEnd" if "wact x w = Some w' \<and> watch_internal x" for x w'
    using that by (blast intro: ended_watch_closes(2) [OF w])
qed (auto simp: InstanceWatch_begin_def split: option.splits if_splits)

text \<open>A concrete world for the witnesses: its state is the number of open connections.\<close>

definition demo_response :: process_response where
  "demo_response = \<lparr>prSpec = \<lparr>psName = ''vol-r-0'', psBinary = ''/e'', psArgs = [], psPortCount = 1, psPortArgs = []\<rparr>,
     prStatus = \<lparr>pstState = ''starting'', pstErrorMsg = '''', pstConditions = Map.empty,
       pstPortStart = 20000, pstPortEnd = 20000\<rparr>, prDeleted = False\<rparr>"

definition demo_pm_service :: "int pm_service" where
  "demo_pm_service = \<lparr>pmConnect = (\<lambda>_ w. (Ret (), w + 1)), pmClose = (\<lambda>_ w. w - 1),
     rpcProcessCreate = (\<lambda>_. ret demo_response), rpcProcessDelete = (\<lambda>_. ret demo_response),
     rpcProcessGet = (\<lambda>_. ret demo_response), rpcProcessList = ret [(''vol-r-0'', demo_response)],
     rpcProcessReplace = (\<lambda>_ _. ret demo_response), rpcProcessLog = (\<lambda>_. ret ([], None))\<rparr>"

definition demo_spdk_service :: "int spdk_service" where
  "demo_spdk_service = \<lparr>spdkConnect = (\<lambda>_ w. (Ret (), w + 1)), spdkClose = (\<lambda>_ w. w - 1),
     spdkEngineCreate = (\<lambda>_. fail (Err ''no engine'')), spdkEngineDelete = (\<lambda>_. ret ()),
     spdkEngineGet = (\<lambda>_. fail (Err ''no engine'')), spdkEngineList = ret [],
     spdkEngineSuspend = (\<lambda>_. ret ()), spdkEngineResume = (\<lambda>_. ret ()),
     spdkEngineSwitchOverTarget = (\<lambda>_ _. ret ()), spdkEngineDeleteTarget = (\<lambda>_. ret ()),
     spdkReplicaCreate = (\<lambda>_. fail (Err ''no disk'')), spdkReplicaDelete = (\<lambda>_ _. ret ()),
     spdkReplicaGet = (\<lambda>_. fail (Err ''no replica'')), spdkReplicaList = ret [],
     spdkDiskCreate = (\<lambda>_ _ _ _ _. fail (Err ''no disk'')), spdkDiskDelete = (\<lambda>_ _ _ _. ret ()),
     spdkDiskGet = (\<lambda>_ _ _. fail (Err ''no disk'')), spdkLogSetLevel = (\<lambda>_. ret ()),
     spdkLogSetFlags = (\<lambda>_. ret ()), spdkLogGetFlags = ret ''''\<rparr>"

definition demo_services :: "int services" where
  "demo_services = \<lparr>pmSvc = demo_pm_service, spdkSvc = demo_spdk_service,
     logSvc = \<lparr>logQuote = id, logGetLevel = (\<lambda>_. InfoLevel), logWriteLevel = (\<lambda>_ w. w)\<rparr>\<rparr>"

lemma demo_services_track: "services_track id demo_services"
  by (simp add: services_track_def pm_tracks_def spdk_tracks_def demo_services_def demo_pm_service_def
      demo_spdk_service_def balanced_def opens_def closes_def)

definition demo_instance_spec :: instance_spec where
  "demo_instance_spec = zero_instance_spec\<lparr>isName := ''vol-r-0'', isType := InstanceTypeReplica, isPortCount := 1,
     isProcessInstanceSpec := Some \<lparr>pisBinary = ''/e'', pisArgs = []\<rparr>\<rparr>"

lemmas demo_defs = demo_services_def demo_pm_service_def demo_spdk_service_def demo_instance_spec_def

text \<open>A watch that finds the context done when it starts, and its state when it has returned.\<close>

definition short_watch :: watch_state where
  "short_watch = (start_group [(''process'', ''processes'')] ''failed to send instance response'' False True)
     \<lparr>wWatchers := [WEnd], wNotifier := HEnd, wCloser := CClose, wGroupErr := Some context_canceled\<rparr>"

lemma short_watch_reachable: "watch_reachable short_watch"
proof (rule run_watch_reachable)
  show "watch_reachable (start_group [(''process'', ''processes'')] ''failed to send instance response'' False True)"
    by (rule watch_reachable.started, rule watch_started.instances [of False None None True])
      (simp add: InstanceWatch_begin_def)
  show "run_actions wact [Watch 0 None, Watch 0 None, Notifier True None, Notifier True None, Notifier True None]
      (start_group [(''process'', ''processes'')] ''failed to send instance response'' False True) = Some short_watch"
    by (simp add: start_group_def short_watch_def watcher_step_def set_watcher_def group_return_def notifier_step_def
        maxMonitorRetryCount_def)
qed

lemma instance_connections_closed_witness:
  "balanced id (InstanceCreate demo_services (NewServer ''pm:8500'' ''spdk:8504'' True) demo_instance_spec) \<and>
   fst (InstanceCreate demo_services (NewServer ''pm:8500'' ''spdk:8504'' True) demo_instance_spec 0) =
     Ret (processResponseToInstanceResponse demo_response InstanceTypeReplica) \<and>
   wact Closer short_watch = Some (short_watch\<lparr>wCloser := CEnd\<rparr>)"
proof (intro conjI)
  note closed = instance_connections_closed [OF demo_services_track, of "NewServer ''pm:8500'' ''spdk:8504'' True"]
  show "balanced id (InstanceCreate demo_services (NewServer ''pm:8500'' ''spdk:8504'' True) demo_instance_spec)"
    using closed by blast
  show "fst (InstanceCreate demo_services (NewServer ''pm:8500'' ''spdk:8504'' True) demo_instance_spec 0) =
      Ret (processResponseToInstanceResponse demo_response InstanceTypeReplica)"
    by (simp add: demo_defs zero_instance_spec_def InstanceCreate_def with_ops_def NewServer_def
        DATA_ENGINE_V1_def DATA_ENGINE_V2_def dial_pm_def NewProcessManagerClient_def with_conn_def
        on_error_def Client_ProcessCreate_def)
  have "InstanceWatch_return short_watch \<noteq> None" "wCloser short_watch \<noteq> CEnd"
    by (simp_all add: InstanceWatch_return_def watch_return_def group_ended_def short_watch_def)
  with closed short_watch_reachable show "wact Closer short_watch = Some (short_watch\<lparr>wCloser := CEnd\<rparr>)" by blast
qed

section \<open>Data engines\<close>

text \<open>A data engine other than v1 and v2 is refused by every handler of an instance server with
  \<open>Unimplemented\<close>, and nothing else happens.\<close>

theorem unsupported_data_engine:
  assumes "e \<notin> {DATA_ENGINE_V1, DATA_ENGINE_V2}" "isDataEngine spec = e" "dqDataEngine req = e"
  shows "let s = NewServer pmAddr spdkAddr v2Enabled;
      err = Status Unimplemented (''unsupported data engine '' @ DataEngine_String e)
    in InstanceCreate S s spec w = (Fail err, w) \<and> InstanceDelete S s req w = (Fail err, w) \<and>
      InstanceReplace S s spec sig w = (Fail err, w) \<and> InstanceGet S s e n t w = (Fail err, w) \<and>
      InstanceLog S s srv e n w = (Fail err, w) \<and> InstanceSuspend S s e n t w = (Fail err, w) \<and>
      InstanceResume S s e n t w = (Fail err, w) \<and> InstanceSwitchOverTarget S s e n t a w = (Fail err, w) \<and>
      InstanceDeleteTarget S s e n t w = (Fail err, w) \<and> LogSetLevel S s e l w = (Fail err, w) \<and>
      LogSetFlags S s e l w = (Fail err, w) \<and> LogGetLevel S s e w = (Fail err, w) \<and>
      LogGetFlags S s e w = (Fail err, w)"
proof -
  have refuse: "with_ops (NewServer pmAddr spdkAddr v2Enabled) e k w = (Fail (unsupported_engine e), w)"
    for k :: "instance_ops \<Rightarrow> ('a, 'b) call"
    using assms(1) by (simp add: with_ops_def NewServer_def)
  show ?thesis
    by (simp add: assms(2,3) refuse InstanceCreate_def InstanceDelete_def InstanceReplace_def
        InstanceGet_def InstanceLog_def InstanceSuspend_def InstanceResume_def InstanceSwitchOverTarget_def
        InstanceDeleteTarget_def LogSetLevel_def LogSetFlags_def LogGetLevel_def LogGetFlags_def
        unsupported_engine_def Let_def)
qed

lemma unsupported_data_engine_witness:
  "InstanceGet demo_services (NewServer ''pm:8500'' ''spdk:8504'' True) 7 ''vol-r-0'' ''replica'' 0 =
     (Fail (Status Unimplemented (''unsupported data engine '' @ DataEngine_String 7)), 0)"
proof -
  have "(7 :: int) \<notin> {DATA_ENGINE_V1, DATA_ENGINE_V2}" by (simp add: DATA_ENGINE_V1_def DATA_ENGINE_V2_def)
  from unsupported_data_engine [OF this,
      where S = demo_services and w = 0 and pmAddr = "''pm:8500''" and spdkAddr = "''spdk:8504''" and v2Enabled = True
        and n = "''vol-r-0''" and t = "''replica''" and spec = "zero_instance_spec\<lparr>isDataEngine := 7\<rparr>"
        and req = "\<lparr>dqName = '''', dqType = '''', dqDataEngine = 7, dqDiskUuid = '''', dqCleanupRequired = False\<rparr>"]
  show ?thesis by (simp add: Let_def)
qed

text \<open>A request to create an engine or replica of the v2 data engine without a specification for
  SPDK makes the server panic, as soon as it has reached the SPDK service.\<close>

theorem create_without_spdk_spec_panics:
  assumes "isDataEngine spec = DATA_ENGINE_V2" "isSpdkInstanceSpec spec = None"
    and "isType spec \<in> {InstanceTypeEngine, InstanceTypeReplica}"
    and "spdkConnect (spdkSvc S) spdkAddr w = (Ret (), w1)"
  shows "fst (InstanceCreate S (NewServer pmAddr spdkAddr v2Enabled) spec w) = Panic"
  using assms by (auto simp: InstanceCreate_def with_ops_def NewServer_def dial_spdk_def with_conn_def)

lemma create_without_spdk_spec_panics_witness:
  "fst (InstanceCreate demo_services (NewServer ''pm:8500'' ''spdk:8504'' True)
     (zero_instance_spec\<lparr>isDataEngine := DATA_ENGINE_V2, isType := InstanceTypeEngine\<rparr>) 0) = Panic"
  by (rule create_without_spdk_spec_panics)
    (simp_all add: zero_instance_spec_def demo_defs)

section \<open>Watching\<close>

definition fails :: "watch_event \<Rightarrow> bool" where
  "fails ev = (case ev of RecvError _ \<Rightarrow> True | _ \<Rightarrow> False)"

definition lasting :: "watch_event \<Rightarrow> bool" where
  "lasting ev = (case ev of CtxDone _ \<Rightarrow> False | RecvError e \<Rightarrow> status_code e \<noteq> Canceled | Item \<Rightarrow> True)"

lemma watch_loop_failures:
  "list_all lasting es \<Longrightarrow> n \<le> maxMonitorRetryCount \<Longrightarrow>
    (snd (watch_loop what n es) \<noteq> None \<longleftrightarrow> maxMonitorRetryCount \<le> n + length (filter fails es))"
proof (induction what n es rule: watch_loop.induct)
  case (2 what n ev es)
  show ?case
  proof (cases "n = maxMonitorRetryCount")
    case False
    with 2 show ?thesis
      by (cases ev) (auto simp: lasting_def fails_def split: prod.splits)
  qed simp
qed simp

text \<open>C36. A watch ends after ten failures to receive, however many items it has received in between:
  without cancellation, the loop has ended exactly when ten of its events were failures.  (Its error
  says that they were continuous.)\<close>

theorem watch_ends_after_ten_failures:
  assumes "list_all lasting es"
  shows "snd (watchProcess None es) \<noteq> None \<longleftrightarrow> 10 \<le> length (filter fails es)"
  using watch_loop_failures [OF assms, of 0] by (simp add: watchProcess_def watch_def maxMonitorRetryCount_def)

lemma watch_ends_after_ten_failures_witness:
  "snd (watchProcess None (concat (replicate 10 [RecvError (Err ''transport''), Item, Item]))) \<noteq> None"
proof -
  let ?es = "concat (replicate 10 [RecvError (Err ''transport''), Item, Item])"
  have "list_all lasting ?es" "10 \<le> length (filter fails ?es)" by code_simp+
  with watch_ends_after_ten_failures [of ?es] show ?thesis by blast
qed


section \<open>Client and server\<close>

definition on_v2 :: "string \<Rightarrow> bool" where
  "on_v2 dataEngine \<longleftrightarrow> has_suffix (to_lower dataEngine) ''v2''"

lemma with_engine_choice:
  "with_engine what dataEngine k = k (if on_v2 dataEngine then DATA_ENGINE_V2 else DATA_ENGINE_V1)"
  by (simp add: with_engine_def getDataEngine_def DataEngine_value_def on_v2_def)

lemma with_ops_NewServer [simp]:
  "with_ops (NewServer pm spdk v2Enabled) DATA_ENGINE_V1 k = k (V1DataEngineInstanceOps pm)"
  "with_ops (NewServer pm spdk v2Enabled) DATA_ENGINE_V2 k = k (V2DataEngineInstanceOps spdk)"
  by (simp_all add: with_ops_def NewServer_def DATA_ENGINE_V1_def DATA_ENGINE_V2_def)

text \<open>
  A world whose first part is the level that logrus keeps, and what is assumed of the SPDK service: its calls set the
  level of \<open>spdk_tgt\<close> and leave that of logrus alone.
\<close>

definition logrus :: "(string \<Rightarrow> string) \<Rightarrow> (log_level \<times> 'x) log_service" where
  "logrus quote = \<lparr>logQuote = quote, logGetLevel = fst, logWriteLevel = (\<lambda>l w. (l, snd w))\<rparr>"

definition keeps_level :: "(log_level \<times> 'x) spdk_service \<Rightarrow> bool" where
  "keeps_level s \<longleftrightarrow> (\<forall>a w. fst (snd (spdkConnect s a w)) = fst w) \<and> (\<forall>a w. fst (spdkClose s a w) = fst w) \<and>
     (\<forall>l w. fst (snd (spdkLogSetLevel s l w)) = fst w)"

lemma ParseLevel_String: "ParseLevel quote (Level_String l) = Inr l"
proof -
  have "to_lower ''panic'' = ''panic''" "to_lower ''fatal'' = ''fatal''" "to_lower ''error'' = ''error''"
    "to_lower ''warning'' = ''warning''" "to_lower ''info'' = ''info''" "to_lower ''debug'' = ''debug''"
    "to_lower ''trace'' = ''trace''"
    by code_simp+
  then show ?thesis by (cases l) (simp_all add: ParseLevel_def)
qed

lemma keeps_level_dial:
  assumes "keeps_level (spdkSvc S)"
  shows "fst (snd (Ops_LogSetLevel S (V2DataEngineInstanceOps addr) level w)) = fst w"
proof -
  obtain r w1 where c: "spdkConnect (spdkSvc S) addr w = (r, w1)" by (rule prod.exhaust)
  obtain r2 w2 where l: "spdkLogSetLevel (spdkSvc S) (to_upper level) w1 = (r2, w2)" by (rule prod.exhaust)
  have "fst w1 = fst w" "fst w2 = fst w1" "fst (spdkClose (spdkSvc S) addr w2) = fst w2"
    using assms c l unfolding keeps_level_def by (metis snd_conv)+
  then show ?thesis
    by (cases r; cases r2) (simp_all add: dial_spdk_def with_conn_def on_error_def c l)
qed

text \<open>C37. The level of the log, through client and server.  Whatever the data engine in its request, a client
  reads the name of the level of the instance manager's own log.  A set for the v1 engine sets that level:
  a name that logrus knows, in any case, succeeds, and one that it does not know is refused with the error of its
  parser and changes nothing; a level that was read can be set again.  A set for the v2 engine goes to
  \<open>spdk_tgt\<close> and never changes what clients read, also those that ask for the v2 engine.\<close>

theorem log_level_round_trip:
  fixes S :: "(log_level \<times> 'x) services"
  assumes "logSvc S = logrus quote" "keeps_level (spdkSvc S)"
  shows "let svc = instance_service_of S (NewServer pm spdk v2Enabled) srv
    in (\<forall>e w. Client_LogGetLevel svc e w = (Ret (Level_String (fst w)), w)) \<and>
      (\<not> on_v2 engine \<longrightarrow>
        Client_LogSetLevel svc engine level w =
          (case ParseLevel quote level of Inl e \<Rightarrow> (Fail (wire e), w) | Inr l \<Rightarrow> (Ret (), (l, snd w))) \<and>
        (isl (ParseLevel quote level) \<longleftrightarrow> to_lower level \<notin>
          {''panic'', ''fatal'', ''error'', ''warn'', ''warning'', ''info'', ''debug'', ''trace''}) \<and>
        Client_LogSetLevel svc engine (Level_String l) w = (Ret (), (l, snd w))) \<and>
      (on_v2 engine \<longrightarrow> fst (snd (Client_LogSetLevel svc engine level w)) = fst w)"
proof -
  let ?svc = "instance_service_of S (NewServer pm spdk v2Enabled) srv"
  have set: "Client_LogSetLevel ?svc engine level w =
      (case ParseLevel quote level of Inl e \<Rightarrow> (Fail (wire e), w) | Inr l \<Rightarrow> (Ret (), (l, snd w)))"
    if "\<not> on_v2 engine" for level
    using that assms(1)
    by (cases w) (simp add: Client_LogSetLevel_def with_engine_choice instance_service_of_def over_wire_def LogSetLevel_def
        logSetLevel_def logrus_def on_error_def split: sum.splits)
  have get: "Client_LogGetLevel ?svc e w = (Ret (Level_String (fst w)), w)" for e w
    using assms(1)
    by (simp add: Client_LogGetLevel_def with_engine_choice instance_service_of_def over_wire_def LogGetLevel_def
        logrus_def on_error_def)
  have "isl (ParseLevel quote level) \<longleftrightarrow> to_lower level \<notin>
      {''panic'', ''fatal'', ''error'', ''warn'', ''warning'', ''info'', ''debug'', ''trace''}"
    by (simp add: ParseLevel_def Let_def)
  moreover have "fst (snd (Client_LogSetLevel ?svc engine level w)) = fst w" if "on_v2 engine"
    using that keeps_level_dial [OF assms(2)]
    by (simp add: Client_LogSetLevel_def with_engine_choice instance_service_of_def over_wire_def LogSetLevel_def
        snd_on_error_ret del: Ops_LogSetLevel.simps)
  ultimately show ?thesis by (simp add: Let_def get set ParseLevel_String)
qed

definition log_world :: "(log_level \<times> string) services" where
  "log_world = \<lparr>
     pmSvc = \<lparr>pmConnect = (\<lambda>_. ret ()), pmClose = (\<lambda>_ w. w), rpcProcessCreate = (\<lambda>_. ret demo_response),
       rpcProcessDelete = (\<lambda>_. ret demo_response), rpcProcessGet = (\<lambda>_. ret demo_response), rpcProcessList = ret [],
       rpcProcessReplace = (\<lambda>_ _. ret demo_response), rpcProcessLog = (\<lambda>_. ret ([], None))\<rparr>,
     spdkSvc = \<lparr>spdkConnect = (\<lambda>_. ret ()), spdkClose = (\<lambda>_ w. w), spdkEngineCreate = (\<lambda>_. panic),
       spdkEngineDelete = (\<lambda>_. ret ()), spdkEngineGet = (\<lambda>_. panic), spdkEngineList = ret [],
       spdkEngineSuspend = (\<lambda>_. ret ()), spdkEngineResume = (\<lambda>_. ret ()),
       spdkEngineSwitchOverTarget = (\<lambda>_ _. ret ()), spdkEngineDeleteTarget = (\<lambda>_. ret ()),
       spdkReplicaCreate = (\<lambda>_. panic), spdkReplicaDelete = (\<lambda>_ _. ret ()), spdkReplicaGet = (\<lambda>_. panic),
       spdkReplicaList = ret [], spdkDiskCreate = (\<lambda>_ _ _ _ _. panic), spdkDiskDelete = (\<lambda>_ _ _ _. ret ()),
       spdkDiskGet = (\<lambda>_ _ _. panic), spdkLogSetLevel = (\<lambda>l w. (Ret (), (fst w, l))), spdkLogSetFlags = (\<lambda>_. ret ()),
       spdkLogGetFlags = ret ''''\<rparr>,
     logSvc = logrus id\<rparr>"

lemma log_level_round_trip_witness:
  "let svc = instance_service_of log_world (NewServer ''pm'' ''spdk'' True) (\<lambda>_. None)
   in Client_LogSetLevel svc ''v1'' ''WARN'' (InfoLevel, ''ERROR'') = (Ret (), (WarnLevel, ''ERROR'')) \<and>
     Client_LogGetLevel svc ''v2'' (WarnLevel, ''ERROR'') = (Ret ''warning'', (WarnLevel, ''ERROR'')) \<and>
     fst (snd (Client_LogSetLevel svc ''v2'' ''debug'' (InfoLevel, ''ERROR''))) = InfoLevel"
proof -
  have v: "\<not> on_v2 ''v1''" "on_v2 ''v2''" by code_simp+
  have p: "ParseLevel id ''WARN'' = Inr WarnLevel" by code_simp
  have w: "logSvc log_world = logrus id" "keeps_level (spdkSvc log_world)"
    by (simp_all add: log_world_def keeps_level_def)
  note trip = log_level_round_trip [OF w, of "''pm''" "''spdk''" True "\<lambda>_. None", unfolded Let_def]
  show ?thesis
    using trip [of "''v1''" "''WARN''" "(InfoLevel, ''ERROR'')"] trip [of "''v2''" "''debug''" "(InfoLevel, ''ERROR'')"] v p
    by (simp add: Let_def)
qed

text \<open>C24. Creating an instance of the v1 data engine, from the client to the process manager: the client
  refuses a request without name or type before it calls; the server connects to the process manager
  and closes the connection again, whatever the answer is; the process manager gets the request with
  the name, binary, arguments and port arguments of the client and its number of ports reduced to 32
  bits; its answer arrives as an instance of the type in the request; and errors arrive as a status,
  with the code of the process manager where there is one.\<close>

theorem create_end_to_end:
  assumes "\<not> on_v2 (crDataEngine req)"
  shows "Client_InstanceCreate (instance_service_of S (NewServer pm spdk v2Enabled) srv) req w =
    (if crName req = '''' \<or> crInstanceType req = ''''
     then (Fail (Err ''failed to create instance: missing required parameter''), w)
     else case pmConnect (pmSvc S) (''tcp://'' @ pm) w of
         (Fail e, w1) \<Rightarrow> (Fail (Wrap ''failed to create instance''
             (internal_error ''failed to create ProcessManagerClient''
               (Wrap (''cannot connect to ProcessManagerService tcp://'' @ pm) e))), w1)
       | (Panic, w1) \<Rightarrow> (Panic, w1)
       | (Ret _, w1) \<Rightarrow>
           if crBinary req = ''''
           then (Fail (Wrap ''failed to create instance''
               (Status Unknown ''failed to start process: missing required parameter'')),
             pmClose (pmSvc S) (''tcp://'' @ pm) w1)
           else case rpcProcessCreate (pmSvc S) \<lparr>psName = crName req, psBinary = crBinary req,
               psArgs = crBinaryArgs req, psPortCount = to_int32 (crPortCount req), psPortArgs = crPortArgs req\<rparr> w1 of
             (Ret p, w2) \<Rightarrow> (Ret (RPCToInstance (processResponseToInstanceResponse p (crInstanceType req))),
               pmClose (pmSvc S) (''tcp://'' @ pm) w2)
           | (Fail e, w2) \<Rightarrow> (Fail (Wrap ''failed to create instance'' (wire e)), pmClose (pmSvc S) (''tcp://'' @ pm) w2)
           | (Panic, w2) \<Rightarrow> (Panic, pmClose (pmSvc S) (''tcp://'' @ pm) w2))"
proof -
  obtain r w1 where c: "pmConnect (pmSvc S) (''tcp://'' @ pm) w = (r, w1)" by fastforce
  obtain r2 w2 where p: "rpcProcessCreate (pmSvc S) \<lparr>psName = crName req, psBinary = crBinary req,
      psArgs = crBinaryArgs req, psPortCount = to_int32 (crPortCount req), psPortArgs = crPortArgs req\<rparr> w1 = (r2, w2)"
    by fastforce
  show ?thesis using assms c p
    by (cases r; cases r2)
      (simp_all add: Client_InstanceCreate_def with_engine_choice Let_def instance_service_of_def over_wire_def
        InstanceCreate_def create_spec_def dial_pm_def with_conn_def NewProcessManagerClient_def
        Client_ProcessCreate_def on_error_def wire_def internal_error_def)
qed

definition demo_create_request :: create_request where
  "demo_create_request = \<lparr>crDataEngine = ''v1'', crName = ''vol-r-0'', crInstanceType = ''replica'',
     crVolumeName = ''vol'', crSize = 0, crPortCount = 1, crPortArgs = [], crBinary = ''/e'', crBinaryArgs = [],
     crEngine = \<lparr>erReplicaAddressMap = Map.empty, erFrontend = '''', erInitiatorAddress = '''',
       erTargetAddress = '''', erUpgradeRequired = False, erSalvageRequested = False\<rparr>,
     crReplica = \<lparr>rrDiskName = '''', rrDiskUUID = '''', rrExposeRequired = False, rrBackingImageName = ''''\<rparr>\<rparr>"

lemma create_end_to_end_witness:
  "Client_InstanceCreate (instance_service_of demo_services (NewServer ''pm'' ''spdk'' True) (\<lambda>_. None)) demo_create_request 5 =
     (Ret (RPCToInstance (processResponseToInstanceResponse demo_response ''replica'')), 5)"
proof -
  have "\<not> on_v2 (crDataEngine demo_create_request)" by code_simp
  then show ?thesis by (subst create_end_to_end) (simp_all add: demo_create_request_def demo_defs)
qed

section \<open>Disks\<close>

text \<open>A disk server without SPDK: requests that lack what they need are refused; a complete request
  for a filesystem disk is answered \<open>Unimplemented\<close> and changes nothing; a complete request for a block
  disk makes the server panic, because its SPDK client is nil.\<close>

theorem disk_requests_without_spdk:
  assumes "dkName req \<noteq> ''''" "dkPath req \<noteq> ''''" "dkUuid req \<noteq> ''''" "dkReplicaInstanceName req \<noteq> ''''"
    and "dkType req \<in> {DiskType_filesystem, DiskType_block}"
  shows "\<exists>s. NewDiskServer S dials False spdkAddr w0 = (Ret s, w0) \<and>
    (if dkType req = DiskType_block
     then DiskCreate S s req w = (Panic, w) \<and> DiskDelete S s req w = (Panic, w) \<and> DiskGet S s req w = (Panic, w) \<and>
       DiskReplicaInstanceList S s req w = (Panic, w) \<and> DiskReplicaInstanceDelete S s req w = (Panic, w)
     else let err = Status Unimplemented ''unsupported disk type filesystem''
       in DiskCreate S s req w = (Fail err, w) \<and> DiskDelete S s req w = (Fail err, w) \<and>
         DiskGet S s req w = (Fail err, w) \<and> DiskReplicaInstanceList S s req w = (Fail err, w) \<and>
         DiskReplicaInstanceDelete S s req w = (Fail err, w)) \<and>
    (let bad = req\<lparr>dkName := ''''\<rparr>
     in \<exists>e1 e2 e3. DiskCreate S s bad w = (Fail (Status InvalidArgument e1), w) \<and>
        DiskDelete S s bad w = (Fail (Status InvalidArgument e2), w) \<and>
        DiskGet S s bad w = (Fail (Status InvalidArgument e2), w) \<and>
        DiskReplicaInstanceList S s bad w = (Fail (Status InvalidArgument e2), w) \<and>
        DiskReplicaInstanceDelete S s bad w = (Fail (Status InvalidArgument e3), w))"
  using assms
  by (auto simp: NewDiskServer_def Let_def DiskCreate_def DiskDelete_def DiskGet_def DiskReplicaInstanceList_def
      DiskReplicaInstanceDelete_def with_disk_ops_def client_call_def DiskType_block_def DiskType_filesystem_def
      unsupported_disk_def DiskType_String_def)

lemma disk_requests_without_spdk_witness:
  "\<exists>s. NewDiskServer demo_services [] False ''spdk:8504'' 0 = (Ret s, 0) \<and>
     DiskGet demo_services s \<lparr>dkType = DiskType_block, dkName = ''d'', dkUuid = ''u'', dkPath = ''/dev/sdb'',
       dkDriver = ''aio'', dkBlockSize = 4096, dkReplicaInstanceName = ''r''\<rparr> 0 = (Panic, 0)"
  using disk_requests_without_spdk [where req = "\<lparr>dkType = DiskType_block, dkName = ''d'', dkUuid = ''u'',
      dkPath = ''/dev/sdb'', dkDriver = ''aio'', dkBlockSize = 4096, dkReplicaInstanceName = ''r''\<rparr>"
      and S = demo_services and dials = "[]" and spdkAddr = "''spdk:8504''" and ?w0.0 = 0 and w = 0]
  by auto

end
