(* ===== verification/Proxy_Model.thy ===== *)
theory Proxy_Model
  imports Instance_Model
begin

text \<open>
  The proxy of \<open>pkg/proxy\<close>: one set of requests for the engines of both data engines.  A request
  names the engine's address; the v1 data engine is reached through the controller client and the
  sync tasks of \<open>longhorn-engine\<close>, the v2 data engine through an SPDK client at the same host.
  Both libraries are parameters: the record \<open>proxy_services\<close> holds, for every address, the methods
  the proxy calls.  This theory has the services, the dispatch, and the requests of
  \<open>proxy.go\<close>, \<open>volume.go\<close> and \<open>metrics.go\<close>.
\<close>

section \<open>Services\<close>

text \<open>What a controller client is created for: the address, the volume and the engine.\<close>

type_synonym target = "string \<times> string \<times> string"

record volume_info =
  viName :: string
  viSize :: int
  viReplicaCount :: int
  viEndpoint :: string
  viFrontend :: string
  viFrontendState :: string
  viIsExpanding :: bool
  viLastExpansionError :: string
  viLastExpansionFailedAt :: string
  viUnmapMarkSnapChainRemoved :: bool
  viSnapshotMaxCount :: int
  viSnapshotMaxSize :: int

record engine_version =
  evVersion :: string
  evGitCommit :: string
  evBuildDate :: string
  evCLIAPIVersion :: int
  evCLIAPIMinVersion :: int
  evControllerAPIVersion :: int
  evControllerAPIMinVersion :: int
  evDataFormatVersion :: int
  evDataFormatMinVersion :: int

record rw_metrics =
  rwRead :: nat
  rwWrite :: nat

record engine_metrics =
  emThroughput :: rw_metrics
  emTotalLatency :: rw_metrics
  emIOPS :: rw_metrics

record replica_info =
  riAddress :: string
  riMode :: string

record 'w controller =
  ctlVersionDetailGet :: "('w, engine_version) call"
  ctlMetricsGet :: "('w, engine_metrics) call"
  ctlVolumeGet :: "('w, volume_info) call"
  ctlVolumeExpand :: "int \<Rightarrow> ('w, unit) call"
  ctlVolumeFrontendStart :: "string \<Rightarrow> ('w, unit) call"
  ctlVolumeFrontendShutdown :: "('w, unit) call"
  ctlVolumeUnmapMarkSnapChainRemovedSet :: "bool \<Rightarrow> ('w, unit) call"
  ctlVolumeSnapshotMaxCountSet :: "int \<Rightarrow> ('w, unit) call"
  ctlVolumeSnapshotMaxSizeSet :: "int \<Rightarrow> ('w, unit) call"
  ctlVolumeSnapshot :: "string \<Rightarrow> (string \<rightharpoonup> string) \<Rightarrow> bool \<Rightarrow> ('w, string) call"
  ctlVolumeRevert :: "string \<Rightarrow> ('w, unit) call"
  ctlReplicaList :: "('w, replica_info list) call"
  ctlReplicaDelete :: "string \<Rightarrow> ('w, unit) call"
  ctlReplicaUpdate :: "string \<Rightarrow> string \<Rightarrow> ('w, unit) call"

text \<open>The messages of the sync tasks, of the replica service and of SPDK.\<close>

record local_sync =
  lsSourcePath :: string
  lsTargetPath :: string

record rebuild_status =
  rbError :: string
  rbIsRebuilding :: bool
  rbProgress :: int
  rbState :: string
  rbFromReplicaAddress :: string

record purge_status =
  puIsPurging :: bool
  puError :: string
  puProgress :: int
  puState :: string

record clone_status =
  clIsCloning :: bool
  clError :: string
  clProgress :: int
  clState :: string
  clFromReplicaAddress :: string
  clSnapshotName :: string

record hash_status =
  hsState :: string
  hsChecksum :: string
  hsError :: string
  hsSilentlyCorrupted :: bool

record snapshot_disk =
  sdName :: string
  sdParent :: string
  sdChildren :: "string \<rightharpoonup> bool"
  sdRemoved :: bool
  sdUserCreated :: bool
  sdCreated :: string
  sdSize :: string
  sdLabels :: "string \<rightharpoonup> string"

record backup_create =
  bcBackupName :: string
  bcSnapshotName :: string
  bcVolumeName :: string
  bcEngineName :: string
  bcBackupTarget :: string
  bcStorageClassName :: string
  bcBackingImageName :: string
  bcBackingImageChecksum :: string
  bcCompressionMethod :: string
  bcConcurrentLimit :: int
  bcLabels :: "string list"
  bcCredential :: "string \<rightharpoonup> string"
  bcParameters :: "string \<rightharpoonup> string"

record backup_created =
  bkBackupID :: string
  bkReplicaAddress :: string
  bkIsIncremental :: bool

record backup_status =
  bsProgress :: int
  bsBackupURL :: string
  bsError :: string
  bsSnapshotName :: string
  bsState :: string
  bsReplicaAddress :: string

record restore_status =
  rsIsRestoring :: bool
  rsLastRestored :: string
  rsCurrentRestoringBackup :: string
  rsProgress :: int
  rsError :: string
  rsFilename :: string
  rsState :: string
  rsBackupURL :: string

text \<open>The error of a restore: the errors of the replicas, or any other error.\<close>

datatype restore_error = TaskFailed "replica_error list" | OtherError error

record 'w task =
  tkAddRestoreReplica :: "int \<Rightarrow> int \<Rightarrow> string \<Rightarrow> string \<Rightarrow> ('w, unit) call"
  tkAddReplica ::
    "int \<Rightarrow> int \<Rightarrow> string \<Rightarrow> string \<Rightarrow> int \<Rightarrow> bool \<Rightarrow> local_sync option \<Rightarrow> int \<Rightarrow> ('w, unit) call"
  tkRebuildStatus :: "('w, string \<rightharpoonup> rebuild_status) call"
  tkVerifyRebuildReplica :: "string \<Rightarrow> string \<Rightarrow> ('w, unit) call"
  tkPurgeSnapshots :: "bool \<Rightarrow> ('w, unit) call"
  tkPurgeSnapshotStatus :: "('w, string \<rightharpoonup> purge_status) call"
  tkDeleteSnapshot :: "string \<Rightarrow> ('w, unit) call"
  tkHashSnapshot :: "string \<Rightarrow> bool \<Rightarrow> ('w, unit) call"
  tkHashSnapshotStatus :: "string \<Rightarrow> ('w, string \<rightharpoonup> hash_status) call"
  tkCreateBackup :: "backup_create \<Rightarrow> ('w, backup_created) call"
  tkRestoreBackup :: "string \<Rightarrow> (string \<rightharpoonup> string) \<Rightarrow> int \<Rightarrow> 'w \<Rightarrow> restore_error option \<times> 'w"
  tkRestoreStatus :: "('w, string \<rightharpoonup> restore_status) call"

record shallow_copy =
  scError :: string
  scTotalState :: string
  scTotalProgress :: nat
  scSrcReplicaAddress :: string

record spdk_backing_image =
  biName :: string
  biBackingImageUUID :: string
  biLvsUUID :: string
  biSize :: nat
  biExpectedChecksum :: string
  biProgress :: int
  biState :: string
  biCurrentChecksum :: string
  biErrorMsg :: string

record backing_image_create =
  bmName :: string
  bmBackingImageUuid :: string
  bmDiskUuid :: string
  bmSize :: nat
  bmChecksum :: string
  bmFromAddress :: string
  bmSrcLvsUuid :: string

record 'w spdk_client =
  scEngineGet :: "string \<Rightarrow> ('w, spdk_engine) call"
  scEngineSnapshotCreate :: "string \<Rightarrow> string \<Rightarrow> ('w, string) call"
  scEngineSnapshotDelete :: "string \<Rightarrow> string \<Rightarrow> ('w, unit) call"
  scEngineSnapshotRevert :: "string \<Rightarrow> string \<Rightarrow> ('w, unit) call"
  scEngineSnapshotPurge :: "string \<Rightarrow> ('w, unit) call"
  scEngineReplicaAdd :: "string \<Rightarrow> string \<Rightarrow> string \<Rightarrow> ('w, unit) call"
  scEngineReplicaDelete :: "string \<Rightarrow> string \<Rightarrow> string \<Rightarrow> ('w, unit) call"
  scShallowCopyCheck :: "string \<Rightarrow> ('w, shallow_copy) call"
  scEngineBackupCreate :: "backup_create \<Rightarrow> ('w, backup_created) call"
  scEngineBackupStatus :: "string \<Rightarrow> string \<Rightarrow> string \<Rightarrow> ('w, backup_status) call"
  scEngineBackupRestore :: "string \<Rightarrow> string \<Rightarrow> (string \<rightharpoonup> string) \<Rightarrow> int \<Rightarrow> 'w \<Rightarrow> restore_error option \<times> 'w"
  scEngineRestoreStatus :: "string \<Rightarrow> ('w, (string \<times> restore_status) list) call"
  scBackingImageCreate :: "backing_image_create \<Rightarrow> ('w, spdk_backing_image) call"
  scBackingImageDelete :: "string \<Rightarrow> string \<Rightarrow> ('w, unit) call"
  scBackingImageGet :: "string \<Rightarrow> string \<Rightarrow> ('w, spdk_backing_image) call"
  scBackingImageList :: "('w, string \<rightharpoonup> spdk_backing_image) call"

record 'w proxy_services =
  ctlConnect :: "target \<Rightarrow> ('w, unit) call"
  ctlClose :: "target \<Rightarrow> 'w \<Rightarrow> 'w"
  controllerAt :: "target \<Rightarrow> 'w controller"
  taskNew :: "target \<Rightarrow> ('w, unit) call"
  taskAt :: "target \<Rightarrow> 'w task"
  spdkDial :: "string \<Rightarrow> ('w, unit) call"
  spdkHangup :: "string \<Rightarrow> 'w \<Rightarrow> 'w"
  spdkAt :: "string \<Rightarrow> 'w spdk_client"
  repConnect :: "target \<Rightarrow> ('w, unit) call"
  repClose :: "target \<Rightarrow> 'w \<Rightarrow> 'w"
  repBackupStatus :: "target \<Rightarrow> string \<Rightarrow> ('w, backup_status) call"
  getSnapshotsInfo :: "replica_info list \<Rightarrow> string \<Rightarrow> ('w, string \<rightharpoonup> snapshot_disk) call"
  cloneSnapshot ::
    "target \<Rightarrow> target \<Rightarrow> string \<Rightarrow> string \<Rightarrow> string \<Rightarrow> bool \<Rightarrow> int \<Rightarrow> int \<Rightarrow> ('w, unit) call"
  cloneStatus :: "target \<Rightarrow> string \<Rightarrow> ('w, string \<rightharpoonup> clone_status) call"
  osSetenv :: "string \<Rightarrow> string \<Rightarrow> ('w, unit) call"
  getBackupCredential :: "string \<Rightarrow> ('w, string \<rightharpoonup> string) call"
  cleanUpAllMounts :: "('w, unit) call"
  listMounts :: "'w \<Rightarrow> mount_point list result"
  newNamespaceExecutor :: "('w, unit) call"
  nsExecute :: "string \<Rightarrow> string list \<Rightarrow> ('w, string) call"
  sha256Hex :: "string \<Rightarrow> string"

section \<open>Connections\<close>

definition with_ctl :: "'w proxy_services \<Rightarrow> target \<Rightarrow> ('w controller \<Rightarrow> ('w, 'a) call) \<Rightarrow> ('w, 'a) call" where
  "with_ctl S t body = with_conn (ctlConnect S t) id (ctlClose S t) (body (controllerAt S t))"

text \<open>
  \<open>sync.NewTask\<close> connects to the controller, and a goroutine that it starts closes the connection when
  the context of the request is done; so the handler does not close it, and it is still open when
  the handler returns.
\<close>

definition with_task ::
  "'w proxy_services \<Rightarrow> target \<Rightarrow> (error \<Rightarrow> error) \<Rightarrow> ('w task \<Rightarrow> ('w, 'a) call) \<Rightarrow> ('w, 'a) call" where
  "with_task S t f body = on_error (taskNew S t) f (\<lambda>_. body (taskAt S t))"

definition InstanceManagerProcessManagerServiceDefaultPort :: int where
  "InstanceManagerProcessManagerServiceDefaultPort = 8500"

definition InstanceManagerSpdkServiceDefaultPort :: int where
  "InstanceManagerSpdkServiceDefaultPort = InstanceManagerProcessManagerServiceDefaultPort + 4"

text \<open>\<open>net.AddrError\<close> as an error.\<close>

fun addr_error_string :: "addr_error \<Rightarrow> string" where
  "addr_error_string MissingPort = ''missing port in address''"
| "addr_error_string TooManyColons = ''too many colons in address''"
| "addr_error_string MissingBracket = ''missing '' @ [CHR 0x27] @ '']'' @ [CHR 0x27] @ '' in address''"
| "addr_error_string UnexpectedOpen = ''unexpected '' @ [CHR 0x27] @ ''['' @ [CHR 0x27] @ '' in address''"
| "addr_error_string UnexpectedClose = ''unexpected '' @ [CHR 0x27] @ '']'' @ [CHR 0x27] @ '' in address''"

definition addr_error :: "string \<Rightarrow> addr_error \<Rightarrow> error" where
  "addr_error addr e =
     Err (if addr = '''' then addr_error_string e else ''address '' @ addr @ '': '' @ addr_error_string e)"

text \<open>The SPDK service of the host of an address listens on the default port.\<close>

definition spdk_address :: "string \<Rightarrow> string result" where
  "spdk_address address =
     (case split_host_port address of
        Inl e \<Rightarrow> Inl (addr_error address e)
      | Inr (host, _) \<Rightarrow> Inr (join_host_port host (itoa InstanceManagerSpdkServiceDefaultPort)))"

definition getSPDKClientFromAddress ::
  "'w proxy_services \<Rightarrow> string \<Rightarrow> (error \<Rightarrow> error) \<Rightarrow> ('w spdk_client \<Rightarrow> ('w, 'a) call) \<Rightarrow> ('w, 'a) call" where
  "getSPDKClientFromAddress S address f body =
     (case spdk_address address of
        Inl e \<Rightarrow> fail (f e)
      | Inr a \<Rightarrow> with_conn (spdkDial S a) f (spdkHangup S a) (body (spdkAt S a)))"

definition with_spdk :: "'w proxy_services \<Rightarrow> string \<Rightarrow> ('w spdk_client \<Rightarrow> ('w, 'a) call) \<Rightarrow> ('w, 'a) call" where
  "with_spdk S address body =
     getSPDKClientFromAddress S address
       (internal_error (''failed to get SPDK client from engine address '' @ address)) body"

section \<open>The proxy\<close>

datatype proxy_ops = V1DataEngineProxyOps | V2DataEngineProxyOps

record proxy =
  pxOps :: "int \<rightharpoonup> proxy_ops"
  pxSpdkServiceAddress :: string

text \<open>\<open>NewProxy\<close> connects the client for the local SPDK service, which it keeps.\<close>

definition NewProxy :: "'w proxy_services \<Rightarrow> string \<Rightarrow> ('w, proxy) call" where
  "NewProxy S spdkServiceAddress =
     on_error (spdkDial S spdkServiceAddress) (internal_error ''failed to create SPDK client'')
       (\<lambda>_. ret \<lparr>pxOps = [DATA_ENGINE_V1 \<mapsto> V1DataEngineProxyOps, DATA_ENGINE_V2 \<mapsto> V2DataEngineProxyOps],
                 pxSpdkServiceAddress = spdkServiceAddress\<rparr>)"

text \<open>
  \<open>ProxyEngineRequest\<close>.  It is a message of its own in some requests and a field, which may be
  nil, of the others.  Reading a field through a nil pointer panics.
\<close>

record engine_req =
  pqAddress :: string
  pqEngineName :: string
  pqVolumeName :: string
  pqDataEngine :: int

definition engine_target :: "engine_req \<Rightarrow> target" where
  "engine_target r = (pqAddress r, pqVolumeName r, pqEngineName r)"

definition deref :: "'x option \<Rightarrow> ('x \<Rightarrow> ('w, 'a) call) \<Rightarrow> ('w, 'a) call" where
  "deref p k = (case p of None \<Rightarrow> panic | Some x \<Rightarrow> k x)"

definition with_proxy_ops :: "proxy \<Rightarrow> engine_req \<Rightarrow> (proxy_ops \<Rightarrow> ('w, 'a) call) \<Rightarrow> ('w, 'a) call" where
  "with_proxy_ops p r k =
     (case pxOps p (pqDataEngine r) of
        None \<Rightarrow> fail (unsupported_engine (pqDataEngine r))
      | Some ops \<Rightarrow> k ops)"

definition not_implemented :: error where
  "not_implemented = Status Unimplemented ''not implemented''"

definition ServerVersionGet :: "'w proxy_services \<Rightarrow> engine_req \<Rightarrow> ('w, engine_version) call" where
  "ServerVersionGet S r =
     with_ctl S (engine_target r) (\<lambda>c. on_error (ctlVersionDetailGet c) id (\<lambda>v.
       ret \<lparr>evVersion = evVersion v, evGitCommit = evGitCommit v, evBuildDate = evBuildDate v,
            evCLIAPIVersion = to_int64 (evCLIAPIVersion v),
            evCLIAPIMinVersion = to_int64 (evCLIAPIMinVersion v),
            evControllerAPIVersion = to_int64 (evControllerAPIVersion v),
            evControllerAPIMinVersion = to_int64 (evControllerAPIMinVersion v),
            evDataFormatVersion = to_int64 (evDataFormatVersion v),
            evDataFormatMinVersion = to_int64 (evDataFormatMinVersion v)\<rparr>))"

record metrics_reply =
  meReadThroughput :: nat
  meWriteThroughput :: nat
  meReadLatency :: nat
  meWriteLatency :: nat
  meReadIOPS :: nat
  meWriteIOPS :: nat

definition MetricsGet :: "'w proxy_services \<Rightarrow> engine_req \<Rightarrow> ('w, metrics_reply) call" where
  "MetricsGet S r =
     with_ctl S (engine_target r) (\<lambda>c. on_error (ctlMetricsGet c) id (\<lambda>m.
       ret \<lparr>meReadThroughput = rwRead (emThroughput m), meWriteThroughput = rwWrite (emThroughput m),
            meReadLatency = rwRead (emTotalLatency m), meWriteLatency = rwWrite (emTotalLatency m),
            meReadIOPS = rwRead (emIOPS m), meWriteIOPS = rwWrite (emIOPS m)\<rparr>))"

section \<open>Volumes\<close>

fun Ops_VolumeGet :: "'w proxy_services \<Rightarrow> proxy_ops \<Rightarrow> engine_req \<Rightarrow> ('w, volume_info) call" where
  "Ops_VolumeGet S V1DataEngineProxyOps r =
     with_ctl S (engine_target r) (\<lambda>c. on_error (ctlVolumeGet c) id (\<lambda>v.
       ret \<lparr>viName = viName v, viSize = viSize v, viReplicaCount = to_int32 (viReplicaCount v),
            viEndpoint = viEndpoint v, viFrontend = viFrontend v, viFrontendState = viFrontendState v,
            viIsExpanding = viIsExpanding v, viLastExpansionError = viLastExpansionError v,
            viLastExpansionFailedAt = viLastExpansionFailedAt v,
            viUnmapMarkSnapChainRemoved = viUnmapMarkSnapChainRemoved v,
            viSnapshotMaxCount = to_int32 (viSnapshotMaxCount v),
            viSnapshotMaxSize = viSnapshotMaxSize v\<rparr>))"
| "Ops_VolumeGet S V2DataEngineProxyOps r =
     with_spdk S (pqAddress r) (\<lambda>c.
       on_error (scEngineGet c (pqEngineName r)) (internal_error (''failed to get engine '' @ pqEngineName r)) (\<lambda>e.
         ret \<lparr>viName = eName e, viSize = to_int64 (int (eSpecSize e)),
              viReplicaCount = to_int32 (int (length (eReplicaAddressMap e))),
              viEndpoint = eEndpoint e, viFrontend = eFrontend e, viFrontendState = '''',
              viIsExpanding = False, viLastExpansionError = '''', viLastExpansionFailedAt = '''',
              viUnmapMarkSnapChainRemoved = False, viSnapshotMaxCount = 0, viSnapshotMaxSize = 0\<rparr>))"

definition VolumeGet :: "'w proxy_services \<Rightarrow> proxy \<Rightarrow> engine_req \<Rightarrow> ('w, volume_info) call" where
  "VolumeGet S p r = with_proxy_ops p r (\<lambda>ops. Ops_VolumeGet S ops r)"

text \<open>
  The requests that change a volume share the shape of their v1 operation; \<open>ctl_do\<close> is a method of
  the controller whose error is returned.
\<close>

definition ctl_do ::
  "'w proxy_services \<Rightarrow> engine_req \<Rightarrow> ('w controller \<Rightarrow> ('w, unit) call) \<Rightarrow> ('w, unit) call" where
  "ctl_do S r method = with_ctl S (engine_target r) (\<lambda>c. on_error (method c) id ret)"

fun Ops_VolumeExpand :: "'w proxy_services \<Rightarrow> proxy_ops \<Rightarrow> engine_req \<Rightarrow> int \<Rightarrow> ('w, unit) call" where
  "Ops_VolumeExpand S V1DataEngineProxyOps r sz = ctl_do S r (\<lambda>c. ctlVolumeExpand c sz)"
| "Ops_VolumeExpand S V2DataEngineProxyOps r sz = fail not_implemented"

definition VolumeExpand ::
  "'w proxy_services \<Rightarrow> proxy \<Rightarrow> engine_req option \<Rightarrow> int option \<Rightarrow> ('w, unit) call" where
  "VolumeExpand S p req expand = deref req (\<lambda>r. deref expand (\<lambda>sz.
     with_proxy_ops p r (\<lambda>ops. Ops_VolumeExpand S ops r sz)))"

fun Ops_VolumeFrontendStart :: "'w proxy_services \<Rightarrow> proxy_ops \<Rightarrow> engine_req \<Rightarrow> string \<Rightarrow> ('w, unit) call" where
  "Ops_VolumeFrontendStart S V1DataEngineProxyOps r frontend =
     ctl_do S r (\<lambda>c. ctlVolumeFrontendStart c frontend)"
| "Ops_VolumeFrontendStart S V2DataEngineProxyOps r frontend = ret ()"

definition VolumeFrontendStart ::
  "'w proxy_services \<Rightarrow> proxy \<Rightarrow> engine_req option \<Rightarrow> string option \<Rightarrow> ('w, unit) call" where
  "VolumeFrontendStart S p req frontendStart = deref req (\<lambda>r. deref frontendStart (\<lambda>frontend.
     with_proxy_ops p r (\<lambda>ops. Ops_VolumeFrontendStart S ops r frontend)))"

fun Ops_VolumeFrontendShutdown :: "'w proxy_services \<Rightarrow> proxy_ops \<Rightarrow> engine_req \<Rightarrow> ('w, unit) call" where
  "Ops_VolumeFrontendShutdown S V1DataEngineProxyOps r = ctl_do S r ctlVolumeFrontendShutdown"
| "Ops_VolumeFrontendShutdown S V2DataEngineProxyOps r = ret ()"

definition VolumeFrontendShutdown :: "'w proxy_services \<Rightarrow> proxy \<Rightarrow> engine_req \<Rightarrow> ('w, unit) call" where
  "VolumeFrontendShutdown S p r = with_proxy_ops p r (\<lambda>ops. Ops_VolumeFrontendShutdown S ops r)"

fun Ops_VolumeUnmapMarkSnapChainRemovedSet ::
  "'w proxy_services \<Rightarrow> proxy_ops \<Rightarrow> engine_req \<Rightarrow> bool \<Rightarrow> ('w, unit) call" where
  "Ops_VolumeUnmapMarkSnapChainRemovedSet S V1DataEngineProxyOps r enabled =
     ctl_do S r (\<lambda>c. ctlVolumeUnmapMarkSnapChainRemovedSet c enabled)"
| "Ops_VolumeUnmapMarkSnapChainRemovedSet S V2DataEngineProxyOps r enabled = ret ()"

definition VolumeUnmapMarkSnapChainRemovedSet ::
  "'w proxy_services \<Rightarrow> proxy \<Rightarrow> engine_req option \<Rightarrow> bool option \<Rightarrow> ('w, unit) call" where
  "VolumeUnmapMarkSnapChainRemovedSet S p req unmapMarkSnap = deref req (\<lambda>r. deref unmapMarkSnap (\<lambda>enabled.
     with_proxy_ops p r (\<lambda>ops. Ops_VolumeUnmapMarkSnapChainRemovedSet S ops r enabled)))"

fun Ops_VolumeSnapshotMaxCountSet ::
  "'w proxy_services \<Rightarrow> proxy_ops \<Rightarrow> engine_req \<Rightarrow> int \<Rightarrow> ('w, unit) call" where
  "Ops_VolumeSnapshotMaxCountSet S V1DataEngineProxyOps r count =
     ctl_do S r (\<lambda>c. ctlVolumeSnapshotMaxCountSet c count)"
| "Ops_VolumeSnapshotMaxCountSet S V2DataEngineProxyOps r count = ret ()"

definition VolumeSnapshotMaxCountSet ::
  "'w proxy_services \<Rightarrow> proxy \<Rightarrow> engine_req option \<Rightarrow> int option \<Rightarrow> ('w, unit) call" where
  "VolumeSnapshotMaxCountSet S p req count = deref req (\<lambda>r. deref count (\<lambda>n.
     with_proxy_ops p r (\<lambda>ops. Ops_VolumeSnapshotMaxCountSet S ops r n)))"

fun Ops_VolumeSnapshotMaxSizeSet ::
  "'w proxy_services \<Rightarrow> proxy_ops \<Rightarrow> engine_req \<Rightarrow> int \<Rightarrow> ('w, unit) call" where
  "Ops_VolumeSnapshotMaxSizeSet S V1DataEngineProxyOps r sz =
     ctl_do S r (\<lambda>c. ctlVolumeSnapshotMaxSizeSet c sz)"
| "Ops_VolumeSnapshotMaxSizeSet S V2DataEngineProxyOps r sz = ret ()"

definition VolumeSnapshotMaxSizeSet ::
  "'w proxy_services \<Rightarrow> proxy \<Rightarrow> engine_req option \<Rightarrow> int option \<Rightarrow> ('w, unit) call" where
  "VolumeSnapshotMaxSizeSet S p req maxSize = deref req (\<lambda>r. deref maxSize (\<lambda>n.
     with_proxy_ops p r (\<lambda>ops. Ops_VolumeSnapshotMaxSizeSet S ops r n)))"

text \<open>\<open>RemountReadOnlyVolume\<close> mounts the volume's file system again with write access, if it is mounted.\<close>

definition RemountReadOnlyVolume :: "'w proxy_services \<Rightarrow> string \<Rightarrow> ('w, unit) call" where
  "RemountReadOnlyVolume S volumeName w =
     (case GetVolumeMountPointMap (listMounts S w) of
        None \<Rightarrow> (Panic, w)
      | Some (Inl e) \<Rightarrow> (Fail e, w)
      | Some (Inr mounts) \<Rightarrow>
          on_error (newNamespaceExecutor S) id (\<lambda>_.
            case mounts (sha256Hex S volumeName) of
              None \<Rightarrow> ret ()
            | Some mp \<Rightarrow>
                on_error (nsExecute S ''mount'' [''-o'', ''remount,rw'', mpPath mp])
                  (internal_error ''remount failed with error'') (\<lambda>_. ret ())) w)"

end
