(* ===== verification/Proxy_Snapshot.thy ===== *)
theory Proxy_Snapshot
  imports Proxy_Model
begin

text \<open>The requests of \<open>pkg/proxy/snapshot.go\<close>, on the snapshots of a volume.\<close>

section \<open>Creating, reverting and cloning\<close>

record snapshot_volume =
  svName :: string
  svLabels :: "string \<rightharpoonup> string"
  svFreezeFilesystem :: bool

text \<open>A snapshot without a name gets a UUID in the v2 operation; \<open>uuid\<close> is the one it would draw.\<close>

fun Ops_VolumeSnapshot ::
  "'w proxy_services \<Rightarrow> proxy_ops \<Rightarrow> string \<Rightarrow> engine_req \<Rightarrow> snapshot_volume \<Rightarrow> ('w, string) call" where
  "Ops_VolumeSnapshot S V1DataEngineProxyOps uuid r sv =
     with_ctl S (engine_target r) (\<lambda>c.
       on_error (ctlVolumeSnapshot c (svName sv) (svLabels sv) (svFreezeFilesystem sv)) id ret)"
| "Ops_VolumeSnapshot S V2DataEngineProxyOps uuid r sv =
     with_spdk S (pqAddress r) (\<lambda>c.
       let snapshotName = (if svName sv = '''' then uuid else svName sv)
       in on_error (scEngineSnapshotCreate c (pqEngineName r) snapshotName)
            (internal_error (''failed to create snapshot '' @ snapshotName)) (\<lambda>_. ret snapshotName))"

definition VolumeSnapshot ::
  "'w proxy_services \<Rightarrow> proxy \<Rightarrow> string \<Rightarrow> engine_req option \<Rightarrow> snapshot_volume option \<Rightarrow> ('w, string) call" where
  "VolumeSnapshot S p uuid req snapshotVolume = deref req (\<lambda>r. deref snapshotVolume (\<lambda>sv.
     with_proxy_ops p r (\<lambda>ops. Ops_VolumeSnapshot S ops uuid r sv)))"

fun Ops_SnapshotRevert :: "'w proxy_services \<Rightarrow> proxy_ops \<Rightarrow> engine_req \<Rightarrow> string \<Rightarrow> ('w, unit) call" where
  "Ops_SnapshotRevert S V1DataEngineProxyOps r name = ctl_do S r (\<lambda>c. ctlVolumeRevert c name)"
| "Ops_SnapshotRevert S V2DataEngineProxyOps r name =
     with_spdk S (pqAddress r) (\<lambda>c.
       on_error (scEngineSnapshotRevert c (pqEngineName r) name)
         (internal_error (''failed to create snapshot '' @ name)) ret)"

definition SnapshotRevert ::
  "'w proxy_services \<Rightarrow> proxy \<Rightarrow> engine_req option \<Rightarrow> string \<Rightarrow> ('w, unit) call" where
  "SnapshotRevert S p req name = deref req (\<lambda>r. with_proxy_ops p r (\<lambda>ops. Ops_SnapshotRevert S ops r name))"

record snapshot_clone =
  snFromEngineAddress :: string
  snFromVolumeName :: string
  snFromEngineName :: string
  snSnapshotName :: string
  snExportBackingImageIfExist :: bool
  snFileSyncHttpClientTimeout :: int
  snGrpcTimeoutSeconds :: int

definition clone_from :: "snapshot_clone \<Rightarrow> target" where
  "clone_from q = (snFromEngineAddress q, snFromVolumeName q, snFromEngineName q)"

fun Ops_SnapshotClone :: "'w proxy_services \<Rightarrow> proxy_ops \<Rightarrow> engine_req \<Rightarrow> snapshot_clone \<Rightarrow> ('w, unit) call" where
  "Ops_SnapshotClone S V1DataEngineProxyOps r q =
     with_ctl S (clone_from q) (\<lambda>_. with_ctl S (engine_target r) (\<lambda>_.
       on_error (cloneSnapshot S (engine_target r) (clone_from q) (pqVolumeName r) (snFromVolumeName q)
           (snSnapshotName q) (snExportBackingImageIfExist q) (snFileSyncHttpClientTimeout q)
           (snGrpcTimeoutSeconds q)) id ret))"
| "Ops_SnapshotClone S V2DataEngineProxyOps r q = fail not_implemented"

definition SnapshotClone ::
  "'w proxy_services \<Rightarrow> proxy \<Rightarrow> engine_req option \<Rightarrow> snapshot_clone \<Rightarrow> ('w, unit) call" where
  "SnapshotClone S p req q = deref req (\<lambda>r. with_proxy_ops p r (\<lambda>ops. Ops_SnapshotClone S ops r q))"

fun Ops_SnapshotCloneStatus ::
  "'w proxy_services \<Rightarrow> proxy_ops \<Rightarrow> engine_req \<Rightarrow> ('w, string \<rightharpoonup> clone_status) call" where
  "Ops_SnapshotCloneStatus S V1DataEngineProxyOps r =
     with_ctl S (engine_target r) (\<lambda>_. on_error (cloneStatus S (engine_target r) (pqVolumeName r)) id (\<lambda>m.
       ret (\<lambda>k. map_option (\<lambda>v. \<lparr>clIsCloning = clIsCloning v, clError = clError v,
         clProgress = to_int32 (clProgress v), clState = clState v,
         clFromReplicaAddress = clFromReplicaAddress v, clSnapshotName = clSnapshotName v\<rparr>) (m k))))"
| "Ops_SnapshotCloneStatus S V2DataEngineProxyOps r = ret Map.empty"

definition SnapshotCloneStatus ::
  "'w proxy_services \<Rightarrow> proxy \<Rightarrow> engine_req \<Rightarrow> ('w, string \<rightharpoonup> clone_status) call" where
  "SnapshotCloneStatus S p r = with_proxy_ops p r (\<lambda>ops. Ops_SnapshotCloneStatus S ops r)"

section \<open>Listing\<close>

text \<open>
  The v2 operation adds the head of the volume to the snapshots under its own name, and falls back
  to the creation time when a snapshot has no timestamp.
\<close>

definition spdk_snapshot_disk :: "lvol \<Rightarrow> snapshot_disk" where
  "spdk_snapshot_disk s =
     \<lparr>sdName = lvName s, sdParent = lvParent s, sdChildren = lvChildren s, sdRemoved = False,
      sdUserCreated = lvUserCreated s,
      sdCreated = (if lvSnapshotTimestamp s = '''' then lvCreationTime s else lvSnapshotTimestamp s),
      sdSize = utoa (lvActualSize s), sdLabels = Map.empty\<rparr>"

definition engine_disks :: "spdk_engine \<Rightarrow> (string \<rightharpoonup> lvol)" where
  "engine_disks e =
     (case eHead e of None \<Rightarrow> eSnapshots e | Some head \<Rightarrow> (eSnapshots e)(lvName head \<mapsto> head))"

fun Ops_SnapshotList :: "'w proxy_services \<Rightarrow> proxy_ops \<Rightarrow> engine_req \<Rightarrow> ('w, string \<rightharpoonup> snapshot_disk) call" where
  "Ops_SnapshotList S V1DataEngineProxyOps r =
     with_ctl S (engine_target r) (\<lambda>c. on_error (ctlReplicaList c) id (\<lambda>replicas.
       on_error (getSnapshotsInfo S replicas (pqVolumeName r)) id (\<lambda>m.
         ret (\<lambda>k. map_option (\<lambda>v. \<lparr>sdName = sdName v, sdParent = sdParent v, sdChildren = sdChildren v,
           sdRemoved = sdRemoved v, sdUserCreated = sdUserCreated v, sdCreated = sdCreated v,
           sdSize = sdSize v, sdLabels = sdLabels v\<rparr>) (m k)))))"
| "Ops_SnapshotList S V2DataEngineProxyOps r =
     getSPDKClientFromAddress S (pqAddress r)
       (Wrap (''failed to get SPDK client from engine address '' @ pqAddress r)) (\<lambda>c.
       on_error (scEngineGet c (pqEngineName r)) (Wrap (''failed to get engine '' @ pqEngineName r)) (\<lambda>e.
         ret (\<lambda>k. map_option spdk_snapshot_disk (engine_disks e k))))"

definition SnapshotList ::
  "'w proxy_services \<Rightarrow> proxy \<Rightarrow> engine_req \<Rightarrow> ('w, string \<rightharpoonup> snapshot_disk) call" where
  "SnapshotList S p r = with_proxy_ops p r (\<lambda>ops. Ops_SnapshotList S ops r)"

section \<open>Purging\<close>

text \<open>The v2 operation assigns the error of the purge and returns nil all the same.\<close>

definition ignore_error :: "('w, 'a) call \<Rightarrow> ('w, unit) call" where
  "ignore_error m w =
     (case m w of (Ret _, w') \<Rightarrow> (Ret (), w') | (Fail _, w') \<Rightarrow> (Ret (), w') | (Panic, w') \<Rightarrow> (Panic, w'))"

fun Ops_SnapshotPurge :: "'w proxy_services \<Rightarrow> proxy_ops \<Rightarrow> engine_req \<Rightarrow> bool \<Rightarrow> ('w, unit) call" where
  "Ops_SnapshotPurge S V1DataEngineProxyOps r skipIfInProgress =
     with_task S (engine_target r) id (\<lambda>t. on_error (tkPurgeSnapshots t skipIfInProgress) id ret)"
| "Ops_SnapshotPurge S V2DataEngineProxyOps r skipIfInProgress =
     with_spdk S (pqAddress r) (\<lambda>c. ignore_error (scEngineSnapshotPurge c (pqEngineName r)))"

definition SnapshotPurge ::
  "'w proxy_services \<Rightarrow> proxy \<Rightarrow> engine_req option \<Rightarrow> bool \<Rightarrow> ('w, unit) call" where
  "SnapshotPurge S p req skipIfInProgress = deref req (\<lambda>r.
     with_proxy_ops p r (\<lambda>ops. Ops_SnapshotPurge S ops r skipIfInProgress))"

fun Ops_SnapshotPurgeStatus ::
  "'w proxy_services \<Rightarrow> proxy_ops \<Rightarrow> engine_req \<Rightarrow> ('w, string \<rightharpoonup> purge_status) call" where
  "Ops_SnapshotPurgeStatus S V1DataEngineProxyOps r =
     with_task S (engine_target r) id (\<lambda>t. on_error (tkPurgeSnapshotStatus t) id (\<lambda>m.
       ret (\<lambda>k. map_option (\<lambda>v. \<lparr>puIsPurging = puIsPurging v, puError = puError v,
         puProgress = to_int32 (puProgress v), puState = puState v\<rparr>) (m k))))"
| "Ops_SnapshotPurgeStatus S V2DataEngineProxyOps r = ret Map.empty"

definition SnapshotPurgeStatus ::
  "'w proxy_services \<Rightarrow> proxy \<Rightarrow> engine_req \<Rightarrow> ('w, string \<rightharpoonup> purge_status) call" where
  "SnapshotPurgeStatus S p r = with_proxy_ops p r (\<lambda>ops. Ops_SnapshotPurgeStatus S ops r)"

section \<open>Removing\<close>

text \<open>Every name is tried; the last error is returned.\<close>

fun remove_loop :: "(string \<Rightarrow> ('w, unit) call) \<Rightarrow> string list \<Rightarrow> error option \<Rightarrow> ('w, unit) call" where
  "remove_loop delete [] lastErr w = (case lastErr of None \<Rightarrow> (Ret (), w) | Some e \<Rightarrow> (Fail e, w))"
| "remove_loop delete (name # names) lastErr w =
     (case delete name w of
        (Ret _, w') \<Rightarrow> remove_loop delete names lastErr w'
      | (Fail e, w') \<Rightarrow> remove_loop delete names (Some e) w'
      | (Panic, w') \<Rightarrow> (Panic, w'))"

fun Ops_SnapshotRemove :: "'w proxy_services \<Rightarrow> proxy_ops \<Rightarrow> engine_req \<Rightarrow> string list \<Rightarrow> ('w, unit) call" where
  "Ops_SnapshotRemove S V1DataEngineProxyOps r names =
     with_task S (engine_target r) id (\<lambda>t. remove_loop (tkDeleteSnapshot t) names None)"
| "Ops_SnapshotRemove S V2DataEngineProxyOps r names =
     with_spdk S (pqAddress r) (\<lambda>c. remove_loop (scEngineSnapshotDelete c (pqEngineName r)) names None)"

definition SnapshotRemove ::
  "'w proxy_services \<Rightarrow> proxy \<Rightarrow> engine_req option \<Rightarrow> string list \<Rightarrow> ('w, unit) call" where
  "SnapshotRemove S p req names = deref req (\<lambda>r. with_proxy_ops p r (\<lambda>ops. Ops_SnapshotRemove S ops r names))"

section \<open>Hashing\<close>

fun Ops_SnapshotHash :: "'w proxy_services \<Rightarrow> proxy_ops \<Rightarrow> engine_req \<Rightarrow> string \<Rightarrow> bool \<Rightarrow> ('w, unit) call" where
  "Ops_SnapshotHash S V1DataEngineProxyOps r snapshotName rehash =
     with_task S (engine_target r) id (\<lambda>t. on_error (tkHashSnapshot t snapshotName rehash) id ret)"
| "Ops_SnapshotHash S V2DataEngineProxyOps r snapshotName rehash = fail not_implemented"

definition SnapshotHash ::
  "'w proxy_services \<Rightarrow> proxy \<Rightarrow> engine_req option \<Rightarrow> string \<Rightarrow> bool \<Rightarrow> ('w, unit) call" where
  "SnapshotHash S p req snapshotName rehash = deref req (\<lambda>r.
     with_proxy_ops p r (\<lambda>ops. Ops_SnapshotHash S ops r snapshotName rehash))"

fun Ops_SnapshotHashStatus ::
  "'w proxy_services \<Rightarrow> proxy_ops \<Rightarrow> engine_req \<Rightarrow> string \<Rightarrow> ('w, string \<rightharpoonup> hash_status) call" where
  "Ops_SnapshotHashStatus S V1DataEngineProxyOps r snapshotName =
     with_task S (engine_target r) id (\<lambda>t. on_error (tkHashSnapshotStatus t snapshotName) id (\<lambda>m.
       ret (\<lambda>k. map_option (\<lambda>v. \<lparr>hsState = hsState v, hsChecksum = hsChecksum v, hsError = hsError v,
         hsSilentlyCorrupted = hsSilentlyCorrupted v\<rparr>) (m k))))"
| "Ops_SnapshotHashStatus S V2DataEngineProxyOps r snapshotName = fail not_implemented"

definition SnapshotHashStatus ::
  "'w proxy_services \<Rightarrow> proxy \<Rightarrow> engine_req option \<Rightarrow> string \<Rightarrow> ('w, string \<rightharpoonup> hash_status) call" where
  "SnapshotHashStatus S p req snapshotName = deref req (\<lambda>r.
     with_proxy_ops p r (\<lambda>ops. Ops_SnapshotHashStatus S ops r snapshotName))"

end
