(* ===== verification/Proxy_Replica.thy ===== *)
theory Proxy_Replica
  imports Proxy_Model
begin

text \<open>The requests of \<open>pkg/proxy/replica.go\<close>, on the replicas of an engine.\<close>

section \<open>Modes of replicas\<close>

text \<open>The modes are strings in the libraries and an enumeration in the protocol.\<close>

definition ReplicaMode_WO :: int where "ReplicaMode_WO = 0"
definition ReplicaMode_RW :: int where "ReplicaMode_RW = 1"
definition ReplicaMode_ERR :: int where "ReplicaMode_ERR = 2"

definition ReplicaModeToGRPCReplicaMode :: "string \<Rightarrow> int" where
  "ReplicaModeToGRPCReplicaMode mode =
     (if mode = ''WO'' then ReplicaMode_WO else if mode = ''RW'' then ReplicaMode_RW
      else if mode = ''ERR'' then ReplicaMode_ERR else ReplicaMode_ERR)"

definition GRPCReplicaModeToReplicaMode :: "int \<Rightarrow> string" where
  "GRPCReplicaModeToReplicaMode mode =
     (if mode = ReplicaMode_WO then ''WO'' else if mode = ReplicaMode_RW then ''RW''
      else if mode = ReplicaMode_ERR then ''ERR'' else ''ERR'')"

text \<open>\<open>replicaModeToGRPCReplicaMode\<close> of the proxy, for the modes of SPDK.\<close>

definition replicaModeToGRPCReplicaMode :: "string \<Rightarrow> int" where
  "replicaModeToGRPCReplicaMode mode =
     (if mode = ''WO'' then ReplicaMode_WO else if mode = ''RW'' then ReplicaMode_RW
      else if mode = ''ERR'' then ReplicaMode_ERR else ReplicaMode_ERR)"

section \<open>Adding, removing and updating\<close>

record replica_add =
  raReplicaName :: string
  raReplicaAddress :: string
  raRestore :: bool
  raSize :: int
  raCurrentSize :: int
  raFastSync :: bool
  raFileSyncHttpClientTimeout :: int
  raLocalSync :: "local_sync option"
  raGrpcTimeoutSeconds :: int

fun Ops_ReplicaAdd :: "'w proxy_services \<Rightarrow> proxy_ops \<Rightarrow> engine_req \<Rightarrow> replica_add \<Rightarrow> ('w, unit) call" where
  "Ops_ReplicaAdd S V1DataEngineProxyOps r a =
     with_task S (engine_target r) id (\<lambda>t.
       if raRestore a then
         on_error (tkAddRestoreReplica t (raSize a) (raCurrentSize a) (raReplicaAddress a) (raReplicaName a)) id ret
       else
         on_error (tkAddReplica t (raSize a) (raCurrentSize a) (raReplicaAddress a) (raReplicaName a)
             (raFileSyncHttpClientTimeout a) (raFastSync a)
             (map_option (\<lambda>l. \<lparr>lsSourcePath = lsSourcePath l, lsTargetPath = lsTargetPath l\<rparr>) (raLocalSync a))
             (raGrpcTimeoutSeconds a)) id ret)"
| "Ops_ReplicaAdd S V2DataEngineProxyOps r a =
     with_spdk S (pqAddress r) (\<lambda>c.
       let replicaAddress = trim_prefix (raReplicaAddress a) ''tcp://''
       in on_error (scEngineReplicaAdd c (pqEngineName r) (raReplicaName a) replicaAddress)
            (internal_error (''failed to add replica '' @ replicaAddress)) ret)"

definition ReplicaAdd ::
  "'w proxy_services \<Rightarrow> proxy \<Rightarrow> engine_req option \<Rightarrow> replica_add \<Rightarrow> ('w, unit) call" where
  "ReplicaAdd S p req a = deref req (\<lambda>r. with_proxy_ops p r (\<lambda>ops. Ops_ReplicaAdd S ops r a))"

fun Ops_ReplicaRemove ::
  "'w proxy_services \<Rightarrow> proxy_ops \<Rightarrow> engine_req \<Rightarrow> string \<Rightarrow> string \<Rightarrow> ('w, unit) call" where
  "Ops_ReplicaRemove S V1DataEngineProxyOps r replicaName replicaAddress =
     with_ctl S (engine_target r) (\<lambda>c. ctlReplicaDelete c replicaAddress)"
| "Ops_ReplicaRemove S V2DataEngineProxyOps r replicaName replicaAddress =
     with_spdk S (pqAddress r) (\<lambda>c.
       scEngineReplicaDelete c (pqEngineName r) replicaName (trim_prefix replicaAddress ''tcp://''))"

definition ReplicaRemove ::
  "'w proxy_services \<Rightarrow> proxy \<Rightarrow> engine_req option \<Rightarrow> string \<Rightarrow> string \<Rightarrow> ('w, unit) call" where
  "ReplicaRemove S p req replicaName replicaAddress = deref req (\<lambda>r.
     with_proxy_ops p r (\<lambda>ops. Ops_ReplicaRemove S ops r replicaName replicaAddress))"

fun Ops_ReplicaModeUpdate ::
  "'w proxy_services \<Rightarrow> proxy_ops \<Rightarrow> engine_req \<Rightarrow> string \<Rightarrow> int \<Rightarrow> ('w, unit) call" where
  "Ops_ReplicaModeUpdate S V1DataEngineProxyOps r replicaAddress mode =
     ctl_do S r (\<lambda>c. ctlReplicaUpdate c replicaAddress (GRPCReplicaModeToReplicaMode mode))"
| "Ops_ReplicaModeUpdate S V2DataEngineProxyOps r replicaAddress mode = fail not_implemented"

definition ReplicaModeUpdate ::
  "'w proxy_services \<Rightarrow> proxy \<Rightarrow> engine_req option \<Rightarrow> string \<Rightarrow> int \<Rightarrow> ('w, unit) call" where
  "ReplicaModeUpdate S p req replicaAddress mode = deref req (\<lambda>r.
     with_proxy_ops p r (\<lambda>ops. Ops_ReplicaModeUpdate S ops r replicaAddress mode))"

fun Ops_ReplicaVerifyRebuild ::
  "'w proxy_services \<Rightarrow> proxy_ops \<Rightarrow> engine_req \<Rightarrow> string \<Rightarrow> string \<Rightarrow> ('w, unit) call" where
  "Ops_ReplicaVerifyRebuild S V1DataEngineProxyOps r replicaAddress replicaName =
     with_task S (engine_target r) id (\<lambda>t. on_error (tkVerifyRebuildReplica t replicaAddress replicaName) id ret)"
| "Ops_ReplicaVerifyRebuild S V2DataEngineProxyOps r replicaAddress replicaName = fail not_implemented"

definition ReplicaVerifyRebuild ::
  "'w proxy_services \<Rightarrow> proxy \<Rightarrow> engine_req option \<Rightarrow> string \<Rightarrow> string \<Rightarrow> ('w, unit) call" where
  "ReplicaVerifyRebuild S p req replicaAddress replicaName = deref req (\<lambda>r.
     with_proxy_ops p r (\<lambda>ops. Ops_ReplicaVerifyRebuild S ops r replicaAddress replicaName))"

section \<open>Listing\<close>

record controller_replica =
  crAddress :: string
  crAddressInstanceName :: string
  crMode :: int

text \<open>
  The v2 engine has two maps: the modes and the addresses of its replicas.  A replica with a mode
  and no address is an error.
\<close>

fun spdk_replica_list :: "(string \<rightharpoonup> string) \<Rightarrow> (string \<times> string) list \<Rightarrow> controller_replica list result" where
  "spdk_replica_list addresses [] = Inr []"
| "spdk_replica_list addresses ((replicaName, mode) # rest) =
     (case addresses replicaName of
        None \<Rightarrow> Inl (Status Internal (''failed to get replica address for '' @ replicaName))
      | Some address \<Rightarrow>
          (case spdk_replica_list addresses rest of
             Inl e \<Rightarrow> Inl e
           | Inr replicas \<Rightarrow>
               Inr (\<lparr>crAddress = AddTcpPrefixForAddress address, crAddressInstanceName = '''',
                     crMode = replicaModeToGRPCReplicaMode mode\<rparr> # replicas)))"

fun Ops_ReplicaList :: "'w proxy_services \<Rightarrow> proxy_ops \<Rightarrow> engine_req \<Rightarrow> ('w, controller_replica list) call" where
  "Ops_ReplicaList S V1DataEngineProxyOps r =
     with_ctl S (engine_target r) (\<lambda>c. on_error (ctlReplicaList c) id (\<lambda>rs.
       ret (map (\<lambda>i. \<lparr>crAddress = riAddress i, crAddressInstanceName = '''',
                      crMode = ReplicaModeToGRPCReplicaMode (riMode i)\<rparr>) rs)))"
| "Ops_ReplicaList S V2DataEngineProxyOps r =
     with_spdk S (pqAddress r) (\<lambda>c.
       on_error (scEngineGet c (pqEngineName r)) (internal_error (''failed to get engine '' @ pqEngineName r)) (\<lambda>e.
         case spdk_replica_list (map_of (eReplicaAddressMap e)) (eReplicaModeMap e) of
           Inl err \<Rightarrow> fail err
         | Inr replicas \<Rightarrow> ret replicas))"

definition ReplicaList :: "'w proxy_services \<Rightarrow> proxy \<Rightarrow> engine_req \<Rightarrow> ('w, controller_replica list) call" where
  "ReplicaList S p r = with_proxy_ops p r (\<lambda>ops. Ops_ReplicaList S ops r)"

section \<open>Rebuilding status\<close>

text \<open>
  The v2 operation asks every replica in mode \<open>WO\<close> that has an address.  Its clients are closed by
  deferred calls, when the operation returns: the loop runs inside the connection.  A client that
  cannot be created ends the operation, a check that fails is reported in the status.
\<close>

definition rebuild_status_of :: "shallow_copy \<Rightarrow> rebuild_status" where
  "rebuild_status_of s =
     \<lparr>rbError = scError s, rbIsRebuilding = scTotalState s = ''in_progress'',
      rbProgress = to_int32 (int (scTotalProgress s)), rbState = scTotalState s,
      rbFromReplicaAddress = AddTcpPrefixForAddress (scSrcReplicaAddress s)\<rparr>"

definition rebuild_status_error :: "string \<Rightarrow> error \<Rightarrow> rebuild_status" where
  "rebuild_status_error replicaAddress e =
     \<lparr>rbError = ''failed to get replica rebuild status of '' @ replicaAddress @ '': '' @ error_string e,
      rbIsRebuilding = False, rbProgress = 0, rbState = '''', rbFromReplicaAddress = ''''\<rparr>"

fun rebuilding_loop ::
  "'w proxy_services \<Rightarrow> (string \<rightharpoonup> string) \<Rightarrow> (string \<times> string) list \<Rightarrow> (string \<rightharpoonup> rebuild_status) \<Rightarrow>
     ('w, string \<rightharpoonup> rebuild_status) call" where
  "rebuilding_loop S addresses [] status = ret status"
| "rebuilding_loop S addresses ((replicaName, mode) # rest) status =
     (if mode \<noteq> ''WO'' then rebuilding_loop S addresses rest status
      else case addresses replicaName of
          None \<Rightarrow> rebuilding_loop S addresses rest status
        | Some replicaAddress \<Rightarrow>
            if replicaAddress = '''' then rebuilding_loop S addresses rest status
            else getSPDKClientFromAddress S replicaAddress
              (internal_error (''failed to get SPDK client from replica address '' @ replicaAddress))
              (\<lambda>c w. case scShallowCopyCheck c replicaName w of
                  (Ret s, w') \<Rightarrow>
                    rebuilding_loop S addresses rest
                      (status(AddTcpPrefixForAddress replicaAddress \<mapsto> rebuild_status_of s)) w'
                | (Fail e, w') \<Rightarrow>
                    rebuilding_loop S addresses rest
                      (status(AddTcpPrefixForAddress replicaAddress \<mapsto> rebuild_status_error replicaAddress e)) w'
                | (Panic, w') \<Rightarrow> (Panic, w')))"

fun Ops_ReplicaRebuildingStatus ::
  "'w proxy_services \<Rightarrow> proxy_ops \<Rightarrow> engine_req \<Rightarrow> ('w, string \<rightharpoonup> rebuild_status) call" where
  "Ops_ReplicaRebuildingStatus S V1DataEngineProxyOps r =
     with_task S (engine_target r) id (\<lambda>t. on_error (tkRebuildStatus t) id (\<lambda>m.
       ret (\<lambda>k. map_option (\<lambda>v. \<lparr>rbError = rbError v, rbIsRebuilding = rbIsRebuilding v,
         rbProgress = to_int32 (rbProgress v), rbState = rbState v,
         rbFromReplicaAddress = rbFromReplicaAddress v\<rparr>) (m k))))"
| "Ops_ReplicaRebuildingStatus S V2DataEngineProxyOps r =
     with_spdk S (pqAddress r) (\<lambda>c.
       on_error (scEngineGet c (pqEngineName r)) (internal_error (''failed to get engine '' @ pqEngineName r)) (\<lambda>e.
         rebuilding_loop S (map_of (eReplicaAddressMap e)) (eReplicaModeMap e) Map.empty))"

definition ReplicaRebuildingStatus ::
  "'w proxy_services \<Rightarrow> proxy \<Rightarrow> engine_req \<Rightarrow> ('w, string \<rightharpoonup> rebuild_status) call" where
  "ReplicaRebuildingStatus S p r = with_proxy_ops p r (\<lambda>ops. Ops_ReplicaRebuildingStatus S ops r)"

end
