(* ===== verification/Proxy_Backup.thy ===== *)
theory Proxy_Backup
  imports Proxy_Replica
begin

text \<open>
  The requests of \<open>pkg/proxy/backup.go\<close> and \<open>pkg/proxy/backing_image.go\<close>: backups of snapshots,
  their restore, and the backing images of the SPDK service.
\<close>

section \<open>Environment and labels\<close>

text \<open>An entry without \<open>=\<close> is skipped; the first variable that cannot be set ends the loop.\<close>

fun setEnv :: "'w proxy_services \<Rightarrow> string list \<Rightarrow> ('w, unit) call" where
  "setEnv S [] = ret ()"
| "setEnv S (env # envs) =
     (case split_n2 ''='' env of
        [name, val] \<Rightarrow> on_error (osSetenv S name val) id (\<lambda>_. setEnv S envs)
      | _ \<Rightarrow> setEnv S envs)"

definition getLabels :: "(string \<times> string) list \<Rightarrow> string list" where
  "getLabels labels = map (\<lambda>(k, v). k @ ''='' @ v) labels"

text \<open>What both backup requests do before they look at the data engine.\<close>

definition with_credential ::
  "'w proxy_services \<Rightarrow> string list \<Rightarrow> string \<Rightarrow> ((string \<rightharpoonup> string) \<Rightarrow> ('w, 'a) call) \<Rightarrow> ('w, 'a) call" where
  "with_credential S envs backupTarget k =
     on_error (setEnv S envs) (internal_error ''failed to set envs'') (\<lambda>_.
       on_error (getBackupCredential S backupTarget)
         (\<lambda>e. Status InvalidArgument (''failed to get backup credential: '' @ error_string e)) k)"

definition CleanupBackupMountPoints :: "'w proxy_services \<Rightarrow> ('w, unit) call" where
  "CleanupBackupMountPoints S =
     on_error (cleanUpAllMounts S) (internal_error ''failed to unmount all mount points'') ret"

section \<open>Creating a backup\<close>

record snapshot_backup =
  sbEnvs :: "string list"
  sbBackupName :: string
  sbSnapshotName :: string
  sbBackupTarget :: string
  sbBackingImageName :: string
  sbBackingImageChecksum :: string
  sbCompressionMethod :: string
  sbConcurrentLimit :: int
  sbStorageClassName :: string
  sbLabels :: "(string \<times> string) list"
  sbParameters :: "string \<rightharpoonup> string"

definition backup_create_of ::
  "engine_req \<Rightarrow> snapshot_backup \<Rightarrow> string \<Rightarrow> (string \<rightharpoonup> string) \<Rightarrow> string list \<Rightarrow> (string \<rightharpoonup> string) \<Rightarrow> backup_create" where
  "backup_create_of r q snapshotName credential labels parameters =
     \<lparr>bcBackupName = sbBackupName q, bcSnapshotName = snapshotName, bcVolumeName = pqVolumeName r,
      bcEngineName = pqEngineName r, bcBackupTarget = sbBackupTarget q,
      bcStorageClassName = sbStorageClassName q, bcBackingImageName = sbBackingImageName q,
      bcBackingImageChecksum = sbBackingImageChecksum q, bcCompressionMethod = sbCompressionMethod q,
      bcConcurrentLimit = sbConcurrentLimit q, bcLabels = labels, bcCredential = credential,
      bcParameters = parameters\<rparr>"

text \<open>The v2 operation does not hand the parameters on, and names a snapshot without a name.\<close>

fun Ops_SnapshotBackup ::
  "'w proxy_services \<Rightarrow> proxy_ops \<Rightarrow> string \<Rightarrow> engine_req \<Rightarrow> snapshot_backup \<Rightarrow> (string \<rightharpoonup> string) \<Rightarrow> string list \<Rightarrow>
     ('w, backup_created) call" where
  "Ops_SnapshotBackup S V1DataEngineProxyOps uuid r q credential labels =
     with_task S (engine_target r) (internal_error ''failed to create task'') (\<lambda>t.
       on_error (tkCreateBackup t (backup_create_of r q (sbSnapshotName q) credential labels (sbParameters q)))
         (internal_error ''failed to create backup'') (\<lambda>b.
           ret \<lparr>bkBackupID = bkBackupID b, bkReplicaAddress = bkReplicaAddress b,
                bkIsIncremental = bkIsIncremental b\<rparr>))"
| "Ops_SnapshotBackup S V2DataEngineProxyOps uuid r q credential labels =
     with_spdk S (pqAddress r) (\<lambda>c.
       let snapshotName = (if sbSnapshotName q = '''' then uuid else sbSnapshotName q)
       in on_error (scEngineBackupCreate c (backup_create_of r q snapshotName credential labels Map.empty))
            (internal_error ''failed to create backup'') (\<lambda>b.
              ret \<lparr>bkBackupID = bkBackupID b, bkReplicaAddress = bkReplicaAddress b,
                   bkIsIncremental = bkIsIncremental b\<rparr>))"

definition SnapshotBackup ::
  "'w proxy_services \<Rightarrow> proxy \<Rightarrow> string \<Rightarrow> engine_req option \<Rightarrow> snapshot_backup \<Rightarrow> ('w, backup_created) call" where
  "SnapshotBackup S p uuid req q = deref req (\<lambda>r.
     with_credential S (sbEnvs q) (sbBackupTarget q) (\<lambda>credential.
       with_proxy_ops p r (\<lambda>ops. Ops_SnapshotBackup S ops uuid r q credential (getLabels (sbLabels q)))))"

section \<open>Status of a backup\<close>

text \<open>
  \<open>esync.FetchBackupStatus\<close> turns a failed request into a status with an error text, and never
  returns an error.
\<close>

definition zero_backup_status :: backup_status where
  "zero_backup_status = \<lparr>bsProgress = 0, bsBackupURL = '''', bsError = '''', bsSnapshotName = '''',
     bsState = '''', bsReplicaAddress = ''''\<rparr>"

definition FetchBackupStatus ::
  "'w proxy_services \<Rightarrow> target \<Rightarrow> string \<Rightarrow> string \<Rightarrow> ('w, backup_status) call" where
  "FetchBackupStatus S t backupID replicaAddr w =
     (case repBackupStatus S t backupID w of
        (Ret bs, w') \<Rightarrow> (Ret (bs\<lparr>bsReplicaAddress := replicaAddr\<rparr>), w')
      | (Fail e, w') \<Rightarrow>
          (Ret (zero_backup_status\<lparr>bsError := ''Failed to get backup status on '' @ replicaAddr @ '' for '' @ backupID @
             '': '' @ error_string e\<rparr>), w')
      | (Panic, w') \<Rightarrow> (Panic, w'))"

text \<open>The search for a replica that has the backup, among the replicas in mode \<open>RW\<close>.\<close>

fun find_backup_replica ::
  "'w proxy_services \<Rightarrow> string \<Rightarrow> string \<Rightarrow> controller_replica list \<Rightarrow> ('w, string) call" where
  "find_backup_replica S volumeName backupName [] w = (Ret '''', w)"
| "find_backup_replica S volumeName backupName (r # rs) w =
     (if GRPCReplicaModeToReplicaMode (crMode r) \<noteq> ''RW''
      then find_backup_replica S volumeName backupName rs w
      else let t = (crAddress r, volumeName, crAddressInstanceName r)
        in case repConnect S t w of
            (Fail _, w') \<Rightarrow> find_backup_replica S volumeName backupName rs w'
          | (Panic, w') \<Rightarrow> (Panic, w')
          | (Ret _, w') \<Rightarrow>
              (case FetchBackupStatus S t backupName (crAddress r) w' of
                 (Ret _, w'') \<Rightarrow> (Ret (crAddress r), repClose S t w'')
               | (Fail _, w'') \<Rightarrow> find_backup_replica S volumeName backupName rs (repClose S t w'')
               | (Panic, w'') \<Rightarrow> (Panic, w'')))"

text \<open>The address must not be that of a listed replica in another mode than \<open>RW\<close>.\<close>

fun replica_not_rw :: "string \<Rightarrow> controller_replica list \<Rightarrow> bool" where
  "replica_not_rw address [] = False"
| "replica_not_rw address (r # rs) =
     (if crAddress r \<noteq> address then replica_not_rw address rs
      else if GRPCReplicaModeToReplicaMode (crMode r) \<noteq> ''RW'' then True
      else replica_not_rw address rs)"

record backup_status_req =
  bqBackupName :: string
  bqReplicaAddress :: string
  bqReplicaName :: string

definition backup_status_reply :: "backup_status \<Rightarrow> string \<Rightarrow> backup_status" where
  "backup_status_reply s replicaAddress =
     \<lparr>bsProgress = to_int32 (bsProgress s), bsBackupURL = bsBackupURL s, bsError = bsError s,
      bsSnapshotName = bsSnapshotName s, bsState = bsState s, bsReplicaAddress = replicaAddress\<rparr>"

fun Ops_SnapshotBackupStatus ::
  "'w proxy_services \<Rightarrow> proxy_ops \<Rightarrow> engine_req \<Rightarrow> backup_status_req \<Rightarrow> ('w, backup_status) call" where
  "Ops_SnapshotBackupStatus S V1DataEngineProxyOps r q =
     with_ctl S (engine_target r) (\<lambda>_.
       on_error (Ops_ReplicaList S V1DataEngineProxyOps r) id (\<lambda>replicas.
         on_error (if bqReplicaAddress q = ''''
                   then find_backup_replica S (pqVolumeName r) (bqBackupName q) replicas
                   else ret (bqReplicaAddress q)) id (\<lambda>replicaAddress.
           if replicaAddress = ''''
           then fail (Err (''failed to find a replica with backup '' @ bqBackupName q))
           else if replica_not_rw replicaAddress replicas
           then fail (Err (''failed to get backup '' @ bqBackupName q @ '' status on unknown replica '' @ replicaAddress))
           else let t = (replicaAddress, pqVolumeName r, bqReplicaName q)
             in with_conn (repConnect S t) (Wrap (''failed to create replica client with '' @ replicaAddress))
                  (repClose S t)
                  (on_error (FetchBackupStatus S t (bqBackupName q) replicaAddress) id (\<lambda>s.
                     ret (backup_status_reply s replicaAddress))))))"
| "Ops_SnapshotBackupStatus S V2DataEngineProxyOps r q =
     with_spdk S (pqAddress r) (\<lambda>c.
       on_error (scEngineBackupStatus c (bqBackupName q) (pqEngineName r) (bqReplicaAddress q))
         (internal_error ''failed to get backup status'') (\<lambda>s.
           ret (backup_status_reply s (bsReplicaAddress s))))"

definition SnapshotBackupStatus ::
  "'w proxy_services \<Rightarrow> proxy \<Rightarrow> engine_req option \<Rightarrow> backup_status_req \<Rightarrow> ('w, backup_status) call" where
  "SnapshotBackupStatus S p req q = deref req (\<lambda>r.
     with_proxy_ops p r (\<lambda>ops. Ops_SnapshotBackupStatus S ops r q))"

section \<open>Restoring a backup\<close>

record backup_restore =
  btEnvs :: "string list"
  btUrl :: string
  btTarget :: string
  btVolumeName :: string
  btConcurrentLimit :: int

text \<open>The operations return an error, or none: the inner \<open>option\<close> of the outcome.\<close>

definition restore_call :: "('w \<Rightarrow> restore_error option \<times> 'w) \<Rightarrow> ('w, restore_error option) call" where
  "restore_call m w = (case m w of (e, w') \<Rightarrow> (Ret e, w'))"

definition or_restore_error :: "('w, restore_error option) call \<Rightarrow> ('w, restore_error option) call" where
  "or_restore_error m w =
     (case m w of
        (Ret e, w') \<Rightarrow> (Ret e, w')
      | (Fail e, w') \<Rightarrow> (Ret (Some (OtherError e)), w')
      | (Panic, w') \<Rightarrow> (Panic, w'))"

fun Ops_BackupRestore ::
  "'w proxy_services \<Rightarrow> proxy_ops \<Rightarrow> engine_req \<Rightarrow> backup_restore \<Rightarrow> (string \<rightharpoonup> string) \<Rightarrow>
     ('w, restore_error option) call" where
  "Ops_BackupRestore S V1DataEngineProxyOps r q credential =
     or_restore_error (with_task S (engine_target r) id (\<lambda>t.
       restore_call (tkRestoreBackup t (btUrl q) credential (btConcurrentLimit q))))"
| "Ops_BackupRestore S V2DataEngineProxyOps r q credential =
     or_restore_error (with_spdk S (pqAddress r) (\<lambda>c.
       restore_call (scEngineBackupRestore c (btUrl q) (pqEngineName r) credential (btConcurrentLimit q))))"

fun restore_error_string :: "restore_error \<Rightarrow> string" where
  "restore_error_string (TaskFailed res) = TaskError_Error res"
| "restore_error_string (OtherError e) = error_string e"

text \<open>
  The error is reported inside the answer, as JSON: \<open>marshal\<close> is \<open>json.Marshal\<close> on the error, with
  \<open>None\<close> for an error of its own, which leaves the bytes empty.
\<close>

definition restore_reply :: "(restore_error \<Rightarrow> string option) \<Rightarrow> restore_error option \<Rightarrow> string" where
  "restore_reply marshal err =
     (case err of
        None \<Rightarrow> ''''
      | Some e \<Rightarrow>
          let errInfo = (case marshal e of None \<Rightarrow> '''' | Some s \<Rightarrow> s)
          in if errInfo \<noteq> ''{}'' then errInfo else restore_error_string e)"

definition BackupRestore ::
  "'w proxy_services \<Rightarrow> (restore_error \<Rightarrow> string option) \<Rightarrow> proxy \<Rightarrow> engine_req option \<Rightarrow> backup_restore \<Rightarrow>
     ('w, string) call" where
  "BackupRestore S marshal p req q = deref req (\<lambda>r.
     with_credential S (btEnvs q) (btTarget q) (\<lambda>credential.
       with_proxy_ops p r (\<lambda>ops.
         on_error (Ops_BackupRestore S ops r q credential) id (\<lambda>err. ret (restore_reply marshal err)))))"

definition restore_status_of :: "restore_status \<Rightarrow> restore_status" where
  "restore_status_of v =
     \<lparr>rsIsRestoring = rsIsRestoring v, rsLastRestored = rsLastRestored v,
      rsCurrentRestoringBackup = rsCurrentRestoringBackup v, rsProgress = to_int32 (rsProgress v),
      rsError = rsError v, rsFilename = rsFilename v, rsState = rsState v, rsBackupURL = rsBackupURL v\<rparr>"

fun Ops_BackupRestoreStatus ::
  "'w proxy_services \<Rightarrow> proxy_ops \<Rightarrow> engine_req \<Rightarrow> ('w, string \<rightharpoonup> restore_status) call" where
  "Ops_BackupRestoreStatus S V1DataEngineProxyOps r =
     with_task S (engine_target r) id (\<lambda>t. on_error (tkRestoreStatus t) id (\<lambda>m.
       ret (\<lambda>k. map_option restore_status_of (m k))))"
| "Ops_BackupRestoreStatus S V2DataEngineProxyOps r =
     with_spdk S (pqAddress r) (\<lambda>c.
       on_error (scEngineRestoreStatus c (pqEngineName r)) (internal_error ''failed to get restore status'') (\<lambda>l.
         ret (fold (\<lambda>(address, v) m. m(''tcp://'' @ address \<mapsto> restore_status_of v)) l Map.empty)))"

definition BackupRestoreStatus ::
  "'w proxy_services \<Rightarrow> proxy \<Rightarrow> engine_req \<Rightarrow> ('w, string \<rightharpoonup> restore_status) call" where
  "BackupRestoreStatus S p r = with_proxy_ops p r (\<lambda>ops. Ops_BackupRestoreStatus S ops r)"

section \<open>Backing images\<close>

record backing_image_spec =
  bxName :: string
  bxBackingImageUuid :: string
  bxDiskUuid :: string
  bxSize :: nat
  bxChecksum :: string

record backing_image_status =
  byProgress :: int
  byState :: string
  byChecksum :: string
  byErrorMsg :: string

record backing_image_reply =
  bzSpec :: "backing_image_spec option"
  bzStatus :: "backing_image_status option"

definition spdkBackingImageToBackingImageResponse :: "spdk_backing_image \<Rightarrow> backing_image_reply" where
  "spdkBackingImageToBackingImageResponse bi =
     \<lparr>bzSpec = Some \<lparr>bxName = biName bi, bxBackingImageUuid = biBackingImageUUID bi, bxDiskUuid = biLvsUUID bi,
        bxSize = biSize bi, bxChecksum = biExpectedChecksum bi\<rparr>,
      bzStatus = Some \<lparr>byProgress = biProgress bi, byState = biState bi, byChecksum = biCurrentChecksum bi,
        byErrorMsg = biErrorMsg bi\<rparr>\<rparr>"

text \<open>The four requests use the client that the proxy has kept since \<open>NewProxy\<close>.\<close>

definition status_internal :: "error \<Rightarrow> error" where
  "status_internal e = Status Internal (error_string e)"

definition SPDKBackingImageCreate ::
  "'w proxy_services \<Rightarrow> proxy \<Rightarrow> backing_image_create \<Rightarrow> ('w, backing_image_reply) call" where
  "SPDKBackingImageCreate S p q =
     on_error (scBackingImageCreate (spdkAt S (pxSpdkServiceAddress p)) q) status_internal
       (\<lambda>bi. ret (spdkBackingImageToBackingImageResponse bi))"

definition SPDKBackingImageDelete :: "'w proxy_services \<Rightarrow> proxy \<Rightarrow> string \<Rightarrow> string \<Rightarrow> ('w, unit) call" where
  "SPDKBackingImageDelete S p name diskUuid =
     scBackingImageDelete (spdkAt S (pxSpdkServiceAddress p)) name diskUuid"

definition SPDKBackingImageGet ::
  "'w proxy_services \<Rightarrow> proxy \<Rightarrow> string \<Rightarrow> string \<Rightarrow> ('w, backing_image_reply) call" where
  "SPDKBackingImageGet S p name diskUuid =
     on_error (scBackingImageGet (spdkAt S (pxSpdkServiceAddress p)) name diskUuid) status_internal
       (\<lambda>bi. ret (spdkBackingImageToBackingImageResponse bi))"

definition SPDKBackingImageList :: "'w proxy_services \<Rightarrow> proxy \<Rightarrow> ('w, string \<rightharpoonup> backing_image_reply) call" where
  "SPDKBackingImageList S p =
     on_error (scBackingImageList (spdkAt S (pxSpdkServiceAddress p))) status_internal
       (\<lambda>m. ret (\<lambda>name. map_option spdkBackingImageToBackingImageResponse (m name)))"

text \<open>The two loops of \<open>SPDKBackingImageWatch\<close>.\<close>

definition watchSPDKBackingImage :: "error option \<Rightarrow> watch_event list \<Rightarrow> nat \<times> error option" where
  "watchSPDKBackingImage opened es = watch ''SPDK replica'' ''SPDK backing images'' opened es"

definition Proxy_handleNotify :: "notify_event list \<Rightarrow> nat \<times> error option" where
  "Proxy_handleNotify es = notify_loop ''failed to send backing image response'' es"

end
