(* ===== verification/Proxy_Client.thy ===== *)
theory Proxy_Client
  imports Client_Model Proxy_Snapshot Proxy_Backup
begin

text \<open>
  The client of the proxy (\<open>pkg/client/proxy*.go\<close> and \<open>pkg/api/backing_image.go\<close>): it checks its
  arguments, translates the name of the data engine, calls the proxy and says in every error which
  proxy and which engine it was talking to.  The record \<open>proxy_rpc\<close> holds the methods of the
  service; \<open>proxy_rpc_of\<close> is the service that the handlers of this development implement.
\<close>

section \<open>The service\<close>

record 'w proxy_rpc =
  pxServerVersionGet :: "engine_req \<Rightarrow> ('w, engine_version) call"
  pxMetricsGet :: "engine_req \<Rightarrow> ('w, metrics_reply) call"
  pxVolumeGet :: "engine_req \<Rightarrow> ('w, volume_info) call"
  pxVolumeExpand :: "engine_req option \<Rightarrow> int option \<Rightarrow> ('w, unit) call"
  pxVolumeFrontendStart :: "engine_req option \<Rightarrow> string option \<Rightarrow> ('w, unit) call"
  pxVolumeFrontendShutdown :: "engine_req \<Rightarrow> ('w, unit) call"
  pxVolumeUnmapMarkSnapChainRemovedSet :: "engine_req option \<Rightarrow> bool option \<Rightarrow> ('w, unit) call"
  pxVolumeSnapshotMaxCountSet :: "engine_req option \<Rightarrow> int option \<Rightarrow> ('w, unit) call"
  pxVolumeSnapshotMaxSizeSet :: "engine_req option \<Rightarrow> int option \<Rightarrow> ('w, unit) call"
  pxRemountReadOnlyVolume :: "string \<Rightarrow> ('w, unit) call"
  pxReplicaAdd :: "engine_req option \<Rightarrow> replica_add \<Rightarrow> ('w, unit) call"
  pxReplicaList :: "engine_req \<Rightarrow> ('w, controller_replica list) call"
  pxReplicaRebuildingStatus :: "engine_req \<Rightarrow> ('w, string \<rightharpoonup> rebuild_status) call"
  pxReplicaVerifyRebuild :: "engine_req option \<Rightarrow> string \<Rightarrow> string \<Rightarrow> ('w, unit) call"
  pxReplicaRemove :: "engine_req option \<Rightarrow> string \<Rightarrow> string \<Rightarrow> ('w, unit) call"
  pxReplicaModeUpdate :: "engine_req option \<Rightarrow> string \<Rightarrow> int \<Rightarrow> ('w, unit) call"
  pxVolumeSnapshot :: "engine_req option \<Rightarrow> snapshot_volume option \<Rightarrow> ('w, string) call"
  pxSnapshotList :: "engine_req \<Rightarrow> ('w, string \<rightharpoonup> snapshot_disk) call"
  pxSnapshotClone :: "engine_req option \<Rightarrow> snapshot_clone \<Rightarrow> ('w, unit) call"
  pxSnapshotCloneStatus :: "engine_req \<Rightarrow> ('w, string \<rightharpoonup> clone_status) call"
  pxSnapshotRevert :: "engine_req option \<Rightarrow> string \<Rightarrow> ('w, unit) call"
  pxSnapshotPurge :: "engine_req option \<Rightarrow> bool \<Rightarrow> ('w, unit) call"
  pxSnapshotPurgeStatus :: "engine_req \<Rightarrow> ('w, string \<rightharpoonup> purge_status) call"
  pxSnapshotRemove :: "engine_req option \<Rightarrow> string list \<Rightarrow> ('w, unit) call"
  pxSnapshotHash :: "engine_req option \<Rightarrow> string \<Rightarrow> bool \<Rightarrow> ('w, unit) call"
  pxSnapshotHashStatus :: "engine_req option \<Rightarrow> string \<Rightarrow> ('w, string \<rightharpoonup> hash_status) call"
  pxCleanupBackupMountPoints :: "('w, unit) call"
  pxSnapshotBackup :: "engine_req option \<Rightarrow> snapshot_backup \<Rightarrow> ('w, backup_created) call"
  pxSnapshotBackupStatus :: "engine_req option \<Rightarrow> backup_status_req \<Rightarrow> ('w, backup_status) call"
  pxBackupRestore :: "engine_req option \<Rightarrow> backup_restore \<Rightarrow> ('w, string) call"
  pxBackupRestoreStatus :: "engine_req \<Rightarrow> ('w, string \<rightharpoonup> restore_status) call"
  pxSPDKBackingImageCreate :: "backing_image_create \<Rightarrow> ('w, backing_image_reply) call"
  pxSPDKBackingImageDelete :: "string \<Rightarrow> string \<Rightarrow> ('w, unit) call"
  pxSPDKBackingImageGet :: "string \<Rightarrow> string \<Rightarrow> ('w, backing_image_reply) call"
  pxSPDKBackingImageList :: "('w, string \<rightharpoonup> backing_image_reply) call"

section \<open>The client\<close>

text \<open>
  The client keeps the URL of the proxy.  The parameters of a request are checked by iterating a
  map: \<open>pcIterate\<close> is the order in which its entries are visited, and decides which one of several
  missing parameters an error names.  \<open>pcIsQualifiedName\<close> is the check of label names of
  \<open>longhorn-engine\<close>, which lists its complaints.
\<close>

record proxy_client =
  pcServiceURL :: string
  pcVersion :: int
  pcIterate :: "(string \<times> string) list \<Rightarrow> (string \<times> string) list"
  pcIsQualifiedName :: "string \<Rightarrow> string list"

definition NewProxyClient ::
  "(bool \<Rightarrow> bool \<Rightarrow> string \<Rightarrow> unit result) \<Rightarrow> ((string \<times> string) list \<Rightarrow> (string \<times> string) list) \<Rightarrow>
     (string \<Rightarrow> string list) \<Rightarrow> string \<Rightarrow> int \<Rightarrow> bool \<Rightarrow> proxy_client result" where
  "NewProxyClient dial iterate qualified address port tls =
     (let serviceURL = GetURL address port
      in case Connect dial serviceURL tls of
          Inl e \<Rightarrow> Inl (Wrap (''cannot connect to ProxyService '' @ serviceURL) e)
        | Inr _ \<Rightarrow> Inr \<lparr>pcServiceURL = serviceURL, pcVersion = InstanceManagerProxyAPIVersion,
            pcIterate = iterate, pcIsQualifiedName = qualified\<rparr>)"

fun validateProxyMethodParameters :: "(string \<times> string) list \<Rightarrow> error option" where
  "validateProxyMethodParameters [] = None"
| "validateProxyMethodParameters ((k, v) # input) =
     (if v = '''' then Some (Err (''missing required '' @ k @ '' parameter''))
      else validateProxyMethodParameters input)"

definition getProxyErrorPrefix :: "proxy_client \<Rightarrow> string \<Rightarrow> string" where
  "getProxyErrorPrefix c destination =
     ''proxyServer='' @ pcServiceURL c @ '' destination='' @ destination @ '':''"

definition validated ::
  "proxy_client \<Rightarrow> string \<Rightarrow> (string \<times> string) list \<Rightarrow> ('w, 'a) call \<Rightarrow> ('w, 'a) call" where
  "validated c what input m =
     (case validateProxyMethodParameters (pcIterate c input) of
        Some e \<Rightarrow> fail (Wrap what e)
      | None \<Rightarrow> m)"

definition prefixed :: "proxy_client \<Rightarrow> string \<Rightarrow> string \<Rightarrow> ('w, 'a) call \<Rightarrow> ('w, 'a) call" where
  "prefixed c serviceAddress what m = on_error m (Wrap (getProxyErrorPrefix c serviceAddress @ '' '' @ what)) ret"

text \<open>
  The frame of a request about an engine: the check, the data engine, and the text that is put
  before every later error.
\<close>

definition engine_params :: "string \<Rightarrow> string \<Rightarrow> string \<Rightarrow> (string \<times> string) list" where
  "engine_params engineName volumeName serviceAddress =
     [(''engineName'', engineName), (''volumeName'', volumeName), (''serviceAddress'', serviceAddress)]"

definition on_engine ::
  "proxy_client \<Rightarrow> string \<Rightarrow> string \<Rightarrow> (string \<times> string) list \<Rightarrow> string \<Rightarrow> string \<Rightarrow> string \<Rightarrow> string \<Rightarrow>
     (engine_req \<Rightarrow> ('w, 'a) call) \<Rightarrow> ('w, 'a) call" where
  "on_engine c what failing input dataEngine engineName volumeName serviceAddress m =
     validated c (''failed to '' @ what) input
       (with_engine what dataEngine (\<lambda>driver.
         prefixed c serviceAddress failing
           (m \<lparr>pqAddress = serviceAddress, pqEngineName = engineName, pqVolumeName = volumeName,
               pqDataEngine = driver\<rparr>)))"

text \<open>Most requests check the three names of the engine and use one text.\<close>

definition engine_request_of ::
  "proxy_client \<Rightarrow> string \<Rightarrow> string \<Rightarrow> string \<Rightarrow> string \<Rightarrow> string \<Rightarrow> (engine_req \<Rightarrow> ('w, 'a) call) \<Rightarrow> ('w, 'a) call" where
  "engine_request_of c what dataEngine engineName volumeName serviceAddress m =
     on_engine c what (''failed to '' @ what) (engine_params engineName volumeName serviceAddress)
       dataEngine engineName volumeName serviceAddress m"

section \<open>Timeouts\<close>

text \<open>Durations are nanoseconds in an \<open>int64\<close>.\<close>

definition second :: int where "second = 1000000000"

definition GRPCServiceTimeout :: int where "GRPCServiceTimeout = 3 * 60 * second * 2"

definition GRPCServiceLongTimeout :: int where
  "GRPCServiceLongTimeout = 24 * 60 * 60 * second + GRPCServiceTimeout"

definition getContextWithGRPCLongTimeout :: "int \<Rightarrow> int" where
  "getContextWithGRPCLongTimeout grpcTimeoutSeconds =
     (if 0 < grpcTimeoutSeconds
      then to_int64 (to_int64 (second * grpcTimeoutSeconds) + GRPCServiceTimeout)
      else GRPCServiceLongTimeout)"

section \<open>Versions and metrics\<close>

definition Px_ServerVersionGet :: "'w proxy_rpc \<Rightarrow> proxy_client \<Rightarrow> string \<Rightarrow> ('w, engine_version) call" where
  "Px_ServerVersionGet svc c serviceAddress =
     validated c ''failed to get server version'' [(''serviceAddress'', serviceAddress)]
       (prefixed c serviceAddress ''failed to get server version''
         (on_error (pxServerVersionGet svc \<lparr>pqAddress = serviceAddress, pqEngineName = '''', pqVolumeName = '''',
                      pqDataEngine = 0\<rparr>) id (\<lambda>v.
            ret \<lparr>evVersion = evVersion v, evGitCommit = evGitCommit v, evBuildDate = evBuildDate v,
                 evCLIAPIVersion = evCLIAPIVersion v, evCLIAPIMinVersion = evCLIAPIMinVersion v,
                 evControllerAPIVersion = evControllerAPIVersion v,
                 evControllerAPIMinVersion = evControllerAPIMinVersion v,
                 evDataFormatVersion = evDataFormatVersion v,
                 evDataFormatMinVersion = evDataFormatMinVersion v\<rparr>)))"

definition Px_MetricsGet ::
  "'w proxy_rpc \<Rightarrow> proxy_client \<Rightarrow> string \<Rightarrow> string \<Rightarrow> string \<Rightarrow> ('w, metrics_reply) call" where
  "Px_MetricsGet svc c engineName volumeName serviceAddress =
     validated c ''failed to get metrics for volume'' (engine_params engineName volumeName serviceAddress)
       (prefixed c serviceAddress ''failed to get metrics for volume''
         (on_error (pxMetricsGet svc \<lparr>pqAddress = serviceAddress, pqEngineName = engineName,
                      pqVolumeName = volumeName, pqDataEngine = 0\<rparr>) id (\<lambda>m.
            ret \<lparr>meReadThroughput = meReadThroughput m, meWriteThroughput = meWriteThroughput m,
                 meReadLatency = meReadLatency m, meWriteLatency = meWriteLatency m,
                 meReadIOPS = meReadIOPS m, meWriteIOPS = meWriteIOPS m\<rparr>)))"

section \<open>Volumes\<close>

definition Px_VolumeGet ::
  "'w proxy_rpc \<Rightarrow> proxy_client \<Rightarrow> string \<Rightarrow> string \<Rightarrow> string \<Rightarrow> string \<Rightarrow> ('w, volume_info) call" where
  "Px_VolumeGet svc c dataEngine engineName volumeName serviceAddress =
     engine_request_of c ''get volume'' dataEngine engineName volumeName serviceAddress (\<lambda>r.
       on_error (pxVolumeGet svc r) id (\<lambda>v.
         ret \<lparr>viName = viName v, viSize = viSize v, viReplicaCount = viReplicaCount v,
              viEndpoint = viEndpoint v, viFrontend = viFrontend v, viFrontendState = viFrontendState v,
              viIsExpanding = viIsExpanding v, viLastExpansionError = viLastExpansionError v,
              viLastExpansionFailedAt = viLastExpansionFailedAt v,
              viUnmapMarkSnapChainRemoved = viUnmapMarkSnapChainRemoved v,
              viSnapshotMaxCount = viSnapshotMaxCount v, viSnapshotMaxSize = viSnapshotMaxSize v\<rparr>))"

definition Px_VolumeExpand ::
  "'w proxy_rpc \<Rightarrow> proxy_client \<Rightarrow> string \<Rightarrow> string \<Rightarrow> string \<Rightarrow> string \<Rightarrow> int \<Rightarrow> ('w, unit) call" where
  "Px_VolumeExpand svc c dataEngine engineName volumeName serviceAddress sz =
     engine_request_of c ''expand volume'' dataEngine engineName volumeName serviceAddress
       (\<lambda>r. pxVolumeExpand svc (Some r) (Some sz))"

definition Px_VolumeFrontendStart ::
  "'w proxy_rpc \<Rightarrow> proxy_client \<Rightarrow> string \<Rightarrow> string \<Rightarrow> string \<Rightarrow> string \<Rightarrow> string \<Rightarrow> ('w, unit) call" where
  "Px_VolumeFrontendStart svc c dataEngine engineName volumeName serviceAddress frontendName =
     on_engine c ''start volume frontend'' (''failed to start volume frontend '' @ frontendName)
       (engine_params engineName volumeName serviceAddress @ [(''frontendName'', frontendName)])
       dataEngine engineName volumeName serviceAddress
       (\<lambda>r. pxVolumeFrontendStart svc (Some r) (Some frontendName))"

definition Px_VolumeFrontendShutdown ::
  "'w proxy_rpc \<Rightarrow> proxy_client \<Rightarrow> string \<Rightarrow> string \<Rightarrow> string \<Rightarrow> string \<Rightarrow> ('w, unit) call" where
  "Px_VolumeFrontendShutdown svc c dataEngine engineName volumeName serviceAddress =
     engine_request_of c ''shutdown volume frontend'' dataEngine engineName volumeName serviceAddress
       (pxVolumeFrontendShutdown svc)"

definition Px_VolumeUnmapMarkSnapChainRemovedSet ::
  "'w proxy_rpc \<Rightarrow> proxy_client \<Rightarrow> string \<Rightarrow> string \<Rightarrow> string \<Rightarrow> string \<Rightarrow> bool \<Rightarrow> ('w, unit) call" where
  "Px_VolumeUnmapMarkSnapChainRemovedSet svc c dataEngine engineName volumeName serviceAddress enabled =
     on_engine c ''set volume flag UnmapMarkSnapChainRemoved'' ''failed to set UnmapMarkSnapChainRemoved''
       (engine_params engineName volumeName serviceAddress @
          [(''enabled'', if enabled then ''true'' else ''false'')])
       dataEngine engineName volumeName serviceAddress
       (\<lambda>r. pxVolumeUnmapMarkSnapChainRemovedSet svc (Some r) (Some enabled))"

definition Px_VolumeSnapshotMaxCountSet ::
  "'w proxy_rpc \<Rightarrow> proxy_client \<Rightarrow> string \<Rightarrow> string \<Rightarrow> string \<Rightarrow> string \<Rightarrow> int \<Rightarrow> ('w, unit) call" where
  "Px_VolumeSnapshotMaxCountSet svc c dataEngine engineName volumeName serviceAddress count =
     on_engine c ''set volume flag SnapshotMaxCount'' ''failed to set SnapshotMaxCount''
       (engine_params engineName volumeName serviceAddress @ [(''count'', itoa count)])
       dataEngine engineName volumeName serviceAddress
       (\<lambda>r. pxVolumeSnapshotMaxCountSet svc (Some r) (Some (to_int32 count)))"

definition Px_VolumeSnapshotMaxSizeSet ::
  "'w proxy_rpc \<Rightarrow> proxy_client \<Rightarrow> string \<Rightarrow> string \<Rightarrow> string \<Rightarrow> string \<Rightarrow> int \<Rightarrow> ('w, unit) call" where
  "Px_VolumeSnapshotMaxSizeSet svc c dataEngine engineName volumeName serviceAddress sz =
     on_engine c ''set volume flag SnapshotMaxSize'' ''failed to set SnapshotMaxSize''
       (engine_params engineName volumeName serviceAddress @ [(''size'', itoa sz)])
       dataEngine engineName volumeName serviceAddress
       (\<lambda>r. pxVolumeSnapshotMaxSizeSet svc (Some r) (Some sz))"

definition Px_RemountReadOnlyVolume :: "'w proxy_rpc \<Rightarrow> string \<Rightarrow> ('w, unit) call" where
  "Px_RemountReadOnlyVolume svc volumeName =
     (if volumeName = '''' then fail (Err ''failed to remount volume, volume name is empty'')
      else pxRemountReadOnlyVolume svc volumeName)"

section \<open>Replicas\<close>

record replica_add_args =
  aaReplicaName :: string
  aaReplicaAddress :: string
  aaRestore :: bool
  aaSize :: int
  aaCurrentSize :: int
  aaFileSyncHTTPClientTimeout :: int
  aaFastSync :: bool
  aaLocalSync :: "local_sync option"
  aaGrpcTimeoutSeconds :: int

definition Px_ReplicaAdd ::
  "'w proxy_rpc \<Rightarrow> proxy_client \<Rightarrow> string \<Rightarrow> string \<Rightarrow> string \<Rightarrow> string \<Rightarrow> replica_add_args \<Rightarrow> ('w, unit) call" where
  "Px_ReplicaAdd svc c dataEngine engineName volumeName serviceAddress a =
     on_engine c ''add replica for volume''
       (if aaRestore a then ''failed to add restore replica '' @ aaReplicaAddress a @ '' for volume''
        else ''failed to add replica '' @ aaReplicaAddress a @ '' for volume'')
       (engine_params engineName volumeName serviceAddress @
          [(''replicaName'', aaReplicaName a), (''replicaAddress'', aaReplicaAddress a)])
       dataEngine engineName volumeName serviceAddress
       (\<lambda>r. pxReplicaAdd svc (Some r)
          \<lparr>raReplicaName = aaReplicaName a, raReplicaAddress = aaReplicaAddress a, raRestore = aaRestore a,
           raSize = aaSize a, raCurrentSize = aaCurrentSize a, raFastSync = aaFastSync a,
           raFileSyncHttpClientTimeout = to_int32 (aaFileSyncHTTPClientTimeout a),
           raLocalSync = map_option (\<lambda>l. \<lparr>lsSourcePath = lsSourcePath l, lsTargetPath = lsTargetPath l\<rparr>)
                           (aaLocalSync a),
           raGrpcTimeoutSeconds = aaGrpcTimeoutSeconds a\<rparr>)"

definition Px_ReplicaList ::
  "'w proxy_rpc \<Rightarrow> proxy_client \<Rightarrow> string \<Rightarrow> string \<Rightarrow> string \<Rightarrow> string \<Rightarrow> ('w, replica_info list) call" where
  "Px_ReplicaList svc c dataEngine engineName volumeName serviceAddress =
     engine_request_of c ''list replicas for volume'' dataEngine engineName volumeName serviceAddress (\<lambda>r.
       on_error (pxReplicaList svc r) id (\<lambda>rs.
         ret (map (\<lambda>cr. \<lparr>riAddress = crAddress cr, riMode = GRPCReplicaModeToReplicaMode (crMode cr)\<rparr>) rs)))"

definition Px_ReplicaRebuildingStatus ::
  "'w proxy_rpc \<Rightarrow> proxy_client \<Rightarrow> string \<Rightarrow> string \<Rightarrow> string \<Rightarrow> string \<Rightarrow> ('w, string \<rightharpoonup> rebuild_status) call" where
  "Px_ReplicaRebuildingStatus svc c dataEngine engineName volumeName serviceAddress =
     engine_request_of c ''get replicas rebuilding status'' dataEngine engineName volumeName serviceAddress (\<lambda>r.
       on_error (pxReplicaRebuildingStatus svc r) id (\<lambda>m.
         ret (\<lambda>k. map_option (\<lambda>v. \<lparr>rbError = rbError v, rbIsRebuilding = rbIsRebuilding v,
           rbProgress = rbProgress v, rbState = rbState v,
           rbFromReplicaAddress = rbFromReplicaAddress v\<rparr>) (m k))))"

definition Px_ReplicaVerifyRebuild ::
  "'w proxy_rpc \<Rightarrow> proxy_client \<Rightarrow> string \<Rightarrow> string \<Rightarrow> string \<Rightarrow> string \<Rightarrow> string \<Rightarrow> string \<Rightarrow> ('w, unit) call" where
  "Px_ReplicaVerifyRebuild svc c dataEngine engineName volumeName serviceAddress replicaAddress replicaName =
     on_engine c ''verify replica rebuild'' (''failed to verify replica '' @ replicaAddress @ '' rebuild'')
       (engine_params engineName volumeName serviceAddress @
          [(''replicaAddress'', replicaAddress), (''replicaName'', replicaName)])
       dataEngine engineName volumeName serviceAddress
       (\<lambda>r. pxReplicaVerifyRebuild svc (Some r) replicaAddress replicaName)"

text \<open>The request to remove a replica has no volume; the check of the replica comes before the data engine.\<close>

definition Px_ReplicaRemove ::
  "'w proxy_rpc \<Rightarrow> proxy_client \<Rightarrow> string \<Rightarrow> string \<Rightarrow> string \<Rightarrow> string \<Rightarrow> string \<Rightarrow> ('w, unit) call" where
  "Px_ReplicaRemove svc c dataEngine serviceAddress engineName replicaAddress replicaName =
     validated c ''failed to remove replica for volume''
       [(''serviceAddress'', serviceAddress), (''engineName'', engineName)]
       (if replicaAddress = '''' \<and> replicaName = ''''
        then fail (Err ''failed to remove replica for volume: replica address and name are both empty'')
        else with_engine ''remove replica for volume'' dataEngine (\<lambda>driver.
          prefixed c serviceAddress (''failed to remove replica '' @ replicaAddress @ '' for volume'')
            (pxReplicaRemove svc (Some \<lparr>pqAddress = serviceAddress, pqEngineName = engineName,
               pqVolumeName = '''', pqDataEngine = driver\<rparr>) replicaName replicaAddress)))"

text \<open>The request to update a mode has neither engine nor volume, and texts of the removal.\<close>

definition Px_ReplicaModeUpdate ::
  "'w proxy_rpc \<Rightarrow> proxy_client \<Rightarrow> string \<Rightarrow> string \<Rightarrow> string \<Rightarrow> string \<Rightarrow> ('w, unit) call" where
  "Px_ReplicaModeUpdate svc c dataEngine serviceAddress replicaAddress mode =
     validated c ''failed to remove replica for volume''
       [(''serviceAddress'', serviceAddress), (''replicaAddress'', replicaAddress)]
       (with_engine ''remove replica for volume'' dataEngine (\<lambda>driver.
          prefixed c serviceAddress (''failed to update replica '' @ replicaAddress @ '' mode for volume'')
            (pxReplicaModeUpdate svc (Some \<lparr>pqAddress = serviceAddress, pqEngineName = '''',
               pqVolumeName = '''', pqDataEngine = driver\<rparr>) replicaAddress
               (ReplicaModeToGRPCReplicaMode mode))))"

section \<open>Snapshots\<close>

text \<open>The labels of a snapshot, in the order of the iteration: a name must be qualified, a value not empty.\<close>

fun check_labels :: "(string \<Rightarrow> string list) \<Rightarrow> (string \<times> string) list \<Rightarrow> error option" where
  "check_labels qualified [] = None"
| "check_labels qualified ((key, val) # labels) =
     (case qualified key of
        complaint # _ \<Rightarrow> Some (Err (''invalid key '' @ key @ '' for label: '' @ complaint))
      | [] \<Rightarrow>
          if val = '''' then Some (Err (''invalid empty value for label with key '' @ key))
          else check_labels qualified labels)"

definition Px_VolumeSnapshot ::
  "'w proxy_rpc \<Rightarrow> proxy_client \<Rightarrow> string \<Rightarrow> string \<Rightarrow> string \<Rightarrow> string \<Rightarrow> string \<Rightarrow> (string \<times> string) list \<Rightarrow> bool \<Rightarrow>
     ('w, string) call" where
  "Px_VolumeSnapshot svc c dataEngine engineName volumeName serviceAddress volumeSnapshotName labels freezeFilesystem =
     engine_request_of c ''snapshot volume'' dataEngine engineName volumeName serviceAddress (\<lambda>r.
       case check_labels (pcIsQualifiedName c) labels of
         Some e \<Rightarrow> fail e
       | None \<Rightarrow> pxVolumeSnapshot svc (Some r) (Some \<lparr>svName = volumeSnapshotName, svLabels = map_of labels,
           svFreezeFilesystem = freezeFilesystem\<rparr>))"

definition Px_SnapshotList ::
  "'w proxy_rpc \<Rightarrow> proxy_client \<Rightarrow> string \<Rightarrow> string \<Rightarrow> string \<Rightarrow> string \<Rightarrow> ('w, string \<rightharpoonup> snapshot_disk) call" where
  "Px_SnapshotList svc c dataEngine engineName volumeName serviceAddress =
     engine_request_of c ''list snapshots'' dataEngine engineName volumeName serviceAddress (\<lambda>r.
       on_error (pxSnapshotList svc r) id (\<lambda>m.
         ret (\<lambda>k. map_option (\<lambda>v. \<lparr>sdName = sdName v, sdParent = sdParent v, sdChildren = sdChildren v,
           sdRemoved = sdRemoved v, sdUserCreated = sdUserCreated v, sdCreated = sdCreated v,
           sdSize = sdSize v, sdLabels = sdLabels v\<rparr>) (m k))))"

definition Px_SnapshotClone ::
  "'w proxy_rpc \<Rightarrow> proxy_client \<Rightarrow> string \<Rightarrow> string \<Rightarrow> string \<Rightarrow> string \<Rightarrow> string \<Rightarrow> string \<Rightarrow> string \<Rightarrow> string \<Rightarrow>
     int \<Rightarrow> int \<Rightarrow> ('w, unit) call" where
  "Px_SnapshotClone svc c dataEngine engineName volumeName serviceAddress snapshotName fromEngineAddress
       fromVolumeName fromEngineName fileSyncHTTPClientTimeout grpcTimeoutSeconds =
     on_engine c ''clone snapshot'' (''failed to clone snapshot '' @ snapshotName @ '' from '' @ fromEngineAddress)
       (engine_params engineName volumeName serviceAddress @
          [(''snapshotName'', snapshotName), (''fromEngineAddress'', fromEngineAddress),
           (''fromVolumeName'', fromVolumeName), (''fromEngineName'', fromEngineName)])
       dataEngine engineName volumeName serviceAddress
       (\<lambda>r. pxSnapshotClone svc (Some r)
          \<lparr>snFromEngineAddress = fromEngineAddress, snFromVolumeName = fromVolumeName,
           snFromEngineName = fromEngineName, snSnapshotName = snapshotName,
           snExportBackingImageIfExist = False,
           snFileSyncHttpClientTimeout = to_int32 fileSyncHTTPClientTimeout,
           snGrpcTimeoutSeconds = grpcTimeoutSeconds\<rparr>)"

definition Px_SnapshotCloneStatus ::
  "'w proxy_rpc \<Rightarrow> proxy_client \<Rightarrow> string \<Rightarrow> string \<Rightarrow> string \<Rightarrow> string \<Rightarrow> ('w, string \<rightharpoonup> clone_status) call" where
  "Px_SnapshotCloneStatus svc c dataEngine engineName volumeName serviceAddress =
     engine_request_of c ''get snapshot clone status'' dataEngine engineName volumeName serviceAddress (\<lambda>r.
       on_error (pxSnapshotCloneStatus svc r) id (\<lambda>m.
         ret (\<lambda>k. map_option (\<lambda>v. \<lparr>clIsCloning = clIsCloning v, clError = clError v,
           clProgress = clProgress v, clState = clState v, clFromReplicaAddress = clFromReplicaAddress v,
           clSnapshotName = clSnapshotName v\<rparr>) (m k))))"

definition VolumeHeadName :: string where "VolumeHeadName = ''volume-head''"

definition Px_SnapshotRevert ::
  "'w proxy_rpc \<Rightarrow> proxy_client \<Rightarrow> string \<Rightarrow> string \<Rightarrow> string \<Rightarrow> string \<Rightarrow> string \<Rightarrow> ('w, unit) call" where
  "Px_SnapshotRevert svc c dataEngine engineName volumeName serviceAddress name =
     on_engine c ''revert volume to snapshot'' (''failed to revert volume to snapshot '' @ name)
       (engine_params engineName volumeName serviceAddress @ [(''name'', name)])
       dataEngine engineName volumeName serviceAddress
       (\<lambda>r. if name = VolumeHeadName
          then fail (Err (''invalid operation: cannot revert to '' @ VolumeHeadName))
          else pxSnapshotRevert svc (Some r) name)"

definition Px_SnapshotPurge ::
  "'w proxy_rpc \<Rightarrow> proxy_client \<Rightarrow> string \<Rightarrow> string \<Rightarrow> string \<Rightarrow> string \<Rightarrow> bool \<Rightarrow> ('w, unit) call" where
  "Px_SnapshotPurge svc c dataEngine engineName volumeName serviceAddress skipIfInProgress =
     engine_request_of c ''purge snapshots'' dataEngine engineName volumeName serviceAddress
       (\<lambda>r. pxSnapshotPurge svc (Some r) skipIfInProgress)"

definition Px_SnapshotPurgeStatus ::
  "'w proxy_rpc \<Rightarrow> proxy_client \<Rightarrow> string \<Rightarrow> string \<Rightarrow> string \<Rightarrow> string \<Rightarrow> ('w, string \<rightharpoonup> purge_status) call" where
  "Px_SnapshotPurgeStatus svc c dataEngine engineName volumeName serviceAddress =
     engine_request_of c ''get snapshot purge status'' dataEngine engineName volumeName serviceAddress (\<lambda>r.
       on_error (pxSnapshotPurgeStatus svc r) id (\<lambda>m.
         ret (\<lambda>k. map_option (\<lambda>v. \<lparr>puIsPurging = puIsPurging v, puError = puError v,
           puProgress = puProgress v, puState = puState v\<rparr>) (m k))))"

text \<open>A list of strings is printed in brackets, separated by spaces.\<close>

definition print_names :: "string list \<Rightarrow> string" where
  "print_names names = ''['' @ join '' '' names @ '']''"

definition Px_SnapshotRemove ::
  "'w proxy_rpc \<Rightarrow> proxy_client \<Rightarrow> string \<Rightarrow> string \<Rightarrow> string \<Rightarrow> string \<Rightarrow> string list \<Rightarrow> ('w, unit) call" where
  "Px_SnapshotRemove svc c dataEngine engineName volumeName serviceAddress names =
     validated c (''failed to remove snapshot '' @ print_names names)
       (engine_params engineName volumeName serviceAddress)
       (with_engine ''remove snapshot'' dataEngine (\<lambda>driver.
          prefixed c serviceAddress (''failed to remove snapshot '' @ print_names names)
            (pxSnapshotRemove svc (Some \<lparr>pqAddress = serviceAddress, pqEngineName = engineName,
               pqVolumeName = volumeName, pqDataEngine = driver\<rparr>) names)))"

definition Px_SnapshotHash ::
  "'w proxy_rpc \<Rightarrow> proxy_client \<Rightarrow> string \<Rightarrow> string \<Rightarrow> string \<Rightarrow> string \<Rightarrow> string \<Rightarrow> bool \<Rightarrow> ('w, unit) call" where
  "Px_SnapshotHash svc c dataEngine engineName volumeName serviceAddress snapshotName rehash =
     engine_request_of c ''hash snapshot'' dataEngine engineName volumeName serviceAddress
       (\<lambda>r. pxSnapshotHash svc (Some r) snapshotName rehash)"

definition Px_SnapshotHashStatus ::
  "'w proxy_rpc \<Rightarrow> proxy_client \<Rightarrow> string \<Rightarrow> string \<Rightarrow> string \<Rightarrow> string \<Rightarrow> string \<Rightarrow> ('w, string \<rightharpoonup> hash_status) call" where
  "Px_SnapshotHashStatus svc c dataEngine engineName volumeName serviceAddress snapshotName =
     engine_request_of c ''get snapshot hash status'' dataEngine engineName volumeName serviceAddress (\<lambda>r.
       on_error (pxSnapshotHashStatus svc (Some r) snapshotName) id (\<lambda>m.
         ret (\<lambda>k. map_option (\<lambda>v. \<lparr>hsState = hsState v, hsChecksum = hsChecksum v, hsError = hsError v,
           hsSilentlyCorrupted = hsSilentlyCorrupted v\<rparr>) (m k))))"

section \<open>Backups\<close>

definition Px_CleanupBackupMountPoints :: "'w proxy_rpc \<Rightarrow> ('w, unit) call" where
  "Px_CleanupBackupMountPoints svc = pxCleanupBackupMountPoints svc"

record snapshot_backup_args =
  saBackupName :: string
  saSnapshotName :: string
  saBackupTarget :: string
  saBackingImageName :: string
  saBackingImageChecksum :: string
  saCompressionMethod :: string
  saConcurrentLimit :: int
  saStorageClassName :: string
  saLabels :: "(string \<times> string) list"
  saEnvs :: "string list"
  saParameters :: "string \<rightharpoonup> string"

definition Px_SnapshotBackup ::
  "'w proxy_rpc \<Rightarrow> proxy_client \<Rightarrow> string \<Rightarrow> string \<Rightarrow> string \<Rightarrow> string \<Rightarrow> snapshot_backup_args \<Rightarrow>
     ('w, string \<times> string) call" where
  "Px_SnapshotBackup svc c dataEngine engineName volumeName serviceAddress a =
     on_engine c ''backup snapshot'' (''failed to backup snapshot '' @ saSnapshotName a @ '' to '' @ saBackupName a)
       (engine_params engineName volumeName serviceAddress) dataEngine engineName volumeName serviceAddress (\<lambda>r.
         on_error (pxSnapshotBackup svc (Some r)
             \<lparr>sbEnvs = saEnvs a, sbBackupName = saBackupName a, sbSnapshotName = saSnapshotName a,
              sbBackupTarget = saBackupTarget a, sbBackingImageName = saBackingImageName a,
              sbBackingImageChecksum = saBackingImageChecksum a, sbCompressionMethod = saCompressionMethod a,
              sbConcurrentLimit = to_int32 (saConcurrentLimit a), sbStorageClassName = saStorageClassName a,
              sbLabels = saLabels a, sbParameters = saParameters a\<rparr>) id
           (\<lambda>b. ret (bkBackupID b, bkReplicaAddress b)))"

definition Px_SnapshotBackupStatus ::
  "'w proxy_rpc \<Rightarrow> proxy_client \<Rightarrow> string \<Rightarrow> string \<Rightarrow> string \<Rightarrow> string \<Rightarrow> string \<Rightarrow> string \<Rightarrow> string \<Rightarrow>
     ('w, backup_status) call" where
  "Px_SnapshotBackupStatus svc c dataEngine engineName volumeName serviceAddress backupName replicaAddress replicaName =
     on_engine c ''get backup status'' (''failed to get '' @ backupName @ '' backup status'')
       (engine_params engineName volumeName serviceAddress @ [(''backupName'', backupName)])
       dataEngine engineName volumeName serviceAddress (\<lambda>r.
         on_error (pxSnapshotBackupStatus svc (Some r)
             \<lparr>bqBackupName = backupName, bqReplicaAddress = replicaAddress, bqReplicaName = replicaName\<rparr>) id (\<lambda>s.
           ret \<lparr>bsProgress = bsProgress s, bsBackupURL = bsBackupURL s, bsError = bsError s,
                bsSnapshotName = bsSnapshotName s, bsState = bsState s, bsReplicaAddress = bsReplicaAddress s\<rparr>))"

text \<open>
  \<open>BackupRestore\<close> returns the errors of the replicas as they are (a \<open>TaskError\<close>) and wraps every
  other error.  Empty bytes of an answer arrive as nil.  \<open>unmarshal\<close> is \<open>json.Unmarshal\<close> into a
  \<open>TaskError\<close>.
\<close>

record backup_restore_args =
  baUrl :: string
  baTarget :: string
  baBackupVolumeName :: string
  baEnvs :: "string list"
  baConcurrentLimit :: int

definition Px_BackupRestore ::
  "'w proxy_rpc \<Rightarrow> (string \<Rightarrow> replica_error list result) \<Rightarrow> proxy_client \<Rightarrow> string \<Rightarrow> string \<Rightarrow> string \<Rightarrow> string \<Rightarrow>
     backup_restore_args \<Rightarrow> ('w, replica_error list option) call" where
  "Px_BackupRestore svc unmarshal c dataEngine engineName volumeName serviceAddress a =
     on_engine c ''restore backup to volume''
       (''failed to restore backup '' @ baUrl a @ '' to volume '' @ volumeName)
       (engine_params engineName volumeName serviceAddress @
          [(''url'', baUrl a), (''target'', baTarget a), (''backupVolumeName'', baBackupVolumeName a)])
       dataEngine engineName volumeName serviceAddress (\<lambda>r.
         on_error (pxBackupRestore svc (Some r)
             \<lparr>btEnvs = baEnvs a, btUrl = baUrl a, btTarget = baTarget a, btVolumeName = baBackupVolumeName a,
              btConcurrentLimit = to_int32 (baConcurrentLimit a)\<rparr>) id (\<lambda>taskError.
           if taskError = '''' then ret None
           else case unmarshal taskError of
               Inl e \<Rightarrow> fail (Wrap (''cannot unmarshal the restore error, maybe it'' @ [CHR 0x27] @
                   ''s not caused by the replica restore failure: '' @ taskError) e)
             | Inr errs \<Rightarrow> ret (Some errs)))"

definition Px_BackupRestoreStatus ::
  "'w proxy_rpc \<Rightarrow> proxy_client \<Rightarrow> string \<Rightarrow> string \<Rightarrow> string \<Rightarrow> string \<Rightarrow> ('w, string \<rightharpoonup> restore_status) call" where
  "Px_BackupRestoreStatus svc c dataEngine engineName volumeName serviceAddress =
     engine_request_of c ''get backup restore status'' dataEngine engineName volumeName serviceAddress (\<lambda>r.
       on_error (pxBackupRestoreStatus svc r) id (\<lambda>m.
         ret (\<lambda>k. map_option (\<lambda>v. \<lparr>rsIsRestoring = rsIsRestoring v, rsLastRestored = rsLastRestored v,
           rsCurrentRestoringBackup = rsCurrentRestoringBackup v, rsProgress = rsProgress v,
           rsError = rsError v, rsFilename = rsFilename v, rsState = rsState v,
           rsBackupURL = rsBackupURL v\<rparr>) (m k))))"

section \<open>Backing images\<close>

record api_backing_image =
  abName :: string
  abBackingImageUUID :: string
  abDiskUUID :: string
  abSize :: nat
  abExpectedChecksum :: string
  abStatus :: backing_image_status

text \<open>\<open>RPCToBackingImage\<close> checks the answer and its specification for nil, not its status.\<close>

definition RPCToBackingImage :: "backing_image_reply option \<Rightarrow> ('w, api_backing_image) call" where
  "RPCToBackingImage obj =
     (case obj of
        None \<Rightarrow> fail (Err ''cannot convert nil SPDKBackingImageResponse'')
      | Some o' \<Rightarrow>
          (case bzSpec o' of
             None \<Rightarrow> fail (Err ''backing image spec is nil'')
           | Some spec \<Rightarrow> deref (bzStatus o') (\<lambda>status.
               ret \<lparr>abName = bxName spec, abBackingImageUUID = bxBackingImageUuid spec,
                    abDiskUUID = bxDiskUuid spec, abSize = bxSize spec, abExpectedChecksum = bxChecksum spec,
                    abStatus = \<lparr>byProgress = byProgress status, byState = byState status,
                      byChecksum = byChecksum status, byErrorMsg = byErrorMsg status\<rparr>\<rparr>)))"

text \<open>
  \<open>RPCToBackingImageList\<close> warns about an entry that cannot be converted, and stores nil for it:
  the values of the map are options.
\<close>

fun backing_image_entries ::
  "(string \<times> backing_image_reply) list \<Rightarrow> (string \<rightharpoonup> api_backing_image option) \<Rightarrow>
     ('w, string \<rightharpoonup> api_backing_image option) call" where
  "backing_image_entries [] m w = (Ret m, w)"
| "backing_image_entries ((name, bi) # rest) m w =
     (case RPCToBackingImage (Some bi) w of
        (Ret res, w') \<Rightarrow> backing_image_entries rest (m(name \<mapsto> Some res)) w'
      | (Fail _, w') \<Rightarrow> backing_image_entries rest (m(name \<mapsto> None)) w'
      | (Panic, w') \<Rightarrow> (Panic, w'))"

definition RPCToBackingImageList ::
  "(string \<times> backing_image_reply) list \<Rightarrow> ('w, string \<rightharpoonup> api_backing_image option) call" where
  "RPCToBackingImageList l = backing_image_entries l Map.empty"

definition Px_SPDKBackingImageCreate ::
  "'w proxy_rpc \<Rightarrow> proxy_client \<Rightarrow> backing_image_create \<Rightarrow> ('w, api_backing_image) call" where
  "Px_SPDKBackingImageCreate svc c q =
     validated c ''failed to create backing image''
       [(''name'', bmName q), (''backingImageUUID'', bmBackingImageUuid q), (''checksum'', bmChecksum q),
        (''diskUUID'', bmDiskUuid q)]
       (if bmSize q = 0 then fail (Err ''failed to create backing image, size should not be zero'')
        else on_error (pxSPDKBackingImageCreate svc q) id (\<lambda>resp. RPCToBackingImage (Some resp)))"

definition Px_SPDKBackingImageDelete ::
  "'w proxy_rpc \<Rightarrow> proxy_client \<Rightarrow> string \<Rightarrow> string \<Rightarrow> ('w, unit) call" where
  "Px_SPDKBackingImageDelete svc c name diskUUID =
     validated c ''failed to delete backing image'' [(''name'', name), (''diskUUID'', diskUUID)]
       (pxSPDKBackingImageDelete svc name diskUUID)"

definition Px_SPDKBackingImageGet ::
  "'w proxy_rpc \<Rightarrow> proxy_client \<Rightarrow> string \<Rightarrow> string \<Rightarrow> ('w, api_backing_image) call" where
  "Px_SPDKBackingImageGet svc c name diskUUID =
     validated c ''failed to get backing image'' [(''name'', name), (''diskUUID'', diskUUID)]
       (on_error (pxSPDKBackingImageGet svc name diskUUID) id (\<lambda>resp. RPCToBackingImage (Some resp)))"

text \<open>\<open>order\<close> is the order in which the entries of the answer are visited.\<close>

definition Px_SPDKBackingImageList ::
  "'w proxy_rpc \<Rightarrow> string list \<Rightarrow> ('w, string \<rightharpoonup> api_backing_image option) call" where
  "Px_SPDKBackingImageList svc order =
     on_error (pxSPDKBackingImageList svc) (Wrap ''failed to list backing images'') (\<lambda>m.
       RPCToBackingImageList (concat (map (\<lambda>n. case m n of None \<Rightarrow> [] | Some bi \<Rightarrow> [(n, bi)]) order)))"

section \<open>Client and proxy together\<close>

text \<open>\<open>uuid\<close> is the UUID the proxy draws in a request, \<open>marshal\<close> its \<open>json.Marshal\<close>.\<close>

definition proxy_rpc_of ::
  "'w proxy_services \<Rightarrow> (restore_error \<Rightarrow> string option) \<Rightarrow> proxy \<Rightarrow> string \<Rightarrow> 'w proxy_rpc" where
  "proxy_rpc_of S marshal p uuid =
     \<lparr>pxServerVersionGet = (\<lambda>r. over_wire (ServerVersionGet S r)),
      pxMetricsGet = (\<lambda>r. over_wire (MetricsGet S r)),
      pxVolumeGet = (\<lambda>r. over_wire (VolumeGet S p r)),
      pxVolumeExpand = (\<lambda>r x. over_wire (VolumeExpand S p r x)),
      pxVolumeFrontendStart = (\<lambda>r x. over_wire (VolumeFrontendStart S p r x)),
      pxVolumeFrontendShutdown = (\<lambda>r. over_wire (VolumeFrontendShutdown S p r)),
      pxVolumeUnmapMarkSnapChainRemovedSet = (\<lambda>r x. over_wire (VolumeUnmapMarkSnapChainRemovedSet S p r x)),
      pxVolumeSnapshotMaxCountSet = (\<lambda>r x. over_wire (VolumeSnapshotMaxCountSet S p r x)),
      pxVolumeSnapshotMaxSizeSet = (\<lambda>r x. over_wire (VolumeSnapshotMaxSizeSet S p r x)),
      pxRemountReadOnlyVolume = (\<lambda>v. over_wire (RemountReadOnlyVolume S v)),
      pxReplicaAdd = (\<lambda>r x. over_wire (ReplicaAdd S p r x)),
      pxReplicaList = (\<lambda>r. over_wire (ReplicaList S p r)),
      pxReplicaRebuildingStatus = (\<lambda>r. over_wire (ReplicaRebuildingStatus S p r)),
      pxReplicaVerifyRebuild = (\<lambda>r a n. over_wire (ReplicaVerifyRebuild S p r a n)),
      pxReplicaRemove = (\<lambda>r n a. over_wire (ReplicaRemove S p r n a)),
      pxReplicaModeUpdate = (\<lambda>r a m. over_wire (ReplicaModeUpdate S p r a m)),
      pxVolumeSnapshot = (\<lambda>r x. over_wire (VolumeSnapshot S p uuid r x)),
      pxSnapshotList = (\<lambda>r. over_wire (SnapshotList S p r)),
      pxSnapshotClone = (\<lambda>r x. over_wire (SnapshotClone S p r x)),
      pxSnapshotCloneStatus = (\<lambda>r. over_wire (SnapshotCloneStatus S p r)),
      pxSnapshotRevert = (\<lambda>r x. over_wire (SnapshotRevert S p r x)),
      pxSnapshotPurge = (\<lambda>r x. over_wire (SnapshotPurge S p r x)),
      pxSnapshotPurgeStatus = (\<lambda>r. over_wire (SnapshotPurgeStatus S p r)),
      pxSnapshotRemove = (\<lambda>r x. over_wire (SnapshotRemove S p r x)),
      pxSnapshotHash = (\<lambda>r x y. over_wire (SnapshotHash S p r x y)),
      pxSnapshotHashStatus = (\<lambda>r x. over_wire (SnapshotHashStatus S p r x)),
      pxCleanupBackupMountPoints = over_wire (CleanupBackupMountPoints S),
      pxSnapshotBackup = (\<lambda>r x. over_wire (SnapshotBackup S p uuid r x)),
      pxSnapshotBackupStatus = (\<lambda>r x. over_wire (SnapshotBackupStatus S p r x)),
      pxBackupRestore = (\<lambda>r x. over_wire (BackupRestore S marshal p r x)),
      pxBackupRestoreStatus = (\<lambda>r. over_wire (BackupRestoreStatus S p r)),
      pxSPDKBackingImageCreate = (\<lambda>q. over_wire (SPDKBackingImageCreate S p q)),
      pxSPDKBackingImageDelete = (\<lambda>n d. over_wire (SPDKBackingImageDelete S p n d)),
      pxSPDKBackingImageGet = (\<lambda>n d. over_wire (SPDKBackingImageGet S p n d)),
      pxSPDKBackingImageList = over_wire (SPDKBackingImageList S p)\<rparr>"

end
