(* ===== verification/Proxy_Properties.thy ===== *)
theory Proxy_Properties
  imports Service_Properties Proxy_Client
begin

text \<open>
  The properties of the proxy and of its client: connections, data engines that are not served,
  the loops over snapshots and replicas, and the errors of a restore.
\<close>

section \<open>Connections of the proxy\<close>












text \<open>The replica service does not panic.\<close>

definition replica_service_safe :: "'w proxy_services \<Rightarrow> bool" where
  "replica_service_safe S \<longleftrightarrow>
     (\<forall>t w. fst (repConnect S t w) \<noteq> Panic) \<and> (\<forall>t b w. fst (repBackupStatus S t b w) \<noteq> Panic)"



























lemma FetchBackupStatus_returns:
  "replica_service_safe S \<Longrightarrow> \<exists>bs w'. FetchBackupStatus S t b a w = (Ret bs, w')"
  unfolding replica_service_safe_def FetchBackupStatus_def
  by (auto simp del: split_paired_All split: prod.splits outcome.splits) (metis fst_conv)






text \<open>Concrete services for the witnesses, over a state that counts open connections.\<close>

definition demo_volume :: volume_info where
  "demo_volume = \<lparr>viName = ''vol'', viSize = 1024, viReplicaCount = 1, viEndpoint = ''/dev/longhorn/vol'',
     viFrontend = ''tgt-blockdev'', viFrontendState = ''up'', viIsExpanding = False, viLastExpansionError = '''',
     viLastExpansionFailedAt = '''', viUnmapMarkSnapChainRemoved = False, viSnapshotMaxCount = 250,
     viSnapshotMaxSize = 0\<rparr>"

definition demo_controller :: "'w controller" where
  "demo_controller = \<lparr>ctlVersionDetailGet = fail (Err ''no version''), ctlMetricsGet = fail (Err ''no metrics''),
     ctlVolumeGet = ret demo_volume, ctlVolumeExpand = (\<lambda>_. ret ()), ctlVolumeFrontendStart = (\<lambda>_. ret ()),
     ctlVolumeFrontendShutdown = ret (), ctlVolumeUnmapMarkSnapChainRemovedSet = (\<lambda>_. ret ()),
     ctlVolumeSnapshotMaxCountSet = (\<lambda>_. ret ()), ctlVolumeSnapshotMaxSizeSet = (\<lambda>_. ret ()),
     ctlVolumeSnapshot = (\<lambda>n _ _. ret n), ctlVolumeRevert = (\<lambda>_. ret ()),
     ctlReplicaList = ret [\<lparr>riAddress = ''a:1'', riMode = ''WO''\<rparr>, \<lparr>riAddress = ''b:1'', riMode = ''RW''\<rparr>],
     ctlReplicaDelete = (\<lambda>_. ret ()), ctlReplicaUpdate = (\<lambda>_ _. ret ())\<rparr>"

definition demo_task :: "'w task" where
  "demo_task = \<lparr>tkAddRestoreReplica = (\<lambda>_ _ _ _. ret ()), tkAddReplica = (\<lambda>_ _ _ _ _ _ _ _. ret ()),
     tkRebuildStatus = ret Map.empty, tkVerifyRebuildReplica = (\<lambda>_ _. ret ()), tkPurgeSnapshots = (\<lambda>_. ret ()),
     tkPurgeSnapshotStatus = ret Map.empty,
     tkDeleteSnapshot = (\<lambda>n. if n = ''keep'' then fail (Err ''cannot delete keep'') else ret ()),
     tkHashSnapshot = (\<lambda>_ _. ret ()), tkHashSnapshotStatus = (\<lambda>_. ret Map.empty),
     tkCreateBackup = (\<lambda>_. fail (Err ''no backup'')),
     tkRestoreBackup = (\<lambda>_ _ _ w. (Some (TaskFailed [\<lparr>reAddress = ''b:1'', reMessage = ''bad block''\<rparr>]), w)),
     tkRestoreStatus = ret Map.empty\<rparr>"

definition demo_engine :: spdk_engine where
  "demo_engine = \<lparr>eName = ''e'', eSpecSize = 1024, eFrontend = '''', eEndpoint = '''',
     eReplicaAddressMap = [(''r1'', ''10.0.0.1:20001''), (''r2'', ''10.0.0.2:20001'')],
     eReplicaModeMap = [(''r1'', ''RW''), (''r2'', ''WO'')], eHead = None, eSnapshots = Map.empty,
     eState = ''running'', eErrorMsg = '''', ePort = 0, eTargetPort = 0, eStandbyTargetPort = 0\<rparr>"

definition demo_client :: "'w spdk_client" where
  "demo_client = \<lparr>scEngineGet = (\<lambda>_. ret demo_engine), scEngineSnapshotCreate = (\<lambda>_ n. ret n),
     scEngineSnapshotDelete = (\<lambda>_ _. ret ()), scEngineSnapshotRevert = (\<lambda>_ _. ret ()),
     scEngineSnapshotPurge = (\<lambda>_. fail (Err ''purge failed'')), scEngineReplicaAdd = (\<lambda>_ _ _. ret ()),
     scEngineReplicaDelete = (\<lambda>_ _ _. ret ()), scShallowCopyCheck = (\<lambda>_. fail (Err ''no copy'')),
     scEngineBackupCreate = (\<lambda>_. fail (Err ''no backup'')), scEngineBackupStatus = (\<lambda>_ _ _. ret zero_backup_status),
     scEngineBackupRestore = (\<lambda>_ _ _ _ w. (None, w)), scEngineRestoreStatus = (\<lambda>_. ret []),
     scBackingImageCreate = (\<lambda>_. fail (Err ''no disk'')), scBackingImageDelete = (\<lambda>_ _. ret ()),
     scBackingImageGet = (\<lambda>_ _. fail (Err ''no image'')), scBackingImageList = ret Map.empty\<rparr>"

definition demo_proxy_on :: "('w \<Rightarrow> 'w) \<Rightarrow> ('w \<Rightarrow> 'w) \<Rightarrow> ('w \<Rightarrow> 'w) \<Rightarrow> 'w proxy_services" where
  "demo_proxy_on open close task = \<lparr>ctlConnect = (\<lambda>_ w. (Ret (), open w)), ctlClose = (\<lambda>_. close), controllerAt = (\<lambda>_. demo_controller),
     taskNew = (\<lambda>_ w. (Ret (), task w)), taskAt = (\<lambda>_. demo_task), spdkDial = (\<lambda>_ w. (Ret (), open w)), spdkHangup = (\<lambda>_. close),
     spdkAt = (\<lambda>_. demo_client), repConnect = (\<lambda>_ w. (Ret (), open w)), repClose = (\<lambda>_. close),
     repBackupStatus = (\<lambda>_ _. fail (Err ''backup not found'')), getSnapshotsInfo = (\<lambda>_ _. ret Map.empty),
     cloneSnapshot = (\<lambda>_ _ _ _ _ _ _ _. ret ()), cloneStatus = (\<lambda>_ _. ret Map.empty), osSetenv = (\<lambda>_ _. ret ()),
     getBackupCredential = (\<lambda>_. ret Map.empty), cleanUpAllMounts = ret (), listMounts = (\<lambda>_. Inr []),
     newNamespaceExecutor = ret (), nsExecute = (\<lambda>_ _. ret ''''), sha256Hex = (\<lambda>s. s)\<rparr>"

definition demo_proxy :: "int proxy_services" where
  "demo_proxy = demo_proxy_on (\<lambda>w. w + 1) (\<lambda>w. w - 1) id"

lemma demo_proxy_safe: "replica_service_safe demo_proxy"
  by (simp add: replica_service_safe_def demo_proxy_def demo_proxy_on_def)



definition served :: proxy where
  "served = \<lparr>pxOps = [DATA_ENGINE_V1 \<mapsto> V1DataEngineProxyOps, DATA_ENGINE_V2 \<mapsto> V2DataEngineProxyOps],
     pxSpdkServiceAddress = ''127.0.0.1:8504''\<rparr>"

definition demo_req :: "int \<Rightarrow> engine_req" where
  "demo_req e = \<lparr>pqAddress = ''10.0.0.1:10000'', pqEngineName = ''e'', pqVolumeName = ''vol'', pqDataEngine = e\<rparr>"


section \<open>Data engines\<close>

lemma NewProxy_ops:
  assumes "NewProxy S a w0 = (Ret p, w1)"
  shows "pxOps p = [DATA_ENGINE_V1 \<mapsto> V1DataEngineProxyOps, DATA_ENGINE_V2 \<mapsto> V2DataEngineProxyOps]"
  using assms by (auto simp: NewProxy_def on_error_Ret)

text \<open>A data engine other than v1 and v2: every handler that depends on the data engine refuses it with
  \<open>Unimplemented\<close> and does nothing else, except that the two backup requests have by then set the
  environment of the whole server and read the credential of the backup target.  A request whose engine
  request is missing makes the server panic.\<close>

theorem proxy_unsupported_engine:
  assumes "NewProxy S spdk w0 = (Ret p, w1)" "pqDataEngine r \<notin> {DATA_ENGINE_V1, DATA_ENGINE_V2}"
  shows "let err = Status Unimplemented (''unsupported data engine '' @ DataEngine_String (pqDataEngine r)) in
    VolumeGet S p r w = (Fail err, w) \<and> VolumeExpand S p (Some r) (Some sz) w = (Fail err, w) \<and>
    VolumeFrontendStart S p (Some r) (Some fe) w = (Fail err, w) \<and> VolumeFrontendShutdown S p r w = (Fail err, w) \<and>
    VolumeUnmapMarkSnapChainRemovedSet S p (Some r) (Some en) w = (Fail err, w) \<and>
    VolumeSnapshotMaxCountSet S p (Some r) (Some sz) w = (Fail err, w) \<and>
    VolumeSnapshotMaxSizeSet S p (Some r) (Some sz) w = (Fail err, w) \<and>
    ReplicaVerifyRebuild S p (Some r) a n w = (Fail err, w) \<and> SnapshotClone S p (Some r) sc w = (Fail err, w) \<and>
    SnapshotCloneStatus S p r w = (Fail err, w) \<and> SnapshotPurgeStatus S p r w = (Fail err, w) \<and>
    SnapshotHash S p (Some r) n sk w = (Fail err, w) \<and> SnapshotHashStatus S p (Some r) n w = (Fail err, w) \<and>
    ReplicaAdd S p (Some r) ra w = (Fail err, w) \<and>
    ReplicaList S p r w = (Fail err, w) \<and> ReplicaRemove S p (Some r) n a w = (Fail err, w) \<and>
    ReplicaModeUpdate S p (Some r) a m w = (Fail err, w) \<and> ReplicaRebuildingStatus S p r w = (Fail err, w) \<and>
    VolumeSnapshot S p u (Some r) (Some sv) w = (Fail err, w) \<and> SnapshotList S p r w = (Fail err, w) \<and>
    SnapshotRevert S p (Some r) n w = (Fail err, w) \<and> SnapshotPurge S p (Some r) sk w = (Fail err, w) \<and>
    SnapshotRemove S p (Some r) ns w = (Fail err, w) \<and> SnapshotBackupStatus S p (Some r) bq w = (Fail err, w) \<and>
    BackupRestoreStatus S p r w = (Fail err, w) \<and>
    SnapshotBackup S p u (Some r) sb w = with_credential S (sbEnvs sb) (sbBackupTarget sb) (\<lambda>_. fail err) w \<and>
    BackupRestore S marshal p (Some r) rq w = with_credential S (btEnvs rq) (btTarget rq) (\<lambda>_. fail err) w \<and>
    VolumeExpand S p None (Some sz) w = (Panic, w) \<and> ReplicaAdd S p None ra w = (Panic, w) \<and>
    SnapshotRemove S p None ns w = (Panic, w) \<and> SnapshotBackup S p u None sb w = (Panic, w)"
proof -
  have refuse: "with_proxy_ops p r k = fail (unsupported_engine (pqDataEngine r))"
    for k :: "proxy_ops \<Rightarrow> ('a, 'b) call"
    using assms(2) by (simp add: with_proxy_ops_def NewProxy_ops [OF assms(1)])
  show ?thesis
    by (simp add: refuse deref_def unsupported_engine_def Let_def VolumeGet_def VolumeExpand_def VolumeFrontendShutdown_def
        VolumeFrontendStart_def VolumeUnmapMarkSnapChainRemovedSet_def VolumeSnapshotMaxCountSet_def
        VolumeSnapshotMaxSizeSet_def ReplicaVerifyRebuild_def SnapshotClone_def SnapshotCloneStatus_def
        SnapshotPurgeStatus_def SnapshotHash_def SnapshotHashStatus_def
        ReplicaAdd_def ReplicaList_def ReplicaRemove_def ReplicaModeUpdate_def ReplicaRebuildingStatus_def
        VolumeSnapshot_def SnapshotList_def SnapshotRevert_def SnapshotPurge_def SnapshotRemove_def
        SnapshotBackupStatus_def BackupRestoreStatus_def SnapshotBackup_def BackupRestore_def)
qed

lemma demo_NewProxy: "NewProxy demo_proxy ''127.0.0.1:8504'' 0 = (Ret served, 1)"
  by (simp add: NewProxy_def demo_proxy_def demo_proxy_on_def served_def)

lemma proxy_unsupported_engine_witness:
  "SnapshotRemove demo_proxy served (Some (demo_req 7)) [''s''] 4 =
     (Fail (Status Unimplemented (''unsupported data engine '' @ DataEngine_String 7)), 4)"
proof -
  have "pqDataEngine (demo_req 7) \<notin> {DATA_ENGINE_V1, DATA_ENGINE_V2}"
    by (simp add: demo_req_def DATA_ENGINE_V1_def DATA_ENGINE_V2_def)
  from proxy_unsupported_engine [OF demo_NewProxy this, where ns = "[''s'']" and w = 4]
  show ?thesis by (simp add: Let_def demo_req_def)
qed


section \<open>Removing snapshots\<close>

text \<open>The reference: every name is tried in turn, and the errors are collected.\<close>

definition delete_all :: "(string \<Rightarrow> ('w, unit) call) \<Rightarrow> string list \<Rightarrow> error list \<times> 'w \<Rightarrow> error list \<times> 'w" where
  "delete_all delete names =
     fold (\<lambda>n (errs, w). case delete n w of (Fail e, w') \<Rightarrow> (errs @ [e], w') | (_, w') \<Rightarrow> (errs, w')) names"

definition last_error :: "error list \<Rightarrow> unit outcome" where
  "last_error errs = (if errs = [] then Ret () else Fail (last errs))"

lemma remove_loop_delete_all:
  assumes "\<And>n w. delete n w \<noteq> (Panic, snd (delete n w))"
  shows "remove_loop delete names (if errs = [] then None else Some (last errs)) w =
    (case delete_all delete names (errs, w) of (errs', w') \<Rightarrow> (last_error errs', w'))"
proof (induction names arbitrary: errs w)
  case (Cons n ns)
  show ?case
  proof (cases "delete n w")
    case (Pair x w1)
    with assms [of n w] Cons [of errs w1] Cons [of "errs @ [e]" w1 for e] show ?thesis
      by (cases x) (simp_all add: delete_all_def)
  qed
qed (simp add: delete_all_def last_error_def)

text \<open>C27. Removing snapshots agrees with the reference: whatever fails, every name of the request is
  tried, in order, and the request fails exactly when one of the removals failed, with the error of the
  last that did; for both data engines.\<close>

theorem snapshot_remove_tries_all:
  assumes "NewProxy S spdk w0 = (Ret p, w0')"
    and "\<And>t n w. tkDeleteSnapshot (taskAt S t) n w \<noteq> (Panic, snd (tkDeleteSnapshot (taskAt S t) n w))"
    and "\<And>a e n w. scEngineSnapshotDelete (spdkAt S a) e n w \<noteq> (Panic, snd (scEngineSnapshotDelete (spdkAt S a) e n w))"
  shows "(pqDataEngine r = DATA_ENGINE_V1 \<longrightarrow> taskNew S (engine_target r) w = (Ret (), w1) \<longrightarrow>
      SnapshotRemove S p (Some r) names w =
        (case delete_all (tkDeleteSnapshot (taskAt S (engine_target r))) names ([], w1) of
           (errs, w2) \<Rightarrow> (last_error errs, w2))) \<and>
    (pqDataEngine r = DATA_ENGINE_V2 \<longrightarrow> spdk_address (pqAddress r) = Inr a \<longrightarrow> spdkDial S a w = (Ret (), w1) \<longrightarrow>
      SnapshotRemove S p (Some r) names w =
        (case delete_all (scEngineSnapshotDelete (spdkAt S a) (pqEngineName r)) names ([], w1) of
           (errs, w2) \<Rightarrow> (last_error errs, spdkHangup S a w2)))"
proof -
  note rl = remove_loop_delete_all [where errs = "[]", simplified]
  show ?thesis
    using rl [OF assms(2)] rl [OF assms(3)]
    by (auto simp: SnapshotRemove_def deref_def with_proxy_ops_def NewProxy_ops [OF assms(1)] with_task_def with_spdk_def
        getSPDKClientFromAddress_def DATA_ENGINE_V1_def DATA_ENGINE_V2_def split: prod.splits)
qed

lemma snapshot_remove_tries_all_witness:
  "SnapshotRemove demo_proxy served (Some (demo_req DATA_ENGINE_V1)) [''a'', ''keep'', ''b''] 0 =
     (Fail (Err ''cannot delete keep''), 0)"
proof -
  have "taskNew demo_proxy (engine_target (demo_req DATA_ENGINE_V1)) 0 = (Ret (), 0)" by (simp add: demo_proxy_def demo_proxy_on_def)
  with snapshot_remove_tries_all [OF demo_NewProxy, of "demo_req DATA_ENGINE_V1" 0 0 "[''a'', ''keep'', ''b'']"]
  show ?thesis
    by (simp add: demo_proxy_def demo_proxy_on_def demo_task_def demo_client_def demo_req_def delete_all_def last_error_def)
qed

section \<open>Status of a backup\<close>

text \<open>C39. The search for a replica with a backup does not look for the backup: when the replica service
  does not panic and a replica can be reached or not, independently of the state of the world, the search
  returns the first reachable replica in mode \<open>RW\<close> for every name of a backup, whether that replica has the
  backup or not, and the empty address if there is none.\<close>

theorem backup_search_ignores_backup:
  assumes "replica_service_safe S" "\<And>t w. (\<exists>w'. repConnect S t w = (Ret (), w')) \<longleftrightarrow> up t"
  shows "fst (find_backup_replica S v b rs w) =
    Ret (case find (\<lambda>r. crMode r = ReplicaMode_RW \<and> up (crAddress r, v, crAddressInstanceName r)) rs of
        None \<Rightarrow> '''' | Some r \<Rightarrow> crAddress r)"
proof (induction rs arbitrary: w)
  case (Cons r rs)
  let ?t = "(crAddress r, v, crAddressInstanceName r)"
  obtain x w1 where c: "repConnect S ?t w = (x, w1)" by fastforce
  obtain bs w2 where f: "FetchBackupStatus S ?t b (crAddress r) w1 = (Ret bs, w2)"
    using FetchBackupStatus_returns [OF assms(1)] by blast
  have "x \<noteq> Panic" using assms(1) c unfolding replica_service_safe_def by (metis fst_conv)
  moreover have "up ?t \<longleftrightarrow> x = Ret ()" using assms(2) [where t = ?t and w = w] c by simp
  moreover have "GRPCReplicaModeToReplicaMode (crMode r) = ''RW'' \<longleftrightarrow> crMode r = ReplicaMode_RW"
    by (auto simp: GRPCReplicaModeToReplicaMode_def ReplicaMode_RW_def ReplicaMode_WO_def)
  ultimately show ?case using Cons by (cases x) (auto simp: c f)
qed simp

lemma backup_search_ignores_backup_witness:
  "fst (find_backup_replica demo_proxy ''vol'' ''no-such-backup''
     [\<lparr>crAddress = ''a:1'', crAddressInstanceName = '''', crMode = ReplicaMode_WO\<rparr>,
      \<lparr>crAddress = ''b:1'', crAddressInstanceName = '''', crMode = ReplicaMode_RW\<rparr>] 0) = Ret ''b:1''"
proof -
  have "(\<exists>w'. repConnect demo_proxy t w = (Ret (), w')) \<longleftrightarrow> True" for t w by (simp add: demo_proxy_def demo_proxy_on_def)
  note search = backup_search_ignores_backup [where up = "\<lambda>_. True", OF demo_proxy_safe this]
  show ?thesis by (subst search) (simp add: ReplicaMode_WO_def ReplicaMode_RW_def)
qed

section \<open>Timeouts\<close>

text \<open>C40. The long timeout of the proxy client: without a number of seconds it is 24 hours and 6 minutes.
  With one it is meant to be that number and 6 minutes, in nanoseconds; the 64-bit duration holds
  this exactly up to 9223371676 seconds.  Beyond it wraps around and is never what was asked for: it is negative, a
  deadline in the past, up to 18446743713 seconds; from 18446743714 to 27670115750 seconds it is positive
  again but \<open>2 ^ 64\<close> nanoseconds too short, which leaves less than a third of a second for the first of them.\<close>

theorem long_timeout_bounds:
  shows "(s \<le> 0 \<longrightarrow> getContextWithGRPCLongTimeout s = 86760 * 10 ^ 9) \<and>
    (0 < s \<longrightarrow> (getContextWithGRPCLongTimeout s = (s + 360) * 10 ^ 9 \<longleftrightarrow> s \<le> 9223371676)) \<and>
    (9223371676 < s \<and> s \<le> 18446743713 \<longrightarrow> getContextWithGRPCLongTimeout s < 0) \<and>
    (18446743714 \<le> s \<and> s \<le> 27670115750 \<longrightarrow>
      getContextWithGRPCLongTimeout s = (s + 360) * 10 ^ 9 - 2 ^ 64 \<and> 0 < getContextWithGRPCLongTimeout s)"
proof -
  have wrap: "getContextWithGRPCLongTimeout s = to_int64 ((s + 360) * 10 ^ 9)" if "0 < s"
    using that by (simp add: getContextWithGRPCLongTimeout_def GRPCServiceTimeout_def second_def to_int64_def
        mod_simps algebra_simps)
  have shift: "to_int64 x = x - 2 ^ 64" if "2 ^ 63 \<le> x" "x < 2 ^ 64 + 2 ^ 63" for x
  proof -
    have "(x + 2 ^ 63) mod 2 ^ 64 = (x + 2 ^ 63 - 2 ^ 64) mod 2 ^ 64" by (rule minus_mod_self2 [symmetric])
    also have "\<dots> = x + 2 ^ 63 - 2 ^ 64" using that by (intro mod_pos_pos_trivial) simp_all
    finally show ?thesis by (simp add: to_int64_def)
  qed
  have exact: "to_int64 ((s + 360) * 10 ^ 9) = (s + 360) * 10 ^ 9 \<longleftrightarrow> s \<le> 9223371676" if "0 < s"
  proof
    assume "to_int64 ((s + 360) * 10 ^ 9) = (s + 360) * 10 ^ 9"
    then have "(s + 360) * 10 ^ 9 < 2 ^ 63" using to_int64_bounds [of "(s + 360) * 10 ^ 9"] by linarith
    then show "s \<le> 9223371676" by simp
  qed (use that in \<open>simp add: to_int64_def\<close>)
  have "getContextWithGRPCLongTimeout s = 86760 * 10 ^ 9" if "s \<le> 0"
    using that by (simp add: getContextWithGRPCLongTimeout_def GRPCServiceLongTimeout_def GRPCServiceTimeout_def second_def)
  then show ?thesis using wrap exact shift [of "(s + 360) * 10 ^ 9"] by auto
qed

lemma long_timeout_bounds_witness:
  "getContextWithGRPCLongTimeout 60 = 420 * 10 ^ 9 \<and> getContextWithGRPCLongTimeout 9223371677 < 0 \<and>
   getContextWithGRPCLongTimeout 18446743714 = 290448384"
  using long_timeout_bounds [of 9223371677] long_timeout_bounds [of 60] long_timeout_bounds [of 18446743714] by simp


section \<open>Errors of a restore\<close>

text \<open>C38. What a client learns of a restore, from the engine through the proxy: when the request is
  accepted, the client succeeds if the restore did; the errors of the replicas arrive as they are; and
  another error arrives as a failure of the client, unless its text happens to be JSON for a list of errors
  of replicas.  But an error that the proxy cannot encode, or whose text is empty, looks like success.\<close>

theorem restore_errors_reach_client:
  fixes S :: "'w proxy_services"
  assumes "NewProxy S spdk w0 = (Ret p, w0')"
    and "validateProxyMethodParameters (pcIterate c (engine_params en vn sa @
        [(''url'', baUrl a), (''target'', baTarget a), (''backupVolumeName'', baBackupVolumeName a)])) = None"
    and "setEnv S (baEnvs a) w = (Ret (), w1)" "getBackupCredential S (baTarget a) w1 = (Ret cred, w2)"
    and "Ops_BackupRestore S (if on_v2 de then V2DataEngineProxyOps else V1DataEngineProxyOps)
        \<lparr>pqAddress = sa, pqEngineName = en, pqVolumeName = vn,
         pqDataEngine = (if on_v2 de then DATA_ENGINE_V2 else DATA_ENGINE_V1)\<rparr>
        \<lparr>btEnvs = baEnvs a, btUrl = baUrl a, btTarget = baTarget a, btVolumeName = baBackupVolumeName a,
         btConcurrentLimit = to_int32 (baConcurrentLimit a)\<rparr> cred w2 = (Ret err, w3)"
    and "\<And>errs j. marshal (TaskFailed errs) = Some j \<Longrightarrow> j \<notin> {'''', ''{}''} \<and> unmarshal j = Inr errs"
    and "\<And>e j. marshal (OtherError e) = Some j \<Longrightarrow> j = ''{}''"
  shows "let answer = Px_BackupRestore (proxy_rpc_of S marshal p uuid) unmarshal c de en vn sa a w
    in case err of
        None \<Rightarrow> answer = (Ret None, w3)
      | Some e \<Rightarrow>
          if marshal e = None then answer = (Ret None, w3)
          else case e of
              TaskFailed errs \<Rightarrow> answer = (Ret (Some errs), w3)
            | OtherError x \<Rightarrow>
                if error_string x = '''' then answer = (Ret None, w3)
                else case unmarshal (error_string x) of
                    Inl _ \<Rightarrow> (\<exists>f. answer = (Fail f, w3))
                  | Inr errs \<Rightarrow> answer = (Ret (Some errs), w3)"
proof -
  let ?e = "if on_v2 de then DATA_ENGINE_V2 else DATA_ENGINE_V1"
  let ?r = "\<lparr>pqAddress = sa, pqEngineName = en, pqVolumeName = vn, pqDataEngine = ?e\<rparr>"
  let ?q = "\<lparr>btEnvs = baEnvs a, btUrl = baUrl a, btTarget = baTarget a, btVolumeName = baBackupVolumeName a,
      btConcurrentLimit = to_int32 (baConcurrentLimit a)\<rparr>"
  have "pxOps p ?e = Some (if on_v2 de then V2DataEngineProxyOps else V1DataEngineProxyOps)"
    using NewProxy_ops [OF assms(1)] by (simp add: DATA_ENGINE_V1_def DATA_ENGINE_V2_def)
  then have "BackupRestore S marshal p (Some ?r) ?q w = (Ret (restore_reply marshal err), w3)"
    using assms(3-5) by (simp add: BackupRestore_def deref_def with_credential_def with_proxy_ops_def)
  then have reply: "pxBackupRestore (proxy_rpc_of S marshal p uuid) (Some ?r) ?q w = (Ret (restore_reply marshal err), w3)"
    by (simp add: proxy_rpc_of_def over_wire_def)
  show ?thesis
  proof (cases err)
    case None
    with reply assms(2) show ?thesis
      by (simp add: Px_BackupRestore_def on_engine_def validated_def with_engine_choice prefixed_def restore_reply_def Let_def)
  next
    case (Some e)
    with reply assms(2,6,7) show ?thesis
      by (cases e; cases "marshal e")
        (auto simp: Px_BackupRestore_def on_engine_def validated_def with_engine_choice prefixed_def restore_reply_def
          Let_def on_error_def split: sum.splits)
  qed
qed


definition demo_errors :: "replica_error list" where
  "demo_errors = [\<lparr>reAddress = ''b:1'', reMessage = ''bad block''\<rparr>]"

definition demo_marshal :: "restore_error \<Rightarrow> string option" where
  "demo_marshal e = (case e of
     TaskFailed errs \<Rightarrow> if errs = demo_errors then Some ''[b:1 bad block]'' else None
   | OtherError _ \<Rightarrow> Some ''{}'')"

definition demo_unmarshal :: "string \<Rightarrow> replica_error list result" where
  "demo_unmarshal j = (if j = ''[b:1 bad block]'' then Inr demo_errors else Inl (Err ''invalid character''))"

definition demo_proxy_client :: proxy_client where
  "demo_proxy_client = \<lparr>pcServiceURL = ''10.0.0.1:8501'', pcVersion = 5, pcIterate = id, pcIsQualifiedName = (\<lambda>_. [])\<rparr>"

definition demo_restore_args :: backup_restore_args where
  "demo_restore_args = \<lparr>baUrl = ''s3://b'', baTarget = ''s3://'', baBackupVolumeName = ''vol'', baEnvs = [], baConcurrentLimit = 2\<rparr>"

lemma restore_errors_reach_client_witness:
  "Px_BackupRestore (proxy_rpc_of demo_proxy demo_marshal served ''u'') demo_unmarshal demo_proxy_client
     ''v1'' ''e'' ''vol'' ''10.0.0.1:10000'' demo_restore_args 0 = (Ret (Some demo_errors), 0)"
proof -
  have v1: "on_v2 ''v1'' = False" by code_simp
  let ?a = demo_restore_args
  have params: "validateProxyMethodParameters (pcIterate demo_proxy_client (engine_params ''e'' ''vol'' ''10.0.0.1:10000'' @
      [(''url'', baUrl ?a), (''target'', baTarget ?a), (''backupVolumeName'', baBackupVolumeName ?a)])) = None"
    by (simp add: demo_proxy_client_def demo_restore_args_def engine_params_def)
  have env: "setEnv demo_proxy (baEnvs ?a) 0 = (Ret (), 0)" "getBackupCredential demo_proxy (baTarget ?a) 0 = (Ret Map.empty, 0)"
    by (simp_all add: demo_proxy_def demo_proxy_on_def demo_restore_args_def)
  have restore: "Ops_BackupRestore demo_proxy (if on_v2 ''v1'' then V2DataEngineProxyOps else V1DataEngineProxyOps) r q cred 0 =
      (Ret (Some (TaskFailed demo_errors)), 0)" for r q cred
    by (simp add: v1 or_restore_error_def with_task_def restore_call_def demo_proxy_def demo_proxy_on_def demo_task_def demo_errors_def)
  have codec: "j \<notin> {'''', ''{}''} \<and> demo_unmarshal j = Inr errs" if "demo_marshal (TaskFailed errs) = Some j" for errs j
    using that by (auto simp: demo_marshal_def demo_unmarshal_def split: if_splits)
  have other: "j = ''{}''" if "demo_marshal (OtherError e) = Some j" for e j
    using that by (simp add: demo_marshal_def)
  have "demo_marshal (TaskFailed demo_errors) \<noteq> None" by (simp add: demo_marshal_def)
  with restore_errors_reach_client [where marshal = demo_marshal and unmarshal = demo_unmarshal and uuid = "''u''",
      OF demo_NewProxy params env restore codec other]
  show ?thesis by (simp add: Let_def)
qed

section \<open>Status of rebuilding replicas\<close>

lemma rebuilding_loop_dom:
  assumes "rebuilding_loop S A ms status w = (Ret m, w')"
  shows "dom m = dom status \<union> {AddTcpPrefixForAddress a |n a. (n, ''WO'') \<in> set ms \<and> A n = Some a \<and> a \<noteq> ''''}"
  using assms
proof (induction ms arbitrary: status w w')
  case (Cons nm ms)
  obtain n mode where nm: "nm = (n, mode)" by fastforce
  let ?new = "\<lambda>ms. {AddTcpPrefixForAddress a |n a. (n, ''WO'') \<in> set ms \<and> A n = Some a \<and> a \<noteq> ''''}"
  show ?case
  proof (cases "\<exists>a. mode = ''WO'' \<and> A n = Some a \<and> a \<noteq> ''''")
    case False
    then have "rebuilding_loop S A ms status w = (Ret m, w')"
      using Cons.prems by (auto simp: nm split: if_splits option.splits)
    moreover have "?new (nm # ms) = ?new ms" using False by (auto simp: nm)
    ultimately show ?thesis using Cons.IH [of status w w'] by (simp only:)
  next
    case True
    then obtain a where a: "mode = ''WO''" "A n = Some a" "a \<noteq> ''''" by blast
    have "\<exists>s w1 w2. rebuilding_loop S A ms (status(AddTcpPrefixForAddress a \<mapsto> s)) w1 = (Ret m, w2)"
      using Cons.prems a
      by (auto simp: nm getSPDKClientFromAddress_def with_conn_def split: sum.splits prod.splits outcome.splits)
    then obtain s w1 w2 where "rebuilding_loop S A ms (status(AddTcpPrefixForAddress a \<mapsto> s)) w1 = (Ret m, w2)" by blast
    moreover have "?new (nm # ms) = insert (AddTcpPrefixForAddress a) (?new ms)" using a by (auto simp: nm)
    ultimately show ?thesis using Cons.IH by (simp only: dom_fun_upd) auto
  qed
qed auto

text \<open>The rebuilding status of an engine of the v2 data engine: when the request succeeds, it has an entry
  for exactly the replicas of the engine in mode \<open>WO\<close> with an address, under that address with the prefix
  \<open>tcp://\<close>, whether or not their own status could be read.\<close>

theorem rebuilding_status_complete:
  assumes "NewProxy S spdk w0 = (Ret p, w0')" "pqDataEngine r = DATA_ENGINE_V2"
    and "spdk_address (pqAddress r) = Inr a" "spdkDial S a w = (Ret (), w1)"
    and "scEngineGet (spdkAt S a) (pqEngineName r) w1 = (Ret e, w2)"
    and "ReplicaRebuildingStatus S p r w = (Ret m, w3)"
  shows "dom m = {AddTcpPrefixForAddress x |n x. (n, ''WO'') \<in> set (eReplicaModeMap e) \<and>
    map_of (eReplicaAddressMap e) n = Some x \<and> x \<noteq> ''''}"
proof -
  have "\<exists>w4. rebuilding_loop S (map_of (eReplicaAddressMap e)) (eReplicaModeMap e) Map.empty w2 = (Ret m, w4)"
    using assms by (auto simp: ReplicaRebuildingStatus_def with_proxy_ops_def NewProxy_ops [OF assms(1)] with_spdk_def
        getSPDKClientFromAddress_def split: prod.splits)
  then show ?thesis using rebuilding_loop_dom by fastforce
qed

lemma rebuilding_status_complete_witness:
  "\<exists>m. ReplicaRebuildingStatus demo_proxy served (demo_req DATA_ENGINE_V2) 0 = (Ret m, 0) \<and>
     dom m = {''tcp://10.0.0.2:20001''}"
proof -
  obtain a1 a2 where a: "spdk_address ''10.0.0.1:10000'' = Inr a1" "spdk_address ''10.0.0.2:20001'' = Inr a2"
    by (simp add: spdk_address_def split_host_port_def Let_def)
  obtain m where m: "ReplicaRebuildingStatus demo_proxy served (demo_req DATA_ENGINE_V2) 0 = (Ret m, 0)"
    by (simp add: ReplicaRebuildingStatus_def with_proxy_ops_def served_def demo_req_def with_spdk_def a demo_proxy_def demo_proxy_on_def
        getSPDKClientFromAddress_def demo_client_def demo_engine_def)
  have "dom m = {AddTcpPrefixForAddress x |n x. (n, ''WO'') \<in> set (eReplicaModeMap demo_engine) \<and>
      map_of (eReplicaAddressMap demo_engine) n = Some x \<and> x \<noteq> ''''}"
    by (rule rebuilding_status_complete [OF demo_NewProxy _ _ _ _ m])
      (simp_all add: demo_req_def a demo_proxy_def demo_proxy_on_def demo_client_def)
  also have "\<dots> = {''tcp://10.0.0.2:20001''}"
    by (auto simp: demo_engine_def AddTcpPrefixForAddress_def TcpAddressPrefix_def)
  finally show ?thesis using m by blast
qed

end
