(* ===== verification/Daemon.thy ===== *)
theory Daemon
  imports Proxy_Model Disk_Model Work
begin

text \<open>
  The daemon of \<open>app/cmd/start.go\<close>: it sets up the five gRPC servers of the instance manager on
  consecutive ports, serves them until one of them ends or a signal arrives, and then stops all of
  them and deletes the processes.  The health services of \<open>pkg/health\<close> are here as well.
\<close>

section \<open>Addresses of the services\<close>

definition DiskGrpcService :: string where "DiskGrpcService = ''disk gRPC server''"
definition SpdkGrpcService :: string where "SpdkGrpcService = ''spdk gRPC server''"
definition ProcessManagerGrpcService :: string where
  "ProcessManagerGrpcService = ''process-manager gRPC server''"
definition InstanceGrpcService :: string where "InstanceGrpcService = ''instance gRPC server''"
definition ProxyGRPCService :: string where "ProxyGRPCService = ''proxy gRPC server''"

lemmas service_names = DiskGrpcService_def SpdkGrpcService_def ProcessManagerGrpcService_def
  InstanceGrpcService_def ProxyGRPCService_def

text \<open>The sum of an \<open>int\<close> and a small constant wraps around.\<close>

definition getServiceAddresses :: "string \<Rightarrow> (string \<rightharpoonup> string) result" where
  "getServiceAddresses listen =
     (case split_host_port listen of
        Inl e \<Rightarrow> Inl (addr_error listen e)
      | Inr (host, port) \<Rightarrow>
          (case atoi port of
             Inl e \<Rightarrow> Inl (atoi_error port e)
           | Inr intPort \<Rightarrow>
               let at = (\<lambda>k. join_host_port host (itoa (to_int64 (intPort + k))))
               in Inr [ProcessManagerGrpcService \<mapsto> at 0, ProxyGRPCService \<mapsto> at 1,
                       DiskGrpcService \<mapsto> at 2, InstanceGrpcService \<mapsto> at 3, SpdkGrpcService \<mapsto> at 4]))"

section \<open>Health services\<close>

datatype serving_status = SERVING | NOT_SERVING

text \<open>
  A health service holds a pointer to its server: \<open>up\<close> tells whether it is not nil.  The four
  newer services share the text of the error.
\<close>

definition health_check :: "string \<Rightarrow> bool \<Rightarrow> serving_status \<times> error option" where
  "health_check what up = (if up then (SERVING, None) else (NOT_SERVING, Some (Err (what @ '' is not running''))))"

definition Process_Check :: "bool \<Rightarrow> serving_status \<times> error option" where
  "Process_Check up = health_check ''Engine Manager or Process Manager or Instance Manager'' up"

definition Proxy_Check :: "bool \<Rightarrow> serving_status \<times> error option" where
  "Proxy_Check up = health_check ''proxy or instance manager'' up"

definition Disk_Check :: "bool \<Rightarrow> serving_status \<times> error option" where
  "Disk_Check up = health_check ''server or instance manager'' up"

definition Instance_Check :: "bool \<Rightarrow> serving_status \<times> error option" where
  "Instance_Check up = health_check ''server or instance manager'' up"

definition SPDK_Check :: "bool \<Rightarrow> serving_status \<times> error option" where
  "SPDK_Check up = health_check ''server or instance manager'' up"

text \<open>
  \<open>Watch\<close> sends the status once per second, for ever: \<open>send i\<close> is the outcome of the \<open>i\<close>-th send,
  whose error is only logged.  The result is what has been sent, and how many errors have been
  logged, after \<open>n\<close> rounds.
\<close>

fun health_watch :: "(nat \<Rightarrow> error option) \<Rightarrow> bool \<Rightarrow> nat \<Rightarrow> serving_status list \<times> nat" where
  "health_watch send up 0 = ([], 0)"
| "health_watch send up (Suc n) =
     (case health_watch send up n of
        (sent, errs) \<Rightarrow>
          (case send n of
             None \<Rightarrow> (sent @ [if up then SERVING else NOT_SERVING], errs)
           | Some _ \<Rightarrow> (sent, Suc errs)))"

text \<open>The \<open>Watch\<close> of the five services.\<close>

definition Process_Watch :: "(nat \<Rightarrow> error option) \<Rightarrow> bool \<Rightarrow> nat \<Rightarrow> serving_status list \<times> nat" where
  "Process_Watch send up n = health_watch send up n"

definition Proxy_Watch :: "(nat \<Rightarrow> error option) \<Rightarrow> bool \<Rightarrow> nat \<Rightarrow> serving_status list \<times> nat" where
  "Proxy_Watch send up n = health_watch send up n"

definition Disk_Watch :: "(nat \<Rightarrow> error option) \<Rightarrow> bool \<Rightarrow> nat \<Rightarrow> serving_status list \<times> nat" where
  "Disk_Watch send up n = health_watch send up n"

definition Instance_Watch :: "(nat \<Rightarrow> error option) \<Rightarrow> bool \<Rightarrow> nat \<Rightarrow> serving_status list \<times> nat" where
  "Instance_Watch send up n = health_watch send up n"

definition SPDK_Watch :: "(nat \<Rightarrow> error option) \<Rightarrow> bool \<Rightarrow> nat \<Rightarrow> serving_status list \<times> nat" where
  "SPDK_Watch send up n = health_watch send up n"

section \<open>Setting up\<close>

record 't grpc_server =
  gsAddress :: string
  gsTLS :: "'t option"

record daemon_opts =
  doListen :: string
  doLogsDir :: string
  doPortRange :: string
  doSpdkPortRange :: string
  doSpdkEnabled :: bool
  doTlsDir :: string

text \<open>The flags of the command \<open>daemon\<close>, with the values of those that are not given.\<close>

definition StartCmd ::
  "string option \<Rightarrow> string option \<Rightarrow> string option \<Rightarrow> string option \<Rightarrow> bool \<Rightarrow> string \<Rightarrow> daemon_opts" where
  "StartCmd listen logsDir portRange spdkPortRange spdkEnabled tlsDir =
     \<lparr>doListen = (case listen of None \<Rightarrow> ''localhost:8500'' | Some x \<Rightarrow> x),
      doLogsDir = (case logsDir of None \<Rightarrow> ''/var/log/instances'' | Some x \<Rightarrow> x),
      doPortRange = (case portRange of None \<Rightarrow> ''10000-20000'' | Some x \<Rightarrow> x),
      doSpdkPortRange = (case spdkPortRange of None \<Rightarrow> ''20001-30000'' | Some x \<Rightarrow> x),
      doSpdkEnabled = spdkEnabled, doTlsDir = tlsDir\<rparr>"

text \<open>What the daemon uses of the operating system and of the libraries.\<close>

record ('w, 't) daemon_env =
  deSetUpLogger :: "string \<Rightarrow> ('w, unit) call"
  deListMounts :: "('w, mount_point list) call"
  deUnfreeze :: "string \<Rightarrow> ('w, bool) call"
  deJoinPath :: "string \<Rightarrow> string \<Rightarrow> string"
  deLoadServerTLS :: "string \<Rightarrow> string \<Rightarrow> string \<Rightarrow> string \<Rightarrow> 't result"
  deRemove :: "string \<Rightarrow> remove_outcome"
  deListen :: "string \<Rightarrow> string \<Rightarrow> unit result"
  deServices :: "'w services"
  deProxyServices :: "'w proxy_services"
  deDials :: "bool list"
  deSpdkNewServer :: "int \<Rightarrow> int \<Rightarrow> ('w, unit) call"
  deStopSPDKTgt :: "'w \<Rightarrow> 'w"

definition DevicePathPrefix :: string where "DevicePathPrefix = ''/dev/longhorn/''"

text \<open>An error of unfreezing one file system is only logged.\<close>

fun unfreeze_loop :: "('w, 't) daemon_env \<Rightarrow> mount_point list \<Rightarrow> ('w, unit) call" where
  "unfreeze_loop E [] w = (Ret (), w)"
| "unfreeze_loop E (mp # mps) w =
     (if contains (mpDevice mp) DevicePathPrefix then
        (case deUnfreeze E (mpPath mp) w of
           (Panic, w') \<Rightarrow> (Panic, w')
         | (_, w') \<Rightarrow> unfreeze_loop E mps w')
      else unfreeze_loop E mps w)"

definition unfreezeFilesystems :: "('w, 't) daemon_env \<Rightarrow> ('w, unit) call" where
  "unfreezeFilesystems E =
     on_error (deListMounts E) (Wrap ''failed to list mount points while starting up'') (unfreeze_loop E)"

text \<open>A configuration that cannot be loaded is logged, and the daemon goes on without it.\<close>

definition server_tls :: "('w, 't) daemon_env \<Rightarrow> string \<Rightarrow> 't option" where
  "server_tls E tlsDir =
     (if tlsDir \<noteq> '''' then
        (case deLoadServerTLS E (deJoinPath E tlsDir ''ca.crt'') (deJoinPath E tlsDir ''tls.crt'')
                (deJoinPath E tlsDir ''tls.key'') ''longhorn-backend.longhorn-system'' of
           Inl _ \<Rightarrow> None
         | Inr c \<Rightarrow> Some c)
      else None)"

definition listen_on ::
  "('w, 't) daemon_env \<Rightarrow> string \<Rightarrow> string \<Rightarrow> 't option \<Rightarrow> ('w, 't grpc_server) call" where
  "listen_on E name listen tls =
     (case NewGRPCServer (deRemove E) (deListen E) listen of
        Inl e \<Rightarrow> fail (Wrap (''failed to setup '' @ name) e)
      | Inr _ \<Rightarrow> ret \<lparr>gsAddress = listen, gsTLS = tls\<rparr>)"

definition setupDiskGRPCServer ::
  "('w, 't) daemon_env \<Rightarrow> string \<Rightarrow> string \<Rightarrow> bool \<Rightarrow> ('w, disk_server \<times> 't grpc_server) call" where
  "setupDiskGRPCServer E listen spdkServiceAddress spdkEnabled =
     on_error (NewDiskServer (deServices E) (deDials E) spdkEnabled spdkServiceAddress) id (\<lambda>srv.
       on_error (listen_on E DiskGrpcService listen None) id (\<lambda>g. ret (srv, g)))"

definition setupSPDKGRPCServer ::
  "('w, 't) daemon_env \<Rightarrow> string \<Rightarrow> string \<Rightarrow> ('w, 't grpc_server) call" where
  "setupSPDKGRPCServer E portRange listen =
     (case SPDK_ParsePortRange portRange of
        Inl e \<Rightarrow> fail e
      | Inr (portStart, portEnd) \<Rightarrow>
          on_error (deSpdkNewServer E portStart portEnd) id (\<lambda>_. listen_on E SpdkGrpcService listen None))"

definition setupProxyGRPCServer ::
  "('w, 't) daemon_env \<Rightarrow> string \<Rightarrow> string \<Rightarrow> 't option \<Rightarrow> ('w, proxy \<times> 't grpc_server) call" where
  "setupProxyGRPCServer E listen spdkServiceAddress tls =
     on_error (NewProxy (deProxyServices E) spdkServiceAddress) id (\<lambda>srv.
       on_error (listen_on E ProxyGRPCService listen tls) id (\<lambda>g. ret (srv, g)))"

definition setupProcessManagerGRPCServer ::
  "('w, 't) daemon_env \<Rightarrow> string \<Rightarrow> string \<Rightarrow> ('w, manager \<times> 't grpc_server) call" where
  "setupProcessManagerGRPCServer E portRange listen =
     (case NewManager portRange of
        Inl e \<Rightarrow> fail e
      | Inr srv \<Rightarrow> on_error (listen_on E ProcessManagerGrpcService listen None) id (\<lambda>g. ret (srv, g)))"

definition setupInstanceGRPCServer ::
  "('w, 't) daemon_env \<Rightarrow> string \<Rightarrow> string \<Rightarrow> string \<Rightarrow> 't option \<Rightarrow> bool \<Rightarrow> ('w, server \<times> 't grpc_server) call" where
  "setupInstanceGRPCServer E listen processManagerServiceAddress spdkServiceAddress tls spdkEnabled =
     on_error (listen_on E InstanceGrpcService listen tls) id (\<lambda>g.
       ret (NewServer processManagerServiceAddress spdkServiceAddress spdkEnabled, g))"

record 't daemon_conf =
  dcManager :: manager
  dcDisk :: disk_server
  dcInstance :: server
  dcProxy :: proxy
  dcServers :: "string \<rightharpoonup> 't grpc_server"

text \<open>The part of \<open>start\<close> before the servers run.\<close>

definition start_setup :: "('w, 't) daemon_env \<Rightarrow> daemon_opts \<Rightarrow> ('w, 't daemon_conf) call" where
  "start_setup E opts =
     on_error (deSetUpLogger E (doLogsDir opts)) id (\<lambda>_.
     on_error (if \<not> doSpdkEnabled opts then unfreezeFilesystems E else ret ()) id (\<lambda>_.
     let tls = server_tls E (doTlsDir opts)
     in case getServiceAddresses (doListen opts) of
         Inl e \<Rightarrow> fail e
       | Inr addresses \<Rightarrow>
           let addr = (\<lambda>n. case addresses n of None \<Rightarrow> '''' | Some a \<Rightarrow> a)
           in
           on_error (setupDiskGRPCServer E (addr DiskGrpcService) (addr SpdkGrpcService) (doSpdkEnabled opts)) id
             (\<lambda>(disk, diskG).
           on_error (setupInstanceGRPCServer E (addr InstanceGrpcService) (addr ProcessManagerGrpcService)
               (addr SpdkGrpcService) tls (doSpdkEnabled opts)) id (\<lambda>(inst, instG).
           on_error (setupProxyGRPCServer E (addr ProxyGRPCService) (addr SpdkGrpcService) tls) id (\<lambda>(prox, proxG).
           on_error (setupProcessManagerGRPCServer E (doPortRange opts) (addr ProcessManagerGrpcService)) id
             (\<lambda>(pm, pmG).
           on_error (if doSpdkEnabled opts
               then on_error (setupSPDKGRPCServer E (doSpdkPortRange opts) (addr SpdkGrpcService)) id
                      (\<lambda>g. ret [SpdkGrpcService \<mapsto> g])
               else ret Map.empty) id (\<lambda>spdkG.
             ret \<lparr>dcManager = pm, dcDisk = disk, dcInstance = inst, dcProxy = prox,
                  dcServers = [DiskGrpcService \<mapsto> diskG, InstanceGrpcService \<mapsto> instG,
                    ProxyGRPCService \<mapsto> proxG, ProcessManagerGrpcService \<mapsto> pmG] ++ spdkG\<rparr>)))))))"

text \<open>
  \<open>start\<close>: \<open>serve\<close> is the run of the servers, the system of the next section.  The SPDK target is
  stopped at the end, whatever happened.
\<close>

definition start_daemon ::
  "('w, 't) daemon_env \<Rightarrow> ('t daemon_conf \<Rightarrow> 'w \<Rightarrow> 'w) \<Rightarrow> daemon_opts \<Rightarrow> ('w, unit) call" where
  "start_daemon E serve opts w =
     (let stop = (if doSpdkEnabled opts then deStopSPDKTgt E else id)
      in case start_setup E opts w of
          (Ret conf, w') \<Rightarrow> (Ret (), stop (serve conf w'))
        | (Fail e, w') \<Rightarrow> (Fail e, stop w')
        | (Panic, w') \<Rightarrow> (Panic, stop w'))"

section \<open>Cleaning up\<close>

text \<open>
  \<open>cleanup\<close> deletes every listed process and waits until none is listed.  The first component
  says whether it found the list empty; the errors of deletions are only logged.
\<close>

fun cleanup_delete :: "(string \<Rightarrow> ('w, unit) call) \<Rightarrow> string list \<Rightarrow> 'w \<Rightarrow> 'w" where
  "cleanup_delete del [] w = w"
| "cleanup_delete del (n # ns) w = cleanup_delete del ns (snd (del n w))"

fun cleanup_wait :: "('w, string list) call \<Rightarrow> ('w \<Rightarrow> 'w) \<Rightarrow> nat \<Rightarrow> 'w \<Rightarrow> bool \<times> 'w" where
  "cleanup_wait list sleep 0 w = (False, w)"
| "cleanup_wait list sleep (Suc n) w =
     (case list w of
        (Ret names, w') \<Rightarrow> if names = [] then (True, w') else cleanup_wait list sleep n (sleep w')
      | (_, w') \<Rightarrow> (False, w'))"

definition cleanup ::
  "('w, string list) call \<Rightarrow> (string \<Rightarrow> ('w, unit) call) \<Rightarrow> ('w \<Rightarrow> 'w) \<Rightarrow> 'w \<Rightarrow> bool \<times> 'w" where
  "cleanup list del sleep w =
     (case list w of
        (Ret names, w') \<Rightarrow> cleanup_wait list sleep WaitCount (cleanup_delete del names w')
      | (_, w') \<Rightarrow> (False, w'))"

section \<open>Serving\<close>

text \<open>
  The goroutines of \<open>start\<close>: one per server and one that waits for a signal.  A server's goroutine
  serves, then (for the process manager) cleans up, and finally sends \<open>SIGTERM\<close> to the channel if
  there is room; the channel holds one signal.  The waiting goroutine takes one signal and stops
  every server.  \<open>dmCleaned\<close> is whether the goroutine of the process manager has run \<open>cleanup\<close>, which returns after
  at most \<open>WaitCount\<close> rounds whatever the manager answers; what it does to the processes is not part of this
  state.
\<close>

datatype serve_state = Serving | Returned | Ended

record daemon =
  dmServers :: "(string \<times> serve_state) list"
  dmSignal :: bool
  dmHandled :: bool
  dmCleaned :: bool

datatype daction =
    OsSignal
  | ServeFails nat
  | HandleSignal
  | ServeStops nat
  | EndServer nat

definition set_server :: "nat \<Rightarrow> serve_state \<Rightarrow> daemon \<Rightarrow> daemon" where
  "set_server i x d = d\<lparr>dmServers := (dmServers d)[i := (fst (dmServers d ! i), x)]\<rparr>"

definition server_is :: "nat \<Rightarrow> serve_state \<Rightarrow> daemon \<Rightarrow> bool" where
  "server_is i x d \<longleftrightarrow> i < length (dmServers d) \<and> snd (dmServers d ! i) = x"

fun dact :: "daction \<Rightarrow> daemon \<Rightarrow> daemon option" where
  "dact OsSignal d = Some (d\<lparr>dmSignal := True\<rparr>)"
| "dact (ServeFails i) d = (if server_is i Serving d then Some (set_server i Returned d) else None)"
| "dact HandleSignal d =
     (if dmSignal d \<and> \<not> dmHandled d then Some (d\<lparr>dmSignal := False, dmHandled := True\<rparr>) else None)"
| "dact (ServeStops i) d =
     (if dmHandled d \<and> server_is i Serving d then Some (set_server i Returned d) else None)"
| "dact (EndServer i) d =
     (if server_is i Returned d
      then Some ((set_server i Ended d)\<lparr>dmSignal := True,
             dmCleaned := dmCleaned d \<or> fst (dmServers d ! i) = ProcessManagerGrpcService\<rparr>)
      else None)"

text \<open>The goroutines take the last three steps by themselves.\<close>

fun dinternal :: "daction \<Rightarrow> bool" where
  "dinternal OsSignal = False"
| "dinternal (ServeFails i) = False"
| "dinternal _ = True"

definition init_daemon :: "string list \<Rightarrow> daemon" where
  "init_daemon names = \<lparr>dmServers = map (\<lambda>n. (n, Serving)) names, dmSignal = False, dmHandled = False,
     dmCleaned = False\<rparr>"

inductive dreachable :: "string list \<Rightarrow> daemon \<Rightarrow> bool" for names where
  init: "dreachable names (init_daemon names)"
| step: "dreachable names d \<Longrightarrow> dact x d = Some d' \<Longrightarrow> dreachable names d'"

fun serve_weight :: "serve_state \<Rightarrow> nat" where
  "serve_weight Serving = 2" | "serve_weight Returned = 1" | "serve_weight Ended = 0"

definition dwork :: "daemon \<Rightarrow> nat" where
  "dwork d = sum_list (map (serve_weight \<circ> snd) (dmServers d)) + (if dmHandled d then 0 else 1)"

lemma dwork_set_server:
  assumes "server_is i y d"
  shows "dwork (set_server i x d) + serve_weight y = dwork d + serve_weight x"
proof -
  have i: "i < length (dmServers d)" and y: "snd (dmServers d ! i) = y"
    using assms by (auto simp: server_is_def)
  let ?ws = "map (serve_weight \<circ> snd) (dmServers d)"
  have "?ws ! i = serve_weight y" using i y by simp
  then have "serve_weight y \<le> sum_list ?ws"
    using elem_le_sum_list [of i ?ws] i by simp
  then have "sum_list (map (serve_weight \<circ> snd) ((dmServers d)[i := (fst (dmServers d ! i), x)])) + serve_weight y =
      sum_list ?ws + serve_weight x"
    using i y by (simp add: map_update sum_list_update)
  then show ?thesis by (simp add: dwork_def set_server_def)
qed

lemma dwork_fields [simp]:
  "dwork (d\<lparr>dmSignal := b\<rparr>) = dwork d" "dwork (d\<lparr>dmCleaned := c\<rparr>) = dwork d"
  by (simp_all add: dwork_def)

interpretation dm: bounded_work dact dinternal dwork
proof
  fix x d d' assume x: "dinternal x" "dact x d = Some d'"
  show "dwork d' < dwork d"
  proof (cases x)
    case (ServeStops i)
    with x dwork_set_server [of i Serving d Returned] show ?thesis by (auto split: if_splits)
  next
    case (EndServer i)
    with x dwork_set_server [of i Returned d Ended] show ?thesis by (auto split: if_splits)
  qed (use x in \<open>auto simp: dwork_def split: if_splits\<close>)
qed

text \<open>What holds in every reachable state: nothing is lost of an end that has begun.\<close>

definition dinv :: "string list \<Rightarrow> daemon \<Rightarrow> bool" where
  "dinv names d \<longleftrightarrow> map fst (dmServers d) = names \<and>
     (Ended \<in> snd ` set (dmServers d) \<longrightarrow> dmSignal d \<or> dmHandled d) \<and>
     (\<forall>s \<in> set (dmServers d). fst s = ProcessManagerGrpcService \<and> snd s = Ended \<longrightarrow> dmCleaned d)"

lemma set_server_names: "map fst (dmServers (set_server i x d)) = map fst (dmServers d)"
  by (cases "i < length (dmServers d)")
    (simp_all add: set_server_def map_update list_update_same_conv list_update_beyond)

lemma set_server_mem:
  "s \<in> set (dmServers (set_server i x d)) \<Longrightarrow> s \<in> set (dmServers d) \<or> s = (fst (dmServers d ! i), x)"
  by (auto simp: set_server_def dest!: set_update_subset_insert [THEN subsetD])

lemma set_server_fields [simp]:
  "dmSignal (set_server i x d) = dmSignal d" "dmHandled (set_server i x d) = dmHandled d"
  "dmCleaned (set_server i x d) = dmCleaned d"
  by (simp_all add: set_server_def)

lemma dinv_returned:
  assumes "dinv names d"
  shows "dinv names (set_server i Returned d)"
  using assms by (fastforce simp: dinv_def set_server_names dest: set_server_mem)

lemma dinv_ended:
  assumes "dinv names d" "b \<longleftrightarrow> dmCleaned d \<or> fst (dmServers d ! i) = ProcessManagerGrpcService"
  shows "dinv names ((set_server i Ended d)\<lparr>dmSignal := True, dmCleaned := b\<rparr>)"
  using assms by (fastforce simp: dinv_def set_server_names dest: set_server_mem)

lemma dinv_dact:
  assumes "dinv names d" "dact x d = Some d'"
  shows "dinv names d'"
proof (cases x)
  case (ServeFails i)
  with assms dinv_returned [OF assms(1), of i] show ?thesis by (auto split: if_splits)
next
  case (ServeStops i)
  with assms dinv_returned [OF assms(1), of i] show ?thesis by (auto split: if_splits)
next
  case (EndServer i)
  with assms(2) dinv_ended [OF assms(1) refl, of i] show ?thesis by (auto split: if_splits)
qed (use assms in \<open>auto simp: dinv_def split: if_splits\<close>)

lemma dinv_reachable: "dreachable names d \<Longrightarrow> dinv names d"
proof (induction rule: dreachable.induct)
  case init
  show ?case by (auto simp: dinv_def init_daemon_def comp_def)
next
  case (step d x d')
  then show ?case using dinv_dact by blast
qed

lemma dquiet:
  assumes "dinv names d" and quiet: "\<forall>x. dinternal x \<longrightarrow> dact x d = None"
    and began: "dmSignal d \<or> dmHandled d \<or> (\<exists>i < length (dmServers d). \<not> server_is i Serving d)"
  shows "\<forall>s \<in> set (dmServers d). snd s = Ended"
proof -
  have ret: "\<not> server_is i Returned d" for i using quiet [rule_format, of "EndServer i"] by (auto split: if_splits)
  have hand: "\<not> dmSignal d \<or> dmHandled d" using quiet [rule_format, of HandleSignal] by (auto split: if_splits)
  have "dmHandled d"
  proof (rule ccontr)
    assume n: "\<not> dmHandled d"
    with hand began obtain i where i: "i < length (dmServers d)" "\<not> server_is i Serving d" by blast
    with ret [of i] have "server_is i Ended d"
      by (cases "snd (dmServers d ! i)") (auto simp: server_is_def)
    then have "Ended \<in> snd ` set (dmServers d)"
      using nth_mem [OF i(1)] unfolding server_is_def by (metis imageI)
    with assms(1) n hand show False by (auto simp: dinv_def)
  qed
  then have "\<not> server_is i Serving d" for i
    using quiet [rule_format, of "ServeStops i"] by (auto split: if_splits)
  with ret show ?thesis
    by (auto simp: in_set_conv_nth server_is_def) (metis serve_state.exhaust snd_conv)
qed

end
