(* ===== verification/Daemon_Properties.thy ===== *)
theory Daemon_Properties
  imports Daemon
begin

text \<open>The properties of the daemon: the addresses of its servers and how it ends.\<close>

section \<open>Addresses\<close>

lemma itoa_inj:
  assumes "itoa i = itoa j" "0 \<le> i" "i < 2 ^ 63" "0 \<le> j" "j < 2 ^ 63"
  shows "i = j"
proof -
  have i: "atoi (itoa i) = Inr i" by (rule atoi_itoa) (use assms(2,3) in linarith)+
  have j: "atoi (itoa j) = Inr j" by (rule atoi_itoa) (use assms(4,5) in linarith)+
  from i [unfolded assms(1)] j show ?thesis by (metis sum.inject(2))
qed

lemma join_host_port_inj: "join_host_port h p = join_host_port h q \<longleftrightarrow> p = q"
  by (simp add: join_host_port_def)

lemma split_join_port:
  assumes "CHR ''['' \<notin> set host" "CHR '']'' \<notin> set host" "0 \<le> i"
  shows "split_host_port (join_host_port host (itoa i)) = Inr (host, itoa i)"
proof -
  have "c \<notin> set (itoa i)" if "\<not> is_digit c" for c using itoa_nonneg_chars [OF assms(3)] that by blast
  moreover have "\<not> is_digit (CHR '':'')" "\<not> is_digit (CHR ''['')" "\<not> is_digit (CHR '']'')" by code_simp+
  ultimately show ?thesis using assms by (intro split_join_host_port) blast+
qed

text \<open>C29. The servers of a daemon listen on consecutive ports: for a listen address of a host and a port,
  there are exactly five services, the process manager at the port itself and the proxy, the disk, the
  instance and the SPDK service at the four ports after it, all at that host.  The proxy however looks for
  the SPDK service of a host at a fixed port: from any port of the host it finds the one of the daemon
  exactly when the daemon listens on port 8500.\<close>

theorem service_addresses:
  assumes "CHR ''['' \<notin> set host" "CHR '']'' \<notin> set host" "0 \<le> port" "port < 2 ^ 63 - 4" "0 \<le> any"
  shows "\<exists>m. getServiceAddresses (join_host_port host (itoa port)) = Inr m \<and>
    dom m = {ProcessManagerGrpcService, ProxyGRPCService, DiskGrpcService, InstanceGrpcService, SpdkGrpcService} \<and>
    m ProcessManagerGrpcService = Some (join_host_port host (itoa port)) \<and>
    m ProxyGRPCService = Some (join_host_port host (itoa (port + 1))) \<and>
    m DiskGrpcService = Some (join_host_port host (itoa (port + 2))) \<and>
    m InstanceGrpcService = Some (join_host_port host (itoa (port + 3))) \<and>
    m SpdkGrpcService = Some (join_host_port host (itoa (port + 4))) \<and>
    (spdk_address (join_host_port host (itoa any)) = Inr (join_host_port host (itoa (port + 4))) \<longleftrightarrow> port = 8500)"
proof -
  have split: "split_host_port (join_host_port host (itoa i)) = Inr (host, itoa i)" if "0 \<le> i" for i
    using split_join_port assms(1,2) that .
  have a: "atoi (itoa port) = Inr port" using assms by (intro atoi_itoa) simp_all
  have "spdk_address (join_host_port host (itoa any)) = Inr (join_host_port host (itoa (port + 4))) \<longleftrightarrow> port = 8500"
    using itoa_inj [of 8504 "port + 4"] assms
    by (auto simp: spdk_address_def split join_host_port_inj InstanceManagerSpdkServiceDefaultPort_def
        InstanceManagerProcessManagerServiceDefaultPort_def)
  then show ?thesis
    using assms(3,4) by (auto simp: getServiceAddresses_def split a Let_def service_names)
qed

lemma service_addresses_witness:
  "\<exists>m. getServiceAddresses (join_host_port ''10.0.0.1'' (itoa 9000)) = Inr m \<and>
     m SpdkGrpcService = Some (join_host_port ''10.0.0.1'' (itoa 9004)) \<and>
     spdk_address (join_host_port ''10.0.0.1'' (itoa 10000)) \<noteq> Inr (join_host_port ''10.0.0.1'' (itoa 9004))"
  using service_addresses [of "''10.0.0.1''" 9000 10000] by auto

section \<open>Shutting down\<close>

text \<open>The end of the daemon has begun: a signal is waiting or was handled, or a server does not serve any more.\<close>

definition began :: "daemon \<Rightarrow> bool" where
  "began d \<longleftrightarrow> dmSignal d \<or> dmHandled d \<or> (\<exists>i < length (dmServers d). \<not> server_is i Serving d)"

lemma began_internal: "began d \<Longrightarrow> dinternal x \<Longrightarrow> dact x d = Some d' \<Longrightarrow> began d'"
  by (cases x) (auto simp: began_def split: if_splits)

lemma began_run: "began d \<Longrightarrow> list_all dinternal xs \<Longrightarrow> run_actions dact xs d = Some d' \<Longrightarrow> began d'"
proof (induction xs arbitrary: d)
  case (Cons x xs)
  then obtain d1 where "dact x d = Some d1" "run_actions dact xs d1 = Some d'" by (auto split: option.splits)
  with Cons began_internal [of d x d1] show ?case by simp
qed simp

lemma dreachable_run: "dreachable names d \<Longrightarrow> run_actions dact xs d = Some d' \<Longrightarrow> dreachable names d'"
  by (induction xs arbitrary: d) (auto simp del: dact.simps split: option.splits intro: dreachable.step)

lemma dwork_bound: "dinv names d \<Longrightarrow> dwork d \<le> 2 * length names + 1"
proof -
  assume "dinv names d"
  then have len: "length (dmServers d) = length names" by (auto simp: dinv_def)
  have "serve_weight x \<le> 2" for x by (cases x) auto
  then have "sum_list (map (serve_weight \<circ> snd) l) \<le> 2 * length l" for l :: "(string \<times> serve_state) list"
    using sum_list_mono [of l "serve_weight \<circ> snd" "\<lambda>_. 2"] by (simp add: sum_list_triv mult.commute comp_def)
  from this [of "dmServers d"] len show ?thesis by (simp add: dwork_def)
qed

text \<open>C28. The daemon shuts down completely: from every reachable state in which a signal has arrived or a
  server has ended, the goroutines can take at most two steps for each server and one more, and when none of
  them can take a step every server has ended and the cleanup of the processes has been run; and they do get
  there.\<close>

theorem daemon_shuts_down:
  assumes "dreachable names d" "began d"
  shows "(\<forall>xs d'. list_all dinternal xs \<longrightarrow> run_actions dact xs d = Some d' \<longrightarrow>
      length xs \<le> 2 * length names + 1 \<and>
      ((\<forall>x. dinternal x \<longrightarrow> dact x d' = None) \<longrightarrow>
        (\<forall>s \<in> set (dmServers d'). snd s = Ended) \<and> (ProcessManagerGrpcService \<in> set names \<longrightarrow> dmCleaned d'))) \<and>
    (\<exists>xs d'. list_all dinternal xs \<and> run_actions dact xs d = Some d' \<and> (\<forall>s \<in> set (dmServers d'). snd s = Ended))"
proof -
  have quiet: "(\<forall>s \<in> set (dmServers d'). snd s = Ended) \<and> (ProcessManagerGrpcService \<in> set names \<longrightarrow> dmCleaned d')"
    if "list_all dinternal xs" "run_actions dact xs d = Some d'" "\<forall>x. dinternal x \<longrightarrow> dact x d' = None" for xs d'
  proof -
    have inv: "dinv names d'" using dinv_reachable [OF dreachable_run [OF assms(1) that(2)]] .
    have ended: "\<forall>s \<in> set (dmServers d'). snd s = Ended"
      using dquiet [OF inv that(3)] began_run [OF assms(2) that(1,2)] by (simp add: began_def)
    moreover have "dmCleaned d'" if "ProcessManagerGrpcService \<in> set names"
    proof -
      from that inv obtain s where "s \<in> set (dmServers d')" "fst s = ProcessManagerGrpcService"
        unfolding dinv_def by (metis imageE list.set_map)
      with ended inv show ?thesis unfolding dinv_def by blast
    qed
    ultimately show ?thesis by blast
  qed
  have bound: "length xs \<le> 2 * length names + 1"
    if "list_all dinternal xs" "run_actions dact xs d = Some d'" for xs d'
    using dm.internal_run_bounded [OF that] dwork_bound [OF dinv_reachable [OF assms(1)]] by simp
  show ?thesis using quiet bound dm.settles [of d] by (intro conjI) blast+
qed

lemma daemon_shuts_down_witness:
  "\<exists>d xs d'. dreachable [ProcessManagerGrpcService, DiskGrpcService] d \<and> list_all dinternal xs \<and>
     run_actions dact xs d = Some d' \<and> (\<forall>s \<in> set (dmServers d'). snd s = Ended)"
proof -
  let ?names = "[ProcessManagerGrpcService, DiskGrpcService]"
  let ?d = "(init_daemon ?names)\<lparr>dmSignal := True\<rparr>"
  have "dreachable ?names ?d" using dreachable.step [OF dreachable.init, of OsSignal] by simp
  moreover have "began ?d" by (simp add: began_def)
  ultimately show ?thesis using daemon_shuts_down [of ?names ?d] by blast
qed

end
