(* ===== verification/Client_Connect.thy ===== *)
theory Client_Connect
  imports Client_Model Util
begin

text \<open>
  How the clients of \<open>pkg/client\<close> connect, with and without TLS, check the connection, read the version
  of the server, open streams, and close; and the streams of \<open>pkg/api\<close>.  The four clients have the
  same shape, with the differences that the definitions show.
\<close>

section \<open>Connecting\<close>

text \<open>
  A client: the connection \<open>scConn\<close> may be nil in a value that no constructor made.  The clients of the
  process manager, the instance service and the disk service have this record.
\<close>

record ('t, 'c) service_client =
  scURL :: string
  scTLS :: "'t option"
  scConn :: "'c option"

text \<open>What a client uses of the libraries: key pairs, files and certificate pools, and \<open>grpc.NewClient\<close>.\<close>

record ('p, 'k, 'c) connect_env =
  loadKeyPair :: "string \<Rightarrow> string \<Rightarrow> 'k result"
  readFile :: "string \<Rightarrow> string result"
  parsePool :: "string \<Rightarrow> 'p option"
  dial :: "('p, 'k) tls_config option \<Rightarrow> bool \<Rightarrow> string \<Rightarrow> 'c result"

definition connect :: "('p, 'k, 'c) connect_env \<Rightarrow> string \<Rightarrow> ('p, 'k) tls_config option \<Rightarrow> 'c result" where
  "connect E url tls = Connect (\<lambda>withTLS. dial E (if withTLS then tls else None)) url (tls \<noteq> None)"

definition new_client ::
  "string \<Rightarrow> ('p, 'k, 'c) connect_env \<Rightarrow> string \<Rightarrow> ('p, 'k) tls_config option \<Rightarrow>
     (('p, 'k) tls_config, 'c) service_client result" where
  "new_client what E serviceURL tls =
     (case connect E serviceURL tls of
        Inl e \<Rightarrow> Inl (Wrap (''cannot connect to '' @ what @ '' '' @ serviceURL) e)
      | Inr c \<Rightarrow> Inr \<lparr>scURL = serviceURL, scTLS = tls, scConn = Some c\<rparr>)"

definition load_tls ::
  "('p, 'k, 'c) connect_env \<Rightarrow> string \<Rightarrow> string \<Rightarrow> string \<Rightarrow> string \<Rightarrow> ('p, 'k) tls_config result" where
  "load_tls E caFile certFile keyFile peerName =
     wrap_result ''failed to load tls key pair from file''
       (LoadClientTLS (loadKeyPair E) (readFile E) (parsePool E) caFile certFile keyFile peerName)"

definition NewProcessManagerServiceClient ::
  "('p, 'k, 'c) connect_env \<Rightarrow> string \<Rightarrow> ('p, 'k) tls_config option \<Rightarrow>
     (('p, 'k) tls_config, 'c) service_client result" where
  "NewProcessManagerServiceClient = new_client ''ProcessManagerService''"

definition NewProcessManagerClientWithTLS ::
  "('p, 'k, 'c) connect_env \<Rightarrow> string \<Rightarrow> string \<Rightarrow> string \<Rightarrow> string \<Rightarrow> string \<Rightarrow>
     (('p, 'k) tls_config, 'c) service_client result" where
  "NewProcessManagerClientWithTLS E serviceURL caFile certFile keyFile peerName =
     (case load_tls E caFile certFile keyFile peerName of
        Inl e \<Rightarrow> Inl e
      | Inr t \<Rightarrow> NewProcessManagerServiceClient E serviceURL (Some t))"

definition NewInstanceServiceClient ::
  "('p, 'k, 'c) connect_env \<Rightarrow> string \<Rightarrow> ('p, 'k) tls_config option \<Rightarrow>
     (('p, 'k) tls_config, 'c) service_client result" where
  "NewInstanceServiceClient = new_client ''Instance Service''"

definition NewInstanceServiceClientWithTLS ::
  "('p, 'k, 'c) connect_env \<Rightarrow> string \<Rightarrow> string \<Rightarrow> string \<Rightarrow> string \<Rightarrow> string \<Rightarrow>
     (('p, 'k) tls_config, 'c) service_client result" where
  "NewInstanceServiceClientWithTLS E serviceURL caFile certFile keyFile peerName =
     (case load_tls E caFile certFile keyFile peerName of
        Inl e \<Rightarrow> Inl e
      | Inr t \<Rightarrow> NewInstanceServiceClient E serviceURL (Some t))"

definition NewDiskServiceClient ::
  "('p, 'k, 'c) connect_env \<Rightarrow> string \<Rightarrow> ('p, 'k) tls_config option \<Rightarrow>
     (('p, 'k) tls_config, 'c) service_client result" where
  "NewDiskServiceClient = new_client ''Disk Service''"

definition NewDiskServiceClientWithTLS ::
  "('p, 'k, 'c) connect_env \<Rightarrow> string \<Rightarrow> string \<Rightarrow> string \<Rightarrow> string \<Rightarrow> string \<Rightarrow>
     (('p, 'k) tls_config, 'c) service_client result" where
  "NewDiskServiceClientWithTLS E serviceURL caFile certFile keyFile peerName =
     (case load_tls E caFile certFile keyFile peerName of
        Inl e \<Rightarrow> Inl e
      | Inr t \<Rightarrow> NewDiskServiceClient E serviceURL (Some t))"

text \<open>The client of the proxy takes a host and a port, keeps its API version and no TLS configuration.\<close>

record 'c proxy_service_client =
  pxcURL :: string
  pxcConn :: 'c
  pxcVersion :: int

definition NewProxyServiceClient ::
  "('p, 'k, 'c) connect_env \<Rightarrow> string \<Rightarrow> int \<Rightarrow> ('p, 'k) tls_config option \<Rightarrow> 'c proxy_service_client result" where
  "NewProxyServiceClient E address port tls =
     (case connect E (GetURL address port) tls of
        Inl e \<Rightarrow> Inl (Wrap (''cannot connect to ProxyService '' @ GetURL address port) e)
      | Inr c \<Rightarrow> Inr \<lparr>pxcURL = GetURL address port, pxcConn = c, pxcVersion = InstanceManagerProxyAPIVersion\<rparr>)"

definition NewProxyClientWithTLS ::
  "('p, 'k, 'c) connect_env \<Rightarrow> string \<Rightarrow> int \<Rightarrow> string \<Rightarrow> string \<Rightarrow> string \<Rightarrow> string \<Rightarrow> 'c proxy_service_client result" where
  "NewProxyClientWithTLS E address port caFile certFile keyFile peerName =
     (case load_tls E caFile certFile keyFile peerName of
        Inl e \<Rightarrow> Inl e
      | Inr t \<Rightarrow> NewProxyServiceClient E address port (Some t))"

section \<open>Closing\<close>

text \<open>
  \<open>quit\<close> cancels the context of the client and \<open>close\<close> is the \<open>Close\<close> of the connection.  The client of
  the disk service does not cancel its context.
\<close>

definition ProcessManagerServiceContext_Close ::
  "('w \<Rightarrow> 'w) \<Rightarrow> ('c \<Rightarrow> ('w, unit) call) \<Rightarrow> ('t, 'c) service_client \<Rightarrow> ('w, unit) call" where
  "ProcessManagerServiceContext_Close quit close cl w =
     (case scConn cl of
        None \<Rightarrow> (Ret (), quit w)
      | Some c \<Rightarrow> on_error (close c) (Wrap ''failed to close process manager gRPC connection'') ret (quit w))"

definition InstanceServiceContext_Close ::
  "('w \<Rightarrow> 'w) \<Rightarrow> ('c \<Rightarrow> ('w, unit) call) \<Rightarrow> ('t, 'c) service_client \<Rightarrow> ('w, unit) call" where
  "InstanceServiceContext_Close quit close cl w =
     (case scConn cl of
        None \<Rightarrow> (Ret (), quit w)
      | Some c \<Rightarrow> on_error (close c) (Wrap ''failed to close instance gRPC connection'') ret (quit w))"

definition DiskServiceClient_Close ::
  "('c \<Rightarrow> ('w, unit) call) \<Rightarrow> ('t, 'c) service_client \<Rightarrow> ('w, unit) call" where
  "DiskServiceClient_Close close cl w =
     (case scConn cl of None \<Rightarrow> (Ret (), w) | Some c \<Rightarrow> close c w)"

definition ProxyClient_Close ::
  "('w \<Rightarrow> 'w) \<Rightarrow> ('c \<Rightarrow> ('w, unit) call) \<Rightarrow> 'c proxy_service_client \<Rightarrow> ('w, unit) call" where
  "ProxyClient_Close quit close cl w =
     on_error (close (pxcConn cl)) (Wrap ''failed to close proxy gRPC connection'') ret (quit w)"

section \<open>Versions, health and streams\<close>

text \<open>The clients read the \<open>int64\<close> numbers of the answer as \<open>int\<close>; \<open>rpcVersionGet\<close> is the gRPC method.\<close>

definition read_version :: "version_output \<Rightarrow> version_output" where
  "read_version resp =
     \<lparr>vVersion = vVersion resp, vGitCommit = vGitCommit resp, vBuildDate = vBuildDate resp,
      vAPIVersion = to_int64 (vAPIVersion resp), vAPIMinVersion = to_int64 (vAPIMinVersion resp),
      vProxyAPIVersion = to_int64 (vProxyAPIVersion resp),
      vProxyAPIMinVersion = to_int64 (vProxyAPIMinVersion resp)\<rparr>"

definition ProcessManagerClient_VersionGet :: "('w, version_output) call \<Rightarrow> ('w, version_output) call" where
  "ProcessManagerClient_VersionGet rpcVersionGet =
     on_error rpcVersionGet (Wrap ''failed to get version'') (\<lambda>resp. ret (read_version resp))"

definition InstanceServiceClient_VersionGet :: "('w, version_output) call \<Rightarrow> ('w, version_output) call" where
  "InstanceServiceClient_VersionGet rpcVersionGet =
     on_error rpcVersionGet (Wrap ''failed to get version'') (\<lambda>resp. ret (read_version resp))"

definition DiskServiceClient_VersionGet ::
  "('w, disk_version_output) call \<Rightarrow> ('w, disk_version_output) call" where
  "DiskServiceClient_VersionGet rpcVersionGet =
     on_error rpcVersionGet (Wrap ''failed to get disk service version'')
       (\<lambda>resp. ret \<lparr>dvVersion = dvVersion resp, dvGitCommit = dvGitCommit resp, dvBuildDate = dvBuildDate resp,
          dvAPIVersion = to_int64 (dvAPIVersion resp), dvAPIMinVersion = to_int64 (dvAPIMinVersion resp)\<rparr>)"

text \<open>\<open>CheckConnection\<close> of the four clients: the answer of the health service is dropped.\<close>

definition CheckConnection :: "('w, 'status) call \<Rightarrow> ('w, unit) call" where
  "CheckConnection healthCheck = on_error healthCheck id (\<lambda>_. ret ())"

definition InstanceServiceClient_CheckConnection :: "('w, 'status) call \<Rightarrow> ('w, unit) call" where
  "InstanceServiceClient_CheckConnection healthCheck = CheckConnection healthCheck"

definition DiskServiceClient_CheckConnection :: "('w, 'status) call \<Rightarrow> ('w, unit) call" where
  "DiskServiceClient_CheckConnection healthCheck = CheckConnection healthCheck"

definition ProxyClient_CheckConnection :: "('w, 'status) call \<Rightarrow> ('w, unit) call" where
  "ProxyClient_CheckConnection healthCheck = CheckConnection healthCheck"

definition ProxyClient_SPDKBackingImageWatch :: "('w, 'stream) call \<Rightarrow> ('w, 'stream) call" where
  "ProxyClient_SPDKBackingImageWatch open = on_error open (Wrap ''failed to open backing image update stream'') ret"

definition ProcessManagerClient_ProcessWatch :: "('w, 'stream) call \<Rightarrow> ('w, 'stream) call" where
  "ProcessManagerClient_ProcessWatch open = on_error open (Wrap ''failed to open process update stream'') ret"

definition InstanceServiceClient_InstanceWatch :: "('w, 'stream) call \<Rightarrow> ('w, 'stream) call" where
  "InstanceServiceClient_InstanceWatch open = on_error open (Wrap ''failed to open instance update stream'') ret"

text \<open>
  A stream of \<open>pkg/api\<close>: what its \<open>Recv\<close> has still to deliver.  The end of the stream is the error
  \<open>EOF\<close>, and a stream that has failed fails again.
\<close>

definition EOF :: error where "EOF = Err ''EOF''"

fun stream_recv :: "'a list \<times> error option \<Rightarrow> 'a result \<times> ('a list \<times> error option)" where
  "stream_recv (x # xs, e) = (Inr x, (xs, e))"
| "stream_recv ([], e) = (Inl (case e of None \<Rightarrow> EOF | Some err \<Rightarrow> err), ([], e))"

record log_response = lrLine :: string

text \<open>\<open>LogStream.Recv\<close> takes the line out of the response; the other streams return the response.\<close>

definition LogStream_Recv ::
  "log_response list \<times> error option \<Rightarrow> string result \<times> (log_response list \<times> error option)" where
  "LogStream_Recv s = (case stream_recv s of (Inl e, s') \<Rightarrow> (Inl e, s') | (Inr r, s') \<Rightarrow> (Inr (lrLine r), s'))"

definition ProcessStream_Recv ::
  "process_response list \<times> error option \<Rightarrow> process_response result \<times> (process_response list \<times> error option)" where
  "ProcessStream_Recv s = stream_recv s"

definition InstanceStream_Recv ::
  "unit list \<times> error option \<Rightarrow> unit result \<times> (unit list \<times> error option)" where
  "InstanceStream_Recv s = stream_recv s"

definition ReplicaStream_Recv ::
  "unit list \<times> error option \<Rightarrow> unit result \<times> (unit list \<times> error option)" where
  "ReplicaStream_Recv s = stream_recv s"

definition EngineStream_Recv ::
  "unit list \<times> error option \<Rightarrow> unit result \<times> (unit list \<times> error option)" where
  "EngineStream_Recv s = stream_recv s"

definition BackingImageStream_Recv ::
  "unit list \<times> error option \<Rightarrow> unit result \<times> (unit list \<times> error option)" where
  "BackingImageStream_Recv s = stream_recv s"

section \<open>Lemmas\<close>

lemma new_client_ok:
  "new_client what E url tls = Inr cl \<Longrightarrow> scURL cl = url \<and> scTLS cl = tls \<and> scConn cl \<noteq> None"
  by (auto simp: new_client_def split: sum.splits)

text \<open>A version that fits comes back as the server has it.\<close>

lemma read_version_GetVersion [simp]:
  "read_version (VersionGet (GetVersion v c d)) = GetVersion v c d"
  by (simp add: read_version_def VersionGet_def GetVersion_def InstanceManagerAPIVersion_def
      InstanceManagerAPIMinVersion_def InstanceManagerProxyAPIVersion_def InstanceManagerProxyAPIMinVersion_def)

end
