(* ===== verification/Directory.thy ===== *)
theory Directory
  imports Manager_Properties Client_Model
begin

text \<open>
  The process manager as the instance service sees it.  The locale \<open>process_directory\<close> is the
  interface: a service that can be reached and whose list and lookup agree with one table of processes.
  What the instance service answers for the v1 data engine is derived from it once; the interpretation
  shows that the process manager of this development is such a service.
\<close>

section \<open>The interface\<close>

definition process_instance :: "string \<Rightarrow> process \<Rightarrow> instance_response" where
  "process_instance type p = processResponseToInstanceResponse (RPCResponse p) type"

locale process_directory =
  fixes ok :: "'w \<Rightarrow> bool" and svc :: "'w pm_service" and table :: "'w \<Rightarrow> string \<rightharpoonup> process"
  assumes connect: "pmConnect svc a w = (Ret (), w)" and close: "pmClose svc a w = w"
    and named: "ok w \<Longrightarrow> table w n = Some p \<Longrightarrow> pName p = n"
    and list: "ok w \<Longrightarrow> \<exists>ps. rpcProcessList svc w = (Ret ps, w) \<and>
      set ps = {(n, RPCResponse p) |n p. table w n = Some p}"
    and lookup: "ok w \<Longrightarrow> rpcProcessGet svc n w =
      (case table w n of None \<Rightarrow> (Fail (cannot_find n), w) | Some p \<Rightarrow> (Ret (RPCResponse p), w))"
begin

lemma add_processes_table:
  assumes "ok w" "set ps \<subseteq> {(n, RPCResponse p) |n p. table w n = Some p}"
  shows "add_processes ps m n = (if n \<in> fst ` set ps
    then map_option (process_instance (process_type n)) (table w n) else m n)"
  using assms(2)
proof (induction ps arbitrary: m)
  case (Cons x ps)
  then obtain k p where x: "x = (k, RPCResponse p)" "table w k = Some p" by auto
  have k: "psName (prSpec (RPCResponse p)) = k" using named [OF assms(1) x(2)] by (simp add: RPCResponse_def)
  let ?m = "m(k \<mapsto> process_instance (process_type k) p)"
  have step: "add_processes (x # ps) m = add_processes ps ?m" by (simp add: x(1) k process_instance_def)
  have ih: "add_processes ps ?m n = (if n \<in> fst ` set ps
      then map_option (process_instance (process_type n)) (table w n) else ?m n)"
    by (rule Cons.IH) (use Cons.prems in auto)
  show ?case unfolding step ih using x(2) by (simp add: x(1))
qed simp

lemma dial [simp]:
  "pmSvc S = svc \<Longrightarrow> dial_pm S addr body w = body w"
  by (simp add: dial_pm_def NewProcessManagerClient_def connect close)

lemma instance_list:
  assumes "ok w" "pmSvc S = svc"
  shows "InstanceList S (NewServer pm spdk False) w =
    (Ret (\<lambda>n. map_option (process_instance (process_type n)) (table w n)), w)"
proof -
  from list [OF assms(1)] obtain ps where ps: "rpcProcessList svc w = (Ret ps, w)"
      "set ps = {(n, RPCResponse p) |n p. table w n = Some p}" by blast
  have "add_processes ps Map.empty = (\<lambda>n. map_option (process_instance (process_type n)) (table w n))"
    using add_processes_table [OF assms(1) equalityD1 [OF ps(2)], of Map.empty]
    by (rule_tac ext, case_tac "table w n") (force simp: ps(2))+
  with ps(1) assms(2) show ?thesis
    by (simp add: InstanceList_def ops_or_panic_def NewServer_def Client_ProcessList_def DATA_ENGINE_V1_def
        DATA_ENGINE_V2_def)
qed

lemma instance_get:
  assumes "ok w" "pmSvc S = svc" "n \<noteq> ''''"
  shows "InstanceGet S (NewServer pm spdk v) DATA_ENGINE_V1 n type w =
    (case table w n of None \<Rightarrow> (Fail (cannot_find n), w) | Some p \<Rightarrow> (Ret (process_instance type p), w))"
  using lookup [OF assms(1), of n] assms(2,3)
  by (simp add: InstanceGet_def with_ops_def NewServer_def Client_ProcessGet_def process_instance_def
      DATA_ENGINE_V1_def DATA_ENGINE_V2_def split: option.splits)

end

section \<open>The process manager\<close>

text \<open>
  The process manager behind its gRPC server: the connection does not fail, list and lookup answer
  from the state, and the other requests are those of \<open>base\<close>.  \<open>order\<close> is the order in which the
  registry is iterated.
\<close>

definition manager_service :: "sys pm_service \<Rightarrow> (sys \<Rightarrow> string list) \<Rightarrow> sys pm_service" where
  "manager_service base order = base\<lparr>pmConnect := \<lambda>_. ret (), pmClose := \<lambda>_ w. w,
     rpcProcessList := \<lambda>w. (Ret (List.map_filter (\<lambda>n. map_option (Pair n) (ProcessList (order w) w n)) (order w)), w),
     rpcProcessGet := \<lambda>n w. case ProcessGet n w of Inl e \<Rightarrow> (Fail (wire e), w) | Inr p \<Rightarrow> (Ret p, w)\<rparr>"

definition registered :: "sys \<Rightarrow> string \<rightharpoonup> process" where
  "registered s n = Option.bind (processes s n) (objects s)"

definition iterates :: "string \<Rightarrow> (sys \<Rightarrow> string list) \<Rightarrow> sys \<Rightarrow> bool" where
  "iterates r order s \<longleftrightarrow> reachable r s \<and> set (order s) = dom (processes s)"

lemma ProcessList_registered:
  assumes "iterates r order s"
  shows "ProcessList (order s) s n = map_option RPCResponse (registered s n)"
proof -
  note reg = inv_registered [OF pm_inv_reachable, of r s]
  show ?thesis using assms reg ProcessList_fold [OF reg]
    by (cases "processes s n") (auto simp: iterates_def ProcessList_def registered_def)
qed

lemma registered_name:
  assumes "reachable r s" "registered s n = Some p"
  shows "pName p = n \<and> (\<exists>a. processes s n = Some a \<and> objects s a = Some p)"
  using inv_registered [OF pm_inv_reachable [OF assms(1)]] assms(2)
  by (fastforce simp: registered_def bind_eq_Some_conv)

interpretation pd: process_directory "iterates r order" "manager_service base order" registered for r order base
proof
  fix w assume w: "iterates r order w"
  have "(n, x) \<in> set (List.map_filter (\<lambda>n. map_option (Pair n) (ProcessList (order w) w n)) (order w)) \<longleftrightarrow>
      (\<exists>p. registered w n = Some p \<and> x = RPCResponse p)" for n x
    using w by (auto simp: List.map_filter_def ProcessList_registered [OF w] iterates_def registered_def
        bind_eq_Some_conv image_iff)
  then show "\<exists>ps. rpcProcessList (manager_service base order) w = (Ret ps, w) \<and>
      set ps = {(n, RPCResponse p) |n p. registered w n = Some p}"
    by (fastforce simp: manager_service_def)
  show "rpcProcessGet (manager_service base order) n w =
      (case registered w n of None \<Rightarrow> (Fail (cannot_find n), w) | Some p \<Rightarrow> (Ret (RPCResponse p), w))" for n
    by (simp add: manager_service_def ProcessGet_def findProcess_def registered_def wire_def cannot_find_def
        split: option.splits)
  show "pName p = n" if "registered w n = Some p" for n p
    using registered_name that w by (auto simp: iterates_def)
qed (simp_all add: manager_service_def)

end
