(* ===== verification/Cli_Model.thy ===== *)
theory Cli_Model
  imports Client_Connect Directory
begin

text \<open>
  The command line client: \<open>app/cmd/process.go\<close>, \<open>app/cmd/version.go\<close> and the flags of \<open>main.go\<close>.
  A command reads its flags, connects to the process manager, makes one request and prints the answer;
  what is printed is the value that \<open>util.PrintJSON\<close> is given, before it is rendered as text.
\<close>

section \<open>Flags\<close>

text \<open>
  A context of the command line library: the value of a flag that may be missing is an option, when the
  flag has a default other than its zero value.
\<close>

record cli_context =
  cxURL :: "string option"
  cxTlsDir :: string
  cxName :: string
  cxBinary :: string
  cxPortCount :: int
  cxArgs :: "string list"
  cxPortArgs :: "string list"
  cxTerminateSignal :: "string option"
  cxClientOnly :: bool

definition flag_url :: "cli_context \<Rightarrow> string" where
  "flag_url c = (case cxURL c of None \<Rightarrow> ''tcp://localhost:8500'' | Some url \<Rightarrow> url)"

definition flag_terminate_signal :: "cli_context \<Rightarrow> string" where
  "flag_terminate_signal c = (case cxTerminateSignal c of None \<Rightarrow> ''SIGHUP'' | Some s \<Rightarrow> s)"

section \<open>The client of a command\<close>

text \<open>
  What a command uses: the libraries that connect, the service behind a connection, the version of the
  server, closing a connection and cancelling the context, and \<open>filepath.Join\<close>.
\<close>

record ('w, 'p, 'k, 'c) cli_env =
  cliConnect :: "('p, 'k, 'c) connect_env"
  cliService :: "'c \<Rightarrow> 'w pm_service"
  cliVersion :: "'c \<Rightarrow> ('w, version_output) call"
  cliClose :: "'c \<Rightarrow> ('w, unit) call"
  cliCancel :: "'w \<Rightarrow> 'w"
  cliJoin :: "string \<Rightarrow> string \<Rightarrow> string"
  cliBuild :: "string \<times> string \<times> string"

definition getProcessManagerClient ::
  "('w, 'p, 'k, 'c) cli_env \<Rightarrow> cli_context \<Rightarrow> (('p, 'k) tls_config, 'c) service_client result" where
  "getProcessManagerClient E c =
     (let plain = NewProcessManagerServiceClient (cliConnect E) (flag_url c) None; dir = cxTlsDir c
      in if dir \<noteq> '''' then
           (case NewProcessManagerClientWithTLS (cliConnect E) (flag_url c) (cliJoin E dir ''ca.crt'')
                   (cliJoin E dir ''tls.crt'') (cliJoin E dir ''tls.key'') ''longhorn-backend.longhorn-system'' of
              Inr cl \<Rightarrow> Inr cl
            | Inl _ \<Rightarrow> plain)
         else plain)"

text \<open>
  The frame of a command: the client is created, used, and closed when the command ends, after which the
  context is cancelled once more.  The error of closing is dropped.
\<close>

definition with_client ::
  "('w, 'p, 'k, 'c) cli_env \<Rightarrow> cli_context \<Rightarrow> ('c \<Rightarrow> ('w, 'a) call) \<Rightarrow> ('w, 'a) call" where
  "with_client E c body w =
     (case getProcessManagerClient E c of
        Inl e \<Rightarrow> (Fail (Wrap ''failed to initialize client'' e), cliCancel E w)
      | Inr cl \<Rightarrow>
          (case scConn cl of
             None \<Rightarrow> (Panic, cliCancel E w)
           | Some conn \<Rightarrow>
               (case body conn w of
                  (r, w') \<Rightarrow>
                    (r, cliCancel E (snd (ProcessManagerServiceContext_Close (cliCancel E) (cliClose E) cl w'))))))"

section \<open>Commands\<close>

datatype cli_output =
    PrintProcess process_response
  | PrintProcesses "string \<rightharpoonup> process_response"
  | PrintVersion version_output "version_output option"

definition createProcess :: "('w, 'p, 'k, 'c) cli_env \<Rightarrow> cli_context \<Rightarrow> ('w, cli_output) call" where
  "createProcess E c = with_client E c (\<lambda>conn.
     on_error (Client_ProcessCreate (cliService E conn) (cxName c) (cxBinary c) (cxPortCount c) (cxArgs c)
                 (cxPortArgs c))
       (Wrap ''failed to create process'') (\<lambda>p. ret (PrintProcess p)))"

definition deleteProcess :: "('w, 'p, 'k, 'c) cli_env \<Rightarrow> cli_context \<Rightarrow> ('w, cli_output) call" where
  "deleteProcess E c = with_client E c (\<lambda>conn.
     on_error (Client_ProcessDelete (cliService E conn) (cxName c))
       (Wrap ''failed to delete process'') (\<lambda>p. ret (PrintProcess p)))"

text \<open>The text of the error is the one of \<open>deleteProcess\<close>.\<close>

definition getProcess :: "('w, 'p, 'k, 'c) cli_env \<Rightarrow> cli_context \<Rightarrow> ('w, cli_output) call" where
  "getProcess E c = with_client E c (\<lambda>conn.
     on_error (Client_ProcessGet (cliService E conn) (cxName c))
       (Wrap ''failed to delete process'') (\<lambda>p. ret (PrintProcess p)))"

definition listProcess :: "('w, 'p, 'k, 'c) cli_env \<Rightarrow> cli_context \<Rightarrow> ('w, cli_output) call" where
  "listProcess E c = with_client E c (\<lambda>conn.
     on_error (Client_ProcessList (cliService E conn))
       (Wrap ''failed to list processes'') (\<lambda>ps. ret (PrintProcesses (map_of ps))))"

definition replaceProcess :: "('w, 'p, 'k, 'c) cli_env \<Rightarrow> cli_context \<Rightarrow> ('w, cli_output) call" where
  "replaceProcess E c = with_client E c (\<lambda>conn.
     on_error (Client_ProcessReplace (cliService E conn) (cxName c) (cxBinary c) (cxPortCount c) (cxArgs c)
                 (cxPortArgs c) (flag_terminate_signal c))
       (Wrap ''failed to replace processes'') (\<lambda>p. ret (PrintProcess p)))"

definition version :: "('w, 'p, 'k, 'c) cli_env \<Rightarrow> cli_context \<Rightarrow> ('w, cli_output) call" where
  "version E c =
     (case cliBuild E of (v, commit, date) \<Rightarrow>
        if cxClientOnly c then (\<lambda>w. (Ret (PrintVersion (GetVersion v commit date) None), cliCancel E w))
        else with_client E c (\<lambda>conn.
               on_error (ProcessManagerClient_VersionGet (cliVersion E conn)) id
                 (\<lambda>server. ret (PrintVersion (GetVersion v commit date) (Some server)))))"

text \<open>The end of the program: an error is logged by \<open>Fatal\<close>, which exits with code 1.\<close>

datatype cli_exit = Success cli_output | Fatal string error | Crash

definition cli_action :: "string \<Rightarrow> ('w, cli_output) call \<Rightarrow> 'w \<Rightarrow> cli_exit \<times> 'w" where
  "cli_action msg m w =
     (case m w of
        (Ret out, w') \<Rightarrow> (Success out, w')
      | (Fail e, w') \<Rightarrow> (Fatal msg e, w')
      | (Panic, w') \<Rightarrow> (Crash, w'))"

definition ProcessCreateCmd :: "('w, 'p, 'k, 'c) cli_env \<Rightarrow> cli_context \<Rightarrow> 'w \<Rightarrow> cli_exit \<times> 'w" where
  "ProcessCreateCmd E c = cli_action ''Error running process create command'' (createProcess E c)"

definition ProcessDeleteCmd :: "('w, 'p, 'k, 'c) cli_env \<Rightarrow> cli_context \<Rightarrow> 'w \<Rightarrow> cli_exit \<times> 'w" where
  "ProcessDeleteCmd E c = cli_action ''Error running process delete command'' (deleteProcess E c)"

definition ProcessGetCmd :: "('w, 'p, 'k, 'c) cli_env \<Rightarrow> cli_context \<Rightarrow> 'w \<Rightarrow> cli_exit \<times> 'w" where
  "ProcessGetCmd E c = cli_action ''Error running process get command'' (getProcess E c)"

text \<open>The texts of the last two are about engines.\<close>

definition ProcessListCmd :: "('w, 'p, 'k, 'c) cli_env \<Rightarrow> cli_context \<Rightarrow> 'w \<Rightarrow> cli_exit \<times> 'w" where
  "ProcessListCmd E c = cli_action ''Error running engine stop command'' (listProcess E c)"

definition ProcessReplaceCmd :: "('w, 'p, 'k, 'c) cli_env \<Rightarrow> cli_context \<Rightarrow> 'w \<Rightarrow> cli_exit \<times> 'w" where
  "ProcessReplaceCmd E c = cli_action ''Error running engine replace command'' (replaceProcess E c)"

definition ProcessCmd :: "('w, 'p, 'k, 'c) cli_env \<Rightarrow> string \<Rightarrow> (cli_context \<Rightarrow> 'w \<Rightarrow> cli_exit \<times> 'w) option" where
  "ProcessCmd E name =
     (if name = ''create'' then Some (ProcessCreateCmd E)
      else if name = ''delete'' then Some (ProcessDeleteCmd E)
      else if name = ''get'' then Some (ProcessGetCmd E)
      else if name = ''list'' \<or> name = ''ls'' then Some (ProcessListCmd E)
      else if name = ''replace'' then Some (ProcessReplaceCmd E)
      else None)"

definition VersionCmd :: "('w, 'p, 'k, 'c) cli_env \<Rightarrow> cli_context \<Rightarrow> 'w \<Rightarrow> cli_exit \<times> 'w" where
  "VersionCmd E c = cli_action ''Error running info command'' (version E c)"

section \<open>Lemmas\<close>

text \<open>A command whose libraries leave the state of the server alone when they close.\<close>

definition quiet_env :: "('w, 'p, 'k, 'c) cli_env \<Rightarrow> bool" where
  "quiet_env E \<longleftrightarrow> (\<forall>w. cliCancel E w = w) \<and> (\<forall>conn w. snd (cliClose E conn w) = w)"

lemma Close_quiet:
  assumes "quiet_env E"
  shows "cliCancel E (snd (ProcessManagerServiceContext_Close (cliCancel E) (cliClose E) cl w)) = w"
  using assms
  by (simp add: quiet_env_def ProcessManagerServiceContext_Close_def snd_on_error_ret split: option.splits)

lemma getProcessManagerClient_conn:
  assumes "getProcessManagerClient E c = Inr cl"
  shows "scURL cl = flag_url c \<and> scConn cl \<noteq> None"
  using assms new_client_ok
  by (fastforce simp: getProcessManagerClient_def NewProcessManagerClientWithTLS_def
      NewProcessManagerServiceClient_def Let_def split: if_splits sum.splits)

lemma with_client_quiet:
  assumes "quiet_env E" "getProcessManagerClient E c = Inr cl" "\<And>conn. body conn w = (r, w)"
  shows "with_client E c body w = (r, w)"
  using getProcessManagerClient_conn [OF assms(2)] assms(2,3) Close_quiet [OF assms(1)]
  by (auto simp: with_client_def)

context process_directory
begin

lemma map_of_table:
  assumes "ok w" "set ps = {(n, RPCResponse p) |n p. table w n = Some p}"
  shows "map_of ps = (\<lambda>n. map_option RPCResponse (table w n))"
proof
  fix n
  show "map_of ps n = map_option RPCResponse (table w n)"
  proof (cases "table w n")
    case None
    then have "n \<notin> fst ` set ps" unfolding assms(2) by auto
    with None show ?thesis by (simp add: map_of_eq_None_iff)
  next
    case (Some p)
    then have "(n, RPCResponse p) \<in> set ps" unfolding assms(2) by blast
    then obtain r where r: "map_of ps n = Some r" using weak_map_of_SomeI by fastforce
    from map_of_SomeD [OF r] have "r = RPCResponse p" unfolding assms(2) using Some by simp
    with r Some show ?thesis by simp
  qed
qed

lemma cli_get:
  assumes "ok w" "quiet_env E" "getProcessManagerClient E c = Inr cl" "\<And>conn. cliService E conn = svc"
    and "cxName c \<noteq> ''''"
  shows "getProcess E c w = (case table w (cxName c) of
      None \<Rightarrow> (Fail (Wrap ''failed to delete process'' (cannot_find (cxName c))), w)
    | Some p \<Rightarrow> (Ret (PrintProcess (RPCResponse p)), w))"
proof -
  have body: "on_error (Client_ProcessGet (cliService E conn) (cxName c)) (Wrap ''failed to delete process'')
      (\<lambda>p. ret (PrintProcess p)) w = (case table w (cxName c) of
        None \<Rightarrow> (Fail (Wrap ''failed to delete process'' (cannot_find (cxName c))), w)
      | Some p \<Rightarrow> (Ret (PrintProcess (RPCResponse p)), w))" for conn
    using lookup [OF assms(1), of "cxName c"] assms(4,5)
    by (simp add: Client_ProcessGet_def split: option.splits)
  show ?thesis
    unfolding getProcess_def
    by (cases "table w (cxName c)")
      (simp_all add: with_client_quiet [OF assms(2,3)] body)
qed

lemma cli_list:
  assumes "ok w" "quiet_env E" "getProcessManagerClient E c = Inr cl" "\<And>conn. cliService E conn = svc"
  shows "listProcess E c w = (Ret (PrintProcesses (\<lambda>n. map_option RPCResponse (table w n))), w)"
proof -
  from list [OF assms(1)] obtain ps where ps: "rpcProcessList svc w = (Ret ps, w)"
      "set ps = {(n, RPCResponse p) |n p. table w n = Some p}" by blast
  show ?thesis
    unfolding listProcess_def
    by (rule with_client_quiet [OF assms(2,3)])
      (simp add: Client_ProcessList_def assms(4) ps(1) map_of_table [OF assms(1) ps(2)])
qed

end

end
