(* ===== verification/Cli_Properties.thy ===== *)
theory Cli_Properties
  imports Cli_Model
begin

text \<open>
  The command line client in front of the process manager: what its commands print.
\<close>

text \<open>C30. The commands \<open>process get\<close> and \<open>process list\<close>, run against a manager in any reachable state, print
  exactly what is registered: the one process of that name, or the error that there is none (under a
  text about deletion), and all processes by their names.  Neither changes the state.\<close>

theorem cli_reads_registry:
  assumes "reachable r s" "set (order s) = dom (processes s)"
    and "quiet_env E" "getProcessManagerClient E c = Inr cl" "\<forall>conn. cliService E conn = manager_service base order"
  shows "listProcess E c s = (Ret (PrintProcesses (\<lambda>n. map_option RPCResponse (registered s n))), s) \<and>
    (cxName c \<noteq> '''' \<longrightarrow> getProcess E c s =
      (case registered s (cxName c) of
         None \<Rightarrow> (Fail (Wrap ''failed to delete process'' (cannot_find (cxName c))), s)
       | Some p \<Rightarrow> (Ret (PrintProcess (RPCResponse p)), s)))"
proof -
  have "iterates r order s" using assms(1,2) by (simp add: iterates_def)
  from pd.cli_list [OF this assms(3,4)] pd.cli_get [OF this assms(3,4)] assms(5) show ?thesis by blast
qed

text \<open>A command without flags but a name, and an environment in which dialing succeeds and no file can be read.\<close>

definition demo_context :: "string \<Rightarrow> cli_context" where
  "demo_context name = \<lparr>cxURL = None, cxTlsDir = '''', cxName = name, cxBinary = '''', cxPortCount = 0,
     cxArgs = [], cxPortArgs = [], cxTerminateSignal = None, cxClientOnly = False\<rparr>"

definition demo_connect :: "(unit, unit, bool) connect_env" where
  "demo_connect = \<lparr>loadKeyPair = \<lambda>_ _. Inl (Err ''no such file''), readFile = \<lambda>_. Inl (Err ''no such file''),
     parsePool = \<lambda>_. None, dial = \<lambda>tls _ _. Inr (tls \<noteq> None)\<rparr>"

definition idle_service :: "sys pm_service" where
  "idle_service = \<lparr>pmConnect = \<lambda>_. ret (), pmClose = \<lambda>_ w. w, rpcProcessCreate = \<lambda>_. fail (Err ''down''),
     rpcProcessDelete = \<lambda>_. fail (Err ''down''), rpcProcessGet = \<lambda>_. fail (Err ''down''),
     rpcProcessList = fail (Err ''down''), rpcProcessReplace = \<lambda>_ _. fail (Err ''down''),
     rpcProcessLog = \<lambda>_. fail (Err ''down'')\<rparr>"

definition demo_cli :: "sys pm_service \<Rightarrow> (sys, unit, unit, bool) cli_env" where
  "demo_cli svc = \<lparr>cliConnect = demo_connect, cliService = \<lambda>_. svc, cliVersion = \<lambda>_. fail (Err ''no version''),
     cliClose = \<lambda>_. ret (), cliCancel = \<lambda>w. w, cliJoin = \<lambda>d f. d @ ''/'' @ f, cliBuild = ('''', '''', '''')\<rparr>"

lemma demo_url: "parseEndpoint ''tcp://localhost:8500'' = Inr (''tcp'', ''localhost:8500'')"
  by code_simp

lemma demo_client:
  "getProcessManagerClient (demo_cli svc) (demo_context name) =
     Inr \<lparr>scURL = ''tcp://localhost:8500'', scTLS = None, scConn = Some False\<rparr>"
  by (simp add: getProcessManagerClient_def demo_cli_def demo_context_def flag_url_def demo_connect_def demo_url
      NewProcessManagerServiceClient_def new_client_def connect_def Connect_def)

lemma cli_reads_registry_witness:
  "\<exists>s p base order. reachable demo_range s \<and> registered s ''vol-r-0'' = Some p \<and>
     getProcess (demo_cli (manager_service base order)) (demo_context ''vol-r-0'') s =
       (Ret (PrintProcess (RPCResponse p)), s)"
proof -
  from two_running obtain s where s: "reachable demo_range s"
      "processes s = [''vol-r-0'' \<mapsto> 0, ''vol-e-0'' \<mapsto> Suc 0]" "objects s 0 \<noteq> None"
    by fastforce
  let ?order = "\<lambda>_ :: sys. [''vol-r-0'', ''vol-e-0'']" and ?base = idle_service
  have order: "set (?order s) = dom (processes s)" by (auto simp: s(2))
  obtain p where p: "registered s ''vol-r-0'' = Some p" using s(2,3) by (auto simp: registered_def)
  have env: "quiet_env (demo_cli svc)" "\<forall>conn. cliService (demo_cli svc) conn = svc" for svc
    by (simp_all add: quiet_env_def demo_cli_def)
  have name: "cxName (demo_context ''vol-r-0'') = ''vol-r-0''" by (simp add: demo_context_def)
  from cli_reads_registry [OF s(1) order env(1) demo_client env(2), of ?base "''vol-r-0''", unfolded name] p s(1)
  show ?thesis by (intro exI [of _ s] exI [of _ p] exI [of _ ?base] exI [of _ ?order]) simp
qed

end
