(* ===== verification/Checkers.thy ===== *)
theory Checkers
  imports Process Util Work
begin

text \<open>
  The health checkers of the services and the mock objects of \<open>pkg/process\<close>.  The instance service, the
  proxy and the disk service have copies of the checker of processes, which differ in their log texts
  only.  The mock command, with which the tests of the manager run, is two goroutines that meet on an
  unbuffered channel.
\<close>

section \<open>Health checkers\<close>

definition GRPCHealthChecker_IsRunning :: "(string \<Rightarrow> string list \<Rightarrow> run_outcome) \<Rightarrow> string \<Rightarrow> bool" where
  "GRPCHealthChecker_IsRunning os address = GRPCServiceReadinessProbe os address"

text \<open>An event of a wait, when the ticker fires: the service is probed.\<close>

definition probe_event :: "(string \<Rightarrow> string list \<Rightarrow> run_outcome) option \<Rightarrow> string \<Rightarrow> wait_event" where
  "probe_event tick address =
     (case tick of None \<Rightarrow> StopChClosed | Some os \<Rightarrow> Tick (GRPCHealthChecker_IsRunning os address))"

definition wait_at :: "string \<Rightarrow> (string \<Rightarrow> string list \<Rightarrow> run_outcome) option list \<Rightarrow> bool option" where
  "wait_at address ticks = WaitForRunning (map (\<lambda>tick. probe_event tick address) ticks)"

definition Instance_WaitForRunning ::
  "string \<Rightarrow> (string \<Rightarrow> string list \<Rightarrow> run_outcome) option list \<Rightarrow> bool option" where
  "Instance_WaitForRunning address ticks = wait_at address ticks"

definition Proxy_WaitForRunning ::
  "string \<Rightarrow> (string \<Rightarrow> string list \<Rightarrow> run_outcome) option list \<Rightarrow> bool option" where
  "Proxy_WaitForRunning address ticks = wait_at address ticks"

definition Disk_WaitForRunning ::
  "string \<Rightarrow> (string \<Rightarrow> string list \<Rightarrow> run_outcome) option list \<Rightarrow> bool option" where
  "Disk_WaitForRunning address ticks = wait_at address ticks"

definition MockHealthChecker_IsRunning :: "string \<Rightarrow> bool" where
  "MockHealthChecker_IsRunning address = True"

definition MockHealthChecker_WaitForRunning :: "string \<Rightarrow> bool" where
  "MockHealthChecker_WaitForRunning address = True"

section \<open>The mock command\<close>

record mock_command =
  mcBinary :: string
  mcArgs :: "string list"
  mcRunning :: bool
  mcStopped :: bool

definition NewMockCommand :: "string \<Rightarrow> string list \<Rightarrow> mock_command" where
  "NewMockCommand name arg = \<lparr>mcBinary = name, mcArgs = arg, mcRunning = False, mcStopped = False\<rparr>"

text \<open>The hook is given a new command, and may answer with an error.\<close>

definition MockExecutor_NewCommand ::
  "(mock_command \<Rightarrow> mock_command result) option \<Rightarrow> string \<Rightarrow> string list \<Rightarrow> mock_command result" where
  "MockExecutor_NewCommand creationHook name arg =
     (case creationHook of
        None \<Rightarrow> Inr (NewMockCommand name arg)
      | Some hook \<Rightarrow> hook (NewMockCommand name arg))"

definition MockCommand_IsRunning :: "mock_command \<Rightarrow> bool" where
  "MockCommand_IsRunning mc = mcRunning mc"

text \<open>
  The goroutines that use a command: \<open>Run\<close> sets the flag and then receives from the channel, \<open>Stop\<close> (and
  \<open>StopWithSignal\<close>) sets its flag and then sends to the channel.  \<open>Kill\<close> and \<open>SetOutput\<close> do nothing.
\<close>

datatype mock_thread = RunBegin | RunRecv | StopBegin | StopSendNil | MockEnd

record mock_sys =
  mkCmd :: mock_command
  mkThreads :: "mock_thread list"

datatype mock_action = MockStep nat | Meet nat nat

fun mock_act :: "mock_action \<Rightarrow> mock_sys \<Rightarrow> mock_sys option" where
  "mock_act (MockStep i) s =
     (if i < length (mkThreads s) then
        (case mkThreads s ! i of
           RunBegin \<Rightarrow> Some (s\<lparr>mkCmd := (mkCmd s)\<lparr>mcRunning := True\<rparr>, mkThreads := (mkThreads s)[i := RunRecv]\<rparr>)
         | StopBegin \<Rightarrow> Some (s\<lparr>mkCmd := (mkCmd s)\<lparr>mcStopped := True\<rparr>, mkThreads := (mkThreads s)[i := StopSendNil]\<rparr>)
         | _ \<Rightarrow> None)
      else None)"
| "mock_act (Meet i j) s =
     (if i < length (mkThreads s) \<and> j < length (mkThreads s) \<and>
         mkThreads s ! i = RunRecv \<and> mkThreads s ! j = StopSendNil
      then Some (s\<lparr>mkThreads := (mkThreads s)[i := MockEnd, j := MockEnd]\<rparr>) else None)"

fun mock_work :: "mock_thread \<Rightarrow> nat" where
  "mock_work MockEnd = 0"
| "mock_work RunRecv = 1"
| "mock_work StopSendNil = 1"
| "mock_work g = 2"

lemma mock_sum_update:
  "i < length gs \<Longrightarrow>
    sum_list (map mock_work (gs[i := g])) + mock_work (gs ! i) = sum_list (map mock_work gs) + mock_work g"
  by (induction gs arbitrary: i) (auto split: nat.splits)

lemma mock_work_decreases:
  assumes "mock_act x s = Some t"
  shows "sum_list (map mock_work (mkThreads t)) < sum_list (map mock_work (mkThreads s))"
proof (cases x)
  case (MockStep i)
  then show ?thesis
    using assms mock_sum_update [of i "mkThreads s" RunRecv] mock_sum_update [of i "mkThreads s" StopSendNil]
    by (auto split: if_splits mock_thread.splits)
next
  case (Meet i j)
  then show ?thesis
    using assms mock_sum_update [of i "mkThreads s" MockEnd]
      mock_sum_update [of j "(mkThreads s)[i := MockEnd]" MockEnd]
    by (auto simp: nth_list_update split: if_splits)
qed

interpretation mock: bounded_work mock_act "\<lambda>_. True" "\<lambda>s. sum_list (map mock_work (mkThreads s))"
  by unfold_locales (rule mock_work_decreases)

text \<open>
  The command keeps saying that it runs: no action clears the flag, although \<open>Run\<close> may have returned.
\<close>

lemma mock_keeps_running: "mock_act x s = Some t \<Longrightarrow> mcRunning (mkCmd s) \<Longrightarrow> mcRunning (mkCmd t)"
  by (cases x) (auto split: if_splits mock_thread.splits)

text \<open>When nothing is left to do, the goroutines that wait are all in \<open>Run\<close> or all in \<open>Stop\<close>.\<close>

lemma mock_quiet:
  assumes "\<And>x. mock_act x s = None" "g \<in> set (mkThreads s)" "h \<in> set (mkThreads s)"
  shows "g \<in> {MockEnd, RunRecv, StopSendNil} \<and> \<not> (g = RunRecv \<and> h = StopSendNil)"
proof -
  obtain i j where i: "i < length (mkThreads s)" "mkThreads s ! i = g"
    and j: "j < length (mkThreads s)" "mkThreads s ! j = h"
    using assms(2,3) by (auto simp: in_set_conv_nth)
  show ?thesis
    using assms(1) [of "MockStep i"] assms(1) [of "Meet i j"] i j by (auto split: mock_thread.splits)
qed

end
