(* ===== verification/Spec2Isabelle.thy ===== *)
theory Spec2Isabelle
  imports Manager_Refinement Manager_Types Manager_Logs Util_Properties Broadcaster Service_Properties Watch_Properties
    Proxy_Properties Daemon_Properties Cli_Properties Checkers
begin

text \<open>
  A verification development of the Longhorn instance manager (\<open>longhorn-instance-manager\<close>), the daemon that
  runs the engine and replica processes of Longhorn on a node.

  \<^bold>\<open>The program.\<close>  The daemon (\<open>app/cmd/start.go\<close>) starts five gRPC servers on consecutive ports.  The
  process manager (\<open>pkg/process\<close>) keeps a registry of named processes, hands out ports from a bitmap, starts
  and stops commands, and broadcasts every change.  The instance service (\<open>pkg/instance\<close>) offers one set of
  requests for two data engines: instances of v1 are processes of the process manager, instances of v2 are
  engines and replicas of an SPDK service.  The disk service (\<open>pkg/disk\<close>) manages disks through SPDK.  The proxy
  (\<open>pkg/proxy\<close>) forwards requests on volumes, snapshots, replicas and backups to the engines, through the
  client library of \<open>longhorn-engine\<close> for v1 and through SPDK for v2.  The clients (\<open>pkg/client\<close>, \<open>pkg/api\<close>)
  are the library that other programs call these services with, and the command line client (\<open>app/cmd/process.go\<close>,
  \<open>app/cmd/version.go\<close>) is one of those programs.

  \<^bold>\<open>The theories.\<close>

  \<^item> \<open>Prelude\<close>, \<open>Go_Lib\<close>: errors as values (\<open>error\<close>, \<open>result\<close>), machine integers as \<open>int\<close> with the wrap-around
    written out (\<open>to_int32\<close>, \<open>to_int64\<close>), and what the code uses of Go's standard library: \<open>strconv\<close>, \<open>strings\<close>,
    \<open>net.SplitHostPort\<close>.
  \<^item> \<open>Port_Allocator\<close>, \<open>Bitmap\<close>: the locale \<open>port_allocator\<close> states what the manager needs of a port allocator
    and derives the ledger of who holds which ports; \<open>Bitmap\<close> translates the vendored bitmap and interprets the
    locale on it (\<open>bm\<close>).
  \<^item> \<open>Process\<close>, \<open>Util\<close>: \<open>process.go\<close>, \<open>command.go\<close>, \<open>healthchecker.go\<close>, \<open>util.go\<close>, \<open>grpcutil.go\<close>.
  \<^item> \<open>Manager\<close>: the registry operations of \<open>process_manager.go\<close>, section by section of the lock, on a heap of
    process objects.  \<open>Manager_Steps\<close> composes them into a step system: the threads of the requests and of the
    goroutines that \<open>Start\<close> and the requests spawn, the monitor, and an environment that decides what the
    operating system does.  \<open>Manager_Invariant\<close>, \<open>Manager_Progress\<close>, \<open>Manager_Lifecycle\<close> and \<open>Manager_Runs\<close>
    prove its invariant by rule induction, bound its internal work (locale \<open>bounded_work\<close> of \<open>Work\<close>), follow a
    process through its states and give concrete runs.  \<open>Manager_Properties\<close> has the properties of ports, registry,
    progress and requests (C1, C3 to C5, C7 to C11, C18 to C21).
  \<^item> \<open>Simulation\<close>, \<open>Manager_Refinement\<close>: the locale \<open>simulation\<close>, in which every action of a system is an operation
    of an abstract one; the abstract registry of names, pending replacements, held and free ports, with a guard and
    an effect per operation; and the interpretation (\<open>reg\<close>) that the manager implements it, with C2 and, by transfer
    of what the operations keep, C6.  \<open>Manager_Types\<close>: the responses of the manager fit their types (C12).
    \<open>Manager_Logs\<close>: the log files that are opened for processes, and which of them are lost (C31).
  \<^item> \<open>Log_Model\<close>, \<open>Util_Properties\<close>: log files as streams of lines, and the properties C32 to C35 of ports, waits and
    logs.
  \<^item> \<open>Broadcaster\<close>: \<open>broadcaster.go\<close> as a step system and the properties C22 and C23 of what subscribers get.
  \<^item> \<open>Service\<close>, \<open>Instance_Model\<close>, \<open>Disk_Model\<close>, \<open>Client_Model\<close>: handlers that call remote services, as functions
    on the state of the world that return, fail or panic; the services are records of such functions, parameters
    of the handlers; \<open>instance_service_of\<close> and \<open>disk_service_of\<close> put the handlers of this development behind the
    clients.  \<open>Client_Connect\<close> has how the clients connect, close and read streams and versions.
    \<open>Service_Properties\<close> has C24, C25, C36 and C37.
  \<^item> \<open>Watch_Model\<close>, \<open>Watch_Properties\<close>: the error groups of \<open>InstanceWatch\<close> and \<open>SPDKBackingImageWatch\<close> as a step
    system of watchers, notifier, closing goroutine, channel and context, an instance of \<open>bounded_work\<close>; that a
    watcher runs the loop of \<open>Instance_Model\<close>, that they end (C15), the way in which they do not (C16), and that notifications are not lost (C17).
  \<^item> \<open>Proxy_Model\<close>, \<open>Proxy_Replica\<close>, \<open>Proxy_Snapshot\<close>, \<open>Proxy_Backup\<close>, \<open>Proxy_Client\<close>: the proxy and its client,
    and \<open>Proxy_Properties\<close> with C26, C27 and C38 to C40.
  \<^item> \<open>Daemon\<close>, \<open>Daemon_Properties\<close>: \<open>start.go\<close> and the health services, C28 and C29.  \<open>Checkers\<close>: the health checkers
    of the services and the mock command, another instance of \<open>bounded_work\<close>.
  \<^item> \<open>Directory\<close>: the locale \<open>process_directory\<close>, the interface between the instance service and the process
    manager, and its interpretation (\<open>pd\<close>) on the step system of the manager.  \<open>Cli_Model\<close> and
    \<open>Cli_Properties\<close> put the command line client on the same interface (C30).  This theory has C13 and C14,
    which go from the client of the instance service down to the registry.

  \<^bold>\<open>What is shown.\<close>  For the process manager, under every interleaving of requests, goroutines and events:
  it implements an abstract registry, ports are exclusive, the registry is consistent, no request is lost or
  answered twice, the system does not get stuck, and the effect of each request on each branch; together with three
  behaviours that a reader of the code would not expect (C19 to C21), of which one is shown to be the only way in
  which ports are lost.  A request that is refused late leaves its log file open.  For the services: a handler for a single
  request closes its connections on every path, but for those of the engine library's tasks, which live until the context
  of the request ends; a watch has its clients closed when it returns, which it need not do (C16); requests that
  are not served are refused without effect, and the requests of the clients arrive at the process manager with
  their answers and errors.  For the proxy: the same, and the loops over snapshots and replicas against
  reference definitions.  For the daemon: its addresses, and that it shuts down.

  \<^bold>\<open>Bounds.\<close>  Loops of the source that are bounded are translated with their bound (\<open>WaitCount\<close> is 600 rounds,
  \<open>maxMonitorRetryCount\<close> is 10).  Loops that run as long as events arrive are functions of the list of events.
  The step systems are bounded by a measure on their states, with no fuel.  \<open>findAt_loop\<close> ends for all counts
  that \<open>AllocateRange\<close> passes; the others are a value of their own, \<open>NonTermination\<close>.

  \<^bold>\<open>Parameters.\<close>  The operating system (processes, files, mounts, sockets), TLS, the SPDK services, the engine
  library and the JSON encoder are parameters.  Where a property assumes something of them, the assumption is
  named and a witness shows that it can hold: only connecting and closing change the number of connections
  (\<open>services_track\<close>, \<open>proxy_tracks\<close>), a task of the engine library opens one and closes it when the context of the
  request is done (\<open>proxy_tracks\<close>, \<open>context_ends\<close>), the replica service does not panic (\<open>replica_service_safe\<close>), the SPDK
  service leaves the level of logrus alone (\<open>keeps_level\<close>), an encoded list of errors can be decoded.

  \<^bold>\<open>Not modelled.\<close>  A request to the process manager whose specification is missing altogether (a nil pointer,
  which the handlers dereference); the clients always send one.  The texts of errors leave out some of the values that are printed into them.  Logging is
  left out.  Of the command line, the parsing of the flags and the dispatch of \<open>main.go\<close> are the library's, and what
  is printed is the value and not its JSON text.  Contexts with deadlines are left out: a call answers or fails.
  The end of the loop of \<open>startInstanceConditionCheck\<close> when the context is done is left out; its rounds are the
  action \<open>MountCheck\<close>.  \<open>util.UUID\<close> and \<open>util.Now\<close> are arguments of the requests and of the steps.  The goroutines
  \<open>startMonitoring\<close> of the instance, disk and proxy servers only log the end of the context.
\<close>

section \<open>The defaults of the daemon\<close>

text \<open>
  A daemon that is started without flags has a manager to which the theorems of this development apply, and
  its two ranges of ports and the ports of its services do not meet.
\<close>

lemma port_range_parsers_agree: "SPDK_ParsePortRange r = Inr x \<longleftrightarrow> ParsePortRange r = Inr x"
  by (auto simp: SPDK_ParsePortRange_def ParsePortRange_def split: list.splits sum.splits)

lemma default_ranges:
  assumes "opts = StartCmd None None None None b t"
  shows "\<exists>pm. NewManager (doPortRange opts) = Inr pm \<and> sane_range pm \<and> 0 < portRangeMin pm \<and>
      portRangeMin pm = 10000 \<and> portRangeMax pm = 20000"
    and "SPDK_ParsePortRange (doSpdkPortRange opts) = Inr (20001, 30000)"
    and "split_host_port (doListen opts) = Inr (''localhost'', ''8500'')"
proof -
  have "digit_char 0 = CHR ''0''" "digit_char (Suc 0) = CHR ''1''" "digit_char 2 = CHR ''2''" "digit_char 3 = CHR ''3''"
    by code_simp+
  then have "itoa 10000 = ''10000''" "itoa 20000 = ''20000''" "itoa 20001 = ''20001''" "itoa 30000 = ''30000''"
    by (simp_all add: itoa_def utoa.simps)
  then have p: "ParsePortRange ''10000-20000'' = Inr (10000, 20000)"
    and q: "ParsePortRange ''20001-30000'' = Inr (20001, 30000)"
    using ParsePortRange_print [of 10000 20000] ParsePortRange_print [of 20001 30000] by simp_all
  have "\<exists>bm. NewBitmap 10000 20000 = Inr bm" by (simp add: NewBitmap_def)
  with p show "\<exists>pm. NewManager (doPortRange opts) = Inr pm \<and> sane_range pm \<and> 0 < portRangeMin pm \<and>
      portRangeMin pm = 10000 \<and> portRangeMax pm = 20000"
    by (auto simp: assms StartCmd_def NewManager_def sane_range_def)
  show "SPDK_ParsePortRange (doSpdkPortRange opts) = Inr (20001, 30000)"
    using q by (simp add: assms StartCmd_def port_range_parsers_agree)
  show "split_host_port (doListen opts) = Inr (''localhost'', ''8500'')"
    unfolding assms StartCmd_def by code_simp
qed

section \<open>From the client to the registry\<close>

lemma client_list:
  assumes "iterates r order s" "pmSvc S = manager_service base order"
  shows "Client_InstanceList (instance_service_of S (NewServer pm spdk False) srv) s =
    (Ret (\<lambda>k. map_option (\<lambda>p. RPCToInstance (process_instance (process_type k) p)) (registered s k)), s)"
  using pd.instance_list [OF assms, of pm spdk]
  by (simp add: Client_InstanceList_def instance_service_of_def over_wire_def RPCToInstanceList_def
      option.map_comp comp_def)

text \<open>C13. The instance service of the v1 data engine refines the registry of the process manager: in every
  reachable state of the manager, a client that lists the instances gets exactly the image of the registry,
  each process as an instance of the type its name tells; a client that asks for one instance gets the image of
  the registered process, or the \<open>NotFound\<close> of the process manager; and neither changes the state.\<close>

theorem instances_are_registry:
  assumes "iterates r order s" "pmSvc S = manager_service base order" "n \<noteq> ''''" "\<not> on_v2 engine"
  shows "let svc = instance_service_of S (NewServer pm spdk False) srv in
    Client_InstanceList svc s =
      (Ret (\<lambda>k. map_option (\<lambda>p. RPCToInstance (process_instance (process_type k) p)) (registered s k)), s) \<and>
    Client_InstanceGet svc engine n type s =
      (case registered s n of
         None \<Rightarrow> (Fail (Wrap (''failed to get instance '' @ n) (Status NotFound (''cannot find process '' @ n))), s)
       | Some p \<Rightarrow> (Ret (RPCToInstance (process_instance type p)), s))"
  using client_list [OF assms(1,2), of pm spdk srv] pd.instance_get [OF assms(1,2,3), of pm spdk False type] assms(3,4)
  by (auto simp: Let_def Client_InstanceGet_def instance_service_of_def over_wire_def with_engine_choice wire_def
      cannot_find_def on_error_def split: option.splits)

text \<open>A concrete manager with two running processes, seen through the instance service.\<close>

definition demo_order :: "sys \<Rightarrow> string list" where
  "demo_order _ = [''vol-r-0'', ''vol-e-0'']"

definition demo_base :: "sys pm_service" where
  "demo_base = \<lparr>pmConnect = (\<lambda>_. panic), pmClose = (\<lambda>_ w. w), rpcProcessCreate = (\<lambda>_. panic), rpcProcessDelete = (\<lambda>_. panic),
     rpcProcessGet = (\<lambda>_. panic), rpcProcessList = panic, rpcProcessReplace = (\<lambda>_ _. panic), rpcProcessLog = (\<lambda>_. panic)\<rparr>"

definition demo_spdk :: "sys spdk_service" where
  "demo_spdk = \<lparr>spdkConnect = (\<lambda>_. panic), spdkClose = (\<lambda>_ w. w), spdkEngineCreate = (\<lambda>_. panic),
     spdkEngineDelete = (\<lambda>_. panic), spdkEngineGet = (\<lambda>_. panic), spdkEngineList = panic,
     spdkEngineSuspend = (\<lambda>_. panic), spdkEngineResume = (\<lambda>_. panic), spdkEngineSwitchOverTarget = (\<lambda>_ _. panic),
     spdkEngineDeleteTarget = (\<lambda>_. panic), spdkReplicaCreate = (\<lambda>_. panic), spdkReplicaDelete = (\<lambda>_ _. panic),
     spdkReplicaGet = (\<lambda>_. panic), spdkReplicaList = panic, spdkDiskCreate = (\<lambda>_ _ _ _ _. panic),
     spdkDiskDelete = (\<lambda>_ _ _ _. panic), spdkDiskGet = (\<lambda>_ _ _. panic), spdkLogSetLevel = (\<lambda>_. panic),
     spdkLogSetFlags = (\<lambda>_. panic), spdkLogGetFlags = panic\<rparr>"

definition demo_instances :: "sys services" where
  "demo_instances = \<lparr>pmSvc = manager_service demo_base demo_order, spdkSvc = demo_spdk,
     logSvc = \<lparr>logQuote = id, logGetLevel = (\<lambda>_. InfoLevel), logWriteLevel = (\<lambda>_ w. w)\<rparr>\<rparr>"

abbreviation demo_instance_service :: "sys instance_service" where
  "demo_instance_service \<equiv> instance_service_of demo_instances (NewServer ''pm'' ''spdk'' False) (\<lambda>_. None)"

lemma demo_iterates:
  "reachable demo_range s \<Longrightarrow> processes s = [''vol-r-0'' \<mapsto> 0, ''vol-e-0'' \<mapsto> Suc 0] \<Longrightarrow> iterates demo_range demo_order s"
  by (auto simp: iterates_def demo_order_def)

lemma instances_are_registry_witness:
  "\<exists>s m. reachable demo_range s \<and> Client_InstanceList demo_instance_service s = (Ret m, s) \<and>
     m ''vol-r-0'' \<noteq> None \<and> m ''vol-x'' = None"
proof -
  from two_running obtain s p where s: "reachable demo_range s" "processes s = [''vol-r-0'' \<mapsto> 0, ''vol-e-0'' \<mapsto> Suc 0]"
      "objects s 0 = Some p" by blast
  have "\<not> on_v2 ''v1''" by code_simp
  from instances_are_registry [OF demo_iterates [OF s(1,2)] _ _ this, of demo_instances demo_base "''vol-x''" "''pm''" "''spdk''" "\<lambda>_. None"]
  have "Client_InstanceList demo_instance_service s =
      (Ret (\<lambda>k. map_option (\<lambda>p. RPCToInstance (process_instance (process_type k) p)) (registered s k)), s)"
    by (simp add: demo_instances_def Let_def)
  moreover have "registered s ''vol-r-0'' = Some p" "registered s ''vol-x'' = None" using s by (simp_all add: registered_def)
  ultimately show ?thesis using s(1) by fastforce
qed

text \<open>C14. Two instances that a client finds in one answer do not share a port: in every reachable state of the
  process manager, two instances listed under different names that have ports have disjoint port ranges, inside
  the range of the manager, and each is listed under its own name.\<close>

theorem listed_instances_ports_disjoint:
  assumes "iterates r order s" "pmSvc S = manager_service base order"
    and "Client_InstanceList (instance_service_of S (NewServer pm spdk False) srv) s = (Ret m, s')"
    and "m x = Some i" "m y = Some j" "x \<noteq> y" "aiPortCount i \<noteq> 0" "aiPortCount j \<noteq> 0"
  shows "{istPortStart (aiStatus i)..istPortEnd (aiStatus i)} \<inter> {istPortStart (aiStatus j)..istPortEnd (aiStatus j)} = {} \<and>
    {istPortStart (aiStatus i)..istPortEnd (aiStatus i)} \<subseteq> {portRangeMin s..portRangeMax s} \<and> aiName i = x \<and> aiName j = y"
proof -
  have "m = (\<lambda>k. map_option (\<lambda>p. RPCToInstance (process_instance (process_type k) p)) (registered s k))"
    using assms(3) client_list [OF assms(1,2), of pm spdk srv] by auto
  with assms(4,5) obtain p q where p: "registered s x = Some p" "i = RPCToInstance (process_instance (process_type x) p)"
    and q: "registered s y = Some q" "j = RPCToInstance (process_instance (process_type y) q)" by auto
  have reach: "reachable r s" using assms(1) by (simp add: iterates_def)
  from registered_name [OF reach p(1)] obtain a where a: "processes s x = Some a" "objects s a = Some p" "pName p = x" by blast
  from registered_name [OF reach q(1)] obtain b where b: "processes s y = Some b" "objects s b = Some q" "pName q = y" by blast
  have "a \<noteq> b" using a b assms(6) by auto
  note ports = holder_ports [OF reach registered_holder [OF a(1)] a(2) registered_holder [OF b(1)] b(2) this]
  have "aiPortCount i = pPortCount p" "aiPortCount j = pPortCount q"
    "istPortStart (aiStatus i) = pPortStart p" "istPortEnd (aiStatus i) = pPortEnd p"
    "istPortStart (aiStatus j) = pPortStart q" "istPortEnd (aiStatus j) = pPortEnd q" "aiName i = x" "aiName j = y"
    using p q a(3) b(3)
    by (simp_all add: RPCToInstance_def RPCToInstanceStatus_def process_instance_def processResponseToInstanceResponse_def
        RPCResponse_def)
  with ports assms(7,8) show ?thesis by (simp add: port_set_def)
qed

lemma listed_instances_ports_disjoint_witness:
  "\<exists>s m i j. reachable demo_range s \<and> Client_InstanceList demo_instance_service s = (Ret m, s) \<and>
     m ''vol-r-0'' = Some i \<and> m ''vol-e-0'' = Some j \<and>
     {istPortStart (aiStatus i)..istPortEnd (aiStatus i)} \<inter> {istPortStart (aiStatus j)..istPortEnd (aiStatus j)} = {}"
proof -
  from two_running obtain s p q where s: "reachable demo_range s" "processes s = [''vol-r-0'' \<mapsto> 0, ''vol-e-0'' \<mapsto> Suc 0]"
      "objects s 0 = Some p" "objects s 1 = Some q" "port_set p = {20000}" "port_set q = {20001}" by auto
  let ?m = "\<lambda>k. map_option (\<lambda>p. RPCToInstance (process_instance (process_type k) p)) (registered s k)"
  note it = demo_iterates [OF s(1,2)]
  have svc: "pmSvc demo_instances = manager_service demo_base demo_order" by (simp add: demo_instances_def)
  have m: "Client_InstanceList demo_instance_service s = (Ret ?m, s)"
    using client_list [OF it svc] .
  let ?i = "RPCToInstance (process_instance (process_type ''vol-r-0'') p)"
  let ?j = "RPCToInstance (process_instance (process_type ''vol-e-0'') q)"
  have mi: "?m ''vol-r-0'' = Some ?i" "?m ''vol-e-0'' = Some ?j" using s(2-4) by (simp_all add: registered_def)
  have cnt: "aiPortCount ?i \<noteq> 0" "aiPortCount ?j \<noteq> 0" using s(5,6)
    by (auto simp: port_set_def RPCToInstance_def process_instance_def processResponseToInstanceResponse_def RPCResponse_def
        split: if_splits)
  from listed_instances_ports_disjoint [OF it svc m mi _ cnt] s(1) m mi show ?thesis by auto
qed

end
